(* ===== verification/Octopus_Prelude.thy ===== *)
theory Octopus_Prelude
  imports Main "HOL-Library.Word" "HOL-Library.Monad_Syntax" "HOL-Library.Sublist"
begin

text \<open>
  What the components share: C characters and their signed reading, C strings as lists of
  bytes, memory seen from a pointer, and the byte searches of the C library the sources call
  (\<open>memchr\<close>, \<open>strchr\<close>, \<open>strlen\<close>, \<open>strnlen\<close>).

  Conventions of the whole development.
  \<^item> A byte is an Isabelle \<open>char\<close>; \<open>char\<close> is signed on the targets of the Makefile, so
    comparisons and arithmetic on a \<open>char\<close> go through \<open>schar\<close>.
  \<^item> A fallible computation returns \<open>'a option\<close>; \<open>None\<close> stands for the C program leaving
    defined behaviour: an access outside an object, an overflow of \<open>int\<close> (which the
    Makefile's \<open>-ftrapv\<close> turns into an abort), or a failed \<open>assert\<close>.
  \<^item> Memory read through a pointer that is never written is a function from offsets to
    bytes (\<open>cmem\<close>); an object that is written, or whose size matters, is a list of bytes.
\<close>

unbundle bit_operations_syntax

named_theorems range_simps "results of searches lie inside the range that was searched"
named_theorems agree_cong "searches depend on the bytes they are allowed to read only"

section \<open>Characters\<close>

abbreviation NUL :: char where "NUL \<equiv> CHR 0x00"
abbreviation LF :: char where "LF \<equiv> CHR 0x0A"
abbreviation CR :: char where "CR \<equiv> CHR 0x0D"

text \<open>The value of a \<open>char\<close> after the promotion to \<open>int\<close>: \<open>char\<close> is signed.\<close>

definition schar :: "char \<Rightarrow> int" where
  "schar c = (let n = of_char c in if n < 128 then n else n - 256)"

text \<open>The conversion of an \<open>int\<close> to \<open>char\<close> keeps the low eight bits.\<close>

definition to_char :: "int \<Rightarrow> char" where
  "to_char n = char_of (n mod 256)"

definition is_ascii :: "char \<Rightarrow> bool" where
  "is_ascii c \<longleftrightarrow> (of_char c :: nat) < 128"

lemma int_of_char_eq: "(of_char c :: int) = int (of_char c)"
  by (simp add: of_nat_of_char)

lemma of_char_int_range [simp]: "(0::int) \<le> of_char c" "(of_char c :: int) < 256"
proof -
  have "int (of_char c) < 256" using nat_of_char_less_256 [of c] by linarith
  then show "(0::int) \<le> of_char c" "(of_char c :: int) < 256"
    by (simp_all only: int_of_char_eq of_nat_0_le_iff)
qed

lemma schar_cases:
  "(of_char c :: int) < 128 \<and> schar c = of_char c \<or>
   128 \<le> (of_char c :: int) \<and> schar c = of_char c - 256"
  by (simp add: schar_def Let_def)

lemma schar_range: "-128 \<le> schar c" "schar c \<le> 127"
  using schar_cases [of c] of_char_int_range [of c] by linarith+

lemma to_char_schar [simp]: "to_char (schar c) = c"
proof -
  have "schar c mod 256 = of_char c"
  proof (cases "(of_char c :: int) < 128")
    case True
    then show ?thesis by (simp add: schar_def Let_def)
  next
    case False
    have "(of_char c - 256 + 256 * 1) mod 256 = (of_char c - 256 :: int) mod 256"
      by (rule mod_mult_self2)
    then show ?thesis using False by (simp add: schar_def Let_def)
  qed
  then show ?thesis by (simp add: to_char_def)
qed

lemma schar_inject [simp]: "schar a = schar b \<longleftrightarrow> a = b"
  by (metis to_char_schar)

lemma schar_ascii: "is_ascii c \<Longrightarrow> schar c = int (of_char c)"
  by (simp add: is_ascii_def schar_def Let_def int_of_char_eq )

lemma schar_nonneg_iff: "0 \<le> schar c \<longleftrightarrow> is_ascii c"
proof -
  have "is_ascii c \<longleftrightarrow> (of_char c :: int) < 128"
    unfolding is_ascii_def int_of_char_eq by linarith
  then show ?thesis
    using schar_cases [of c] of_char_int_range [of c] by linarith
qed

lemma schar_NUL [simp]: "schar NUL = 0"
  by (simp add: schar_def)

lemma schar_eq_0 [simp]: "schar c = 0 \<longleftrightarrow> c = NUL"
  using schar_inject [of c NUL] by simp

section \<open>C strings as lists\<close>

text \<open>
  A \<open>const char *\<close> to a string constant or to a string the C code owns is the list of its
  characters; the terminator follows the list. \<open>c_deref\<close> is \<open>*s\<close>, and \<open>tl\<close> is
  \<open>s + 1\<close> as long as \<open>*s\<close> is not the terminator.
\<close>

definition c_deref :: "string \<Rightarrow> char" where
  "c_deref s = (case s of [] \<Rightarrow> NUL | c # _ \<Rightarrow> c)"

lemma c_deref_simps [simp]: "c_deref [] = NUL" "c_deref (c # s) = c"
  by (simp_all add: c_deref_def)

text \<open>The C string held by a buffer: the bytes before the first terminator.\<close>

definition c_str :: "string \<Rightarrow> string" where
  "c_str buf = takeWhile (\<lambda>c. c \<noteq> NUL) buf"

lemma c_str_no_NUL [simp]: "NUL \<notin> set (c_str buf)"
  by (auto simp: c_str_def dest: set_takeWhileD)

lemma c_str_id: "NUL \<notin> set s \<Longrightarrow> c_str (s @ NUL # rest) = s"
  by (induction s) (auto simp: c_str_def)

lemma c_str_id' [simp]: "NUL \<notin> set s \<Longrightarrow> c_str s = s"
  by (induction s) (auto simp: c_str_def)

text \<open>\<open>strlen\<close> of a string in an object: undefined when the object holds no terminator.\<close>

definition c_strlen :: "string \<Rightarrow> nat option" where
  "c_strlen buf = (if NUL \<in> set buf then Some (length (c_str buf)) else None)"

text \<open>
  \<open>strnlen(s, n)\<close> reads at most \<open>n\<close> bytes; it leaves the object when the object is
  shorter than \<open>n\<close> and holds no terminator.
\<close>

definition c_strnlen :: "string \<Rightarrow> nat \<Rightarrow> nat option" where
  "c_strnlen buf n =
     (if NUL \<in> set buf \<or> n \<le> length buf then Some (min n (length (c_str buf))) else None)"

lemma c_strlen_terminated:
  "NUL \<notin> set s \<Longrightarrow> c_strlen (s @ NUL # rest) = Some (length s)"
  by (simp add: c_strlen_def c_str_id)

lemma c_strnlen_terminated:
  "NUL \<notin> set s \<Longrightarrow> c_strnlen (s @ NUL # rest) n = Some (min n (length s))"
  by (simp add: c_strnlen_def c_str_id)

text \<open>\<open>strchr(s, c) != NULL\<close>: the terminator belongs to the string.\<close>

definition c_strchr :: "string \<Rightarrow> char \<Rightarrow> bool" where
  "c_strchr s c \<longleftrightarrow> c \<in> set (c_str s) \<or> c = NUL"

section \<open>Memory behind a pointer\<close>

type_synonym cmem = "nat \<Rightarrow> char"

text \<open>Pointer arithmetic: \<open>m + p\<close>.\<close>

definition ptr :: "cmem \<Rightarrow> nat \<Rightarrow> cmem" where
  "ptr m p = (\<lambda>i. m (p + i))"

lemma ptr_apply [simp]: "ptr m p i = m (p + i)"
  by (simp add: ptr_def)

text \<open>The memory behind a pointer to a C string: its bytes, its terminator, then whatever.\<close>

definition mem_of :: "string \<Rightarrow> cmem" where
  "mem_of s i = (if i < length s then s ! i else NUL)"

text \<open>The \<open>n\<close> bytes from offset \<open>p\<close>.\<close>

fun bytes :: "cmem \<Rightarrow> nat \<Rightarrow> nat \<Rightarrow> string" where
  "bytes m p 0 = []"
| "bytes m p (Suc n) = m p # bytes m (Suc p) n"

lemma length_bytes [simp]: "length (bytes m p n) = n"
  by (induction n arbitrary: p) auto

lemma bytes_nth [simp]: "i < n \<Longrightarrow> bytes m p n ! i = m (p + i)"
  by (induction n arbitrary: p i) (auto simp: nth_Cons split: nat.split)

lemma bytes_conv_map: "bytes m p n = map m [p..<p + n]"
  by (rule nth_equalityI) auto

lemma bytes_ptr [simp]: "bytes (ptr m q) p n = bytes m (q + p) n"
  by (rule nth_equalityI) (auto simp: add.assoc)

lemma bytes_cong [agree_cong]:
  "(\<And>i. p \<le> i \<Longrightarrow> i < p + n \<Longrightarrow> m i = m' i) \<Longrightarrow> bytes m p n = bytes m' p n"
  by (rule nth_equalityI) auto

text \<open>\<open>memchr(m + p, c, n)\<close>, with the result as an offset.\<close>

fun memchr :: "cmem \<Rightarrow> nat \<Rightarrow> char \<Rightarrow> nat \<Rightarrow> nat option" where
  "memchr m p c 0 = None"
| "memchr m p c (Suc n) = (if m p = c then Some p else memchr m (Suc p) c n)"

lemma memchr_SomeD:
  "memchr m p c n = Some q \<Longrightarrow> p \<le> q \<and> q < p + n \<and> m q = c \<and> (\<forall>i. p \<le> i \<and> i < q \<longrightarrow> m i \<noteq> c)"
proof (induction n arbitrary: p)
  case (Suc n)
  show ?case
  proof (cases "m p = c")
    case True
    with Suc.prems show ?thesis by auto
  next
    case False
    with Suc.prems have "memchr m (Suc p) c n = Some q" by simp
    from Suc.IH [OF this] have q: "Suc p \<le> q" "q < p + Suc n" "m q = c"
      "\<And>i. Suc p \<le> i \<and> i < q \<Longrightarrow> m i \<noteq> c" by auto
    have "m i \<noteq> c" if "p \<le> i" "i < q" for i
      using that False q(4) [of i] by (cases "i = p") auto
    with q show ?thesis by auto
  qed
qed simp

lemma memchr_None_iff: "memchr m p c n = None \<longleftrightarrow> (\<forall>i. p \<le> i \<and> i < p + n \<longrightarrow> m i \<noteq> c)"
proof (induction n arbitrary: p)
  case (Suc n)
  have "(\<forall>i. p \<le> i \<and> i < p + Suc n \<longrightarrow> m i \<noteq> c) \<longleftrightarrow>
        m p \<noteq> c \<and> (\<forall>i. Suc p \<le> i \<and> i < Suc p + n \<longrightarrow> m i \<noteq> c)"
    by (metis Suc_le_eq add_Suc_right add_Suc le_add1 le_neq_implies_less less_or_eq_imp_le
        less_Suc_eq_le)
  then show ?case using Suc.IH [of "Suc p"] by (cases "m p = c") simp_all
qed auto

lemma memchr_range [range_simps]: "memchr m p c n = Some q \<Longrightarrow> p \<le> q \<and> q < p + n"
  by (blast dest: memchr_SomeD)

lemma memchr_cong [agree_cong]:
  "(\<And>i. p \<le> i \<Longrightarrow> i < p + n \<Longrightarrow> m i = m' i) \<Longrightarrow> memchr m p c n = memchr m' p c n"
proof (induction n arbitrary: p)
  case (Suc n)
  have "memchr m (Suc p) c n = memchr m' (Suc p) c n"
    by (rule Suc.IH) (use Suc.prems in auto)
  then show ?case using Suc.prems [of p] by simp
qed simp

section \<open>Occurrences of a pattern\<close>

text \<open>\<open>pat\<close> stands in \<open>txt\<close> at offset \<open>i\<close>.\<close>

definition occurs_at :: "string \<Rightarrow> string \<Rightarrow> nat \<Rightarrow> bool" where
  "occurs_at pat txt i \<longleftrightarrow> i + length pat \<le> length txt \<and> take (length pat) (drop i txt) = pat"

lemma occurs_at_nth:
  "occurs_at pat txt i \<longleftrightarrow>
     i + length pat \<le> length txt \<and> (\<forall>k < length pat. txt ! (i + k) = pat ! k)"
  by (auto simp: occurs_at_def list_eq_iff_nth_eq)

lemma sublist_iff_occurs_at: "sublist pat txt \<longleftrightarrow> (\<exists>i. occurs_at pat txt i)"
proof
  assume "sublist pat txt"
  then obtain ps ss where "txt = ps @ pat @ ss" by (auto simp: sublist_def)
  then have "occurs_at pat txt (length ps)" by (simp add: occurs_at_def)
  then show "\<exists>i. occurs_at pat txt i" ..
next
  assume "\<exists>i. occurs_at pat txt i"
  then obtain i where i: "i + length pat \<le> length txt" "take (length pat) (drop i txt) = pat"
    by (auto simp: occurs_at_def)
  have "txt = take i txt @ take (length pat) (drop i txt) @ drop (length pat) (drop i txt)"
    by (metis append_take_drop_id)
  with i(2) show "sublist pat txt" unfolding sublist_def by metis
qed

end
