(* ===== verification/Sqli_Word_Order.thy ===== *)
theory Sqli_Word_Order
  imports Octopus_Prelude
begin

text \<open>
  The comparison the keyword table is ordered by. \<open>cstrcasecmp\<close> is translated from
  \<open>libinjection_sqli.c\<close>; \<open>kw_less\<close> is the order of the table, and \<open>kw_chain\<close> checks a
  slice of the table against the last word before it, so that the facts about the slices
  compose to a fact about the whole table.
\<close>

section \<open>Comparing a table word with a key\<close>

definition upcase :: "char \<Rightarrow> char" where
  "upcase cb = (if schar (CHR ''a'') \<le> schar cb \<and> schar cb \<le> schar (CHR ''z'')
                then to_char (schar cb - 0x20) else cb)"

text \<open>
  \<open>cstrcasecmp(a, b, n)\<close>: \<open>a\<close> is an upper-case C string, the list \<open>b\<close> holds the \<open>n\<close>
  bytes the loop may read.
\<close>

fun cstrcasecmp :: "string \<Rightarrow> string \<Rightarrow> int" where
  "cstrcasecmp a [] = (if c_deref a = NUL then 0 else 1)"
| "cstrcasecmp a (b # bs) =
     (let cb = upcase b in
      if c_deref a \<noteq> cb then schar (c_deref a) - schar cb
      else if c_deref a = NUL then -1
      else cstrcasecmp (tl a) bs)"

section \<open>The order of the table\<close>

type_synonym keyword_t = "string \<times> char"

text \<open>
  Characters of the table's words: printable ASCII, not a backtick and not a lower-case
  letter, read off the bits of the character.
\<close>

fun kw_char :: "char \<Rightarrow> bool" where
  "kw_char (Char b0 b1 b2 b3 b4 b5 b6 b7) \<longleftrightarrow>
     \<not> b7 \<and> (b5 \<or> b6) \<and> (b5 \<and> b6 \<longrightarrow> b4 \<and> b3 \<and> (b2 \<or> b1 \<and> b0))"

definition kw_word :: "string \<Rightarrow> bool" where
  "kw_word w = list_all kw_char w"

fun kw_less :: "string \<Rightarrow> string \<Rightarrow> bool" where
  "kw_less [] bs = (bs \<noteq> [])"
| "kw_less (a # as) [] = False"
| "kw_less (a # as) (b # bs) = (if a = b then kw_less as bs else (of_char a :: nat) < of_char b)"

text \<open>
  \<open>kw_chain lo kws hi\<close>: the words of \<open>kws\<close> ascend strictly from above \<open>lo\<close> to \<open>hi\<close>.
\<close>

fun kw_chain :: "string \<Rightarrow> keyword_t list \<Rightarrow> string \<Rightarrow> bool" where
  "kw_chain lo [] hi \<longleftrightarrow> lo = hi"
| "kw_chain lo (kw # kws) hi \<longleftrightarrow> kw_less lo (fst kw) \<and> kw_chain (fst kw) kws hi"

definition kw_words :: "keyword_t list \<Rightarrow> bool" where
  "kw_words kws = list_all (\<lambda>kw. kw_word (fst kw)) kws"

end
