(* ===== verification/Sqli_State.thy ===== *)
theory Sqli_State
  imports Octopus_Prelude Sqli_Word_Order
begin

text \<open>
  The data of \<open>libinjection_sqli.c\<close> and its header: token types, flags, the token and the
  state, and the operations on tokens (\<open>st_clear\<close>, \<open>st_assign_char\<close>, \<open>st_assign\<close>,
  \<open>st_copy\<close>, \<open>st_is_arithmetic_op\<close>, \<open>st_is_unary_op\<close>).

  The input \<open>s\<close> is the memory behind the pointer, \<open>slen\<close> the length that was passed; the
  pointer \<open>current\<close> is the index of a token in \<open>tokenvec\<close>. The function pointer
  \<open>lookup\<close> is an argument \<open>lk\<close> of the operations that call it.
\<close>

section \<open>Token types and flags\<close>

abbreviation TYPE_NONE :: char where "TYPE_NONE \<equiv> NUL"
abbreviation TYPE_KEYWORD :: char where "TYPE_KEYWORD \<equiv> CHR ''k''"
abbreviation TYPE_UNION :: char where "TYPE_UNION \<equiv> CHR ''U''"
abbreviation TYPE_GROUP :: char where "TYPE_GROUP \<equiv> CHR ''B''"
abbreviation TYPE_EXPRESSION :: char where "TYPE_EXPRESSION \<equiv> CHR ''E''"
abbreviation TYPE_SQLTYPE :: char where "TYPE_SQLTYPE \<equiv> CHR ''t''"
abbreviation TYPE_FUNCTION :: char where "TYPE_FUNCTION \<equiv> CHR ''f''"
abbreviation TYPE_BAREWORD :: char where "TYPE_BAREWORD \<equiv> CHR ''n''"
abbreviation TYPE_NUMBER :: char where "TYPE_NUMBER \<equiv> CHR ''1''"
abbreviation TYPE_VARIABLE :: char where "TYPE_VARIABLE \<equiv> CHR ''v''"
abbreviation TYPE_STRING :: char where "TYPE_STRING \<equiv> CHR ''s''"
abbreviation TYPE_OPERATOR :: char where "TYPE_OPERATOR \<equiv> CHR ''o''"
abbreviation TYPE_LOGIC_OPERATOR :: char where "TYPE_LOGIC_OPERATOR \<equiv> CHR ''&''"
abbreviation TYPE_COMMENT :: char where "TYPE_COMMENT \<equiv> CHR ''c''"
abbreviation TYPE_COLLATE :: char where "TYPE_COLLATE \<equiv> CHR ''A''"
abbreviation TYPE_LEFTPARENS :: char where "TYPE_LEFTPARENS \<equiv> CHR ''(''"
abbreviation TYPE_RIGHTPARENS :: char where "TYPE_RIGHTPARENS \<equiv> CHR '')''"
abbreviation TYPE_LEFTBRACE :: char where "TYPE_LEFTBRACE \<equiv> CHR ''{''"
abbreviation TYPE_RIGHTBRACE :: char where "TYPE_RIGHTBRACE \<equiv> CHR ''}''"
abbreviation TYPE_DOT :: char where "TYPE_DOT \<equiv> CHR ''.''"
abbreviation TYPE_COMMA :: char where "TYPE_COMMA \<equiv> CHR '',''"
abbreviation TYPE_COLON :: char where "TYPE_COLON \<equiv> CHR '':''"
abbreviation TYPE_SEMICOLON :: char where "TYPE_SEMICOLON \<equiv> CHR '';''"
abbreviation TYPE_TSQL :: char where "TYPE_TSQL \<equiv> CHR ''T''"
abbreviation TYPE_UNKNOWN :: char where "TYPE_UNKNOWN \<equiv> CHR ''?''"
abbreviation TYPE_EVIL :: char where "TYPE_EVIL \<equiv> CHR ''X''"
abbreviation TYPE_FINGERPRINT :: char where "TYPE_FINGERPRINT \<equiv> CHR ''F''"
abbreviation TYPE_BACKSLASH :: char where "TYPE_BACKSLASH \<equiv> CHR 0x5C"

abbreviation CHAR_SINGLE :: char where "CHAR_SINGLE \<equiv> CHR 0x27"
abbreviation CHAR_DOUBLE :: char where "CHAR_DOUBLE \<equiv> CHR 0x22"
abbreviation CHAR_TICK :: char where "CHAR_TICK \<equiv> CHR 0x60"

definition FLAG_NONE :: int where "FLAG_NONE = 0"
definition FLAG_QUOTE_NONE :: int where "FLAG_QUOTE_NONE = 1"
definition FLAG_QUOTE_SINGLE :: int where "FLAG_QUOTE_SINGLE = 2"
definition FLAG_QUOTE_DOUBLE :: int where "FLAG_QUOTE_DOUBLE = 4"
definition FLAG_SQL_ANSI :: int where "FLAG_SQL_ANSI = 8"
definition FLAG_SQL_MYSQL :: int where "FLAG_SQL_MYSQL = 16"

lemmas flag_defs = FLAG_NONE_def FLAG_QUOTE_NONE_def FLAG_QUOTE_SINGLE_def
  FLAG_QUOTE_DOUBLE_def FLAG_SQL_ANSI_def FLAG_SQL_MYSQL_def

definition flag2delim :: "int \<Rightarrow> char" where
  "flag2delim flag =
     (if flag AND FLAG_QUOTE_SINGLE \<noteq> 0 then CHAR_SINGLE
      else if flag AND FLAG_QUOTE_DOUBLE \<noteq> 0 then CHAR_DOUBLE
      else NUL)"

datatype lookup_type = LOOKUP_WORD | LOOKUP_TYPE | LOOKUP_OPERATOR | LOOKUP_FINGERPRINT

type_synonym lookup_fn = "lookup_type \<Rightarrow> string \<Rightarrow> char"

definition TOKEN_SIZE :: nat where "TOKEN_SIZE = 32"
definition MAX_TOKENS :: nat where "MAX_TOKENS = 5"

section \<open>Tokens\<close>

record stoken_t =
  tok_pos :: nat
  tok_len :: nat
  tok_count :: int
  tok_type :: char
  tok_str_open :: char
  tok_str_close :: char
  tok_val :: string

definition zero_token :: stoken_t where
  "zero_token = \<lparr>tok_pos = 0, tok_len = 0, tok_count = 0, tok_type = NUL, tok_str_open = NUL,
     tok_str_close = NUL, tok_val = replicate TOKEN_SIZE NUL\<rparr>"

definition st_clear :: "stoken_t \<Rightarrow> stoken_t" where
  "st_clear st = zero_token"

definition st_assign_char :: "stoken_t \<Rightarrow> char \<Rightarrow> nat \<Rightarrow> nat \<Rightarrow> char \<Rightarrow> stoken_t" where
  "st_assign_char st stype pos len value =
     st\<lparr>tok_type := stype, tok_pos := pos, tok_len := 1,
        tok_val := (tok_val st)[0 := value, 1 := NUL]\<rparr>"

text \<open>\<open>value\<close> is the memory behind the pointer argument, of which \<open>last\<close> bytes are copied.\<close>

definition st_assign :: "stoken_t \<Rightarrow> char \<Rightarrow> nat \<Rightarrow> nat \<Rightarrow> cmem \<Rightarrow> stoken_t" where
  "st_assign st stype pos len value =
     (let last = if len < TOKEN_SIZE then len else TOKEN_SIZE - 1 in
      st\<lparr>tok_type := stype, tok_pos := pos, tok_len := last,
         tok_val := bytes value 0 last @ NUL # drop (Suc last) (tok_val st)\<rparr>)"

definition st_copy :: "stoken_t \<Rightarrow> stoken_t \<Rightarrow> stoken_t" where
  "st_copy dest src = src"

definition st_is_arithmetic_op :: "stoken_t \<Rightarrow> bool" where
  "st_is_arithmetic_op st \<longleftrightarrow>
     (let ch = tok_val st ! 0 in
      tok_type st = TYPE_OPERATOR \<and> tok_len st = 1 \<and>
      (ch = CHR ''*'' \<or> ch = CHR ''/'' \<or> ch = CHR ''-'' \<or> ch = CHR ''+'' \<or> ch = CHR ''%''))"

definition st_is_unary_op :: "stoken_t \<Rightarrow> bool" where
  "st_is_unary_op st \<longleftrightarrow>
     (let str = tok_val st; len = tok_len st in
      if tok_type st \<noteq> TYPE_OPERATOR then False
      else if len = 1 then
        str ! 0 = CHR ''+'' \<or> str ! 0 = CHR ''-'' \<or> str ! 0 = CHR ''!'' \<or> str ! 0 = CHR ''~''
      else if len = 2 then str ! 0 = CHR ''!'' \<and> str ! 1 = CHR ''!''
      else if len = 3 then cstrcasecmp ''NOT'' (take 3 str) = 0
      else False)"

section \<open>The state\<close>

record sqli_state =
  sf_s :: cmem
  sf_slen :: nat
  sf_flags :: int
  sf_pos :: nat
  sf_tokenvec :: "stoken_t list"
  sf_current :: nat
  sf_fingerprint :: string
  sf_reason :: int
  stats_comment_ddw :: int
  stats_comment_ddx :: int
  stats_comment_c :: int
  stats_comment_hash :: int
  stats_folds :: int
  stats_tokens :: int

definition cur :: "sqli_state \<Rightarrow> stoken_t" where
  "cur sf = sf_tokenvec sf ! sf_current sf"

definition set_cur :: "stoken_t \<Rightarrow> sqli_state \<Rightarrow> sqli_state" where
  "set_cur st sf = sf\<lparr>sf_tokenvec := (sf_tokenvec sf)[sf_current sf := st]\<rparr>"

lemma set_cur_sel [simp]:
  "sf_s (set_cur st sf) = sf_s sf" "sf_slen (set_cur st sf) = sf_slen sf"
  "sf_flags (set_cur st sf) = sf_flags sf" "sf_pos (set_cur st sf) = sf_pos sf"
  "sf_current (set_cur st sf) = sf_current sf"
  "sf_fingerprint (set_cur st sf) = sf_fingerprint sf" "sf_reason (set_cur st sf) = sf_reason sf"
  "stats_comment_ddw (set_cur st sf) = stats_comment_ddw sf"
  "stats_comment_ddx (set_cur st sf) = stats_comment_ddx sf"
  "stats_comment_c (set_cur st sf) = stats_comment_c sf"
  "stats_comment_hash (set_cur st sf) = stats_comment_hash sf"
  "stats_folds (set_cur st sf) = stats_folds sf" "stats_tokens (set_cur st sf) = stats_tokens sf"
  "sf_tokenvec (set_cur st sf) = (sf_tokenvec sf)[sf_current sf := st]"
  by (simp_all add: set_cur_def)

lemma set_cur_twice [simp]: "set_cur a (set_cur b sf) = set_cur a sf"
  by (simp add: set_cur_def)

lemma cur_set_cur [simp]:
  "sf_current sf < length (sf_tokenvec sf) \<Longrightarrow> cur (set_cur st sf) = st"
  by (simp add: cur_def)

section \<open>Well-formed tokens\<close>

text \<open>
  A token in its 32 bytes: the text is at most 31 bytes long and a terminator follows it.
\<close>

definition wf_token :: "stoken_t \<Rightarrow> bool" where
  "wf_token st \<longleftrightarrow> length (tok_val st) = TOKEN_SIZE \<and> tok_len st < TOKEN_SIZE \<and>
     tok_val st ! tok_len st = NUL"

text \<open>A token that holds exactly the bytes of the input at its position.\<close>

definition token_of :: "cmem \<Rightarrow> nat \<Rightarrow> stoken_t \<Rightarrow> bool" where
  "token_of m slen st \<longleftrightarrow> wf_token st \<and> tok_pos st + tok_len st \<le> slen \<and>
     take (tok_len st) (tok_val st) = bytes m (tok_pos st) (tok_len st)"

lemma wf_zero_token [simp]: "wf_token zero_token"
  by (simp add: wf_token_def zero_token_def TOKEN_SIZE_def)

lemma token_of_zero [simp]: "token_of m slen zero_token"
  by (simp add: token_of_def) (simp add: zero_token_def)

lemma token_of_wf: "token_of m slen st \<Longrightarrow> wf_token st"
  by (simp add: token_of_def)

lemma wf_token_length: "wf_token st \<Longrightarrow> length (tok_val st) = TOKEN_SIZE"
  by (simp add: wf_token_def)

lemma token_of_length: "token_of m slen st \<Longrightarrow> length (tok_val st) = TOKEN_SIZE"
  by (simp add: token_of_def wf_token_def)

lemma st_assign_sel [simp]:
  "tok_type (st_assign st ty pos len v) = ty" "tok_pos (st_assign st ty pos len v) = pos"
  "tok_len (st_assign st ty pos len v) = min len 31"
  "tok_count (st_assign st ty pos len v) = tok_count st"
  "tok_str_open (st_assign st ty pos len v) = tok_str_open st"
  "tok_str_close (st_assign st ty pos len v) = tok_str_close st"
  by (simp_all add: st_assign_def TOKEN_SIZE_def Let_def min_def)

lemma st_assign_char_sel [simp]:
  "tok_type (st_assign_char st ty pos len v) = ty" "tok_pos (st_assign_char st ty pos len v) = pos"
  "tok_len (st_assign_char st ty pos len v) = 1"
  "tok_count (st_assign_char st ty pos len v) = tok_count st"
  "tok_str_open (st_assign_char st ty pos len v) = tok_str_open st"
  "tok_str_close (st_assign_char st ty pos len v) = tok_str_close st"
  by (simp_all add: st_assign_char_def)

lemma st_assign_val: "tok_val (st_assign st ty pos len v) =
    bytes v 0 (min len 31) @ NUL # drop (Suc (min len 31)) (tok_val st)"
  by (auto simp: st_assign_def TOKEN_SIZE_def Let_def min_def)

lemma take_st_assign_val [simp]:
  "n \<le> min len 31 \<Longrightarrow> take n (tok_val (st_assign st ty pos len v)) = take n (bytes v 0 (min len 31))"
  by (simp add: st_assign_val)

lemma wf_st_assign [simp]:
  "length (tok_val st) = TOKEN_SIZE \<Longrightarrow> wf_token (st_assign st ty pos len v)"
  by (auto simp: wf_token_def st_assign_val nth_append TOKEN_SIZE_def)

lemma token_of_assign:
  "length (tok_val st) = TOKEN_SIZE \<Longrightarrow> pos + len \<le> slen \<Longrightarrow>
   token_of m slen (st_assign st ty pos len (ptr m pos))"
  by (simp add: token_of_def)

lemma token_of_assign_char:
  "length (tok_val st) = TOKEN_SIZE \<Longrightarrow> pos < slen \<Longrightarrow> m pos = v \<Longrightarrow>
   token_of m slen (st_assign_char st ty pos len v)"
  by (auto simp: token_of_def wf_token_def st_assign_char_def TOKEN_SIZE_def take_Suc
      take_Suc_conv_app_nth neq_Nil_conv)

lemma token_of_update [simp]:
  "token_of m slen (st\<lparr>tok_type := ty\<rparr>) = token_of m slen st"
  "token_of m slen (st\<lparr>tok_count := n\<rparr>) = token_of m slen st"
  "token_of m slen (st\<lparr>tok_str_open := c\<rparr>) = token_of m slen st"
  "token_of m slen (st\<lparr>tok_str_close := c\<rparr>) = token_of m slen st"
  by (simp_all add: token_of_def wf_token_def)

lemma wf_token_update [simp]:
  "wf_token (st\<lparr>tok_type := ty\<rparr>) = wf_token st"
  "wf_token (st\<lparr>tok_count := n\<rparr>) = wf_token st"
  "wf_token (st\<lparr>tok_str_open := c\<rparr>) = wf_token st"
  "wf_token (st\<lparr>tok_str_close := c\<rparr>) = wf_token st"
  by (simp_all add: wf_token_def)

end
