(* ===== verification/Sqli_Search.thy ===== *)
theory Sqli_Search
  imports Octopus_Prelude
begin

text \<open>
  The byte searches of \<open>libinjection_sqli.c\<close> (\<open>memchr2\<close>, \<open>my_memmem\<close>, \<open>strlenspn\<close>,
  \<open>strlencspn\<close>, \<open>char_is_white\<close>, \<open>ISDIGIT\<close> and the digit loops), each with its range and
  with the bytes its result depends on. Offsets count from the start of the input.
\<close>

definition ISDIGIT :: "char \<Rightarrow> bool" where
  "ISDIGIT a \<longleftrightarrow> 0 \<le> schar a - schar (CHR ''0'') \<and> schar a - schar (CHR ''0'') \<le> 9"

definition char_is_white :: "char \<Rightarrow> bool" where
  "char_is_white ch =
     c_strchr [CHR '' '', CHR 0x09, CHR 0x0A, CHR 0x0B, CHR 0x0C, CHR 0x0D, CHR 0xA0] ch"

text \<open>
  \<open>memchr2(m + p, n, c0, c1)\<close>. With \<open>n < 2\<close> the function returns at once; otherwise the
  loop runs while two bytes are left.
\<close>

fun memchr2 :: "cmem \<Rightarrow> nat \<Rightarrow> nat \<Rightarrow> char \<Rightarrow> char \<Rightarrow> nat option" where
  "memchr2 m p (Suc (Suc n)) c0 c1 =
     (if m p = c0 \<and> m (p + 1) = c1 then Some p else memchr2 m (p + 1) (Suc n) c0 c1)"
| "memchr2 m p n c0 c1 = None"

text \<open>
  \<open>my_memmem(m + p, hlen, needle, nlen)\<close> for \<open>nlen > 1\<close> (both callers satisfy the
  function's \<open>assert\<close>: the needles have at least three bytes).
\<close>

fun my_memmem :: "cmem \<Rightarrow> nat \<Rightarrow> string \<Rightarrow> nat \<Rightarrow> nat option" where
  "my_memmem m p needle 0 = None"
| "my_memmem m p needle (Suc hlen) =
     (if length needle \<le> Suc hlen then
        if m p = c_deref needle \<and> bytes m p (length needle) = needle then Some p
        else my_memmem m (p + 1) needle hlen
      else None)"

text \<open>\<open>strlenspn(m + p, n, accept)\<close> and \<open>strlencspn(m + p, n, accept)\<close>.\<close>

fun strlenspn :: "cmem \<Rightarrow> nat \<Rightarrow> nat \<Rightarrow> string \<Rightarrow> nat" where
  "strlenspn m p 0 accept = 0"
| "strlenspn m p (Suc n) accept =
     (if \<not> c_strchr accept (m p) then 0 else Suc (strlenspn m (Suc p) n accept))"

fun strlencspn :: "cmem \<Rightarrow> nat \<Rightarrow> nat \<Rightarrow> string \<Rightarrow> nat" where
  "strlencspn m p 0 accept = 0"
| "strlencspn m p (Suc n) accept =
     (if c_strchr accept (m p) then 0 else Suc (strlencspn m (Suc p) n accept))"

text \<open>\<open>while (pos < slen && ISDIGIT(cs[pos])) pos += 1\<close>, with \<open>n = slen - pos\<close> bytes left.\<close>

fun skip_digits :: "cmem \<Rightarrow> nat \<Rightarrow> nat \<Rightarrow> nat" where
  "skip_digits m p 0 = p"
| "skip_digits m p (Suc n) = (if ISDIGIT (m p) then skip_digits m (Suc p) n else p)"

section \<open>Ranges\<close>

lemma memchr2_range [range_simps]:
  "memchr2 m p n c0 c1 = Some q \<Longrightarrow> p \<le> q \<and> q + 1 < p + n"
  by (induction m p n c0 c1 rule: memchr2.induct) (auto split: if_splits)

lemma memchr2_found: "memchr2 m p n c0 c1 = Some q \<Longrightarrow> m q = c0 \<and> m (q + 1) = c1"
  by (induction m p n c0 c1 rule: memchr2.induct) (auto split: if_splits)

lemma my_memmem_range [range_simps]:
  "my_memmem m p needle n = Some q \<Longrightarrow> p \<le> q \<and> q + length needle \<le> p + n"
  by (induction m p needle n rule: my_memmem.induct) (auto split: if_splits)

lemma my_memmem_found: "my_memmem m p needle n = Some q \<Longrightarrow> bytes m q (length needle) = needle"
  by (induction m p needle n rule: my_memmem.induct) (auto split: if_splits)

lemma strlenspn_le [range_simps]: "strlenspn m p n accept \<le> n"
  by (induction m p n accept rule: strlenspn.induct) auto

lemma strlencspn_le [range_simps]: "strlencspn m p n accept \<le> n"
  by (induction m p n accept rule: strlencspn.induct) auto

lemma strlencspn_pos: "0 < n \<Longrightarrow> \<not> c_strchr accept (m p) \<Longrightarrow> 0 < strlencspn m p n accept"
  by (cases n) auto

lemma skip_digits_range [range_simps]: "p \<le> skip_digits m p n \<and> skip_digits m p n \<le> p + n"
  by (induction m p n rule: skip_digits.induct) auto

lemma skip_digits_Suc: "0 < n \<Longrightarrow> ISDIGIT (m p) \<Longrightarrow> p < skip_digits m p n"
  using skip_digits_range [of "Suc p" m] by (cases n) (auto simp: Suc_le_eq)

section \<open>Dependence on the searched bytes only\<close>

lemma memchr2_cong [agree_cong]:
  "(\<And>i. p \<le> i \<Longrightarrow> i < p + n \<Longrightarrow> m i = m' i) \<Longrightarrow> memchr2 m p n c0 c1 = memchr2 m' p n c0 c1"
  by (induction m p n c0 c1 rule: memchr2.induct) auto

lemma my_memmem_cong [agree_cong]:
  "needle \<noteq> [] \<Longrightarrow> (\<And>i. p \<le> i \<Longrightarrow> i < p + n \<Longrightarrow> m i = m' i) \<Longrightarrow>
   my_memmem m p needle n = my_memmem m' p needle n"
proof (induction m p needle n rule: my_memmem.induct)
  case (2 m p needle hlen)
  show ?case
  proof (cases "length needle \<le> Suc hlen")
    case True
    have "bytes m p (length needle) = bytes m' p (length needle)"
      by (rule bytes_cong) (use True 2 in auto)
    then show ?thesis using True 2 by auto
  qed simp
qed simp

lemma strlenspn_cong [agree_cong]:
  "(\<And>i. p \<le> i \<Longrightarrow> i < p + n \<Longrightarrow> m i = m' i) \<Longrightarrow> strlenspn m p n a = strlenspn m' p n a"
  by (induction m p n a rule: strlenspn.induct) auto

lemma strlencspn_cong [agree_cong]:
  "(\<And>i. p \<le> i \<Longrightarrow> i < p + n \<Longrightarrow> m i = m' i) \<Longrightarrow> strlencspn m p n a = strlencspn m' p n a"
  by (induction m p n a rule: strlencspn.induct) auto

lemma skip_digits_cong [agree_cong]:
  "(\<And>i. p \<le> i \<Longrightarrow> i < p + n \<Longrightarrow> m i = m' i) \<Longrightarrow> skip_digits m p n = skip_digits m' p n"
  by (induction m p n rule: skip_digits.induct) auto

end
