(* ===== verification/Sqli_Parse.thy ===== *)
theory Sqli_Parse
  imports Sqli_State Sqli_Search
begin

text \<open>
  The token parsers of \<open>libinjection_sqli.c\<close>, one definition per \<open>parse_*\<close> function, in the
  order of the source, and the table \<open>char_parse_map\<close> of \<open>libinjection_sqli_data.h\<close> that
  chooses the parser of a character. A parser takes the state, writes the token
  \<open>sf->current\<close> and returns the position after the token; \<open>lk\<close> is \<open>sf->lookup\<close>.
  Sizes are natural numbers: the guards of each parser keep every difference of sizes that
  it computes non-negative.
\<close>

type_synonym parser = "lookup_fn \<Rightarrow> sqli_state \<Rightarrow> nat \<times> sqli_state"

section \<open>Single characters, operators and comments\<close>

definition parse_white :: parser where
  "parse_white lk sf = (sf_pos sf + 1, sf)"

definition parse_operator1 :: parser where
  "parse_operator1 lk sf =
     (let cs = sf_s sf; pos = sf_pos sf in
      (pos + 1, set_cur (st_assign_char (cur sf) TYPE_OPERATOR pos 1 (cs pos)) sf))"

definition parse_other :: parser where
  "parse_other lk sf =
     (let cs = sf_s sf; pos = sf_pos sf in
      (pos + 1, set_cur (st_assign_char (cur sf) TYPE_UNKNOWN pos 1 (cs pos)) sf))"

definition parse_char :: parser where
  "parse_char lk sf =
     (let cs = sf_s sf; pos = sf_pos sf in
      (pos + 1, set_cur (st_assign_char (cur sf) (cs pos) pos 1 (cs pos)) sf))"

definition parse_eol_comment :: parser where
  "parse_eol_comment lk sf =
     (let cs = sf_s sf; slen = sf_slen sf; pos = sf_pos sf in
      case memchr cs pos LF (slen - pos) of
        None \<Rightarrow> (slen, set_cur (st_assign (cur sf) TYPE_COMMENT pos (slen - pos) (ptr cs pos)) sf)
      | Some endpos \<Rightarrow>
          (endpos + 1,
           set_cur (st_assign (cur sf) TYPE_COMMENT pos (endpos - pos) (ptr cs pos)) sf))"

definition parse_hash :: parser where
  "parse_hash lk sf =
     (let sf1 = sf\<lparr>stats_comment_hash := stats_comment_hash sf + 1\<rparr> in
      if sf_flags sf1 AND FLAG_SQL_MYSQL \<noteq> 0 then
        parse_eol_comment lk (sf1\<lparr>stats_comment_hash := stats_comment_hash sf1 + 1\<rparr>)
      else
        (sf_pos sf1 + 1,
         set_cur (st_assign_char (cur sf1) TYPE_OPERATOR (sf_pos sf1) 1 (CHR ''#'')) sf1))"

definition parse_dash :: parser where
  "parse_dash lk sf =
     (let cs = sf_s sf; slen = sf_slen sf; pos = sf_pos sf in
      if pos + 2 < slen \<and> cs (pos + 1) = CHR ''-'' \<and> char_is_white (cs (pos + 2)) then
        parse_eol_comment lk sf
      else if pos + 2 = slen \<and> cs (pos + 1) = CHR ''-'' then
        parse_eol_comment lk sf
      else if pos + 1 < slen \<and> cs (pos + 1) = CHR ''-'' \<and> sf_flags sf AND FLAG_SQL_ANSI \<noteq> 0 then
        parse_eol_comment lk (sf\<lparr>stats_comment_ddx := stats_comment_ddx sf + 1\<rparr>)
      else
        (pos + 1, set_cur (st_assign_char (cur sf) TYPE_OPERATOR pos 1 (CHR ''-'')) sf))"

definition is_mysql_comment :: "cmem \<Rightarrow> nat \<Rightarrow> nat \<Rightarrow> bool" where
  "is_mysql_comment cs len pos =
     (if pos + 2 \<ge> len then False
      else if cs (pos + 2) \<noteq> CHR ''!'' then False
      else True)"

text \<open>
  When the comment is not closed, \<open>ptr\<close> is null and the second search is called with the
  length \<open>(size_t)(NULL - (cur + 1))\<close>: its \<open>last\<close> is then the null pointer again, its loop
  does not run, and the result is null.
\<close>

definition parse_slash :: parser where
  "parse_slash lk sf =
     (let cs = sf_s sf; slen = sf_slen sf; pos = sf_pos sf; pos1 = pos + 1 in
      if pos1 = slen \<or> cs pos1 \<noteq> CHR ''*'' then parse_operator1 lk sf
      else
        let p = memchr2 cs (pos + 2) (slen - (pos + 2)) (CHR ''*'') (CHR ''/'');
            clen = (case p of None \<Rightarrow> slen - pos | Some q \<Rightarrow> q + 2 - pos);
            nested = (case p of None \<Rightarrow> None
                      | Some q \<Rightarrow> memchr2 cs (pos + 2) (q - (pos + 1)) (CHR ''/'') (CHR ''*''));
            ctype = (if nested \<noteq> None then TYPE_EVIL
                     else if is_mysql_comment cs slen pos then TYPE_EVIL
                     else TYPE_COMMENT)
        in (pos + clen, set_cur (st_assign (cur sf) ctype pos clen (ptr cs pos)) sf))"

definition parse_backslash :: parser where
  "parse_backslash lk sf =
     (let cs = sf_s sf; slen = sf_slen sf; pos = sf_pos sf in
      if pos + 1 < slen \<and> cs (pos + 1) = CHR ''N'' then
        (pos + 2, set_cur (st_assign (cur sf) TYPE_NUMBER pos 2 (ptr cs pos)) sf)
      else
        (pos + 1, set_cur (st_assign_char (cur sf) TYPE_BACKSLASH pos 1 (cs pos)) sf))"

definition parse_operator2 :: parser where
  "parse_operator2 lk sf =
     (let cs = sf_s sf; slen = sf_slen sf; pos = sf_pos sf in
      if pos + 1 \<ge> slen then parse_operator1 lk sf
      else if pos + 2 < slen \<and> cs pos = CHR ''<'' \<and> cs (pos + 1) = CHR ''='' \<and>
              cs (pos + 2) = CHR ''>'' then
        (pos + 3, set_cur (st_assign (cur sf) TYPE_OPERATOR pos 3 (ptr cs pos)) sf)
      else
        let ch = lk LOOKUP_OPERATOR (bytes cs pos 2) in
        if ch \<noteq> NUL then (pos + 2, set_cur (st_assign (cur sf) ch pos 2 (ptr cs pos)) sf)
        else if cs pos = CHR '':'' then
          (pos + 1, set_cur (st_assign (cur sf) TYPE_COLON pos 1 (ptr cs pos)) sf)
        else parse_operator1 lk sf)"

section \<open>Strings\<close>

text \<open>
  The backslashes that end just before an offset. The loop's pointer \<open>ptr\<close> is represented
  by \<open>ptr + 1\<close>, since it may move to the position before \<open>start\<close>.
\<close>

fun backslash_ptr :: "cmem \<Rightarrow> nat \<Rightarrow> nat \<Rightarrow> nat" where
  "backslash_ptr m start 0 = 0"
| "backslash_ptr m start (Suc p) =
     (if start \<le> p \<and> m p = CHR 0x5C then backslash_ptr m start p else Suc p)"

text \<open>\<open>is_backslash_escaped(m + q - 1, m + start)\<close>.\<close>

definition is_backslash_escaped :: "cmem \<Rightarrow> nat \<Rightarrow> nat \<Rightarrow> bool" where
  "is_backslash_escaped m q start \<longleftrightarrow> odd (q - backslash_ptr m start q)"

definition is_double_delim_escaped :: "cmem \<Rightarrow> nat \<Rightarrow> nat \<Rightarrow> bool" where
  "is_double_delim_escaped m q end \<longleftrightarrow> q + 1 < end \<and> m (q + 1) = m q"

text \<open>
  The position of the closing delimiter: the loop of \<open>parse_string_core\<close>, where \<open>start\<close> is
  \<open>pos + offset\<close> and \<open>qpos\<close> the candidate found by \<open>memchr\<close>.
\<close>

function string_end :: "cmem \<Rightarrow> nat \<Rightarrow> nat \<Rightarrow> char \<Rightarrow> nat option \<Rightarrow> nat option" where
  "string_end cs len start delim None = None"
| "string_end cs len start delim (Some q) =
     (if is_backslash_escaped cs q start then
        string_end cs len start delim (memchr cs (q + 1) delim (len - (q + 1)))
      else if is_double_delim_escaped cs q len then
        string_end cs len start delim (memchr cs (q + 2) delim (len - (q + 2)))
      else Some q)"
  by pat_completeness auto
termination
proof (relation "measure (\<lambda>(cs, len, start, delim, qo). case qo of None \<Rightarrow> 0 | Some q \<Rightarrow> Suc (len - q))")
  show "((cs, len, start, delim, memchr cs (q + 1) delim (len - (q + 1))), cs, len, start, delim, Some q)
      \<in> measure (\<lambda>(cs, len, start, delim, qo). case qo of None \<Rightarrow> 0 | Some q \<Rightarrow> Suc (len - q))"
    for cs len start delim q
    by (auto split: option.split dest!: memchr_range)
  show "((cs, len, start, delim, memchr cs (q + 2) delim (len - (q + 2))), cs, len, start, delim, Some q)
      \<in> measure (\<lambda>(cs, len, start, delim, qo). case qo of None \<Rightarrow> 0 | Some q \<Rightarrow> Suc (len - q))"
    for cs len start delim q
    by (auto split: option.split dest!: memchr_range)
qed simp

definition parse_string_core ::
  "cmem \<Rightarrow> nat \<Rightarrow> nat \<Rightarrow> stoken_t \<Rightarrow> char \<Rightarrow> nat \<Rightarrow> nat \<times> stoken_t" where
  "parse_string_core cs len pos st delim offset =
     (let qpos = memchr cs (pos + offset) delim (len - pos - offset);
          st1 = st\<lparr>tok_str_open := (if offset > 0 then delim else NUL)\<rparr>
      in case string_end cs len (pos + offset) delim qpos of
           None \<Rightarrow>
             (len, (st_assign st1 TYPE_STRING (pos + offset) (len - pos - offset)
                      (ptr cs (pos + offset)))\<lparr>tok_str_close := NUL\<rparr>)
         | Some q \<Rightarrow>
             (q + 1, (st_assign st1 TYPE_STRING (pos + offset) (q - (pos + offset))
                      (ptr cs (pos + offset)))\<lparr>tok_str_close := delim\<rparr>))"

text \<open>\<open>parse_string_core(s, slen, pos, current, delim, offset)\<close> on the current token.\<close>

definition string_core_cur :: "sqli_state \<Rightarrow> char \<Rightarrow> nat \<Rightarrow> nat \<times> sqli_state" where
  "string_core_cur sf delim offset =
     (case parse_string_core (sf_s sf) (sf_slen sf) (sf_pos sf) (cur sf) delim offset of
        (p, st) \<Rightarrow> (p, set_cur st sf))"

definition parse_string :: parser where
  "parse_string lk sf = string_core_cur sf (sf_s sf (sf_pos sf)) 1"

section \<open>Words\<close>

text \<open>The characters that end a word and those that end a variable name.\<close>

definition word_stop :: string where
  "word_stop = '' []{}<>:'' @ [CHR 0x5C] @ ''?=@!#~+-*/&|^%(),'' @ [CHR 0x27] @ '';'' @
     [CHR 0x09, CHR 0x0A, CHR 0x0B, CHR 0x0C, CHR 0x0D, CHR 0x22, CHR 0xA0]"

definition var_stop :: string where
  "var_stop = '' <>:'' @ [CHR 0x5C] @ ''?=@!#~+-*/&|^%(),'' @ [CHR 0x27] @ '';'' @
     [CHR 0x09, CHR 0x0A, CHR 0x0B, CHR 0x0C, CHR 0x0D, CHR 0x27, CHR 0x60, CHR 0x22]"

text \<open>
  The loop of \<open>parse_word\<close> over \<open>val[i]\<close>, with \<open>n\<close> bytes left: the first dot or backtick
  that ends a keyword.
\<close>

fun word_scan :: "lookup_fn \<Rightarrow> string \<Rightarrow> nat \<Rightarrow> nat \<Rightarrow> (char \<times> nat) option" where
  "word_scan lk val i 0 = None"
| "word_scan lk val i (Suc n) =
     (let delim = val ! i in
      if delim = CHR ''.'' \<or> delim = CHAR_TICK then
        let ch = lk LOOKUP_WORD (take i val) in
        if ch \<noteq> TYPE_NONE \<and> ch \<noteq> TYPE_BAREWORD then Some (ch, i)
        else word_scan lk val (Suc i) n
      else word_scan lk val (Suc i) n)"

definition parse_word :: parser where
  "parse_word lk sf =
     (let cs = sf_s sf; pos = sf_pos sf;
          wlen = strlencspn cs pos (sf_slen sf - pos) word_stop;
          st = st_assign (cur sf) TYPE_BAREWORD pos wlen (ptr cs pos)
      in case word_scan lk (tok_val st) 0 (tok_len st) of
           Some (ch, i) \<Rightarrow>
             (pos + i, set_cur (st_assign (st_clear st) ch pos i (ptr cs pos)) sf)
         | None \<Rightarrow>
             (pos + wlen,
              set_cur
                (if wlen < TOKEN_SIZE then
                   let ch = lk LOOKUP_WORD (take wlen (tok_val st)) in
                   st\<lparr>tok_type := (if ch = NUL then TYPE_BAREWORD else ch)\<rparr>
                 else st) sf))"

section \<open>Quoted strings with a prefix\<close>

definition parse_estring :: parser where
  "parse_estring lk sf =
     (let cs = sf_s sf; slen = sf_slen sf; pos = sf_pos sf in
      if pos + 2 \<ge> slen \<or> cs (pos + 1) \<noteq> CHAR_SINGLE then parse_word lk sf
      else string_core_cur sf CHAR_SINGLE 2)"

definition parse_ustring :: parser where
  "parse_ustring lk sf =
     (let cs = sf_s sf; slen = sf_slen sf; pos = sf_pos sf in
      if pos + 2 < slen \<and> cs (pos + 1) = CHR ''&'' \<and> cs (pos + 2) = CHAR_SINGLE then
        (case parse_string lk (sf\<lparr>sf_pos := pos + 2\<rparr>) of
           (pos', sf1) \<Rightarrow>
             let st = (cur sf1)\<lparr>tok_str_open := CHR ''u''\<rparr> in
             (pos', set_cur (if tok_str_close st = CHAR_SINGLE
                             then st\<lparr>tok_str_close := CHR ''u''\<rparr> else st) sf1))
      else parse_word lk sf)"

definition closing_bracket :: "char \<Rightarrow> char" where
  "closing_bracket ch =
     (if ch = CHR ''('' then CHR '')''
      else if ch = CHR ''['' then CHR '']''
      else if ch = CHR ''{'' then CHR ''}''
      else if ch = CHR ''<'' then CHR ''>''
      else ch)"

definition parse_qstring_core :: "lookup_fn \<Rightarrow> sqli_state \<Rightarrow> nat \<Rightarrow> nat \<times> sqli_state" where
  "parse_qstring_core lk sf offset =
     (let cs = sf_s sf; slen = sf_slen sf; pos = sf_pos sf + offset in
      if pos \<ge> slen \<or> (cs pos \<noteq> CHR ''q'' \<and> cs pos \<noteq> CHR ''Q'') \<or> pos + 2 \<ge> slen \<or>
         cs (pos + 1) \<noteq> CHAR_SINGLE then parse_word lk sf
      else if schar (cs (pos + 2)) < 33 then parse_word lk sf
      else
        let ch = closing_bracket (cs (pos + 2)) in
        case memchr2 cs (pos + 3) (slen - pos - 3) ch CHAR_SINGLE of
          None \<Rightarrow>
            (slen, set_cur
               ((st_assign (cur sf) TYPE_STRING (pos + 3) (slen - pos - 3) (ptr cs (pos + 3)))
                \<lparr>tok_str_open := CHR ''q'', tok_str_close := NUL\<rparr>) sf)
        | Some strend \<Rightarrow>
            (strend + 2, set_cur
               ((st_assign (cur sf) TYPE_STRING (pos + 3) (strend - pos - 3) (ptr cs (pos + 3)))
                \<lparr>tok_str_open := CHR ''q'', tok_str_close := CHR ''q''\<rparr>) sf))"

definition parse_qstring :: parser where
  "parse_qstring lk sf = parse_qstring_core lk sf 0"

definition parse_nqstring :: parser where
  "parse_nqstring lk sf =
     (let slen = sf_slen sf; pos = sf_pos sf in
      if pos + 2 < slen \<and> sf_s sf (pos + 1) = CHAR_SINGLE then parse_estring lk sf
      else parse_qstring_core lk sf 1)"

definition bin_digits :: string where "bin_digits = ''01''"
definition hex_digits :: string where "hex_digits = ''0123456789ABCDEFabcdef''"

text \<open>The common shape of \<open>parse_bstring\<close> and \<open>parse_xstring\<close>: digits between quotes.\<close>

definition parse_digit_string :: "string \<Rightarrow> parser" where
  "parse_digit_string digits lk sf =
     (let cs = sf_s sf; pos = sf_pos sf; slen = sf_slen sf in
      if pos + 2 \<ge> slen \<or> cs (pos + 1) \<noteq> CHAR_SINGLE then parse_word lk sf
      else
        let wlen = strlenspn cs (pos + 2) (slen - pos - 2) digits in
        if pos + 2 + wlen \<ge> slen \<or> cs (pos + 2 + wlen) \<noteq> CHAR_SINGLE then parse_word lk sf
        else (pos + 2 + wlen + 1,
              set_cur (st_assign (cur sf) TYPE_NUMBER pos (wlen + 3) (ptr cs pos)) sf))"

definition parse_bstring :: parser where
  "parse_bstring = parse_digit_string bin_digits"

definition parse_xstring :: parser where
  "parse_xstring = parse_digit_string hex_digits"

definition parse_bword :: parser where
  "parse_bword lk sf =
     (let cs = sf_s sf; pos = sf_pos sf; slen = sf_slen sf in
      case memchr cs pos (CHR '']'') (slen - pos) of
        None \<Rightarrow> (slen, set_cur (st_assign (cur sf) TYPE_BAREWORD pos (slen - pos) (ptr cs pos)) sf)
      | Some endptr \<Rightarrow>
          (endptr + 1,
           set_cur (st_assign (cur sf) TYPE_BAREWORD pos (endptr - pos + 1) (ptr cs pos)) sf))"

section \<open>Backticks, variables, money\<close>

definition parse_tick :: parser where
  "parse_tick lk sf =
     (case string_core_cur sf CHAR_TICK 1 of
        (pos, sf1) \<Rightarrow>
          let st = cur sf1;
              ch = lk LOOKUP_WORD (take (tok_len st) (tok_val st))
          in (pos, set_cur (st\<lparr>tok_type :=
                     (if ch = TYPE_FUNCTION then TYPE_FUNCTION else TYPE_BAREWORD)\<rparr>) sf1))"

text \<open>The name of a variable at \<open>pos\<close>, after one or two \<open>@\<close> signs.\<close>

definition parse_var_name :: "nat \<Rightarrow> parser" where
  "parse_var_name pos lk sf =
     (let cs = sf_s sf; slen = sf_slen sf
      in if pos < slen \<and> cs pos = CHAR_TICK then
           (case parse_tick lk (sf\<lparr>sf_pos := pos\<rparr>) of
              (pos', sf2) \<Rightarrow> (pos', set_cur ((cur sf2)\<lparr>tok_type := TYPE_VARIABLE\<rparr>) sf2))
         else if pos < slen \<and> (cs pos = CHAR_SINGLE \<or> cs pos = CHAR_DOUBLE) then
           (case parse_string lk (sf\<lparr>sf_pos := pos\<rparr>) of
              (pos', sf2) \<Rightarrow> (pos', set_cur ((cur sf2)\<lparr>tok_type := TYPE_VARIABLE\<rparr>) sf2))
         else
           let xlen = strlencspn cs pos (slen - pos) var_stop in
           if xlen = 0 then
             (pos, set_cur (st_assign (cur sf) TYPE_VARIABLE pos 0 (ptr cs pos)) sf)
           else
             (pos + xlen, set_cur (st_assign (cur sf) TYPE_VARIABLE pos xlen (ptr cs pos)) sf))"

definition parse_var :: parser where
  "parse_var lk sf =
     (let pos1 = sf_pos sf + 1;
          two = (pos1 < sf_slen sf \<and> sf_s sf pos1 = CHR ''@'');
          pos = (if two then pos1 + 1 else pos1);
          count = (if two then 2 else 1)
      in parse_var_name pos lk (set_cur ((cur sf)\<lparr>tok_count := count\<rparr>) sf))"

definition money_chars :: string where "money_chars = ''0123456789.,''"

definition letters :: string where
  "letters = ''abcdefghjiklmnopqrstuvwxyzABCDEFGHIJKLMNOPQRSTUVWXYZ''"

text \<open>The branch \<open>$$ ... $$\<close> of \<open>parse_money\<close>.\<close>

definition parse_dollar_dollar :: parser where
  "parse_dollar_dollar lk sf =
     (let cs = sf_s sf; slen = sf_slen sf; pos = sf_pos sf in
      case memchr2 cs (pos + 2) (slen - pos - 2) (CHR ''$'') (CHR ''$'') of
        None \<Rightarrow>
          (slen, set_cur
             ((st_assign (cur sf) TYPE_STRING (pos + 2) (slen - (pos + 2)) (ptr cs (pos + 2)))
              \<lparr>tok_str_open := CHR ''$'', tok_str_close := NUL\<rparr>) sf)
      | Some strend \<Rightarrow>
          (strend + 2, set_cur
             ((st_assign (cur sf) TYPE_STRING (pos + 2) (strend - (pos + 2)) (ptr cs (pos + 2)))
              \<lparr>tok_str_open := CHR ''$'', tok_str_close := CHR ''$''\<rparr>) sf))"

text \<open>
  The branch \<open>$tag$ ... $tag$\<close>, where \<open>xlen\<close> is the length of the tag. As in the source the
  search for the second tag starts at the offset \<open>xlen + 2\<close> of the whole input and not at
  \<open>pos + xlen + 2\<close>.
\<close>

definition parse_dollar_tag :: "nat \<Rightarrow> parser" where
  "parse_dollar_tag xlen lk sf =
     (let cs = sf_s sf; slen = sf_slen sf; pos = sf_pos sf;
          strend = my_memmem cs (xlen + 2) (bytes cs pos (xlen + 2)) (slen - (pos + xlen + 2))
      in case strend of
           Some q \<Rightarrow>
             if q < pos + xlen + 2 then
               (slen, set_cur
                  ((st_assign (cur sf) TYPE_STRING (pos + xlen + 2) (slen - pos - xlen - 2)
                      (ptr cs (pos + xlen + 2)))
                   \<lparr>tok_str_open := CHR ''$'', tok_str_close := NUL\<rparr>) sf)
             else
               (q + xlen + 2, set_cur
                  ((st_assign (cur sf) TYPE_STRING (pos + xlen + 2) (q - (pos + xlen + 2))
                      (ptr cs (pos + xlen + 2)))
                   \<lparr>tok_str_open := CHR ''$'', tok_str_close := CHR ''$''\<rparr>) sf)
         | None \<Rightarrow>
             (slen, set_cur
                ((st_assign (cur sf) TYPE_STRING (pos + xlen + 2) (slen - pos - xlen - 2)
                    (ptr cs (pos + xlen + 2)))
                 \<lparr>tok_str_open := CHR ''$'', tok_str_close := NUL\<rparr>) sf))"

definition parse_money :: parser where
  "parse_money lk sf =
     (let cs = sf_s sf; slen = sf_slen sf; pos = sf_pos sf in
      if pos + 1 = slen then
        (slen, set_cur (st_assign_char (cur sf) TYPE_BAREWORD pos 1 (CHR ''$'')) sf)
      else
        let xlen = strlenspn cs (pos + 1) (slen - pos - 1) money_chars in
        if xlen = 0 then
          if cs (pos + 1) = CHR ''$'' then parse_dollar_dollar lk sf
          else
            let xlen = strlenspn cs (pos + 1) (slen - pos - 1) letters in
            if xlen = 0 then
              (pos + 1, set_cur (st_assign_char (cur sf) TYPE_BAREWORD pos 1 (CHR ''$'')) sf)
            else if pos + xlen + 1 = slen \<or> cs (pos + xlen + 1) \<noteq> CHR ''$'' then
              (pos + 1, set_cur (st_assign_char (cur sf) TYPE_BAREWORD pos 1 (CHR ''$'')) sf)
            else parse_dollar_tag xlen lk sf
        else if xlen = 1 \<and> cs (pos + 1) = CHR ''.'' then parse_word lk sf
        else
          (pos + 1 + xlen,
           set_cur (st_assign (cur sf) TYPE_NUMBER pos (1 + xlen) (ptr cs pos)) sf))"

section \<open>Numbers\<close>

text \<open>The digits a prefix \<open>0x\<close> or \<open>0b\<close> at \<open>pos\<close> asks for.\<close>

definition number_prefix :: "cmem \<Rightarrow> nat \<Rightarrow> nat \<Rightarrow> string option" where
  "number_prefix cs slen pos =
     (if cs pos = CHR ''0'' \<and> pos + 1 < slen then
        if cs (pos + 1) = CHR ''X'' \<or> cs (pos + 1) = CHR ''x'' then Some hex_digits
        else if cs (pos + 1) = CHR ''B'' \<or> cs (pos + 1) = CHR ''b'' then Some bin_digits
        else None
      else None)"

text \<open>The exponent: the position after it, \<open>have_e\<close> and \<open>have_exp\<close>.\<close>

definition number_exponent :: "cmem \<Rightarrow> nat \<Rightarrow> nat \<Rightarrow> nat \<times> bool \<times> bool" where
  "number_exponent cs slen pos =
     (if pos < slen \<and> (cs pos = CHR ''E'' \<or> cs pos = CHR ''e'') then
        let p1 = pos + 1;
            p2 = (if p1 < slen \<and> (cs p1 = CHR ''+'' \<or> cs p1 = CHR ''-'') then p1 + 1 else p1);
            p3 = skip_digits cs p2 (slen - p2)
        in (p3, True, p2 < p3)
      else (pos, False, False))"

text \<open>The suffix of a float or double literal.\<close>

definition number_suffix :: "cmem \<Rightarrow> nat \<Rightarrow> nat \<Rightarrow> nat" where
  "number_suffix cs slen pos =
     (if pos < slen \<and> (cs pos = CHR ''d'' \<or> cs pos = CHR ''D'' \<or> cs pos = CHR ''f'' \<or>
                       cs pos = CHR ''F'') then
        if pos + 1 = slen then pos + 1
        else if char_is_white (cs (pos + 1)) \<or> cs (pos + 1) = CHR '';'' then pos + 1
        else if cs (pos + 1) = CHR ''u'' \<or> cs (pos + 1) = CHR ''U'' then pos + 1
        else pos
      else pos)"

definition parse_number :: parser where
  "parse_number lk sf =
     (let cs = sf_s sf; slen = sf_slen sf; start = sf_pos sf in
      case number_prefix cs slen start of
        Some digits \<Rightarrow>
          let xlen = strlenspn cs (start + 2) (slen - start - 2) digits in
          if xlen = 0 then
            (start + 2, set_cur (st_assign (cur sf) TYPE_BAREWORD start 2 (ptr cs start)) sf)
          else
            (start + 2 + xlen,
             set_cur (st_assign (cur sf) TYPE_NUMBER start (2 + xlen) (ptr cs start)) sf)
      | None \<Rightarrow>
          let p1 = skip_digits cs start (slen - start);
              dot = (p1 < slen \<and> cs p1 = CHR ''.'');
              p2 = (if dot then skip_digits cs (p1 + 1) (slen - (p1 + 1)) else p1)
          in if dot \<and> p2 - start = 1 then
               (p2, set_cur (st_assign_char (cur sf) TYPE_DOT start 1 (CHR ''.'')) sf)
             else
               (case number_exponent cs slen p2 of
                  (p3, have_e, have_exp) \<Rightarrow>
                    let p4 = number_suffix cs slen p3 in
                    (p4, set_cur
                       (st_assign (cur sf)
                          (if have_e \<and> \<not> have_exp then TYPE_BAREWORD else TYPE_NUMBER)
                          start (p4 - start) (ptr cs start)) sf)))"

end
