(* ===== verification/Sqli_Parser_Contract.thy ===== *)
theory Sqli_Parser_Contract
  imports Sqli_Parse
begin

text \<open>
  The contract of a token parser as the locale \<open>char_parser\<close>: called inside the input on a
  character it is meant for, it moves forward without leaving the input, writes nothing but
  the current token (and two counters), leaves in the token exactly the bytes of the input at
  the token's position, and its result does not depend on any byte outside the input.
  Every parser of the table is an interpretation.
\<close>

section \<open>Inputs that agree\<close>

definition agree :: "nat \<Rightarrow> cmem \<Rightarrow> cmem \<Rightarrow> bool" where
  "agree n m m' \<longleftrightarrow> (\<forall>i < n. m i = m' i)"

lemma agree_at: "agree n m m' \<Longrightarrow> i < n \<Longrightarrow> m i = m' i"
  by (simp add: agree_def)

lemma agree_bytes: "agree n m m' \<Longrightarrow> p + k \<le> n \<Longrightarrow> bytes m p k = bytes m' p k"
  by (rule bytes_cong) (simp add: agree_def)

lemma agree_memchr: "agree n m m' \<Longrightarrow> p + k \<le> n \<Longrightarrow> memchr m p c k = memchr m' p c k"
  by (rule memchr_cong) (simp add: agree_def)

lemma agree_memchr2: "agree n m m' \<Longrightarrow> p + k \<le> n \<Longrightarrow> memchr2 m p k c d = memchr2 m' p k c d"
  by (rule memchr2_cong) (simp add: agree_def)

lemma agree_my_memmem:
  "agree n m m' \<Longrightarrow> p + k \<le> n \<Longrightarrow> needle \<noteq> [] \<Longrightarrow> my_memmem m p needle k = my_memmem m' p needle k"
  by (rule my_memmem_cong) (simp_all add: agree_def)

lemma agree_strlenspn: "agree n m m' \<Longrightarrow> p + k \<le> n \<Longrightarrow> strlenspn m p k a = strlenspn m' p k a"
  by (rule strlenspn_cong) (simp add: agree_def)

lemma agree_strlencspn: "agree n m m' \<Longrightarrow> p + k \<le> n \<Longrightarrow> strlencspn m p k a = strlencspn m' p k a"
  by (rule strlencspn_cong) (simp add: agree_def)

lemma agree_skip_digits: "agree n m m' \<Longrightarrow> p + k \<le> n \<Longrightarrow> skip_digits m p k = skip_digits m' p k"
  by (rule skip_digits_cong) (simp add: agree_def)

lemma agree_st_assign:
  assumes "agree n m m'" "p + len \<le> n"
  shows "st_assign st ty pos len (ptr m p) = st_assign st ty pos len (ptr m' p)"
proof -
  have "bytes m p k = bytes m' p k" if "k \<le> len" for k
    using that assms by (intro agree_bytes) auto
  then show ?thesis by (simp add: st_assign_def Let_def)
qed

lemma agree_backslash_ptr:
  "agree n m m' \<Longrightarrow> q \<le> n \<Longrightarrow> backslash_ptr m start q = backslash_ptr m' start q"
  by (induction m start q rule: backslash_ptr.induct) (auto simp: agree_def)

lemma agree_escaped:
  "agree n m m' \<Longrightarrow> q \<le> n \<Longrightarrow> is_backslash_escaped m q start = is_backslash_escaped m' q start"
  by (simp add: is_backslash_escaped_def agree_backslash_ptr)

lemma agree_double_delim:
  "agree n m m' \<Longrightarrow> is_double_delim_escaped m q n = is_double_delim_escaped m' q n"
  by (auto simp: is_double_delim_escaped_def agree_def)

lemmas agree_rules = agree_at agree_bytes agree_memchr agree_memchr2 agree_my_memmem
  agree_strlenspn agree_strlencspn agree_skip_digits agree_st_assign agree_escaped
  agree_double_delim

section \<open>Results of the string parser\<close>

lemma string_end_range:
  "string_end cs len start delim qo = Some q \<Longrightarrow> (\<And>p. qo = Some p \<Longrightarrow> lo \<le> p \<and> p < len) \<Longrightarrow>
   lo \<le> q \<and> q < len"
proof (induction cs len start delim qo rule: string_end.induct)
  case (2 cs len start delim p)
  from "2.prems"(2) have p: "lo \<le> p" "p < len" by auto
  have next1: "lo \<le> r \<and> r < len" if "memchr cs (p + 1) delim (len - (p + 1)) = Some r" for r
    using memchr_range [OF that] p by auto
  have next2: "lo \<le> r \<and> r < len" if "memchr cs (p + 2) delim (len - (p + 2)) = Some r" for r
    using memchr_range [OF that] p by auto
  show ?case
    using "2.IH" "2.prems"(1) p next1 next2
    by (auto simp del: memchr.simps add_2_eq_Suc' split: if_splits)
qed simp

lemma string_end_cong:
  "agree len m m' \<Longrightarrow> (\<And>p. qo = Some p \<Longrightarrow> p < len) \<Longrightarrow>
   string_end m len start delim qo = string_end m' len start delim qo"
proof (induction m len start delim qo rule: string_end.induct)
  case (2 m len start delim p)
  then have p: "p < len" by simp
  have eq1: "memchr m (p + 1) delim (len - (p + 1)) = memchr m' (p + 1) delim (len - (p + 1))"
    using "2.prems"(1) p by (intro agree_memchr) auto
  have eq2: "memchr m (p + 2) delim (len - (p + 2)) = memchr m' (p + 2) delim (len - (p + 2))"
  proof (cases "p + 2 \<le> len")
    case True
    then show ?thesis using "2.prems"(1) by (intro agree_memchr) auto
  qed simp
  have n1: "r < len" if "memchr m (p + 1) delim (len - (p + 1)) = Some r" for r
    using memchr_range [OF that] p by auto
  have n2: "r < len" if "memchr m (p + 2) delim (len - (p + 2)) = Some r" for r
    using memchr_range [OF that] p by auto
  have esc: "is_backslash_escaped m p start = is_backslash_escaped m' p start"
    "is_double_delim_escaped m p len = is_double_delim_escaped m' p len"
    using agree_escaped [OF "2.prems"(1)] agree_double_delim [OF "2.prems"(1)] p by auto
  show ?case
    using "2.IH"(1) [OF _ "2.prems"(1) n1] "2.IH"(2) [OF _ _ "2.prems"(1) n2] esc eq1 eq2
    by (simp del: memchr.simps add_2_eq_Suc')
qed simp

lemma string_core_range:
  assumes "pos + offset \<le> len" "0 < len" "pos < len"
  shows "pos < fst (parse_string_core m len pos st delim offset)"
    and "fst (parse_string_core m len pos st delim offset) \<le> len"
proof -
  let ?q = "string_end m len (pos + offset) delim (memchr m (pos + offset) delim (len - pos - offset))"
  have "pos + offset \<le> q \<and> q < len" if "?q = Some q" for q
    by (rule string_end_range [OF that]) (use assms memchr_range in fastforce)
  then show "pos < fst (parse_string_core m len pos st delim offset)"
    and "fst (parse_string_core m len pos st delim offset) \<le> len"
    using assms by (auto simp: parse_string_core_def Let_def split: option.splits)
qed

lemma string_core_token:
  assumes "pos + offset \<le> len" "length (tok_val st) = TOKEN_SIZE"
  shows "token_of m len (snd (parse_string_core m len pos st delim offset))"
proof -
  let ?q = "string_end m len (pos + offset) delim (memchr m (pos + offset) delim (len - pos - offset))"
  have "pos + offset \<le> q \<and> q < len" if "?q = Some q" for q
    by (rule string_end_range [OF that]) (use assms memchr_range in fastforce)
  then show ?thesis
    using assms
    by (auto simp: parse_string_core_def Let_def token_of_assign split: option.splits)
qed

lemma string_core_agree:
  assumes ag: "agree len m m'" and "pos + offset \<le> len"
  shows "parse_string_core m len pos st delim offset = parse_string_core m' len pos st delim offset"
proof -
  let ?m = "\<lambda>m. memchr m (pos + offset) delim (len - pos - offset)"
  have eq: "?m m = ?m m'" by (rule agree_memchr [OF ag]) (use assms in auto)
  have rng: "p < len" if "?m m = Some p" for p
    using memchr_range [OF that] assms by auto
  have send: "string_end m len (pos + offset) delim (?m m) = string_end m' len (pos + offset) delim (?m m')"
    unfolding eq [symmetric] by (rule string_end_cong [OF ag rng])
  have "pos + offset \<le> q \<and> q < len"
    if "string_end m len (pos + offset) delim (?m m) = Some q" for q
    by (rule string_end_range [OF that]) (use assms memchr_range in fastforce)
  then show ?thesis
    using assms send
    by (auto simp: parse_string_core_def Let_def agree_st_assign [OF ag] split: option.splits)
qed

section \<open>The contract\<close>

text \<open>What a parser may write: the current token, the position and two counters.\<close>

definition parse_frame :: "sqli_state \<Rightarrow> sqli_state \<Rightarrow> bool" where
  "parse_frame sf sf' \<longleftrightarrow> sf' = sf
     \<lparr>sf_tokenvec := (sf_tokenvec sf)[sf_current sf := cur sf'], sf_pos := sf_pos sf',
      stats_comment_ddx := stats_comment_ddx sf', stats_comment_hash := stats_comment_hash sf'\<rparr>"

locale char_parser =
  fixes p :: parser and starts :: "char \<Rightarrow> bool"
  assumes progress: "sf_pos sf < sf_slen sf \<Longrightarrow> starts (sf_s sf (sf_pos sf)) \<Longrightarrow>
      sf_pos sf < fst (p lk sf) \<and> fst (p lk sf) \<le> sf_slen sf"
    and frame: "parse_frame sf (snd (p lk sf))"
    and token: "sf_pos sf < sf_slen sf \<Longrightarrow> starts (sf_s sf (sf_pos sf)) \<Longrightarrow>
      sf_current sf < length (sf_tokenvec sf) \<Longrightarrow>
      token_of (sf_s sf) (sf_slen sf) (cur sf) \<Longrightarrow>
      token_of (sf_s sf) (sf_slen sf) (cur (snd (p lk sf)))"
    and local: "sf_pos sf < sf_slen sf \<Longrightarrow> starts (sf_s sf (sf_pos sf)) \<Longrightarrow>
      agree (sf_slen sf) (sf_s sf) m \<Longrightarrow>
      p lk (sf\<lparr>sf_s := m\<rparr>) = apsnd (sf_s_update (\<lambda>_. m)) (p lk sf)"

lemma list_update_nth_update [simp]: "xs[c := xs[c := x] ! c] = xs[c := x]"
  by (cases "c < length xs") (auto simp: list_update_beyond)

lemma parse_frame_refl [simp]: "parse_frame sf sf"
  by (simp add: parse_frame_def cur_def)

lemma parse_frame_set_cur [simp]: "parse_frame sf (set_cur st sf)"
  by (simp add: parse_frame_def set_cur_def cur_def)

lemma parse_frame_trans:
  "parse_frame sf sf1 \<Longrightarrow> parse_frame sf1 sf2 \<Longrightarrow> parse_frame sf sf2"
  unfolding parse_frame_def
  by (cases sf; cases sf1; cases sf2) (auto simp: cur_def, metis list_update_overwrite)

lemma parse_frame_counters [simp]:
  "parse_frame sf (set_cur st (sf\<lparr>sf_pos := q\<rparr>))"
  "parse_frame sf (set_cur st (sf\<lparr>stats_comment_ddx := n\<rparr>))"
  "parse_frame sf (set_cur st (sf\<lparr>stats_comment_hash := n\<rparr>))"
  by (simp_all add: parse_frame_def set_cur_def cur_def)

lemma parse_frame_pos_update [simp]: "parse_frame sf (sf\<lparr>sf_pos := q\<rparr>)"
  by (simp add: parse_frame_def cur_def)

lemma parse_frame_set_cur_trans: "parse_frame sf sf' \<Longrightarrow> parse_frame sf (set_cur st sf')"
  by (erule parse_frame_trans) simp

lemma parse_frame_sel:
  assumes "parse_frame sf sf'"
  shows "sf_s sf' = sf_s sf" "sf_slen sf' = sf_slen sf" "sf_flags sf' = sf_flags sf"
    "sf_current sf' = sf_current sf" "length (sf_tokenvec sf') = length (sf_tokenvec sf)"
    "sf_tokenvec sf' = (sf_tokenvec sf)[sf_current sf := cur sf']"
    "sf_fingerprint sf' = sf_fingerprint sf" "sf_reason sf' = sf_reason sf"
    "stats_tokens sf' = stats_tokens sf" "stats_folds sf' = stats_folds sf"
  by (subst assms [unfolded parse_frame_def], simp)+

lemma set_cur_s_update [simp]:
  "set_cur st (sf\<lparr>sf_s := m\<rparr>) = (set_cur st sf)\<lparr>sf_s := m\<rparr>"
  "cur (sf\<lparr>sf_s := m\<rparr>) = cur sf"
  by (simp_all add: set_cur_def cur_def)

lemma cur_updates [simp]:
  "cur (sf\<lparr>sf_pos := q\<rparr>) = cur sf" "cur (sf\<lparr>stats_comment_ddx := n\<rparr>) = cur sf"
  "cur (sf\<lparr>stats_comment_hash := n\<rparr>) = cur sf" "cur (sf\<lparr>stats_tokens := n\<rparr>) = cur sf"
  by (simp_all add: cur_def)

lemma s_update_last [simp]:
  "sf\<lparr>sf_s := m, sf_pos := q\<rparr> = sf\<lparr>sf_pos := q, sf_s := m\<rparr>"
  "sf\<lparr>sf_s := m, stats_comment_ddx := n\<rparr> = sf\<lparr>stats_comment_ddx := n, sf_s := m\<rparr>"
  "sf\<lparr>sf_s := m, stats_comment_hash := n\<rparr> = sf\<lparr>stats_comment_hash := n, sf_s := m\<rparr>"
  "sf\<lparr>sf_s := m, stats_tokens := n\<rparr> = sf\<lparr>stats_tokens := n, sf_s := m\<rparr>"
  by simp_all

section \<open>The parsers meet it\<close>

interpretation white: char_parser parse_white "\<lambda>_. True"
  by unfold_locales (auto simp: parse_white_def)

text \<open>
  Most parsers set the current token from the bytes at the position; for these the four laws
  follow from their definitions with the facts about the searches.
\<close>

lemmas parser_simps = Let_def token_of_assign_char token_of_assign token_of_length

interpretation operator1: char_parser parse_operator1 "\<lambda>_. True"
  by unfold_locales (auto simp: parse_operator1_def parser_simps agree_at)

interpretation other: char_parser parse_other "\<lambda>_. True"
  by unfold_locales (auto simp: parse_other_def parser_simps agree_at)

interpretation char1: char_parser parse_char "\<lambda>_. True"
  by unfold_locales (auto simp: parse_char_def parser_simps agree_at)

interpretation eol_comment: char_parser parse_eol_comment "\<lambda>_. True"
  by unfold_locales
    (auto simp: parse_eol_comment_def parser_simps agree_memchr [symmetric] agree_st_assign [symmetric]
      split: option.splits dest!: memchr_range)

lemmas eol_comment_simps = parse_eol_comment_def agree_memchr [symmetric] agree_st_assign [symmetric]

interpretation hash: char_parser parse_hash "\<lambda>c. c = CHR ''#''"
  by unfold_locales
    (auto simp: parse_hash_def parser_simps eol_comment_simps split: option.splits dest!: memchr_range)

interpretation dash: char_parser parse_dash "\<lambda>c. c = CHR ''-''"
proof unfold_locales
  fix lk and sf :: sqli_state and m
  assume "sf_pos sf < sf_slen sf" and ag: "agree (sf_slen sf) (sf_s sf) m"
  then show "parse_dash lk (sf\<lparr>sf_s := m\<rparr>) = apsnd (sf_s_update (\<lambda>_. m)) (parse_dash lk sf)"
    using agree_at [OF ag, of "sf_pos sf + 1"] agree_at [OF ag, of "sf_pos sf + 2"]
      eol_comment.local [of sf m lk]
      eol_comment.local [of "sf\<lparr>stats_comment_ddx := stats_comment_ddx sf + 1\<rparr>" m lk]
    by (auto simp: parse_dash_def Let_def)
qed (auto simp: parse_dash_def parser_simps eol_comment_simps split: option.splits dest!: memchr_range)

interpretation slash: char_parser parse_slash "\<lambda>_. True"
proof unfold_locales
  fix lk and sf :: sqli_state and m
  assume pos: "sf_pos sf < sf_slen sf" and ag: "agree (sf_slen sf) (sf_s sf) m"
  show "parse_slash lk (sf\<lparr>sf_s := m\<rparr>) = apsnd (sf_s_update (\<lambda>_. m)) (parse_slash lk sf)"
  proof (cases "sf_pos sf + 1 = sf_slen sf")
    case True
    then show ?thesis using operator1.local [OF pos _ ag] by (simp add: parse_slash_def)
  next
    case False
    with pos have in1: "sf_pos sf + 1 < sf_slen sf" by simp
    then have first: "memchr2 (sf_s sf) (sf_pos sf + 2) (sf_slen sf - (sf_pos sf + 2)) c d =
        memchr2 m (sf_pos sf + 2) (sf_slen sf - (sf_pos sf + 2)) c d" for c d
      by (intro agree_memchr2 [OF ag]) auto
    have second: "memchr2 (sf_s sf) (sf_pos sf + 2) (q - Suc (sf_pos sf)) c d =
        memchr2 m (sf_pos sf + 2) (q - Suc (sf_pos sf)) c d" if "q + 2 \<le> sf_slen sf" for q c d
      using that in1 by (intro agree_memchr2 [OF ag]) auto
    have third: "is_mysql_comment (sf_s sf) (sf_slen sf) (sf_pos sf) =
        is_mysql_comment m (sf_slen sf) (sf_pos sf)"
      by (auto simp: is_mysql_comment_def agree_at [OF ag])
    have fourth: "q + 2 \<le> sf_slen sf"
      if "memchr2 m (sf_pos sf + 2) (sf_slen sf - (sf_pos sf + 2)) c d = Some q" for q c d
      using memchr2_range [OF that] by auto
    show ?thesis
      using operator1.local [OF pos _ ag, of lk] in1 agree_at [OF ag in1] pos
      by (auto simp: parse_slash_def Let_def first second third agree_st_assign [OF ag]
          simp del: add_2_eq_Suc' memchr2.simps split: option.splits dest!: fourth)
  qed
qed (auto simp: parse_slash_def parser_simps parse_operator1_def split: option.splits
    dest!: memchr2_range)

interpretation backslash: char_parser parse_backslash "\<lambda>_. True"
  by unfold_locales
    (auto simp: parse_backslash_def parser_simps agree_at agree_st_assign [symmetric])

interpretation operator2: char_parser parse_operator2 "\<lambda>_. True"
proof unfold_locales
  fix lk and sf :: sqli_state and m
  assume pos: "sf_pos sf < sf_slen sf" and ag: "agree (sf_slen sf) (sf_s sf) m"
  show "parse_operator2 lk (sf\<lparr>sf_s := m\<rparr>) = apsnd (sf_s_update (\<lambda>_. m)) (parse_operator2 lk sf)"
    using operator1.local [OF pos _ ag, of lk] pos
    by (auto simp: parse_operator2_def Let_def agree_at [OF ag] agree_st_assign [OF ag]
        agree_bytes [OF ag] simp del: bytes.simps)
qed (auto simp: parse_operator2_def parser_simps parse_operator1_def simp del: bytes.simps)

text \<open>Strings with a delimiter: \<open>offset\<close> bytes are skipped at the front.\<close>

lemma string_core_cur_laws:
  assumes "sf_pos sf + offset \<le> sf_slen sf" "sf_pos sf < sf_slen sf"
  shows "sf_pos sf < fst (string_core_cur sf d offset) \<and> fst (string_core_cur sf d offset) \<le> sf_slen sf"
    and "sf_current sf < length (sf_tokenvec sf) \<Longrightarrow> length (tok_val (cur sf)) = TOKEN_SIZE \<Longrightarrow>
      token_of (sf_s sf) (sf_slen sf) (cur (snd (string_core_cur sf d offset)))"
    and "agree (sf_slen sf) (sf_s sf) m \<Longrightarrow>
      string_core_cur (sf\<lparr>sf_s := m\<rparr>) d offset = apsnd (sf_s_update (\<lambda>_. m)) (string_core_cur sf d offset)"
proof -
  let ?core = "\<lambda>m. parse_string_core m (sf_slen sf) (sf_pos sf) (cur sf) d offset"
  have *: "0 < sf_slen sf" using assms by simp
  show "sf_pos sf < fst (string_core_cur sf d offset) \<and> fst (string_core_cur sf d offset) \<le> sf_slen sf"
    using string_core_range [OF assms(1) * assms(2), of "sf_s sf" "cur sf" d]
    by (simp add: string_core_cur_def split_beta)
  show "token_of (sf_s sf) (sf_slen sf) (cur (snd (string_core_cur sf d offset)))"
    if "sf_current sf < length (sf_tokenvec sf)" "length (tok_val (cur sf)) = TOKEN_SIZE"
    using string_core_token [OF assms(1) that(2), of "sf_s sf" d] that(1)
    by (simp add: string_core_cur_def split_beta)
  show "string_core_cur (sf\<lparr>sf_s := m\<rparr>) d offset =
      apsnd (sf_s_update (\<lambda>_. m)) (string_core_cur sf d offset)"
    if "agree (sf_slen sf) (sf_s sf) m"
    using string_core_agree [OF that assms(1), of "cur sf" d]
    by (simp add: string_core_cur_def split_beta)
qed

lemma string_core_cur_frame [simp]: "parse_frame sf (snd (string_core_cur sf d offset))"
  by (simp add: string_core_cur_def split_beta)

interpretation string: char_parser parse_string "\<lambda>_. True"
  by unfold_locales
    (simp_all add: parse_string_def string_core_cur_laws token_of_length agree_at)

text \<open>Characters a word may start with: they do not end it, and are no dot or backtick.\<close>

definition word_start :: "char \<Rightarrow> bool" where
  "word_start c \<longleftrightarrow> \<not> c_strchr word_stop c \<and> c \<noteq> CHR ''.'' \<and> c \<noteq> CHAR_TICK"

lemma word_scan_range:
  "word_scan lk val i n = Some (ch, j) \<Longrightarrow> i \<le> j \<and> j < i + n \<and> (val ! j = CHR ''.'' \<or> val ! j = CHAR_TICK)"
proof (induction n arbitrary: i)
  case (Suc n)
  from Suc.prems consider "word_scan lk val (Suc i) n = Some (ch, j)"
    | "j = i" "val ! i = CHR ''.'' \<or> val ! i = CHAR_TICK"
    by (auto simp: Let_def split: if_splits)
  then show ?case by cases (auto dest: Suc.IH)
qed simp

lemma nth_st_assign_val: "i < min len 31 \<Longrightarrow> tok_val (st_assign st ty pos len v) ! i = v i"
  by (simp add: st_assign_val nth_append)

interpretation word: char_parser parse_word word_start
proof unfold_locales
  fix lk and sf :: sqli_state
  assume pos: "sf_pos sf < sf_slen sf" and start: "word_start (sf_s sf (sf_pos sf))"
  define wlen where "wlen = strlencspn (sf_s sf) (sf_pos sf) (sf_slen sf - sf_pos sf) word_stop"
  define st where "st = st_assign (cur sf) TYPE_BAREWORD (sf_pos sf) wlen (ptr (sf_s sf) (sf_pos sf))"
  have wlen: "0 < wlen" "sf_pos sf + wlen \<le> sf_slen sf"
    using pos start strlencspn_le [of "sf_s sf" "sf_pos sf" "sf_slen sf - sf_pos sf" word_stop]
    by (auto simp: wlen_def word_start_def intro: strlencspn_pos)
  have scan: "0 < i \<and> i < wlen" if "word_scan lk (tok_val st) 0 (tok_len st) = Some (ch, i)" for ch i
  proof -
    from word_scan_range [OF that] have i: "i < min wlen 31"
      "tok_val st ! i = CHR ''.'' \<or> tok_val st ! i = CHAR_TICK" by (auto simp: st_def)
    moreover have "tok_val st ! i = sf_s sf (sf_pos sf + i)"
      using i(1) by (simp add: st_def nth_st_assign_val)
    ultimately show ?thesis using start by (cases "i = 0") (auto simp: word_start_def)
  qed
  have word: "parse_word lk sf = (case word_scan lk (tok_val st) 0 (tok_len st) of
      Some (ch, i) \<Rightarrow> (sf_pos sf + i,
        set_cur (st_assign (st_clear st) ch (sf_pos sf) i (ptr (sf_s sf) (sf_pos sf))) sf)
    | None \<Rightarrow> (sf_pos sf + wlen, set_cur
        (if wlen < TOKEN_SIZE then
           let ch = lk LOOKUP_WORD (take wlen (tok_val st)) in
           st\<lparr>tok_type := (if ch = NUL then TYPE_BAREWORD else ch)\<rparr> else st) sf))"
    by (simp only: parse_word_def Let_def wlen_def st_def)
  show "sf_pos sf < fst (parse_word lk sf) \<and> fst (parse_word lk sf) \<le> sf_slen sf"
    using wlen by (auto simp: word split: option.splits dest!: scan)
  show "token_of (sf_s sf) (sf_slen sf) (cur (snd (parse_word lk sf)))"
    if "sf_current sf < length (sf_tokenvec sf)" "token_of (sf_s sf) (sf_slen sf) (cur sf)"
  proof -
    have "token_of (sf_s sf) (sf_slen sf) st"
      using that wlen by (simp add: st_def token_of_assign token_of_length)
    then show ?thesis
      using that wlen token_of_length [OF token_of_zero]
      by (auto simp: word Let_def st_clear_def token_of_assign split: option.splits dest!: scan)
  qed
next
  fix lk and sf :: sqli_state and m
  assume pos: "sf_pos sf < sf_slen sf" and ag: "agree (sf_slen sf) (sf_s sf) m"
  have eq: "strlencspn (sf_s sf) (sf_pos sf) (sf_slen sf - sf_pos sf) word_stop =
      strlencspn m (sf_pos sf) (sf_slen sf - sf_pos sf) word_stop"
    using pos by (intro agree_strlencspn [OF ag]) auto
  define wlen where "wlen = strlencspn m (sf_pos sf) (sf_slen sf - sf_pos sf) word_stop"
  have wlen: "sf_pos sf + wlen \<le> sf_slen sf"
    using pos strlencspn_le [of m "sf_pos sf" "sf_slen sf - sf_pos sf" word_stop]
    by (auto simp: wlen_def)
  define st where "st = st_assign (cur sf) TYPE_BAREWORD (sf_pos sf) wlen (ptr m (sf_pos sf))"
  have st: "st_assign (cur sf) TYPE_BAREWORD (sf_pos sf) wlen (ptr (sf_s sf) (sf_pos sf)) = st"
    unfolding st_def using wlen by (intro agree_st_assign [OF ag]) auto
  have scan: "i < wlen" if "word_scan lk (tok_val st) 0 (min wlen 31) = Some (ch, i)" for ch i
    using word_scan_range [OF that] by auto
  show "parse_word lk (sf\<lparr>sf_s := m\<rparr>) = apsnd (sf_s_update (\<lambda>_. m)) (parse_word lk sf)"
    using wlen
    by (auto simp: parse_word_def Let_def eq wlen_def [symmetric] st st_def [symmetric]
        agree_st_assign [OF ag] split: option.splits dest!: scan)
qed (simp add: parse_word_def Let_def split: option.splits)

lemma parse_word_frame [simp]: "parse_frame sf (snd (parse_word lk sf))"
  by (rule word.frame)

interpretation estring: char_parser parse_estring word_start
  by unfold_locales
    (auto simp: parse_estring_def Let_def word.progress word.token word.local string_core_cur_laws
      token_of_length agree_at)

interpretation bword: char_parser parse_bword "\<lambda>_. True"
  by unfold_locales
    (auto simp: parse_bword_def parser_simps agree_memchr [symmetric] agree_st_assign [symmetric]
      split: option.splits dest!: memchr_range)

lemma parse_digit_string_parser: "char_parser (parse_digit_string digits) word_start"
proof unfold_locales
  fix lk and sf :: sqli_state and m
  assume pos: "sf_pos sf < sf_slen sf" and start: "word_start (sf_s sf (sf_pos sf))"
  then show "sf_pos sf < fst (parse_digit_string digits lk sf) \<and>
      fst (parse_digit_string digits lk sf) \<le> sf_slen sf"
    using word.progress [OF pos start, of lk] by (auto simp: parse_digit_string_def Let_def)
  show "token_of (sf_s sf) (sf_slen sf) (cur (snd (parse_digit_string digits lk sf)))"
    if "sf_current sf < length (sf_tokenvec sf)" "token_of (sf_s sf) (sf_slen sf) (cur sf)"
    using that word.token [OF pos start that] by (auto simp: parse_digit_string_def parser_simps)
  assume ag: "agree (sf_slen sf) (sf_s sf) m"
  show "parse_digit_string digits lk (sf\<lparr>sf_s := m\<rparr>) =
      apsnd (sf_s_update (\<lambda>_. m)) (parse_digit_string digits lk sf)"
  proof (cases "sf_pos sf + 2 \<ge> sf_slen sf")
    case True
    then show ?thesis using word.local [OF pos start ag] by (simp add: parse_digit_string_def Let_def)
  next
    case False
    then have "strlenspn (sf_s sf) (sf_pos sf + 2) (sf_slen sf - sf_pos sf - 2) digits =
        strlenspn m (sf_pos sf + 2) (sf_slen sf - sf_pos sf - 2) digits"
      by (intro agree_strlenspn [OF ag]) auto
    with False show ?thesis
      using word.local [OF pos start ag]
      by (auto simp: parse_digit_string_def Let_def agree_at [OF ag] agree_st_assign [OF ag])
  qed
qed (simp add: parse_digit_string_def Let_def)

interpretation bstring: char_parser parse_bstring word_start
  unfolding parse_bstring_def by (rule parse_digit_string_parser)

interpretation xstring: char_parser parse_xstring word_start
  unfolding parse_xstring_def by (rule parse_digit_string_parser)

lemma tick_laws:
  assumes "sf_pos sf < sf_slen sf"
  shows "sf_pos sf < fst (parse_tick lk sf) \<and> fst (parse_tick lk sf) \<le> sf_slen sf"
    and "sf_current sf < length (sf_tokenvec sf) \<Longrightarrow> length (tok_val (cur sf)) = TOKEN_SIZE \<Longrightarrow>
      token_of (sf_s sf) (sf_slen sf) (cur (snd (parse_tick lk sf)))"
    and "agree (sf_slen sf) (sf_s sf) m \<Longrightarrow>
      parse_tick lk (sf\<lparr>sf_s := m\<rparr>) = apsnd (sf_s_update (\<lambda>_. m)) (parse_tick lk sf)"
proof -
  have le: "sf_pos sf + 1 \<le> sf_slen sf" using assms by simp
  note laws = string_core_cur_laws [OF le assms]
  have fr: "parse_frame sf (snd (string_core_cur sf CHAR_TICK 1))" by simp
  note sel = parse_frame_sel [OF fr]
  show "sf_pos sf < fst (parse_tick lk sf) \<and> fst (parse_tick lk sf) \<le> sf_slen sf"
    using laws(1) [of CHAR_TICK] by (simp add: parse_tick_def split_beta Let_def)
  show "token_of (sf_s sf) (sf_slen sf) (cur (snd (parse_tick lk sf)))"
    if "sf_current sf < length (sf_tokenvec sf)" "length (tok_val (cur sf)) = TOKEN_SIZE"
    using laws(2) [OF that, of CHAR_TICK] that sel
    by (simp add: parse_tick_def split_beta Let_def)
  show "parse_tick lk (sf\<lparr>sf_s := m\<rparr>) = apsnd (sf_s_update (\<lambda>_. m)) (parse_tick lk sf)"
    if "agree (sf_slen sf) (sf_s sf) m"
    using laws(3) [OF that, of CHAR_TICK]
    by (simp add: parse_tick_def split_beta Let_def)
qed

lemma parse_tick_frame [simp]: "parse_frame sf (snd (parse_tick lk sf))"
  by (simp add: parse_tick_def split_beta Let_def parse_frame_set_cur_trans)

interpretation tick: char_parser parse_tick "\<lambda>_. True"
  by unfold_locales (simp_all add: tick_laws token_of_length)

interpretation ustring: char_parser parse_ustring word_start
proof unfold_locales
  fix lk and sf :: sqli_state and m
  let ?sf1 = "sf\<lparr>sf_pos := sf_pos sf + 2\<rparr>"
  note sel = parse_frame_sel [OF string.frame [of ?sf1 lk]]
  show "parse_frame sf (snd (parse_ustring lk sf))"
    using string.frame [of ?sf1 lk] parse_frame_trans [OF parse_frame_pos_update]
    by (auto simp: parse_ustring_def Let_def split_beta intro!: parse_frame_set_cur_trans)
  assume pos: "sf_pos sf < sf_slen sf" and start: "word_start (sf_s sf (sf_pos sf))"
  show "sf_pos sf < fst (parse_ustring lk sf) \<and> fst (parse_ustring lk sf) \<le> sf_slen sf"
    using word.progress [OF pos start, of lk] string.progress [of ?sf1 lk]
    by (auto simp: parse_ustring_def Let_def split_beta)
  show "token_of (sf_s sf) (sf_slen sf) (cur (snd (parse_ustring lk sf)))"
    if "sf_current sf < length (sf_tokenvec sf)" "token_of (sf_s sf) (sf_slen sf) (cur sf)"
    using word.token [OF pos start that] string.token [of ?sf1 lk] that sel
    by (auto simp: parse_ustring_def Let_def split_beta)
  assume ag: "agree (sf_slen sf) (sf_s sf) m"
  show "parse_ustring lk (sf\<lparr>sf_s := m\<rparr>) = apsnd (sf_s_update (\<lambda>_. m)) (parse_ustring lk sf)"
    using word.local [OF pos start ag, of lk] string.local [of ?sf1 m lk] ag
    by (auto simp: parse_ustring_def Let_def split_beta agree_at [OF ag])
qed

lemma qstring_core_parser:
  "char_parser (\<lambda>lk sf. parse_qstring_core lk sf offset) word_start"
proof unfold_locales
  fix lk and sf :: sqli_state and m
  assume pos: "sf_pos sf < sf_slen sf" and start: "word_start (sf_s sf (sf_pos sf))"
  show "sf_pos sf < fst (parse_qstring_core lk sf offset) \<and>
      fst (parse_qstring_core lk sf offset) \<le> sf_slen sf"
    using word.progress [OF pos start, of lk]
    by (auto simp: parse_qstring_core_def Let_def split: option.splits dest!: memchr2_range)
  show "token_of (sf_s sf) (sf_slen sf) (cur (snd (parse_qstring_core lk sf offset)))"
    if "sf_current sf < length (sf_tokenvec sf)" "token_of (sf_s sf) (sf_slen sf) (cur sf)"
    using word.token [OF pos start that, of lk] that
    by (auto simp: parse_qstring_core_def parser_simps split: option.splits dest!: memchr2_range)
  assume ag: "agree (sf_slen sf) (sf_s sf) m"
  show "parse_qstring_core lk (sf\<lparr>sf_s := m\<rparr>) offset =
      apsnd (sf_s_update (\<lambda>_. m)) (parse_qstring_core lk sf offset)"
    using word.local [OF pos start ag, of lk]
    by (auto simp: parse_qstring_core_def Let_def agree_at [OF ag] agree_memchr2 [OF ag]
        agree_st_assign [OF ag] split: option.splits dest!: memchr2_range)
qed (simp add: parse_qstring_core_def Let_def split: option.splits)

interpretation qstring: char_parser parse_qstring word_start
proof -
  have "parse_qstring = (\<lambda>lk sf. parse_qstring_core lk sf 0)"
    by (intro ext) (simp add: parse_qstring_def)
  then show "char_parser parse_qstring word_start" by (rule ssubst) (rule qstring_core_parser)
qed

interpretation qstring1: char_parser "\<lambda>lk sf. parse_qstring_core lk sf (Suc 0)" word_start
  by (rule qstring_core_parser)

interpretation nqstring: char_parser parse_nqstring word_start
proof unfold_locales
  fix lk and sf :: sqli_state and m
  assume pos: "sf_pos sf < sf_slen sf" and start: "word_start (sf_s sf (sf_pos sf))"
    and ag: "agree (sf_slen sf) (sf_s sf) m"
  have "sf_pos sf + 2 < sf_slen sf \<and> sf_s sf (sf_pos sf + 1) = CHAR_SINGLE \<longleftrightarrow>
      sf_pos sf + 2 < sf_slen sf \<and> m (sf_pos sf + 1) = CHAR_SINGLE"
    using agree_at [OF ag, of "sf_pos sf + 1"] by auto
  then show "parse_nqstring lk (sf\<lparr>sf_s := m\<rparr>) = apsnd (sf_s_update (\<lambda>_. m)) (parse_nqstring lk sf)"
    using estring.local [OF pos start ag, of lk] qstring1.local [OF pos start ag, of lk]
    by (simp add: parse_nqstring_def Let_def)
qed (simp_all add: parse_nqstring_def Let_def estring.progress estring.token
    estring.frame qstring1.progress qstring1.token qstring1.frame)

end
