(* ===== verification/Sqli_Dispatch.thy ===== *)
theory Sqli_Dispatch
  imports Sqli_Parser_Contract
begin

text \<open>
  \<open>parse_var\<close> delegates to the tick and string parsers from a later position, with the count
  of the at-signs already in the token.
\<close>

lemma parse_var_name_frame [simp]: "parse_frame sf (snd (parse_var_name q lk sf))"
  using parse_frame_trans [OF parse_frame_pos_update parse_tick_frame [of _ lk], of sf q]
    parse_frame_trans [OF parse_frame_pos_update string.frame [of _ lk], of sf q]
  by (auto simp: parse_var_name_def Let_def split_beta intro: parse_frame_set_cur_trans)

lemma parse_var_name_range:
  assumes "q \<le> sf_slen sf"
  shows "q \<le> fst (parse_var_name q lk sf) \<and> fst (parse_var_name q lk sf) \<le> sf_slen sf"
  using tick.progress [of "sf\<lparr>sf_pos := q\<rparr>" lk] string.progress [of "sf\<lparr>sf_pos := q\<rparr>" lk] assms
    strlencspn_le [of "sf_s sf" q "sf_slen sf - q" var_stop]
  by (auto simp: parse_var_name_def Let_def split_beta)

lemma parse_var_name_token:
  assumes "q \<le> sf_slen sf" and "sf_current sf < length (sf_tokenvec sf)"
    and "token_of (sf_s sf) (sf_slen sf) (cur sf)"
  shows "token_of (sf_s sf) (sf_slen sf) (cur (snd (parse_var_name q lk sf)))"
  using tick.token [of "sf\<lparr>sf_pos := q\<rparr>" lk] string.token [of "sf\<lparr>sf_pos := q\<rparr>" lk] assms
    strlencspn_le [of "sf_s sf" q "sf_slen sf - q" var_stop]
    parse_frame_sel [OF parse_tick_frame [of "sf\<lparr>sf_pos := q\<rparr>" lk]]
    parse_frame_sel [OF string.frame [of "sf\<lparr>sf_pos := q\<rparr>" lk]]
  by (auto simp: parse_var_name_def Let_def split_beta token_of_assign token_of_length)

lemma parse_var_name_plain:
  assumes "\<not> (q < sf_slen sf \<and> sf_s sf q \<in> {CHAR_TICK, CHAR_SINGLE, CHAR_DOUBLE})"
  shows "parse_var_name q lk sf =
    (let xlen = strlencspn (sf_s sf) q (sf_slen sf - q) var_stop
     in (q + xlen, set_cur (st_assign (cur sf) TYPE_VARIABLE q xlen (ptr (sf_s sf) q)) sf))"
  using assms unfolding parse_var_name_def Let_def by auto

lemma parse_var_name_local:
  assumes q: "q \<le> sf_slen sf" and ag: "agree (sf_slen sf) (sf_s sf) m"
  shows "parse_var_name q lk (sf\<lparr>sf_s := m\<rparr>) = apsnd (sf_s_update (\<lambda>_. m)) (parse_var_name q lk sf)"
proof -
  have span: "strlencspn m q (sf_slen sf - q) var_stop = strlencspn (sf_s sf) q (sf_slen sf - q) var_stop"
    using q by (intro agree_strlencspn [OF ag, symmetric]) auto
  have le: "q + strlencspn (sf_s sf) q (sf_slen sf - q) var_stop \<le> sf_slen sf"
    using strlencspn_le [of "sf_s sf" q "sf_slen sf - q" var_stop] q by linarith
  have assign: "st_assign st ty q n (ptr m q) = st_assign st ty q n (ptr (sf_s sf) q)"
    if "q + n \<le> sf_slen sf" for st ty n
    using agree_st_assign [OF ag that] by simp
  have char_eq: "q < sf_slen sf \<Longrightarrow> m q = sf_s sf q"
    using agree_at [OF ag] by simp
  consider (tick) "q < sf_slen sf" "sf_s sf q = CHAR_TICK"
    | (string) "q < sf_slen sf" "sf_s sf q \<noteq> CHAR_TICK" "sf_s sf q = CHAR_SINGLE \<or> sf_s sf q = CHAR_DOUBLE"
    | (name) "\<not> (q < sf_slen sf \<and> sf_s sf q = CHAR_TICK)"
      "\<not> (q < sf_slen sf \<and> (sf_s sf q = CHAR_SINGLE \<or> sf_s sf q = CHAR_DOUBLE))"
    by auto
  then show ?thesis
  proof cases
    case tick
    then show ?thesis
      using tick.local [of "sf\<lparr>sf_pos := q\<rparr>" m lk] ag char_eq
      by (simp add: parse_var_name_def split_beta)
  next
    case string
    then show ?thesis
      using string.local [of "sf\<lparr>sf_pos := q\<rparr>" m lk] ag char_eq
      by (simp add: parse_var_name_def split_beta)
  next
    case name
    then have plain: "\<not> (q < sf_slen sf \<and> sf_s sf q \<in> {CHAR_TICK, CHAR_SINGLE, CHAR_DOUBLE})"
      "\<not> (q < sf_slen sf \<and> m q \<in> {CHAR_TICK, CHAR_SINGLE, CHAR_DOUBLE})"
      using char_eq by auto
    show ?thesis
      using parse_var_name_plain [OF plain(1)] parse_var_name_plain [of q "sf\<lparr>sf_s := m\<rparr>"] plain(2)
        assign [OF le]
      by (simp add: span Let_def)
  qed
qed

interpretation var: char_parser parse_var "\<lambda>_. True"
proof unfold_locales
  fix lk and sf :: sqli_state and m
  define two where "two = (sf_pos sf + 1 < sf_slen sf \<and> sf_s sf (sf_pos sf + 1) = CHR ''@'')"
  define q where "q = (if two then sf_pos sf + 1 + 1 else sf_pos sf + 1)"
  define sf1 where "sf1 = set_cur ((cur sf)\<lparr>tok_count := (if two then 2 else 1)\<rparr>) sf"
  have var: "parse_var lk sf = parse_var_name q lk sf1"
    unfolding parse_var_def Let_def q_def sf1_def two_def ..
  have fr: "parse_frame sf sf1" by (simp add: sf1_def)
  note sf1 = parse_frame_sel [OF fr]
  show "parse_frame sf (snd (parse_var lk sf))"
    unfolding var by (rule parse_frame_trans [OF fr]) simp
  assume pos: "sf_pos sf < sf_slen sf"
  then have q: "sf_pos sf < q" "q \<le> sf_slen sf1" by (auto simp: q_def two_def sf1)
  show "sf_pos sf < fst (parse_var lk sf) \<and> fst (parse_var lk sf) \<le> sf_slen sf"
    unfolding var using parse_var_name_range [OF q(2), of lk] q(1) sf1 by auto
  show "token_of (sf_s sf) (sf_slen sf) (cur (snd (parse_var lk sf)))"
    if cur: "sf_current sf < length (sf_tokenvec sf)" and tok: "token_of (sf_s sf) (sf_slen sf) (cur sf)"
  proof -
    have "token_of (sf_s sf1) (sf_slen sf1) (cur sf1)"
      using cur tok by (simp add: sf1_def)
    then show ?thesis
      unfolding var using parse_var_name_token [OF q(2), of lk] cur by (simp add: sf1)
  qed
  assume ag: "agree (sf_slen sf) (sf_s sf) m"
  have "two = (sf_pos sf + 1 < sf_slen sf \<and> m (sf_pos sf + 1) = CHR ''@'')"
    using agree_at [OF ag] by (auto simp: two_def)
  then have "parse_var lk (sf\<lparr>sf_s := m\<rparr>) = parse_var_name q lk (sf1\<lparr>sf_s := m\<rparr>)"
    unfolding parse_var_def Let_def q_def sf1_def by simp
  then show "parse_var lk (sf\<lparr>sf_s := m\<rparr>) = apsnd (sf_s_update (\<lambda>_. m)) (parse_var lk sf)"
    unfolding var using parse_var_name_local [OF q(2), of m lk] ag by (simp add: sf1)
qed

section \<open>Money and numbers\<close>

lemma dollar_dollar_laws:
  assumes "sf_pos sf + 2 \<le> sf_slen sf"
  shows "sf_pos sf < fst (parse_dollar_dollar lk sf) \<and> fst (parse_dollar_dollar lk sf) \<le> sf_slen sf"
    and "sf_current sf < length (sf_tokenvec sf) \<Longrightarrow> length (tok_val (cur sf)) = TOKEN_SIZE \<Longrightarrow>
      token_of (sf_s sf) (sf_slen sf) (cur (snd (parse_dollar_dollar lk sf)))"
    and "agree (sf_slen sf) (sf_s sf) m \<Longrightarrow> parse_dollar_dollar lk (sf\<lparr>sf_s := m\<rparr>) =
      apsnd (sf_s_update (\<lambda>_. m)) (parse_dollar_dollar lk sf)"
proof -
  show "sf_pos sf < fst (parse_dollar_dollar lk sf) \<and> fst (parse_dollar_dollar lk sf) \<le> sf_slen sf"
    using assms by (auto simp: parse_dollar_dollar_def Let_def split: option.splits dest!: memchr2_range)
  show "token_of (sf_s sf) (sf_slen sf) (cur (snd (parse_dollar_dollar lk sf)))"
    if "sf_current sf < length (sf_tokenvec sf)" "length (tok_val (cur sf)) = TOKEN_SIZE"
    using assms that
    by (auto simp: parse_dollar_dollar_def parser_simps split: option.splits dest!: memchr2_range)
  show "parse_dollar_dollar lk (sf\<lparr>sf_s := m\<rparr>) =
      apsnd (sf_s_update (\<lambda>_. m)) (parse_dollar_dollar lk sf)"
    if ag: "agree (sf_slen sf) (sf_s sf) m"
  proof -
    have eq: "memchr2 m (sf_pos sf + 2) (sf_slen sf - (sf_pos sf + 2)) c d =
        memchr2 (sf_s sf) (sf_pos sf + 2) (sf_slen sf - (sf_pos sf + 2)) c d" for c d
      using assms by (intro agree_memchr2 [OF ag, symmetric]) auto
    have assign: "st_assign st ty p n (ptr m p) = st_assign st ty p n (ptr (sf_s sf) p)"
      if "p + n \<le> sf_slen sf" for st ty p n
      using agree_st_assign [OF ag that] by simp
    show ?thesis
      using assms
      by (auto simp del: add_2_eq_Suc' memchr2.simps simp: parse_dollar_dollar_def Let_def eq assign
          split: option.splits dest!: memchr2_range)
  qed
qed

lemma dollar_dollar_frame [simp]: "parse_frame sf (snd (parse_dollar_dollar lk sf))"
  by (simp add: parse_dollar_dollar_def Let_def split: option.splits)

lemma dollar_tag_laws:
  assumes "sf_pos sf + xlen + 2 \<le> sf_slen sf"
  shows "sf_pos sf < fst (parse_dollar_tag xlen lk sf) \<and> fst (parse_dollar_tag xlen lk sf) \<le> sf_slen sf"
    and "sf_current sf < length (sf_tokenvec sf) \<Longrightarrow> length (tok_val (cur sf)) = TOKEN_SIZE \<Longrightarrow>
      token_of (sf_s sf) (sf_slen sf) (cur (snd (parse_dollar_tag xlen lk sf)))"
    and "agree (sf_slen sf) (sf_s sf) m \<Longrightarrow> parse_dollar_tag xlen lk (sf\<lparr>sf_s := m\<rparr>) =
      apsnd (sf_s_update (\<lambda>_. m)) (parse_dollar_tag xlen lk sf)"
proof -
  define needle where "needle = bytes (sf_s sf) (sf_pos sf) (xlen + 2)"
  define found where "found = my_memmem (sf_s sf) (xlen + 2) needle (sf_slen sf - (sf_pos sf + xlen + 2))"
  have found: "q + xlen + 2 \<le> sf_slen sf" if "found = Some q" for q
    using my_memmem_range [OF that [unfolded found_def]] assms by (auto simp: needle_def)
  note tag = parse_dollar_tag_def [of xlen lk sf, unfolded Let_def, folded needle_def, folded found_def]
  show "sf_pos sf < fst (parse_dollar_tag xlen lk sf) \<and> fst (parse_dollar_tag xlen lk sf) \<le> sf_slen sf"
    using assms by (auto simp: tag split: option.splits dest!: found)
  show "token_of (sf_s sf) (sf_slen sf) (cur (snd (parse_dollar_tag xlen lk sf)))"
    if "sf_current sf < length (sf_tokenvec sf)" "length (tok_val (cur sf)) = TOKEN_SIZE"
    using assms that by (auto simp: tag parser_simps split: option.splits dest!: found)
  show "parse_dollar_tag xlen lk (sf\<lparr>sf_s := m\<rparr>) =
      apsnd (sf_s_update (\<lambda>_. m)) (parse_dollar_tag xlen lk sf)"
    if ag: "agree (sf_slen sf) (sf_s sf) m"
  proof -
    have bytes: "bytes m (sf_pos sf) (xlen + 2) = needle"
      unfolding needle_def using assms by (intro agree_bytes [OF ag, symmetric]) auto
    have eq: "my_memmem m (xlen + 2) needle (sf_slen sf - (sf_pos sf + xlen + 2)) = found"
      unfolding found_def using assms
      by (intro agree_my_memmem [OF ag, symmetric]) (auto simp: needle_def)
    have assign: "st_assign st ty p n (ptr m p) = st_assign st ty p n (ptr (sf_s sf) p)"
      if "p + n \<le> sf_slen sf" for st ty p n
      using agree_st_assign [OF ag that] by simp
    note tag' = parse_dollar_tag_def [of xlen lk "sf\<lparr>sf_s := m\<rparr>", unfolded Let_def]
    show ?thesis
      using assms
      by (auto simp del: add_2_eq_Suc' simp: tag tag' bytes eq assign split: option.splits dest!: found)
  qed
qed

lemma dollar_tag_frame [simp]: "parse_frame sf (snd (parse_dollar_tag xlen lk sf))"
  by (simp add: parse_dollar_tag_def Let_def split: option.splits)

interpretation money: char_parser parse_money "\<lambda>c. c = CHR ''$''"
proof unfold_locales
  fix lk and sf :: sqli_state and m
  assume pos: "sf_pos sf < sf_slen sf" and start: "sf_s sf (sf_pos sf) = CHR ''$''"
  then have word_start: "word_start (sf_s sf (sf_pos sf))"
    by (simp add: word_start_def word_stop_def c_strchr_def)
  have span: "sf_pos sf + 1 + strlenspn (sf_s sf) (sf_pos sf + 1) (sf_slen sf - sf_pos sf - 1) a \<le> sf_slen sf" for a
    using strlenspn_le [of "sf_s sf" "sf_pos sf + 1" "sf_slen sf - sf_pos sf - 1" a] pos by linarith
  then have span_Suc: "Suc (sf_pos sf + strlenspn (sf_s sf) (Suc (sf_pos sf)) (sf_slen sf - Suc (sf_pos sf)) a) \<le> sf_slen sf" for a
    by simp
  note dd = dollar_dollar_laws [of sf] and tag = dollar_tag_laws [of sf]
  show "sf_pos sf < fst (parse_money lk sf) \<and> fst (parse_money lk sf) \<le> sf_slen sf"
    using pos span_Suc [of letters] span_Suc [of money_chars] dd(1) [of lk]
      tag(1) [of _ lk] word.progress [OF pos word_start, of lk]
    by (auto simp: parse_money_def Let_def)
  show "token_of (sf_s sf) (sf_slen sf) (cur (snd (parse_money lk sf)))"
    if "sf_current sf < length (sf_tokenvec sf)" "token_of (sf_s sf) (sf_slen sf) (cur sf)"
    using pos span_Suc [of letters] span_Suc [of money_chars] dd(2) [of lk] start that
      tag(2) [of _ lk] word.token [OF pos word_start that, of lk]
    by (auto simp: parse_money_def parser_simps)
  assume ag: "agree (sf_slen sf) (sf_s sf) m"
  have eq: "strlenspn m (Suc (sf_pos sf)) (sf_slen sf - Suc (sf_pos sf)) a =
      strlenspn (sf_s sf) (Suc (sf_pos sf)) (sf_slen sf - Suc (sf_pos sf)) a" for a
    using pos by (intro agree_strlenspn [OF ag, symmetric]) auto
  show "parse_money lk (sf\<lparr>sf_s := m\<rparr>) = apsnd (sf_s_update (\<lambda>_. m)) (parse_money lk sf)"
    using pos span_Suc [of letters] span_Suc [of money_chars] dd(3) [OF _ ag, of lk]
      tag(3) [OF _ ag, of _ lk] word.local [OF pos word_start ag, of lk]
    by (auto simp: parse_money_def Let_def eq agree_at [OF ag] agree_st_assign [OF ag])
qed (simp add: parse_money_def Let_def)

lemma number_exponent_range:
  "p \<le> slen \<Longrightarrow> p \<le> fst (number_exponent cs slen p) \<and> fst (number_exponent cs slen p) \<le> slen"
  using skip_digits_range [of "p + 1" cs "slen - (p + 1)"] skip_digits_range [of "p + 2" cs "slen - (p + 2)"]
  by (auto simp: number_exponent_def Let_def)

lemma number_suffix_range:
  "p \<le> slen \<Longrightarrow> p \<le> number_suffix cs slen p \<and> number_suffix cs slen p \<le> slen"
  by (auto simp: number_suffix_def)

lemma number_exponent_agree:
  assumes "agree slen cs m" "p \<le> slen"
  shows "number_exponent m slen p = number_exponent cs slen p"
proof -
  have "skip_digits m q (slen - q) = skip_digits cs q (slen - q)" if "q \<le> slen" for q
    using that by (intro agree_skip_digits [OF assms(1), symmetric]) auto
  then show ?thesis
    using assms(2) by (auto simp: number_exponent_def Let_def agree_at [OF assms(1), symmetric])
qed

lemma number_suffix_agree: "agree slen cs m \<Longrightarrow> number_suffix m slen p = number_suffix cs slen p"
  by (auto simp: number_suffix_def agree_at [symmetric])

lemma number_prefix_agree: "agree slen cs m \<Longrightarrow> p < slen \<Longrightarrow> number_prefix m slen p = number_prefix cs slen p"
  by (auto simp: number_prefix_def agree_at [symmetric])

lemma number_prefix_range: "number_prefix cs slen p = Some digits \<Longrightarrow> p + 2 \<le> slen"
  by (auto simp: number_prefix_def split: if_splits)

text \<open>A number starts with a digit or a dot.\<close>

definition number_start :: "char \<Rightarrow> bool" where
  "number_start c \<longleftrightarrow> ISDIGIT c \<or> c = CHR ''.''"

text \<open>The end of a number without prefix, and whether it is a lone dot.\<close>

lemma number_mantissa:
  assumes "p < slen" "number_start (cs p)"
  defines "p1 \<equiv> skip_digits cs p (slen - p)"
  defines "dot \<equiv> p1 < slen \<and> cs p1 = CHR ''.''"
  defines "p2 \<equiv> (if dot then skip_digits cs (p1 + 1) (slen - (p1 + 1)) else p1)"
  shows "p < p2" "p2 \<le> slen" "dot \<Longrightarrow> p2 - p = 1 \<Longrightarrow> cs p = CHR ''.''"
proof -
  have p1: "p \<le> p1" "p1 \<le> slen"
    using skip_digits_range [of p cs "slen - p"] assms(1) by (auto simp: p1_def)
  have "p < p1 \<or> dot"
    using assms(1,2) skip_digits_Suc [of "slen - p" cs p] p1
    by (auto simp: number_start_def dot_def p1_def ISDIGIT_def)
  then show "p < p2" "p2 \<le> slen"
    using p1 skip_digits_range [of "p1 + 1" cs "slen - (p1 + 1)"]
    by (auto simp: p2_def dot_def)
  assume "dot" "p2 - p = 1"
  then have "p1 = p"
    using p1 skip_digits_range [of "p1 + 1" cs "slen - (p1 + 1)"] by (auto simp: p2_def)
  with \<open>dot\<close> show "cs p = CHR ''.''" by (simp add: dot_def)
qed

interpretation number: char_parser parse_number number_start
proof unfold_locales
  fix lk and sf :: sqli_state and m
  define p1 where "p1 = skip_digits (sf_s sf) (sf_pos sf) (sf_slen sf - sf_pos sf)"
  define dot where "dot = (p1 < sf_slen sf \<and> sf_s sf p1 = CHR ''.'')"
  define p2 where "p2 = (if dot then skip_digits (sf_s sf) (p1 + 1) (sf_slen sf - (p1 + 1)) else p1)"
  obtain p3 have_e have_exp where e: "number_exponent (sf_s sf) (sf_slen sf) p2 = (p3, have_e, have_exp)"
    by (metis prod_cases3)
  define p4 where "p4 = number_suffix (sf_s sf) (sf_slen sf) p3"
  note number = parse_number_def [of lk sf, unfolded Let_def, folded p1_def, folded dot_def,
      folded p2_def, unfolded e prod.case, folded p4_def]
  assume pos: "sf_pos sf < sf_slen sf" and start: "number_start (sf_s sf (sf_pos sf))"
  note p2 = number_mantissa [of "sf_pos sf" "sf_slen sf" "sf_s sf", OF pos start, folded p1_def, folded dot_def, folded p2_def]
  have p4: "p2 \<le> p4" "p4 \<le> sf_slen sf"
    using number_exponent_range [OF p2(2), of "sf_s sf"] number_suffix_range [of p3 "sf_slen sf" "sf_s sf"]
    by (auto simp: e p4_def)
  have hex: "sf_pos sf + 2 + strlenspn (sf_s sf) (sf_pos sf + 2) (sf_slen sf - sf_pos sf - 2) a \<le> sf_slen sf"
    if "sf_pos sf + 2 \<le> sf_slen sf" for a
    using strlenspn_le [of "sf_s sf" "sf_pos sf + 2" "sf_slen sf - sf_pos sf - 2" a] that by linarith
  show "sf_pos sf < fst (parse_number lk sf) \<and> fst (parse_number lk sf) \<le> sf_slen sf"
    using p2 p4 hex by (auto simp: number split: option.splits dest: number_prefix_range)
  show "token_of (sf_s sf) (sf_slen sf) (cur (snd (parse_number lk sf)))"
    if "sf_current sf < length (sf_tokenvec sf)" "token_of (sf_s sf) (sf_slen sf) (cur sf)"
    using p2(1,2) p2(3) [symmetric] p4 hex that pos
    by (auto simp: number token_of_assign token_of_assign_char token_of_length
        split: option.splits dest: number_prefix_range)
  assume ag: "agree (sf_slen sf) (sf_s sf) m"
  have digits: "skip_digits m q (sf_slen sf - q) = skip_digits (sf_s sf) q (sf_slen sf - q)"
    if "q \<le> sf_slen sf" for q
    using that by (intro agree_skip_digits [OF ag, symmetric]) auto
  have p1: "skip_digits m (sf_pos sf) (sf_slen sf - sf_pos sf) = p1" "p1 \<le> sf_slen sf"
    using digits [of "sf_pos sf"] pos skip_digits_range [of "sf_pos sf" "sf_s sf" "sf_slen sf - sf_pos sf"]
    by (auto simp: p1_def)
  have dot: "(p1 < sf_slen sf \<and> m p1 = CHR ''.'') = dot"
    by (auto simp: dot_def agree_at [OF ag])
  have p2': "(if dot then skip_digits m (p1 + 1) (sf_slen sf - (p1 + 1)) else p1) = p2"
    using digits [of "p1 + 1"] by (auto simp: p2_def dot_def)
  have assign: "st_assign st ty (sf_pos sf) n (ptr m (sf_pos sf)) =
      st_assign st ty (sf_pos sf) n (ptr (sf_s sf) (sf_pos sf))" if "sf_pos sf + n \<le> sf_slen sf" for st ty n
    using agree_st_assign [OF ag that] by simp
  have span: "strlenspn m (sf_pos sf + 2) (sf_slen sf - sf_pos sf - 2) a =
      strlenspn (sf_s sf) (sf_pos sf + 2) (sf_slen sf - sf_pos sf - 2) a"
    if "sf_pos sf + 2 \<le> sf_slen sf" for a
    using that by (intro agree_strlenspn [OF ag, symmetric]) auto
  show "parse_number lk (sf\<lparr>sf_s := m\<rparr>) = apsnd (sf_s_update (\<lambda>_. m)) (parse_number lk sf)"
  proof (cases "number_prefix (sf_s sf) (sf_slen sf) (sf_pos sf)")
    case None
    have sel: "sf_s (sf\<lparr>sf_s := m\<rparr>) = m" "sf_slen (sf\<lparr>sf_s := m\<rparr>) = sf_slen sf"
      "sf_pos (sf\<lparr>sf_s := m\<rparr>) = sf_pos sf" "cur (sf\<lparr>sf_s := m\<rparr>) = cur sf"
      by simp_all
    have "parse_number lk (sf\<lparr>sf_s := m\<rparr>) =
      (if dot \<and> p2 - sf_pos sf = 1 then
         (p2, set_cur (st_assign_char (cur sf) TYPE_DOT (sf_pos sf) 1 (CHR ''.'')) (sf\<lparr>sf_s := m\<rparr>))
       else (p4, set_cur (st_assign (cur sf)
              (if have_e \<and> \<not> have_exp then TYPE_BAREWORD else TYPE_NUMBER)
              (sf_pos sf) (p4 - sf_pos sf) (ptr m (sf_pos sf))) (sf\<lparr>sf_s := m\<rparr>)))"
      unfolding parse_number_def [of lk "sf\<lparr>sf_s := m\<rparr>"] Let_def sel number_prefix_agree [OF ag pos]
        None option.case p1(1) dot p2' number_exponent_agree [OF ag p2(2)] e prod.case
        number_suffix_agree [OF ag] p4_def ..
    then show ?thesis
      using None p2(1) p4 by (auto simp: number assign)
  next
    case (Some digits)
    then have pfx: "sf_pos sf + 2 \<le> sf_slen sf" by (rule number_prefix_range)
    show ?thesis
      using Some pfx hex [OF pfx, of digits] span [OF pfx, of digits]
      by (auto simp: number parse_number_def [of lk "sf\<lparr>sf_s := m\<rparr>"] Let_def
          number_prefix_agree [OF ag pos] assign simp del: add_2_eq_Suc')
  qed
qed (auto simp: parse_number_def Let_def split: option.splits prod.splits)

end
