(* ===== verification/Sqli_Tokenize.thy ===== *)
theory Sqli_Tokenize
  imports Sqli_Dispatch
begin

text \<open>
  The dispatch table \<open>char_parse_map\<close> of \<open>libinjection_sqli_data.h\<close> and the tokenizer
  \<open>libinjection_sqli_tokenize\<close>: that it ends, moves forward, stays inside the input, returns
  tokens that are pieces of the input, and reads nothing beyond it.
\<close>

section \<open>The dispatch table\<close>

text \<open>The entries for the bytes 0 to 127 and for 128 to 255, in the order of the source.\<close>

definition char_parse_map_low :: "parser list" where
  "char_parse_map_low =
   [
    parse_white, parse_white, parse_white, parse_white, parse_white, parse_white, parse_white,
    parse_white, parse_white, parse_white, parse_white, parse_white, parse_white, parse_white,
    parse_white, parse_white, parse_white, parse_white, parse_white, parse_white, parse_white,
    parse_white, parse_white, parse_white, parse_white, parse_white, parse_white, parse_white,
    parse_white, parse_white, parse_white, parse_white, parse_white, parse_operator2,
    parse_string, parse_hash, parse_money, parse_operator1, parse_operator2, parse_string,
    parse_char, parse_char, parse_operator2, parse_operator1, parse_char, parse_dash,
    parse_number, parse_slash, parse_number, parse_number, parse_number, parse_number,
    parse_number, parse_number, parse_number, parse_number, parse_number, parse_number,
    parse_operator2, parse_char, parse_operator2, parse_operator2, parse_operator2, parse_other,
    parse_var, parse_word, parse_bstring, parse_word, parse_word, parse_estring, parse_word,
    parse_word, parse_word, parse_word, parse_word, parse_word, parse_word, parse_word,
    parse_nqstring, parse_word, parse_word, parse_qstring, parse_word, parse_word, parse_word,
    parse_ustring, parse_word, parse_word, parse_xstring, parse_word, parse_word, parse_bword,
    parse_backslash, parse_other, parse_operator1, parse_word, parse_tick, parse_word,
    parse_bstring, parse_word, parse_word, parse_estring, parse_word, parse_word, parse_word,
    parse_word, parse_word, parse_word, parse_word, parse_word, parse_nqstring, parse_word,
    parse_word, parse_qstring, parse_word, parse_word, parse_word, parse_ustring, parse_word,
    parse_word, parse_xstring, parse_word, parse_word, parse_char, parse_operator2, parse_char,
    parse_operator1, parse_white]"

definition char_parse_map_high :: "parser list" where
  "char_parse_map_high =
   [
    parse_word, parse_word, parse_word, parse_word, parse_word, parse_word, parse_word,
    parse_word, parse_word, parse_word, parse_word, parse_word, parse_word, parse_word,
    parse_word, parse_word, parse_word, parse_word, parse_word, parse_word, parse_word,
    parse_word, parse_word, parse_word, parse_word, parse_word, parse_word, parse_word,
    parse_word, parse_word, parse_word, parse_word, parse_white, parse_word, parse_word,
    parse_word, parse_word, parse_word, parse_word, parse_word, parse_word, parse_word,
    parse_word, parse_word, parse_word, parse_word, parse_word, parse_word, parse_word,
    parse_word, parse_word, parse_word, parse_word, parse_word, parse_word, parse_word,
    parse_word, parse_word, parse_word, parse_word, parse_word, parse_word, parse_word,
    parse_word, parse_word, parse_word, parse_word, parse_word, parse_word, parse_word,
    parse_word, parse_word, parse_word, parse_word, parse_word, parse_word, parse_word,
    parse_word, parse_word, parse_word, parse_word, parse_word, parse_word, parse_word,
    parse_word, parse_word, parse_word, parse_word, parse_word, parse_word, parse_word,
    parse_word, parse_word, parse_word, parse_word, parse_word, parse_word, parse_word,
    parse_word, parse_word, parse_word, parse_word, parse_word, parse_word, parse_word,
    parse_word, parse_word, parse_word, parse_word, parse_word, parse_word, parse_word,
    parse_word, parse_word, parse_word, parse_word, parse_word, parse_word, parse_word,
    parse_word, parse_word, parse_word, parse_word, parse_word, parse_word, parse_word,
    parse_word, parse_word]"

definition char_parse_map :: "parser list" where
  "char_parse_map = char_parse_map_low @ char_parse_map_high"

definition parser_for :: "char \<Rightarrow> parser" where
  "parser_for ch = char_parse_map ! of_char ch"

text \<open>A parser that meets the contract on a character.\<close>

definition serves :: "parser \<Rightarrow> char \<Rightarrow> bool" where
  "serves p c \<longleftrightarrow> (\<exists>starts. char_parser p starts \<and> starts c)"

lemma serves_any [simp]:
  "serves parse_white c" "serves parse_operator1 c" "serves parse_operator2 c"
  "serves parse_other c" "serves parse_char c" "serves parse_slash c" "serves parse_backslash c"
  "serves parse_string c" "serves parse_bword c" "serves parse_tick c" "serves parse_var c"
  unfolding serves_def
  using white.char_parser_axioms operator1.char_parser_axioms operator2.char_parser_axioms
    other.char_parser_axioms char1.char_parser_axioms slash.char_parser_axioms
    backslash.char_parser_axioms string.char_parser_axioms bword.char_parser_axioms
    tick.char_parser_axioms var.char_parser_axioms
  by (blast)+

lemma serves_word [simp]:
  "word_start c \<Longrightarrow> serves parse_word c" "word_start c \<Longrightarrow> serves parse_estring c"
  "word_start c \<Longrightarrow> serves parse_bstring c" "word_start c \<Longrightarrow> serves parse_xstring c"
  "word_start c \<Longrightarrow> serves parse_ustring c" "word_start c \<Longrightarrow> serves parse_qstring c"
  "word_start c \<Longrightarrow> serves parse_nqstring c"
  unfolding serves_def
  using word.char_parser_axioms estring.char_parser_axioms bstring.char_parser_axioms
    xstring.char_parser_axioms ustring.char_parser_axioms qstring.char_parser_axioms
    nqstring.char_parser_axioms
  by blast+

lemma serves_number [simp]: "number_start c \<Longrightarrow> serves parse_number c"
  unfolding serves_def using number.char_parser_axioms by blast

lemma serves_one [simp]:
  "serves parse_hash (CHR ''#'')" "serves parse_dash (CHR ''-'')" "serves parse_money (CHR ''$'')"
  unfolding serves_def
  using hash.char_parser_axioms dash.char_parser_axioms money.char_parser_axioms by blast+

text \<open>Every entry of the table serves its byte.\<close>

lemma upt_4: "4 < n \<Longrightarrow> [0..<n] = 0 # Suc 0 # Suc (Suc 0) # Suc (Suc (Suc 0)) # [4..<n]"
  by (simp add: upt_conv_Cons eval_nat_numeral)

lemma codes_low: "map of_char [
    CHR 0x00, CHR 0x01, CHR 0x02, CHR 0x03, CHR 0x04, CHR 0x05, CHR 0x06, CHR 0x07, CHR 0x08,
    CHR 0x09, CHR 0x0A, CHR 0x0B, CHR 0x0C, CHR 0x0D, CHR 0x0E, CHR 0x0F, CHR 0x10, CHR 0x11,
    CHR 0x12, CHR 0x13, CHR 0x14, CHR 0x15, CHR 0x16, CHR 0x17, CHR 0x18, CHR 0x19, CHR 0x1A,
    CHR 0x1B, CHR 0x1C, CHR 0x1D, CHR 0x1E, CHR 0x1F, CHR 0x20, CHR 0x21, CHR 0x22, CHR 0x23,
    CHR 0x24, CHR 0x25, CHR 0x26, CHR 0x27, CHR 0x28, CHR 0x29, CHR 0x2A, CHR 0x2B, CHR 0x2C,
    CHR 0x2D, CHR 0x2E, CHR 0x2F, CHR 0x30, CHR 0x31, CHR 0x32, CHR 0x33, CHR 0x34, CHR 0x35,
    CHR 0x36, CHR 0x37, CHR 0x38, CHR 0x39, CHR 0x3A, CHR 0x3B, CHR 0x3C, CHR 0x3D, CHR 0x3E,
    CHR 0x3F, CHR 0x40, CHR 0x41, CHR 0x42, CHR 0x43, CHR 0x44, CHR 0x45, CHR 0x46, CHR 0x47,
    CHR 0x48, CHR 0x49, CHR 0x4A, CHR 0x4B, CHR 0x4C, CHR 0x4D, CHR 0x4E, CHR 0x4F, CHR 0x50,
    CHR 0x51, CHR 0x52, CHR 0x53, CHR 0x54, CHR 0x55, CHR 0x56, CHR 0x57, CHR 0x58, CHR 0x59,
    CHR 0x5A, CHR 0x5B, CHR 0x5C, CHR 0x5D, CHR 0x5E, CHR 0x5F, CHR 0x60, CHR 0x61, CHR 0x62,
    CHR 0x63, CHR 0x64, CHR 0x65, CHR 0x66, CHR 0x67, CHR 0x68, CHR 0x69, CHR 0x6A, CHR 0x6B,
    CHR 0x6C, CHR 0x6D, CHR 0x6E, CHR 0x6F, CHR 0x70, CHR 0x71, CHR 0x72, CHR 0x73, CHR 0x74,
    CHR 0x75, CHR 0x76, CHR 0x77, CHR 0x78, CHR 0x79, CHR 0x7A, CHR 0x7B, CHR 0x7C, CHR 0x7D,
    CHR 0x7E, CHR 0x7F] = [0..<128::nat]"
  by (simp add: upt_rec_numeral upt_4)

lemma codes_high: "map of_char [
    CHR 0x80, CHR 0x81, CHR 0x82, CHR 0x83, CHR 0x84, CHR 0x85, CHR 0x86, CHR 0x87, CHR 0x88,
    CHR 0x89, CHR 0x8A, CHR 0x8B, CHR 0x8C, CHR 0x8D, CHR 0x8E, CHR 0x8F, CHR 0x90, CHR 0x91,
    CHR 0x92, CHR 0x93, CHR 0x94, CHR 0x95, CHR 0x96, CHR 0x97, CHR 0x98, CHR 0x99, CHR 0x9A,
    CHR 0x9B, CHR 0x9C, CHR 0x9D, CHR 0x9E, CHR 0x9F, CHR 0xA0, CHR 0xA1, CHR 0xA2, CHR 0xA3,
    CHR 0xA4, CHR 0xA5, CHR 0xA6, CHR 0xA7, CHR 0xA8, CHR 0xA9, CHR 0xAA, CHR 0xAB, CHR 0xAC,
    CHR 0xAD, CHR 0xAE, CHR 0xAF, CHR 0xB0, CHR 0xB1, CHR 0xB2, CHR 0xB3, CHR 0xB4, CHR 0xB5,
    CHR 0xB6, CHR 0xB7, CHR 0xB8, CHR 0xB9, CHR 0xBA, CHR 0xBB, CHR 0xBC, CHR 0xBD, CHR 0xBE,
    CHR 0xBF, CHR 0xC0, CHR 0xC1, CHR 0xC2, CHR 0xC3, CHR 0xC4, CHR 0xC5, CHR 0xC6, CHR 0xC7,
    CHR 0xC8, CHR 0xC9, CHR 0xCA, CHR 0xCB, CHR 0xCC, CHR 0xCD, CHR 0xCE, CHR 0xCF, CHR 0xD0,
    CHR 0xD1, CHR 0xD2, CHR 0xD3, CHR 0xD4, CHR 0xD5, CHR 0xD6, CHR 0xD7, CHR 0xD8, CHR 0xD9,
    CHR 0xDA, CHR 0xDB, CHR 0xDC, CHR 0xDD, CHR 0xDE, CHR 0xDF, CHR 0xE0, CHR 0xE1, CHR 0xE2,
    CHR 0xE3, CHR 0xE4, CHR 0xE5, CHR 0xE6, CHR 0xE7, CHR 0xE8, CHR 0xE9, CHR 0xEA, CHR 0xEB,
    CHR 0xEC, CHR 0xED, CHR 0xEE, CHR 0xEF, CHR 0xF0, CHR 0xF1, CHR 0xF2, CHR 0xF3, CHR 0xF4,
    CHR 0xF5, CHR 0xF6, CHR 0xF7, CHR 0xF8, CHR 0xF9, CHR 0xFA, CHR 0xFB, CHR 0xFC, CHR 0xFD,
    CHR 0xFE, CHR 0xFF] = [128..<256::nat]"
  by (simp add: upt_rec_numeral)

lemma chars_of_codes: "map of_char cs = [a..<b :: nat] \<Longrightarrow> map char_of [a..<b] = cs"
  by (drule sym) (simp add: o_def)

lemmas chars_low = chars_of_codes [OF codes_low]
lemmas chars_high = chars_of_codes [OF codes_high]

lemma number_start_digit [simp]:
  "number_start (CHR ''0'')" "number_start (CHR ''1'')" "number_start (CHR ''2'')"
  "number_start (CHR ''3'')" "number_start (CHR ''4'')" "number_start (CHR ''5'')"
  "number_start (CHR ''6'')" "number_start (CHR ''7'')" "number_start (CHR ''8'')"
  "number_start (CHR ''9'')" "number_start (CHR ''.'')"
  by code_simp+

lemma serves_low: "list_all2 serves char_parse_map_low (map char_of [0..<128::nat])"
  unfolding chars_low char_parse_map_low_def
  by (simp add: word_start_def word_stop_def c_strchr_def)

lemma serves_high: "list_all2 serves char_parse_map_high (map char_of [128..<256::nat])"
  unfolding chars_high char_parse_map_high_def
  by (simp add: word_start_def word_stop_def c_strchr_def)

lemma length_char_parse_map: "length char_parse_map_low = 128" "length char_parse_map_high = 128"
  by (simp_all add: char_parse_map_low_def char_parse_map_high_def)

lemma table_nth:
  assumes "list_all2 P ps (map char_of [a..<b])" "i < b - a"
  shows "P (ps ! i) (char_of (a + i))"
  using list_all2_nthD [OF assms(1), of i] list_all2_lengthD [OF assms(1)] assms(2) by simp

lemma parser_for_all:
  assumes low: "list_all2 P char_parse_map_low (map char_of [0..<128::nat])"
    and high: "list_all2 P char_parse_map_high (map char_of [128..<256::nat])"
  shows "P (parser_for c) c"
proof (cases "of_char c < (128 :: nat)")
  case True
  with table_nth [OF low, of "of_char c"] show ?thesis
    by (simp only: parser_for_def char_parse_map_def nth_append length_char_parse_map if_True
        diff_zero add_0 char_of_char)
next
  case False
  have "of_char c < (256 :: nat)" by simp
  with False have "of_char c - 128 < (256 - 128 :: nat)" "128 + (of_char c - 128) = (of_char c :: nat)"
    by linarith+
  with False table_nth [OF high, of "of_char c - 128"] show ?thesis
    by (simp only: parser_for_def char_parse_map_def nth_append length_char_parse_map if_False char_of_char)
qed

lemmas serves_parser_for = parser_for_all [OF serves_low serves_high]

section \<open>The tokenizer\<close>

text \<open>What every entry of the table does, from the contract.\<close>

lemma parser_for_laws:
  assumes "sf_pos sf < sf_slen sf"
  defines "p \<equiv> parser_for (sf_s sf (sf_pos sf))"
  shows parser_for_progress: "sf_pos sf < fst (p lk sf)" "fst (p lk sf) \<le> sf_slen sf"
    and parser_for_token: "sf_current sf < length (sf_tokenvec sf) \<Longrightarrow>
      token_of (sf_s sf) (sf_slen sf) (cur sf) \<Longrightarrow>
      token_of (sf_s sf) (sf_slen sf) (cur (snd (p lk sf)))"
    and parser_for_local: "agree (sf_slen sf) (sf_s sf) m \<Longrightarrow>
      p lk (sf\<lparr>sf_s := m\<rparr>) = apsnd (sf_s_update (\<lambda>_. m)) (p lk sf)"
proof -
  obtain starts where c: "char_parser p starts" and s: "starts (sf_s sf (sf_pos sf))"
    using serves_parser_for [of "sf_s sf (sf_pos sf)"] by (auto simp: serves_def p_def)
  show "sf_pos sf < fst (p lk sf)" "fst (p lk sf) \<le> sf_slen sf"
    using char_parser.progress [OF c assms(1) s] by auto
  show "token_of (sf_s sf) (sf_slen sf) (cur (snd (p lk sf)))"
    if "sf_current sf < length (sf_tokenvec sf)" "token_of (sf_s sf) (sf_slen sf) (cur sf)"
    by (rule char_parser.token [OF c assms(1) s that])
  show "p lk (sf\<lparr>sf_s := m\<rparr>) = apsnd (sf_s_update (\<lambda>_. m)) (p lk sf)"
    if "agree (sf_slen sf) (sf_s sf) m"
    by (rule char_parser.local [OF c assms(1) s that])
qed

lemma parser_for_frame: "parse_frame sf (snd (parser_for c lk sf))"
  using serves_parser_for [of c] char_parser.frame by (auto simp: serves_def)

lemma parser_for_decreases:
  assumes "sf_pos sf < sf_slen sf" "(pos, sf1) = parser_for (sf_s sf (sf_pos sf)) lk sf"
  shows "sf_slen sf1 - pos < sf_slen sf - sf_pos sf"
  using parser_for_progress [OF assms(1), of lk] assms(1)
    parse_frame_sel(2) [OF parser_for_frame [of sf "sf_s sf (sf_pos sf)" lk]]
  by (simp flip: assms(2))

text \<open>The loop of \<open>libinjection_sqli_tokenize\<close>; every parser moves forward, so it ends.\<close>

function tokenize_loop :: "lookup_fn \<Rightarrow> sqli_state \<Rightarrow> bool \<times> sqli_state" where
  "tokenize_loop lk sf =
     (if sf_pos sf < sf_slen sf then
        case parser_for (sf_s sf (sf_pos sf)) lk sf of
          (pos, sf1) \<Rightarrow>
            let sf2 = sf1\<lparr>sf_pos := pos\<rparr> in
            if tok_type (cur sf2) \<noteq> NUL then (True, sf2\<lparr>stats_tokens := stats_tokens sf2 + 1\<rparr>)
            else tokenize_loop lk sf2
      else (False, sf))"
  by pat_completeness auto

termination
  by (relation "measure (\<lambda>(lk, sf). sf_slen sf - sf_pos sf)") (simp_all add: parser_for_decreases)

declare tokenize_loop.simps [simp del]

definition libinjection_sqli_tokenize :: "lookup_fn \<Rightarrow> sqli_state \<Rightarrow> bool \<times> sqli_state" where
  "libinjection_sqli_tokenize lk sf =
     (if sf_slen sf = 0 then (False, sf)
      else
        let sf1 = set_cur (st_clear (cur sf)) sf in
        if sf_pos sf = 0 \<and> sf_flags sf AND (FLAG_QUOTE_SINGLE OR FLAG_QUOTE_DOUBLE) \<noteq> 0 then
          case string_core_cur sf1 (flag2delim (sf_flags sf)) 0 of
            (pos, sf2) \<Rightarrow> (True, sf2\<lparr>sf_pos := pos, stats_tokens := stats_tokens sf2 + 1\<rparr>)
        else tokenize_loop lk sf1)"

section \<open>What a call may write\<close>

definition tokenize_frame :: "sqli_state \<Rightarrow> sqli_state \<Rightarrow> bool" where
  "tokenize_frame sf sf' \<longleftrightarrow> sf' = sf
     \<lparr>sf_tokenvec := (sf_tokenvec sf)[sf_current sf := cur sf'], sf_pos := sf_pos sf',
      stats_comment_ddx := stats_comment_ddx sf', stats_comment_hash := stats_comment_hash sf',
      stats_tokens := stats_tokens sf'\<rparr>"

lemma tokenize_frame_sel:
  assumes "tokenize_frame sf sf'"
  shows "sf_s sf' = sf_s sf" "sf_slen sf' = sf_slen sf" "sf_flags sf' = sf_flags sf"
    "sf_current sf' = sf_current sf" "length (sf_tokenvec sf') = length (sf_tokenvec sf)"
    "sf_tokenvec sf' = (sf_tokenvec sf)[sf_current sf := cur sf']"
    "sf_fingerprint sf' = sf_fingerprint sf" "sf_reason sf' = sf_reason sf"
    "stats_folds sf' = stats_folds sf"
  by (subst assms [unfolded tokenize_frame_def], simp)+

lemma tokenize_frame_refl [simp]: "tokenize_frame sf sf"
  by (simp add: tokenize_frame_def cur_def)

lemma tokenize_frame_trans:
  "tokenize_frame sf sf1 \<Longrightarrow> tokenize_frame sf1 sf2 \<Longrightarrow> tokenize_frame sf sf2"
  unfolding tokenize_frame_def
  by (cases sf; cases sf1; cases sf2) (auto simp: cur_def, metis list_update_overwrite)

lemma tokenize_frame_parse: "parse_frame sf sf' \<Longrightarrow> tokenize_frame sf sf'"
  unfolding parse_frame_def tokenize_frame_def by (cases sf; cases sf') (auto simp: cur_def)

lemma tokenize_frame_updates [simp]:
  "tokenize_frame sf (sf\<lparr>sf_pos := p\<rparr>)" "tokenize_frame sf (sf\<lparr>stats_tokens := n\<rparr>)"
  "tokenize_frame sf (sf\<lparr>sf_pos := p, stats_tokens := n\<rparr>)" "tokenize_frame sf (set_cur st sf)"
  by (simp_all add: tokenize_frame_def cur_def set_cur_def)

lemma tokenize_frame_then [intro]:
  "tokenize_frame sf sf1 \<Longrightarrow> tokenize_frame sf (sf1\<lparr>sf_pos := p\<rparr>)"
  "tokenize_frame sf sf1 \<Longrightarrow> tokenize_frame sf (sf1\<lparr>stats_tokens := n\<rparr>)"
  "tokenize_frame sf sf1 \<Longrightarrow> tokenize_frame sf (sf1\<lparr>sf_pos := p, stats_tokens := n\<rparr>)"
  by (erule tokenize_frame_trans, simp)+

text \<open>One round of the loop: the state after the parser, with its position stored.\<close>

definition tokenize_step :: "lookup_fn \<Rightarrow> sqli_state \<Rightarrow> sqli_state" where
  "tokenize_step lk sf =
     (case parser_for (sf_s sf (sf_pos sf)) lk sf of (pos, sf1) \<Rightarrow> sf1\<lparr>sf_pos := pos\<rparr>)"

lemma tokenize_loop_step:
  "tokenize_loop lk sf =
     (if sf_pos sf < sf_slen sf then
        let sf2 = tokenize_step lk sf in
        if tok_type (cur sf2) \<noteq> NUL then (True, sf2\<lparr>stats_tokens := stats_tokens sf2 + 1\<rparr>)
        else tokenize_loop lk sf2
      else (False, sf))"
  by (subst tokenize_loop.simps) (simp add: tokenize_step_def split_beta)

lemma tokenize_step_frame: "tokenize_frame sf (tokenize_step lk sf)"
  using tokenize_frame_parse [OF parser_for_frame, of sf _ lk]
  by (auto simp: tokenize_step_def split_beta)

lemma tokenize_step_laws:
  assumes "sf_pos sf < sf_slen sf"
  shows "sf_pos sf < sf_pos (tokenize_step lk sf)" "sf_pos (tokenize_step lk sf) \<le> sf_slen sf"
    and "sf_current sf < length (sf_tokenvec sf) \<Longrightarrow> token_of (sf_s sf) (sf_slen sf) (cur sf) \<Longrightarrow>
      token_of (sf_s sf) (sf_slen sf) (cur (tokenize_step lk sf))"
    and "agree (sf_slen sf) (sf_s sf) m \<Longrightarrow>
      tokenize_step lk (sf\<lparr>sf_s := m\<rparr>) = (tokenize_step lk sf)\<lparr>sf_s := m\<rparr>"
  using parser_for_laws [OF assms] agree_at [OF _ assms, of "sf_s sf" m]
  by (auto simp: tokenize_step_def split_beta)

lemma tokenize_loop_induct [case_names finish found again]:
  assumes "\<And>sf. \<not> sf_pos sf < sf_slen sf \<Longrightarrow> P sf (False, sf)"
    and "\<And>sf sf2. sf_pos sf < sf_slen sf \<Longrightarrow> sf2 = tokenize_step lk sf \<Longrightarrow> tok_type (cur sf2) \<noteq> NUL \<Longrightarrow>
      P sf (True, sf2\<lparr>stats_tokens := stats_tokens sf2 + 1\<rparr>)"
    and "\<And>sf sf2. sf_pos sf < sf_slen sf \<Longrightarrow> sf2 = tokenize_step lk sf \<Longrightarrow> tok_type (cur sf2) = NUL \<Longrightarrow>
      P sf2 (tokenize_loop lk sf2) \<Longrightarrow> P sf (tokenize_loop lk sf2)"
  shows "P sf (tokenize_loop lk sf)"
proof (induction "sf_slen sf - sf_pos sf" arbitrary: sf rule: less_induct)
  case less
  show ?case
  proof (cases "sf_pos sf < sf_slen sf")
    case False
    then show ?thesis using assms(1) by (subst tokenize_loop_step) simp
  next
    case True
    let ?sf2 = "tokenize_step lk sf"
    have "sf_slen ?sf2 - sf_pos ?sf2 < sf_slen sf - sf_pos sf"
      using tokenize_step_laws(1,2) [OF True, of lk] tokenize_frame_sel(2) [OF tokenize_step_frame [of sf lk]]
      by simp
    then show ?thesis
      using True assms(2) [OF True refl] assms(3) [OF True refl] less.hyps [of ?sf2]
      by (subst tokenize_loop_step) (simp add: Let_def)
  qed
qed

lemma tokenize_loop_frame: "tokenize_frame sf (snd (tokenize_loop lk sf))"
proof (induction sf rule: tokenize_loop_induct [of _ lk])
  case (found sf sf2)
  then show ?case using tokenize_step_frame [of sf lk] by auto
next
  case (again sf sf2)
  then show ?case using tokenize_frame_trans [OF tokenize_step_frame] by auto
qed simp

lemma tokenize_loop_pos:
  assumes "sf_pos sf \<le> sf_slen sf"
  shows "sf_pos sf \<le> sf_pos (snd (tokenize_loop lk sf)) \<and> sf_pos (snd (tokenize_loop lk sf)) \<le> sf_slen sf
    \<and> (fst (tokenize_loop lk sf) \<longrightarrow> sf_pos sf < sf_pos (snd (tokenize_loop lk sf)))
    \<and> (\<not> fst (tokenize_loop lk sf) \<longrightarrow> sf_pos (snd (tokenize_loop lk sf)) = sf_slen sf)"
  using assms
proof (induction sf rule: tokenize_loop_induct [of _ lk])
  case (found sf sf2)
  then show ?case using tokenize_step_laws(1,2) [of sf lk] by simp
next
  case (again sf sf2)
  then show ?case
    using tokenize_step_laws(1,2) [of sf lk] tokenize_frame_sel(2) [OF tokenize_step_frame [of sf lk]]
    by auto
qed simp

lemma tokenize_loop_type:
  assumes "tok_type (cur sf) = NUL"
  shows "fst (tokenize_loop lk sf) \<longleftrightarrow> tok_type (cur (snd (tokenize_loop lk sf))) \<noteq> NUL"
  using assms by (induction sf rule: tokenize_loop_induct [of _ lk]) simp_all

lemma tokenize_loop_token:
  assumes "sf_current sf < length (sf_tokenvec sf)" "token_of (sf_s sf) (sf_slen sf) (cur sf)"
  shows "token_of (sf_s sf) (sf_slen sf) (cur (snd (tokenize_loop lk sf)))"
  using assms
proof (induction sf rule: tokenize_loop_induct [of _ lk])
  case (found sf sf2)
  then show ?case using tokenize_step_laws(3) [of sf lk] by simp
next
  case (again sf sf2)
  then show ?case
    using tokenize_step_laws(3) [of sf lk] tokenize_frame_sel [OF tokenize_step_frame [of sf lk]] by simp
qed simp

lemma tokenize_loop_local:
  assumes "agree (sf_slen sf) (sf_s sf) m"
  shows "tokenize_loop lk (sf\<lparr>sf_s := m\<rparr>) = apsnd (sf_s_update (\<lambda>_. m)) (tokenize_loop lk sf)"
  using assms
proof (induction "sf_slen sf - sf_pos sf" arbitrary: sf rule: less_induct)
  case less
  show ?case
  proof (cases "sf_pos sf < sf_slen sf")
    case False
    then show ?thesis by (subst (1 2) tokenize_loop_step) simp
  next
    case True
    let ?sf2 = "tokenize_step lk sf"
    note fr = tokenize_frame_sel [OF tokenize_step_frame [of sf lk]]
    have "sf_slen ?sf2 - sf_pos ?sf2 < sf_slen sf - sf_pos sf"
      using tokenize_step_laws(1,2) [OF True, of lk] fr by simp
    then have "tokenize_loop lk (?sf2\<lparr>sf_s := m\<rparr>) = apsnd (sf_s_update (\<lambda>_. m)) (tokenize_loop lk ?sf2)"
      using less fr by simp
    then show ?thesis
      using True less.prems tokenize_step_laws(4) [OF True less.prems, of lk]
      by (subst (1 2) tokenize_loop_step) (simp add: Let_def)
  qed
qed

section \<open>The tokenizer as a whole\<close>

lemma tokenize_frame_set_cur: "tokenize_frame (set_cur st sf) sf' \<Longrightarrow> tokenize_frame sf sf'"
  by (erule tokenize_frame_trans [rotated]) simp

lemma tokenize_all_frame: "tokenize_frame sf (snd (libinjection_sqli_tokenize lk sf))"
proof -
  let ?sf1 = "set_cur (st_clear (cur sf)) sf"
  have "tokenize_frame sf (snd (string_core_cur ?sf1 d 0))" for d
    by (rule tokenize_frame_set_cur [OF tokenize_frame_parse]) (rule string_core_cur_frame)
  moreover have "tokenize_frame sf (snd (tokenize_loop lk ?sf1))"
    by (rule tokenize_frame_set_cur) (rule tokenize_loop_frame)
  ultimately show ?thesis
    by (auto simp: libinjection_sqli_tokenize_def Let_def split_beta)
qed

lemmas tokenize_sel = tokenize_frame_sel [OF tokenize_all_frame]

lemma tokenize_pos:
  assumes "sf_pos sf \<le> sf_slen sf"
  shows "sf_pos sf \<le> sf_pos (snd (libinjection_sqli_tokenize lk sf)) \<and>
    sf_pos (snd (libinjection_sqli_tokenize lk sf)) \<le> sf_slen sf \<and>
    (fst (libinjection_sqli_tokenize lk sf) \<longrightarrow>
       sf_pos sf < sf_pos (snd (libinjection_sqli_tokenize lk sf))) \<and>
    (\<not> fst (libinjection_sqli_tokenize lk sf) \<longrightarrow>
       sf_pos (snd (libinjection_sqli_tokenize lk sf)) = sf_slen sf)"
proof -
  let ?sf1 = "set_cur (st_clear (cur sf)) sf"
  have "sf_pos sf < fst (string_core_cur ?sf1 d 0) \<and> fst (string_core_cur ?sf1 d 0) \<le> sf_slen sf"
    if "sf_pos sf = 0" "sf_slen sf \<noteq> 0" for d
    using string_core_cur_laws(1) [of ?sf1 0 d] that by simp
  then show ?thesis
    using assms tokenize_loop_pos [of ?sf1 lk]
    by (auto simp: libinjection_sqli_tokenize_def Let_def split_beta)
qed

lemma string_core_type: "tok_type (snd (parse_string_core m len pos st delim offset)) = TYPE_STRING"
  by (simp add: parse_string_core_def Let_def split: option.splits)

lemma tokenize_type:
  assumes "sf_current sf < length (sf_tokenvec sf)" "sf_slen sf \<noteq> 0"
  shows "fst (libinjection_sqli_tokenize lk sf) \<longleftrightarrow>
    tok_type (cur (snd (libinjection_sqli_tokenize lk sf))) \<noteq> NUL"
  using assms tokenize_loop_type [of "set_cur (st_clear (cur sf)) sf" lk]
  by (auto simp: libinjection_sqli_tokenize_def Let_def split_beta string_core_cur_def
      string_core_type st_clear_def zero_token_def)

lemma tokenize_token:
  assumes "sf_current sf < length (sf_tokenvec sf)" "sf_slen sf \<noteq> 0"
  shows "token_of (sf_s sf) (sf_slen sf) (cur (snd (libinjection_sqli_tokenize lk sf)))"
  using assms tokenize_loop_token [of "set_cur (st_clear (cur sf)) sf" lk]
    string_core_cur_laws(2) [of "set_cur (st_clear (cur sf)) sf" 0 "flag2delim (sf_flags sf)"]
    wf_token_length [OF wf_zero_token]
  by (auto simp: libinjection_sqli_tokenize_def Let_def split_beta st_clear_def)

lemma tokenize_local:
  assumes ag: "agree (sf_slen sf) (sf_s sf) m"
  shows "libinjection_sqli_tokenize lk (sf\<lparr>sf_s := m\<rparr>) =
    apsnd (sf_s_update (\<lambda>_. m)) (libinjection_sqli_tokenize lk sf)"
proof -
  let ?sf1 = "set_cur (st_clear (cur sf)) sf"
  have loop: "tokenize_loop lk (?sf1\<lparr>sf_s := m\<rparr>) = apsnd (sf_s_update (\<lambda>_. m)) (tokenize_loop lk ?sf1)"
    by (rule tokenize_loop_local) (use ag in simp)
  have core: "string_core_cur (?sf1\<lparr>sf_s := m\<rparr>) d 0 =
      apsnd (sf_s_update (\<lambda>_. m)) (string_core_cur ?sf1 d 0)" if "sf_pos sf = 0" "sf_slen sf \<noteq> 0" for d
    using string_core_cur_laws(3) [of ?sf1 0 m d] that ag by simp
  show ?thesis
    using loop core by (simp add: libinjection_sqli_tokenize_def Let_def split_beta)
qed

text \<open>With the token kept by the index \<open>current\<close>, the rest of the token vector is untouched.\<close>

lemma tokenize_other_tokens:
  "i \<noteq> sf_current sf \<Longrightarrow>
   sf_tokenvec (snd (libinjection_sqli_tokenize lk sf)) ! i = sf_tokenvec sf ! i"
  by (simp add: tokenize_sel(6) [of lk sf])

section \<open>Properties\<close>

text \<open>A state to apply the properties to: the start of the one-byte input \<open>1\<close>.\<close>

definition start_state :: sqli_state where
  "start_state = \<lparr>sf_s = mem_of ''1'', sf_slen = 1, sf_flags = 9, sf_pos = 0,
     sf_tokenvec = replicate 8 zero_token, sf_current = 0, sf_fingerprint = replicate 8 NUL,
     sf_reason = 0, stats_comment_ddw = 0, stats_comment_ddx = 0, stats_comment_c = 0,
     stats_comment_hash = 0, stats_folds = 0, stats_tokens = 0\<rparr>"

lemma start_state_sel [simp]:
  "sf_s start_state = mem_of ''1''" "sf_slen start_state = 1" "sf_pos start_state = 0"
  "sf_current start_state = 0" "sf_tokenvec start_state = replicate 8 zero_token"
  "cur start_state = zero_token"
  by (simp_all add: start_state_def cur_def)

text \<open>C15. For every byte an input can hold, the parser that \<open>char_parse_map\<close> has for it, called
  on that byte inside the input, ends at a position behind it and not behind the end of the
  input, and leaves in the current token exactly the input's bytes at the token's position.\<close>

theorem every_parser_advances:
  assumes "sf_pos sf < sf_slen sf" "sf_current sf < length (sf_tokenvec sf)"
    "token_of (sf_s sf) (sf_slen sf) (cur sf)" "parser_for (sf_s sf (sf_pos sf)) lk sf = (pos, sf')"
  shows "sf_pos sf < pos \<and> pos \<le> sf_slen sf \<and> token_of (sf_s sf) (sf_slen sf) (cur sf')"
  using parser_for_progress [OF assms(1), of lk] parser_for_token [OF assms(1-3), of lk] assms(4)
  by simp

theorem every_parser_advances_witness:
  "\<exists>pos sf'. parser_for (CHR ''1'') (\<lambda>_ _. NUL) start_state = (pos, sf') \<and> 0 < pos \<and> pos \<le> 1 \<and>
     token_of (mem_of ''1'') 1 (cur sf')"
  using every_parser_advances [of start_state "\<lambda>_ _. NUL"]
  by (cases "parser_for (CHR ''1'') (\<lambda>_ _. NUL) start_state") (simp add: mem_of_def)

text \<open>A call of \<open>libinjection_sqli_tokenize\<close> inside the input returns at a position inside
  it; it moves strictly forward when it has found a token, and has reached the end when it
  has not. So calling it until it returns \<open>FALSE\<close> ends.\<close>

theorem tokenize_moves_forward:
  assumes "sf_pos sf \<le> sf_slen sf" "libinjection_sqli_tokenize lk sf = (found, sf')"
  shows "sf_pos sf' \<le> sf_slen sf \<and>
    (if found then sf_pos sf < sf_pos sf' else sf_pos sf' = sf_slen sf)"
  using tokenize_pos [OF assms(1), of lk] assms(2) by simp

theorem tokenize_moves_forward_witness:
  "sf_pos (snd (libinjection_sqli_tokenize (\<lambda>_ _. NUL) start_state)) \<le> 1"
  using tokenize_moves_forward [of start_state "\<lambda>_ _. NUL"]
  by (cases "libinjection_sqli_tokenize (\<lambda>_ _. NUL) start_state") simp

text \<open>C16. After a call of the tokenizer on an input that is not empty the current token is a well-formed C string of at most
  31 characters that are exactly the input's bytes at the token's position, all inside the
  input; and the call says \<open>TRUE\<close> exactly when the token's type is not \<open>CHAR_NULL\<close>.\<close>

theorem tokenize_token_is_input:
  assumes "sf_current sf < length (sf_tokenvec sf)" "sf_slen sf \<noteq> 0"
    "libinjection_sqli_tokenize lk sf = (found, sf')"
  shows "token_of (sf_s sf) (sf_slen sf) (cur sf') \<and> (found \<longleftrightarrow> tok_type (cur sf') \<noteq> NUL)"
  using tokenize_token [OF assms(1,2), of lk] tokenize_type [OF assms(1,2), of lk] assms(3) by simp

theorem tokenize_token_is_input_witness:
  "token_of (mem_of ''1'') 1 (cur (snd (libinjection_sqli_tokenize (\<lambda>_ _. NUL) start_state)))"
  using tokenize_token_is_input [of start_state "\<lambda>_ _. NUL"]
  by (cases "libinjection_sqli_tokenize (\<lambda>_ _. NUL) start_state") simp

text \<open>The tokenizer reads no byte outside the input: two states whose inputs agree on their
  \<open>slen\<close> bytes are taken to the same result.\<close>

theorem tokenize_reads_input_only:
  assumes "\<And>i. i < sf_slen sf \<Longrightarrow> sf_s sf i = m i"
  shows "libinjection_sqli_tokenize lk (sf\<lparr>sf_s := m\<rparr>) =
    apsnd (sf_s_update (\<lambda>_. m)) (libinjection_sqli_tokenize lk sf)"
  by (rule tokenize_local) (simp add: agree_def assms)

theorem tokenize_reads_input_only_witness:
  "libinjection_sqli_tokenize (\<lambda>_ _. NUL) (start_state\<lparr>sf_s := mem_of ''12''\<rparr>) =
    apsnd (sf_s_update (\<lambda>_. mem_of ''12'')) (libinjection_sqli_tokenize (\<lambda>_ _. NUL) start_state)"
  by (rule tokenize_reads_input_only) (simp add: mem_of_def)

end
