(* ===== verification/Sqli_Fold.thy ===== *)
theory Sqli_Fold
  imports Sqli_Tokenize
begin

text \<open>
  \<open>syntax_merge_words\<close> and \<open>libinjection_sqli_fold\<close>: the token stream is read into the eight
  slots of \<open>tokenvec\<close> and folded there by rules on two and on three neighbouring tokens.

  The locals \<open>last_comment\<close>, \<open>pos\<close>, \<open>left\<close> and \<open>more\<close> of the function and the state it works on
  are the record \<open>fold_state\<close>. A group of rules gives a \<open>fold_out\<close>: \<open>Again\<close> is \<open>continue\<close>,
  \<open>Proceed\<close> falls out of the \<open>if\<close>-chain, \<open>Leave\<close> is \<open>return\<close>, \<open>Abort\<close> is a failed
  \<open>assert\<close>. The long \<open>if\<close>-chains are split into consecutive groups; a group gives \<open>None\<close> when
  none of its conditions holds.
\<close>

section \<open>Merging words\<close>

definition merge_left :: "char \<Rightarrow> bool" where
  "merge_left t \<longleftrightarrow> t = TYPE_KEYWORD \<or> t = TYPE_BAREWORD \<or> t = TYPE_OPERATOR \<or> t = TYPE_UNION \<or>
     t = TYPE_FUNCTION \<or> t = TYPE_EXPRESSION \<or> t = TYPE_TSQL \<or> t = TYPE_SQLTYPE"

definition merge_right :: "char \<Rightarrow> bool" where
  "merge_right t \<longleftrightarrow> t = TYPE_KEYWORD \<or> t = TYPE_BAREWORD \<or> t = TYPE_OPERATOR \<or> t = TYPE_UNION \<or>
     t = TYPE_FUNCTION \<or> t = TYPE_EXPRESSION \<or> t = TYPE_TSQL \<or> t = TYPE_SQLTYPE \<or>
     t = TYPE_LOGIC_OPERATOR"

text \<open>The new first token, or \<open>None\<close> where the source returns \<open>FALSE\<close>.\<close>

definition syntax_merge_words :: "lookup_fn \<Rightarrow> stoken_t \<Rightarrow> stoken_t \<Rightarrow> stoken_t option" where
  "syntax_merge_words lk a b =
     (if \<not> merge_left (tok_type a) then None
      else if \<not> merge_right (tok_type b) then None
      else
        let sz3 = tok_len a + tok_len b + 1 in
        if sz3 \<ge> TOKEN_SIZE then None
        else
          let tmp = take (tok_len a) (tok_val a) @ CHR '' '' # take (tok_len b) (tok_val b);
              ch = lk LOOKUP_WORD tmp
          in if ch \<noteq> NUL then Some (st_assign a ch (tok_pos a) sz3 (mem_of tmp)) else None)"

section \<open>The state of the fold\<close>

record fold_state =
  fd_sf :: sqli_state
  fd_comment :: stoken_t
  fd_pos :: nat
  fd_left :: nat
  fd_more :: bool

datatype fold_out = Again fold_state | Proceed fold_state | Leave nat fold_state | Abort

definition tv :: "fold_state \<Rightarrow> nat \<Rightarrow> stoken_t" where
  "tv st i = sf_tokenvec (fd_sf st) ! i"

definition set_tv :: "nat \<Rightarrow> stoken_t \<Rightarrow> fold_state \<Rightarrow> fold_state" where
  "set_tv i tok st = st\<lparr>fd_sf := (fd_sf st)\<lparr>sf_tokenvec := (sf_tokenvec (fd_sf st))[i := tok]\<rparr>\<rparr>"

definition set_type :: "nat \<Rightarrow> char \<Rightarrow> fold_state \<Rightarrow> fold_state" where
  "set_type i ty st = set_tv i ((tv st i)\<lparr>tok_type := ty\<rparr>) st"

definition add_folds :: "int \<Rightarrow> fold_state \<Rightarrow> fold_state" where
  "add_folds n st = st\<lparr>fd_sf := (fd_sf st)\<lparr>stats_folds := stats_folds (fd_sf st) + n\<rparr>\<rparr>"

text \<open>\<open>pos -= n; left = l\<close>\<close>

definition drop_tokens :: "nat \<Rightarrow> nat \<Rightarrow> fold_state \<Rightarrow> fold_state" where
  "drop_tokens n l st = st\<lparr>fd_pos := fd_pos st - n, fd_left := l\<rparr>"

abbreviation ty :: "fold_state \<Rightarrow> nat \<Rightarrow> char" where
  "ty st i \<equiv> tok_type (tv st i)"

text \<open>\<open>cstrcasecmp(w, val, len) == 0\<close>\<close>

definition tok_is :: "string \<Rightarrow> stoken_t \<Rightarrow> bool" where
  "tok_is w tok \<longleftrightarrow> cstrcasecmp w (take (tok_len tok) (tok_val tok)) = 0"

section \<open>Reading tokens\<close>

text \<open>The loop at the start: comments, parentheses, types and unary operators are skipped.\<close>

definition skippable :: "stoken_t \<Rightarrow> bool" where
  "skippable tok \<longleftrightarrow> tok_type tok = TYPE_COMMENT \<or> tok_type tok = TYPE_LEFTPARENS \<or>
     tok_type tok = TYPE_SQLTYPE \<or> st_is_unary_op tok"

lemma tokenize_decreases:
  assumes "fst (libinjection_sqli_tokenize lk sf)"
  shows "sf_slen sf - sf_pos (snd (libinjection_sqli_tokenize lk sf)) < sf_slen sf - sf_pos sf"
    and "sf_slen (snd (libinjection_sqli_tokenize lk sf)) = sf_slen sf"
proof -
  have "sf_pos sf < sf_slen sf"
  proof (rule ccontr)
    assume "\<not> sf_pos sf < sf_slen sf"
    with assms show False
      by (auto simp: libinjection_sqli_tokenize_def Let_def tokenize_loop_step split: if_splits)
  qed
  then show "sf_slen sf - sf_pos (snd (libinjection_sqli_tokenize lk sf)) < sf_slen sf - sf_pos sf"
    using tokenize_pos [of sf lk] assms by auto
  show "sf_slen (snd (libinjection_sqli_tokenize lk sf)) = sf_slen sf" by (rule tokenize_sel)
qed

lemma tokenize_decreases_eq:
  assumes "(True, sf') = libinjection_sqli_tokenize lk sf"
  shows "sf_slen sf' - sf_pos sf' < sf_slen sf - sf_pos sf"
  using tokenize_decreases [of lk sf] by (simp flip: assms)

function fold_skip :: "lookup_fn \<Rightarrow> sqli_state \<Rightarrow> bool \<times> sqli_state" where
  "fold_skip lk sf =
     (case libinjection_sqli_tokenize lk sf of
        (got, sf1) \<Rightarrow>
          if \<not> skippable (cur sf1) then (got, sf1)
          else if got then fold_skip lk sf1
          else (got, sf1))"
  by pat_completeness auto

termination
  by (relation "measure (\<lambda>(lk, sf). sf_slen sf - sf_pos sf)")
    (auto simp: tokenize_decreases_eq)

declare fold_skip.simps [simp del]

text \<open>
  The loops that read up to two and up to three tokens: a comment is remembered and its slot
  used again.
\<close>

definition fold_read :: "lookup_fn \<Rightarrow> fold_state \<Rightarrow> fold_state" where
  "fold_read lk st =
     (case libinjection_sqli_tokenize lk ((fd_sf st)\<lparr>sf_current := fd_pos st\<rparr>) of
        (got, sf1) \<Rightarrow>
          let st1 = st\<lparr>fd_sf := sf1, fd_more := got\<rparr> in
          if got then
            if tok_type (cur sf1) = TYPE_COMMENT then st1\<lparr>fd_comment := cur sf1\<rparr>
            else st1\<lparr>fd_comment := (fd_comment st1)\<lparr>tok_type := NUL\<rparr>, fd_pos := fd_pos st1 + 1\<rparr>
          else st1)"

lemma fold_read_decreases:
  assumes "fd_more (fold_read lk st)"
  shows "sf_slen (fd_sf (fold_read lk st)) - sf_pos (fd_sf (fold_read lk st)) <
    sf_slen (fd_sf st) - sf_pos (fd_sf st)"
  using assms tokenize_decreases [of lk "(fd_sf st)\<lparr>sf_current := fd_pos st\<rparr>"]
  by (auto simp: fold_read_def Let_def split_beta split: if_splits)

function fold_get :: "lookup_fn \<Rightarrow> nat \<Rightarrow> fold_state \<Rightarrow> fold_state" where
  "fold_get lk n st =
     (if fd_more st \<and> fd_pos st \<le> MAX_TOKENS \<and> fd_pos st - fd_left st < n
      then fold_get lk n (fold_read lk st)
      else st)"
  by pat_completeness auto

termination
proof (relation "measures [\<lambda>(lk, n, st). if fd_more st then 1 else 0,
    \<lambda>(lk, n, st). sf_slen (fd_sf st) - sf_pos (fd_sf st)]", simp, clarify)
  fix lk n and st :: fold_state
  assume "fd_more st"
  then show "((lk, n, fold_read lk st), lk, n, st) \<in> measures [\<lambda>(lk, n, st). if fd_more st then 1 else 0,
    \<lambda>(lk, n, st). sf_slen (fd_sf st) - sf_pos (fd_sf st)]"
    using fold_read_decreases [of lk st] by simp
qed

declare fold_get.simps [simp del]

section \<open>The rules\<close>

text \<open>The special cases for five tokens at the head of the loop.\<close>

definition five_special :: "fold_state \<Rightarrow> bool" where
  "five_special st \<longleftrightarrow>
     (ty st 0 = TYPE_NUMBER \<and>
      (ty st 1 = TYPE_OPERATOR \<or> ty st 1 = TYPE_COMMA) \<and>
      ty st 2 = TYPE_LEFTPARENS \<and>
      ty st 3 = TYPE_NUMBER \<and>
      ty st 4 = TYPE_RIGHTPARENS) \<or>
     (ty st 0 = TYPE_BAREWORD \<and>
      ty st 1 = TYPE_OPERATOR \<and>
      ty st 2 = TYPE_LEFTPARENS \<and>
      (ty st 3 = TYPE_BAREWORD \<or> ty st 3 = TYPE_NUMBER) \<and>
      ty st 4 = TYPE_RIGHTPARENS) \<or>
     (ty st 0 = TYPE_NUMBER \<and>
      ty st 1 = TYPE_RIGHTPARENS \<and>
      ty st 2 = TYPE_COMMA \<and>
      ty st 3 = TYPE_LEFTPARENS \<and>
      ty st 4 = TYPE_NUMBER) \<or>
     (ty st 0 = TYPE_BAREWORD \<and>
      ty st 1 = TYPE_RIGHTPARENS \<and>
      ty st 2 = TYPE_OPERATOR \<and>
      ty st 3 = TYPE_LEFTPARENS \<and>
      ty st 4 = TYPE_BAREWORD)"

definition fold_five :: "fold_state \<Rightarrow> fold_state" where
  "fold_five st =
     (if fd_pos st \<ge> MAX_TOKENS \<and> five_special st then
        if fd_pos st > MAX_TOKENS then
          (set_tv 1 (st_copy (tv st 1) (tv st MAX_TOKENS)) st)\<lparr>fd_pos := 2, fd_left := 0\<rparr>
        else st\<lparr>fd_pos := 1, fd_left := 0\<rparr>
      else st)"

text \<open>Two tokens: repeated strings and semicolons, unary operators, merged words.\<close>

definition fold_two_merge :: "lookup_fn \<Rightarrow> fold_state \<Rightarrow> fold_out option" where
  "fold_two_merge lk st =
     (let l = fd_left st; a = tv st l; b = tv st (l + 1);
          back = (if l > 0 then l - 1 else l) in
      if tok_type a = TYPE_STRING \<and> tok_type b = TYPE_STRING then
        Some (Again (add_folds 1 (drop_tokens 1 l st)))
      else if tok_type a = TYPE_SEMICOLON \<and> tok_type b = TYPE_SEMICOLON then
        Some (Again (add_folds 1 (drop_tokens 1 l st)))
      else if (tok_type a = TYPE_OPERATOR \<or> tok_type a = TYPE_LOGIC_OPERATOR) \<and>
              (st_is_unary_op b \<or> tok_type b = TYPE_SQLTYPE) then
        Some (Again (add_folds 1 (drop_tokens 1 0 st)))
      else if tok_type a = TYPE_LEFTPARENS \<and> st_is_unary_op b then
        Some (Again (add_folds 1 (drop_tokens 1 back st)))
      else
        case syntax_merge_words lk a b of
          Some merged \<Rightarrow> Some (Again (add_folds 1 (drop_tokens 1 back (set_tv l merged st))))
        | None \<Rightarrow> None)"

text \<open>Two tokens: the names that become functions, \<open>IN\<close> and \<open>LIKE\<close>.\<close>

definition function_names :: "string list" where
  "function_names = [''USER_ID'', ''USER_NAME'', ''DATABASE'', ''PASSWORD'', ''USER'',
     ''CURRENT_USER'', ''CURRENT_DATE'', ''CURRENT_TIME'', ''CURRENT_TIMESTAMP'',
     ''LOCALTIME'', ''LOCALTIMESTAMP'']"

definition fold_two_names :: "fold_state \<Rightarrow> fold_out option" where
  "fold_two_names st =
     (let l = fd_left st; a = tv st l; b = tv st (l + 1) in
      if tok_type a = TYPE_SEMICOLON \<and> tok_type b = TYPE_FUNCTION \<and>
         (tok_val b ! 0 = CHR ''I'' \<or> tok_val b ! 0 = CHR ''i'') \<and>
         (tok_val b ! 1 = CHR ''F'' \<or> tok_val b ! 1 = CHR ''f'') then
        Some (Again (set_type (l + 1) TYPE_TSQL st))
      else if (tok_type a = TYPE_BAREWORD \<or> tok_type a = TYPE_VARIABLE) \<and>
              tok_type b = TYPE_LEFTPARENS \<and>
              list_ex (\<lambda>w. tok_is w a) function_names then
        Some (Again (set_type l TYPE_FUNCTION st))
      else if tok_type a = TYPE_KEYWORD \<and> (tok_is ''IN'' a \<or> tok_is ''NOT IN'' a) then
        Some (Again (set_type l
          (if tok_type b = TYPE_LEFTPARENS then TYPE_OPERATOR else TYPE_BAREWORD) st))
      else if tok_type a = TYPE_OPERATOR \<and> (tok_is ''LIKE'' a \<or> tok_is ''NOT LIKE'' a) then
        Some (Proceed
          (if tok_type b = TYPE_LEFTPARENS then set_type l TYPE_FUNCTION st else st))
      else None)"

text \<open>Two tokens: types, collations, backslashes, parentheses and braces.\<close>

definition fold_two_drop :: "fold_state \<Rightarrow> fold_out option" where
  "fold_two_drop st =
     (let l = fd_left st; a = tv st l; b = tv st (l + 1) in
      if tok_type a = TYPE_SQLTYPE \<and>
         (tok_type b = TYPE_BAREWORD \<or> tok_type b = TYPE_NUMBER \<or> tok_type b = TYPE_SQLTYPE \<or>
          tok_type b = TYPE_LEFTPARENS \<or> tok_type b = TYPE_FUNCTION \<or>
          tok_type b = TYPE_VARIABLE \<or> tok_type b = TYPE_STRING) then
        Some (Again (add_folds 1 (drop_tokens 1 0 (set_tv l (st_copy a b) st))))
      else if tok_type a = TYPE_COLLATE \<and> tok_type b = TYPE_BAREWORD then
        Some (Proceed
          (if c_strchr (tok_val b) (CHR ''_'')
           then (set_type (l + 1) TYPE_SQLTYPE st)\<lparr>fd_left := 0\<rparr> else st))
      else if tok_type a = TYPE_BACKSLASH then
        if st_is_arithmetic_op b then Some (Again ((set_type l TYPE_NUMBER st)\<lparr>fd_left := 0\<rparr>))
        else Some (Again (add_folds 1 (drop_tokens 1 0 (set_tv l (st_copy a b) st))))
      else if tok_type a = TYPE_LEFTPARENS \<and> tok_type b = TYPE_LEFTPARENS then
        Some (Again (add_folds 1 (drop_tokens 1 0 st)))
      else if tok_type a = TYPE_RIGHTPARENS \<and> tok_type b = TYPE_RIGHTPARENS then
        Some (Again (add_folds 1 (drop_tokens 1 0 st)))
      else if tok_type a = TYPE_LEFTBRACE \<and> tok_type b = TYPE_BAREWORD then
        if tok_len b = 0 then Some (Leave (l + 2) (set_type (l + 1) TYPE_EVIL st))
        else Some (Again (add_folds 2 (drop_tokens 2 0 st)))
      else if tok_type b = TYPE_RIGHTBRACE then
        Some (Again (add_folds 1 (drop_tokens 1 0 st)))
      else None)"

definition fold_two :: "lookup_fn \<Rightarrow> fold_state \<Rightarrow> fold_out" where
  "fold_two lk st =
     (case fold_two_merge lk st of Some r \<Rightarrow> r
      | None \<Rightarrow> (case fold_two_names st of Some r \<Rightarrow> r
      | None \<Rightarrow> (case fold_two_drop st of Some r \<Rightarrow> r | None \<Rightarrow> Proceed st)))"

text \<open>Three tokens: operators, casts and commas.\<close>

definition fold_three_ops :: "fold_state \<Rightarrow> fold_out option" where
  "fold_three_ops st =
     (let l = fd_left st; a = tok_type (tv st l); b = tv st (l + 1); c = tok_type (tv st (l + 2)) in
      if a = TYPE_NUMBER \<and> tok_type b = TYPE_OPERATOR \<and> c = TYPE_NUMBER then
        Some (Again (drop_tokens 2 0 st))
      else if a = TYPE_OPERATOR \<and> tok_type b \<noteq> TYPE_LEFTPARENS \<and> c = TYPE_OPERATOR then
        Some (Again (drop_tokens 2 0 st))
      else if a = TYPE_LOGIC_OPERATOR \<and> c = TYPE_LOGIC_OPERATOR then
        Some (Again (drop_tokens 2 0 st))
      else if a = TYPE_VARIABLE \<and> tok_type b = TYPE_OPERATOR \<and>
              (c = TYPE_VARIABLE \<or> c = TYPE_NUMBER \<or> c = TYPE_BAREWORD) then
        Some (Again (drop_tokens 2 0 st))
      else if (a = TYPE_BAREWORD \<or> a = TYPE_NUMBER) \<and> tok_type b = TYPE_OPERATOR \<and>
              (c = TYPE_NUMBER \<or> c = TYPE_BAREWORD) then
        Some (Again (drop_tokens 2 0 st))
      else if (a = TYPE_BAREWORD \<or> a = TYPE_NUMBER \<or> a = TYPE_VARIABLE \<or> a = TYPE_STRING) \<and>
              tok_type b = TYPE_OPERATOR \<and> c_str (tok_val b) = ''::'' \<and> c = TYPE_SQLTYPE then
        Some (Again (add_folds 2 (drop_tokens 2 0 st)))
      else if (a = TYPE_BAREWORD \<or> a = TYPE_NUMBER \<or> a = TYPE_STRING \<or> a = TYPE_VARIABLE) \<and>
              tok_type b = TYPE_COMMA \<and>
              (c = TYPE_NUMBER \<or> c = TYPE_BAREWORD \<or> c = TYPE_STRING \<or> c = TYPE_VARIABLE) then
        Some (Again (drop_tokens 2 0 st))
      else None)"

text \<open>Three tokens: unary operators after expressions and commas, names with dots, \<open>USER(x)\<close>.\<close>

definition fold_three_unary :: "fold_state \<Rightarrow> fold_out option" where
  "fold_three_unary st =
     (let l = fd_left st; a = tok_type (tv st l); b = tv st (l + 1); c = tok_type (tv st (l + 2));
          shifted = set_tv (l + 1) (st_copy b (tv st (l + 2))) st in
      if (a = TYPE_EXPRESSION \<or> a = TYPE_GROUP \<or> a = TYPE_COMMA) \<and> st_is_unary_op b \<and>
         c = TYPE_LEFTPARENS then
        Some (Again (drop_tokens 1 0 shifted))
      else if (a = TYPE_KEYWORD \<or> a = TYPE_EXPRESSION \<or> a = TYPE_GROUP) \<and> st_is_unary_op b \<and>
              (c = TYPE_NUMBER \<or> c = TYPE_BAREWORD \<or> c = TYPE_VARIABLE \<or> c = TYPE_STRING \<or>
               c = TYPE_FUNCTION) then
        Some (Again (drop_tokens 1 0 shifted))
      else if a = TYPE_COMMA \<and> st_is_unary_op b \<and>
              (c = TYPE_NUMBER \<or> c = TYPE_BAREWORD \<or> c = TYPE_VARIABLE \<or> c = TYPE_STRING) then
        if fd_pos st \<ge> 3 then Some (Again (drop_tokens 3 0 shifted)) else Some Abort
      else if a = TYPE_COMMA \<and> st_is_unary_op b \<and> c = TYPE_FUNCTION then
        Some (Again (drop_tokens 1 0 shifted))
      else if a = TYPE_BAREWORD \<and> tok_type b = TYPE_DOT \<and> c = TYPE_BAREWORD then
        if fd_pos st \<ge> 3 then Some (Again (drop_tokens 2 0 st)) else Some Abort
      else if a = TYPE_EXPRESSION \<and> tok_type b = TYPE_DOT \<and> c = TYPE_BAREWORD then
        Some (Again (drop_tokens 1 0 shifted))
      else if a = TYPE_FUNCTION \<and> tok_type b = TYPE_LEFTPARENS \<and> c \<noteq> TYPE_RIGHTPARENS then
        Some (Proceed
          (if tok_is ''USER'' (tv st l) then set_type l TYPE_BAREWORD st else st))
      else None)"

definition fold_three :: "fold_state \<Rightarrow> fold_out" where
  "fold_three st =
     (case fold_three_ops st of Some r \<Rightarrow> r
      | None \<Rightarrow> (case fold_three_unary st of Some r \<Rightarrow> r | None \<Rightarrow> Proceed st))"

section \<open>The loop\<close>

text \<open>
  One round of \<open>while (1)\<close>. \<open>Proceed\<close> as the result of a round is the \<open>break\<close>.
\<close>

definition fold_round :: "lookup_fn \<Rightarrow> fold_state \<Rightarrow> fold_out" where
  "fold_round lk st0 =
     (let st = fold_five st0 in
      if \<not> fd_more st \<or> fd_left st \<ge> MAX_TOKENS then Proceed (st\<lparr>fd_left := fd_pos st\<rparr>)
      else
        let st = fold_get lk 2 st in
        if fd_pos st - fd_left st < 2 then Again (st\<lparr>fd_left := fd_pos st\<rparr>)
        else
          case fold_two lk st of
            Proceed st \<Rightarrow>
              (let st = fold_get lk 3 st in
               if fd_pos st - fd_left st < 3 then Again (st\<lparr>fd_left := fd_pos st\<rparr>)
               else
                 case fold_three st of
                   Proceed st \<Rightarrow> Again (st\<lparr>fd_left := fd_left st + 1\<rparr>)
                 | r \<Rightarrow> r)
          | r \<Rightarrow> r)"

text \<open>
  The loop; \<open>None\<close> if it does not end or an \<open>assert\<close> fails. The first component of the result
  is the value of an early \<open>return\<close>.
\<close>

partial_function (option) fold_loop ::
  "lookup_fn \<Rightarrow> fold_state \<Rightarrow> (nat option \<times> fold_state) option" where
  "fold_loop lk st =
     (case fold_round lk st of
        Again st' \<Rightarrow> fold_loop lk st'
      | Proceed st' \<Rightarrow> Some (None, st')
      | Leave n st' \<Rightarrow> Some (Some n, st')
      | Abort \<Rightarrow> None)"

declare fold_loop.simps [code]

text \<open>After the loop: a comment at the end is added back, and at most five tokens count.\<close>

definition fold_finish :: "fold_state \<Rightarrow> nat \<times> sqli_state" where
  "fold_finish st =
     (let st1 =
        (if fd_left st < MAX_TOKENS \<and> tok_type (fd_comment st) = TYPE_COMMENT then
           (set_tv (fd_left st) (st_copy (tv st (fd_left st)) (fd_comment st)) st)
             \<lparr>fd_left := fd_left st + 1\<rparr>
         else st)
      in (if fd_left st1 > MAX_TOKENS then MAX_TOKENS else fd_left st1, fd_sf st1))"

definition libinjection_sqli_fold :: "lookup_fn \<Rightarrow> sqli_state \<Rightarrow> (nat \<times> sqli_state) option" where
  "libinjection_sqli_fold lk sf =
     (case fold_skip lk (sf\<lparr>sf_current := 0\<rparr>) of
        (got, sf1) \<Rightarrow>
          if \<not> got then Some (0, sf1)
          else
            case fold_loop lk
              \<lparr>fd_sf = sf1, fd_comment = zero_token, fd_pos = 1, fd_left = 0, fd_more = True\<rparr> of
              None \<Rightarrow> None
            | Some (Some n, st) \<Rightarrow> Some (n, fd_sf st)
            | Some (None, st) \<Rightarrow> Some (fold_finish st))"

end
