(* ===== verification/Sqli_Fold_Correct.thy ===== *)
theory Sqli_Fold_Correct
  imports Sqli_Fold "HOL-Library.Product_Lexorder"
begin

text \<open>
  The fold ends and its assertions hold. \<open>fold_ok\<close> is the invariant of the loop and
  \<open>fold_rank\<close> decreases in every round that continues: first the input left and the tokens
  kept, then whether there is more input, then the tokens that can still send \<open>left\<close> back to
  the start, then \<open>left\<close>, then the tokens that can still change their type in place.
\<close>

section \<open>The invariant\<close>

definition fold_ok :: "fold_state \<Rightarrow> bool" where
  "fold_ok st \<longleftrightarrow> length (sf_tokenvec (fd_sf st)) = 8 \<and> sf_pos (fd_sf st) \<le> sf_slen (fd_sf st) \<and>
     0 < sf_slen (fd_sf st) \<and>
     list_all wf_token (sf_tokenvec (fd_sf st)) \<and> wf_token (fd_comment st) \<and>
     fd_left st \<le> fd_pos st \<and> fd_pos st \<le> 6 \<and> (\<forall>i < fd_pos st. ty st i \<noteq> NUL)"

definition fold_left :: "fold_state \<Rightarrow> nat" where
  "fold_left st = 2 * (sf_slen (fd_sf st) - sf_pos (fd_sf st)) + fd_pos st"

definition rewinds :: "stoken_t \<Rightarrow> nat" where
  "rewinds tok = (if tok_type tok = TYPE_BACKSLASH then 1 else 0) +
     (if tok_type tok \<noteq> TYPE_SQLTYPE \<and> c_strchr (tok_val tok) (CHR ''_'') then 1 else 0)"

definition retypes :: "stoken_t \<Rightarrow> nat" where
  "retypes tok =
     (if tok_type tok = TYPE_KEYWORD then 3
      else if tok_type tok = TYPE_BAREWORD \<or> tok_type tok = TYPE_VARIABLE \<or>
              tok_type tok = TYPE_OPERATOR then 2
      else if tok_type tok = TYPE_FUNCTION then 1 else 0)"

definition fold_prog :: "fold_state \<Rightarrow> nat \<times> nat" where
  "fold_prog st = (fold_left st, if fd_more st then 1 else 0)"

definition all_rewinds :: "fold_state \<Rightarrow> nat" where
  "all_rewinds st = sum_list (map rewinds (sf_tokenvec (fd_sf st)))"

definition all_retypes :: "fold_state \<Rightarrow> nat" where
  "all_retypes st = sum_list (map retypes (sf_tokenvec (fd_sf st)))"

definition fold_rank :: "fold_state \<Rightarrow> (nat \<times> nat) \<times> nat \<times> nat \<times> nat" where
  "fold_rank st = (fold_prog st, all_rewinds st, 6 - fd_left st, all_retypes st)"

section \<open>Components of the states\<close>

lemma set_tv_sel [simp]:
  "fd_pos (set_tv i tok st) = fd_pos st" "fd_left (set_tv i tok st) = fd_left st"
  "fd_more (set_tv i tok st) = fd_more st" "fd_comment (set_tv i tok st) = fd_comment st"
  "sf_pos (fd_sf (set_tv i tok st)) = sf_pos (fd_sf st)"
  "sf_slen (fd_sf (set_tv i tok st)) = sf_slen (fd_sf st)"
  "sf_tokenvec (fd_sf (set_tv i tok st)) = (sf_tokenvec (fd_sf st))[i := tok]"
  by (simp_all add: set_tv_def)

lemma set_type_sel [simp]:
  "fd_pos (set_type i t st) = fd_pos st" "fd_left (set_type i t st) = fd_left st"
  "fd_more (set_type i t st) = fd_more st" "fd_comment (set_type i t st) = fd_comment st"
  "sf_pos (fd_sf (set_type i t st)) = sf_pos (fd_sf st)"
  "sf_slen (fd_sf (set_type i t st)) = sf_slen (fd_sf st)"
  "sf_tokenvec (fd_sf (set_type i t st)) = (sf_tokenvec (fd_sf st))[i := (tv st i)\<lparr>tok_type := t\<rparr>]"
  by (simp_all add: set_type_def)

lemma add_folds_sel [simp]:
  "fd_pos (add_folds n st) = fd_pos st" "fd_left (add_folds n st) = fd_left st"
  "fd_more (add_folds n st) = fd_more st" "fd_comment (add_folds n st) = fd_comment st"
  "sf_pos (fd_sf (add_folds n st)) = sf_pos (fd_sf st)"
  "sf_slen (fd_sf (add_folds n st)) = sf_slen (fd_sf st)"
  "sf_tokenvec (fd_sf (add_folds n st)) = sf_tokenvec (fd_sf st)"
  by (simp_all add: add_folds_def)

lemma drop_tokens_sel [simp]:
  "fd_pos (drop_tokens n l st) = fd_pos st - n" "fd_left (drop_tokens n l st) = l"
  "fd_more (drop_tokens n l st) = fd_more st" "fd_comment (drop_tokens n l st) = fd_comment st"
  "fd_sf (drop_tokens n l st) = fd_sf st"
  by (simp_all add: drop_tokens_def)

lemma tv_updates [simp]:
  "tv (add_folds k st) i = tv st i" "tv (drop_tokens n l st) i = tv st i"
  "tv (st\<lparr>fd_pos := p\<rparr>) i = tv st i" "tv (st\<lparr>fd_left := l\<rparr>) i = tv st i"
  by (simp_all add: tv_def)

lemma tv_set [simp]:
  "j < length (sf_tokenvec (fd_sf st)) \<Longrightarrow> tv (set_tv j tok st) i = (if i = j then tok else tv st i)"
  "j < length (sf_tokenvec (fd_sf st)) \<Longrightarrow>
   tv (set_type j t st) i = (if i = j then (tv st i)\<lparr>tok_type := t\<rparr> else tv st i)"
  by (simp_all add: tv_def)

lemma wf_tv: "fold_ok st \<Longrightarrow> i < 8 \<Longrightarrow> wf_token (tv st i)"
  by (simp add: fold_ok_def tv_def list_all_length)

lemma list_all_update: "list_all P xs \<Longrightarrow> P x \<Longrightarrow> list_all P (xs[i := x])"
  by (auto simp: list_all_iff dest!: set_update_subset_insert [THEN subsetD])

lemma fold_ok_set_tv:
  "fold_ok st \<Longrightarrow> i < 8 \<Longrightarrow> wf_token tok \<Longrightarrow> (i < fd_pos st \<Longrightarrow> tok_type tok \<noteq> NUL) \<Longrightarrow>
   fold_ok (set_tv i tok st)"
  by (auto simp: fold_ok_def list_all_update)

lemma fold_ok_set_type:
  "fold_ok st \<Longrightarrow> i < 8 \<Longrightarrow> t \<noteq> NUL \<Longrightarrow> fold_ok (set_type i t st)"
  unfolding set_type_def by (rule fold_ok_set_tv) (simp_all add: wf_tv)

lemma fold_ok_drop:
  "fold_ok st \<Longrightarrow> l \<le> fd_pos st - n \<Longrightarrow> fold_ok (drop_tokens n l st)"
  by (auto simp: fold_ok_def)

lemma fold_ok_pos:
  "fold_ok st \<Longrightarrow> l \<le> p \<Longrightarrow> p \<le> fd_pos st \<Longrightarrow> fold_ok (st\<lparr>fd_pos := p, fd_left := l\<rparr>)"
  by (auto simp: fold_ok_def tv_def)

lemma fold_ok_folds [simp]: "fold_ok (add_folds n st) = fold_ok st"
  by (simp add: fold_ok_def)

lemma fold_ok_left: "fold_ok st \<Longrightarrow> l \<le> fd_pos st \<Longrightarrow> fold_ok (st\<lparr>fd_left := l\<rparr>)"
  by (simp add: fold_ok_def)

text \<open>Dropping a token is progress, whatever else a rule changes.\<close>

lemma fold_left_updates [simp]:
  "fold_left (set_tv i tok st) = fold_left st" "fold_left (set_type i t st) = fold_left st"
  "fold_left (add_folds k st) = fold_left st" "fold_left (st\<lparr>fd_left := l\<rparr>) = fold_left st"
  by (simp_all add: fold_left_def)

lemma fold_left_drop: "0 < n \<Longrightarrow> n \<le> fd_pos st \<Longrightarrow> fold_left (drop_tokens n l st) < fold_left st"
  by (simp add: fold_left_def)

lemma rank_less_left: "fold_left st' < fold_left st \<Longrightarrow> fold_rank st' < fold_rank st"
  by (simp add: fold_rank_def fold_prog_def)

lemma rank_less_prog: "fold_prog st' < fold_prog st \<Longrightarrow> fold_rank st' < fold_rank st"
  by (simp add: fold_rank_def)

section \<open>Reading\<close>

definition advances :: "fold_state \<Rightarrow> fold_state \<Rightarrow> bool" where
  "advances st st' \<longleftrightarrow> st' = st \<or> fold_prog st' < fold_prog st"

lemma advances_refl [simp]: "advances st st"
  by (simp add: advances_def)

lemma advances_trans: "advances a b \<Longrightarrow> advances b c \<Longrightarrow> advances a c"
  by (auto simp: advances_def)

lemma fold_five_ok:
  assumes "fold_ok st"
  shows "fold_ok (fold_five st) \<and> advances st (fold_five st)"
proof (cases "fd_pos st \<ge> MAX_TOKENS \<and> five_special st")
  case False
  then show ?thesis using assms by (auto simp: fold_five_def)
next
  case True
  then have pos: "5 \<le> fd_pos st" by (simp add: MAX_TOKENS_def)
  have small: "st\<lparr>fd_pos := 1, fd_left := 0\<rparr> \<noteq> st \<and> fold_ok (st\<lparr>fd_pos := 1, fd_left := 0\<rparr>)"
    using fold_ok_pos [OF assms, of 0 1] pos by (auto dest: arg_cong [where f = fd_pos])
  have "fold_ok (set_tv 1 (tv st 5) st)" if "5 < fd_pos st"
    using that assms by (intro fold_ok_set_tv wf_tv) (auto simp: fold_ok_def)
  then have "fold_ok ((set_tv 1 (tv st 5) st)\<lparr>fd_pos := 2, fd_left := 0\<rparr>)" if "5 < fd_pos st"
    using that by (intro fold_ok_pos) auto
  then show ?thesis
    using True pos small
    by (auto simp: fold_five_def MAX_TOKENS_def st_copy_def advances_def fold_prog_def fold_left_def)
qed

lemma fold_read_ok:
  assumes ok: "fold_ok st" and "fd_more st" and pos: "fd_pos st \<le> MAX_TOKENS"
  shows "fold_ok (fold_read lk st)" "fold_prog (fold_read lk st) < fold_prog st"
    and "fd_left (fold_read lk st) = fd_left st" "fd_pos st \<le> fd_pos (fold_read lk st)"
proof -
  let ?sf = "(fd_sf st)\<lparr>sf_current := fd_pos st\<rparr>"
  let ?sf1 = "snd (libinjection_sqli_tokenize lk ?sf)"
  let ?got = "fst (libinjection_sqli_tokenize lk ?sf)"
  have cur: "sf_current ?sf < length (sf_tokenvec ?sf)" "sf_slen ?sf \<noteq> 0" "sf_pos ?sf \<le> sf_slen ?sf"
    using ok pos by (auto simp: fold_ok_def MAX_TOKENS_def)
  note sel = tokenize_sel [of lk ?sf]
  note posn = tokenize_pos [OF cur(3), of lk]
  have type: "?got \<longleftrightarrow> tok_type (cur ?sf1) \<noteq> NUL" by (rule tokenize_type [OF cur(1,2)])
  have wf: "wf_token (cur ?sf1)" by (rule token_of_wf [OF tokenize_token [OF cur(1,2)]])
  have vec: "sf_tokenvec ?sf1 = (sf_tokenvec (fd_sf st))[fd_pos st := cur ?sf1]"
    using sel(6) by simp
  show "fd_left (fold_read lk st) = fd_left st" "fd_pos st \<le> fd_pos (fold_read lk st)"
    by (auto simp: fold_read_def Let_def split_beta)
  show "fold_prog (fold_read lk st) < fold_prog st"
    using assms(2) posn sel(2) cur(3)
    by (auto simp: fold_read_def Let_def split_beta fold_prog_def fold_left_def)
  have "wf_token (fd_comment (fold_read lk st))"
    using ok wf by (auto simp: fold_read_def Let_def split_beta fold_ok_def)
  moreover have "ty (fold_read lk st) i \<noteq> NUL" if "i < fd_pos (fold_read lk st)" for i
    using that ok type vec cur(1)
    by (auto simp: fold_read_def Let_def split_beta fold_ok_def tv_def nth_list_update less_Suc_eq
        split: if_splits)
  moreover have "list_all wf_token (sf_tokenvec ?sf1)"
    using ok wf by (simp add: vec list_all_update fold_ok_def)
  moreover have "fd_sf (fold_read lk st) = ?sf1" "fd_pos (fold_read lk st) \<le> fd_pos st + 1"
    by (auto simp: fold_read_def Let_def split_beta)
  moreover have "fd_pos st \<le> 5" using pos by (simp add: MAX_TOKENS_def)
  ultimately show "fold_ok (fold_read lk st)"
    using ok posn sel vec \<open>fd_left (fold_read lk st) = fd_left st\<close> \<open>fd_pos st \<le> fd_pos (fold_read lk st)\<close>
    unfolding fold_ok_def by simp
qed

lemma fold_get_ok:
  assumes "fold_ok st"
  shows "fold_ok (fold_get lk n st)" "advances st (fold_get lk n st)"
    "fd_left (fold_get lk n st) = fd_left st" "fd_pos st \<le> fd_pos (fold_get lk n st)"
    "\<not> fd_more (fold_get lk n st) \<or> fd_pos (fold_get lk n st) > MAX_TOKENS \<or>
      fd_pos (fold_get lk n st) - fd_left (fold_get lk n st) \<ge> n"
proof -
  have "fold_ok (fold_get lk n st) \<and> advances st (fold_get lk n st) \<and>
    fd_left (fold_get lk n st) = fd_left st \<and> fd_pos st \<le> fd_pos (fold_get lk n st) \<and>
    (\<not> fd_more (fold_get lk n st) \<or> fd_pos (fold_get lk n st) > MAX_TOKENS \<or>
      fd_pos (fold_get lk n st) - fd_left (fold_get lk n st) \<ge> n)"
    using assms
  proof (induction lk n st rule: fold_get.induct)
    case (1 lk n st)
    show ?case
    proof (cases "fd_more st \<and> fd_pos st \<le> MAX_TOKENS \<and> fd_pos st - fd_left st < n")
      case True
      then have m: "fd_more st" and p: "fd_pos st \<le> MAX_TOKENS" by auto
      note r = fold_read_ok [OF "1.prems" m p, of lk]
      show ?thesis
        using "1.IH" [OF True r(1)] True r
        by (subst (1 2 3 4 5 6 7 8) fold_get.simps)
          (auto intro: advances_trans [of st "fold_read lk st"] simp: advances_def)
    next
      case False
      then show ?thesis using "1.prems" by (subst (1 2 3 4 5 6 7 8) fold_get.simps) auto
    qed
  qed
  then show "fold_ok (fold_get lk n st)" "advances st (fold_get lk n st)"
    "fd_left (fold_get lk n st) = fd_left st" "fd_pos st \<le> fd_pos (fold_get lk n st)"
    "\<not> fd_more (fold_get lk n st) \<or> fd_pos (fold_get lk n st) > MAX_TOKENS \<or>
      fd_pos (fold_get lk n st) - fd_left (fold_get lk n st) \<ge> n"
    by blast+
qed

section \<open>The rules keep the invariant\<close>

text \<open>What a group of rules may do to a state in which it looks at some tokens.\<close>

definition rule_good :: "fold_state \<Rightarrow> fold_out \<Rightarrow> bool" where
  "rule_good st r =
     (case r of
        Again st' \<Rightarrow> fold_ok st' \<and> fold_rank st' < fold_rank st
      | Proceed st' \<Rightarrow> fold_ok st' \<and> fold_prog st' = fold_prog st \<and> fd_more st' = fd_more st \<and>
          fd_pos st' = fd_pos st \<and>
          (fd_left st' = fd_left st \<and> all_rewinds st' = all_rewinds st \<or>
           fd_left st' = 0 \<and> all_rewinds st' < all_rewinds st)
      | Leave n st' \<Rightarrow> fold_ok st' \<and> n = fd_left st + 2 \<and> n \<le> fd_pos st' \<and>
          ty st' (fd_left st + 1) = TYPE_EVIL
      | Abort \<Rightarrow> False)"

lemma rule_good_Proceed_same: "fold_ok st \<Longrightarrow> rule_good st (Proceed st)"
  by (simp add: rule_good_def)

lemma rule_good_drop:
  assumes "fold_ok s" "0 < n" "n \<le> fd_pos s" "l \<le> fd_pos s - n" "fold_left s = fold_left st"
  shows "rule_good st (Again (drop_tokens n l s))"
    and "rule_good st (Again (add_folds k (drop_tokens n l s)))"
  using fold_ok_drop [OF assms(1,4)] fold_left_drop [OF assms(2,3), of l] assms(5)
  by (auto simp: rule_good_def intro: rank_less_left)

text \<open>Retyping in place.\<close>

lemma sum_list_set_type:
  assumes "i < length (sf_tokenvec (fd_sf st))"
  shows "all_rewinds (set_type i t st) + rewinds (tv st i) =
      all_rewinds st + rewinds ((tv st i)\<lparr>tok_type := t\<rparr>)"
    and "all_retypes (set_type i t st) + retypes (tv st i) =
      all_retypes st + retypes ((tv st i)\<lparr>tok_type := t\<rparr>)"
proof -
  have upd: "sum_list (map f (xs[i := y])) + f (xs ! i) = sum_list (map f xs) + f y"
    if "i < length xs" for f :: "stoken_t \<Rightarrow> nat" and xs y
    using that sum_list_update [of i "map f xs" "f y"] member_le_sum_list [of "f (xs ! i)" "map f xs"]
    by (simp add: map_update)
  show "all_rewinds (set_type i t st) + rewinds (tv st i) =
      all_rewinds st + rewinds ((tv st i)\<lparr>tok_type := t\<rparr>)"
    and "all_retypes (set_type i t st) + retypes (tv st i) =
      all_retypes st + retypes ((tv st i)\<lparr>tok_type := t\<rparr>)"
    using upd [OF assms] by (simp_all add: all_rewinds_def all_retypes_def tv_def)
qed

lemma prog_set_type [simp]: "fold_prog (set_type i t st) = fold_prog st"
  by (simp add: fold_prog_def)

lemma rule_good_retype:
  assumes "fold_ok st" "i < 8" "t \<noteq> NUL"
    and "rewinds ((tv st i)\<lparr>tok_type := t\<rparr>) = rewinds (tv st i)"
    and "retypes ((tv st i)\<lparr>tok_type := t\<rparr>) < retypes (tv st i)"
  shows "rule_good st (Again (set_type i t st))"
proof -
  have "i < length (sf_tokenvec (fd_sf st))" using assms by (simp add: fold_ok_def)
  note sum_list_set_type [OF this, of t]
  then have "all_rewinds (set_type i t st) = all_rewinds st" "all_retypes (set_type i t st) < all_retypes st"
    using assms by linarith+
  then show ?thesis
    using fold_ok_set_type [OF assms(1-3)] by (simp add: rule_good_def fold_rank_def)
qed

lemma rewinds_retype:
  "tok_type tok \<noteq> TYPE_BACKSLASH \<Longrightarrow> tok_type tok \<noteq> TYPE_SQLTYPE \<Longrightarrow> t \<noteq> TYPE_BACKSLASH \<Longrightarrow>
   t \<noteq> TYPE_SQLTYPE \<Longrightarrow> rewinds (tok\<lparr>tok_type := t\<rparr>) = rewinds tok"
  by (simp add: rewinds_def)

lemma rule_good_retype_on:
  assumes "fold_ok st" "i < 8" "t \<noteq> NUL"
    and "rewinds ((tv st i)\<lparr>tok_type := t\<rparr>) = rewinds (tv st i)"
  shows "rule_good st (Proceed (set_type i t st))"
proof -
  have "i < length (sf_tokenvec (fd_sf st))" using assms by (simp add: fold_ok_def)
  note sum_list_set_type(1) [OF this, of t]
  then have "all_rewinds (set_type i t st) = all_rewinds st" using assms by linarith
  then show ?thesis
    using fold_ok_set_type [OF assms(1-3)] by (simp add: rule_good_def)
qed

lemma rule_good_rewind:
  assumes ok: "fold_ok st" and "i < 8" "t \<noteq> NUL"
    and "rewinds ((tv st i)\<lparr>tok_type := t\<rparr>) < rewinds (tv st i)"
  shows "rule_good st (Again ((set_type i t st)\<lparr>fd_left := 0\<rparr>))"
    and "rule_good st (Proceed ((set_type i t st)\<lparr>fd_left := 0\<rparr>))"
proof -
  have "i < length (sf_tokenvec (fd_sf st))" using assms by (simp add: fold_ok_def)
  note sum_list_set_type(1) [OF this, of t]
  then have "all_rewinds ((set_type i t st)\<lparr>fd_left := 0\<rparr>) < all_rewinds st"
    using assms by (simp add: all_rewinds_def)
  then show "rule_good st (Again ((set_type i t st)\<lparr>fd_left := 0\<rparr>))"
    and "rule_good st (Proceed ((set_type i t st)\<lparr>fd_left := 0\<rparr>))"
    using fold_ok_left [OF fold_ok_set_type [OF assms(1-3)], of 0]
    by (auto simp: rule_good_def fold_rank_def fold_prog_def)
qed

lemma syntax_merge_words_wf:
  "syntax_merge_words lk a b = Some tok \<Longrightarrow> wf_token a \<Longrightarrow> wf_token tok \<and> tok_type tok \<noteq> NUL"
  by (auto simp: syntax_merge_words_def Let_def wf_token_length split: if_splits)

lemma fold_two_merge_good:
  assumes ok: "fold_ok st" and two: "fd_left st + 2 \<le> fd_pos st"
    and r: "fold_two_merge lk st = Some r"
  shows "rule_good st r"
proof -
  have pos: "fd_pos st \<le> 6" using ok by (simp add: fold_ok_def)
  have wf: "wf_token (tv st (fd_left st))" using two pos by (intro wf_tv [OF ok]) auto
  have merged: "fold_ok (set_tv (fd_left st) tok st)"
    if "syntax_merge_words lk (tv st (fd_left st)) (tv st (fd_left st + 1)) = Some tok" for tok
    using syntax_merge_words_wf [OF that wf] two pos by (intro fold_ok_set_tv [OF ok]) auto
  show ?thesis
    using r two ok merged
    by (auto simp: fold_two_merge_def Let_def intro!: rule_good_drop split: if_splits option.splits)
qed

lemma fold_two_names_good:
  assumes ok: "fold_ok st" and two: "fd_left st + 2 \<le> fd_pos st"
    and r: "fold_two_names st = Some r"
  shows "rule_good st r"
proof -
  have pos: "fd_left st < 8" "Suc (fd_left st) < 8" using ok two by (auto simp: fold_ok_def)
  show ?thesis
    using r pos
    by (auto simp: fold_two_names_def Let_def intro!: rule_good_retype [OF ok]
        rule_good_retype_on [OF ok] rule_good_Proceed_same [OF ok] rewinds_retype
        simp: retypes_def split: if_splits)
qed

lemma fold_two_drop_good:
  assumes ok: "fold_ok st" and two: "fd_left st + 2 \<le> fd_pos st"
    and r: "fold_two_drop st = Some r"
  shows "rule_good st r"
proof -
  have pos: "fd_left st < 8" "Suc (fd_left st) < 8" "Suc (fd_left st) < fd_pos st"
    using ok two by (auto simp: fold_ok_def)
  have "tok_type (tv st (fd_left st + 1)) \<noteq> NUL" using ok two by (auto simp: fold_ok_def)
  then have copy: "fold_ok (set_tv (fd_left st) (tv st (Suc (fd_left st))) st)"
    using pos by (intro fold_ok_set_tv [OF ok] wf_tv [OF ok]) auto
  have evil: "rule_good st (Leave (Suc (Suc (fd_left st))) (set_type (Suc (fd_left st)) TYPE_EVIL st))"
    using fold_ok_set_type [OF ok pos(2)] pos ok by (simp add: rule_good_def fold_ok_def)
  show ?thesis
    using r pos two copy evil ok
    by (auto simp: fold_two_drop_def Let_def st_copy_def rewinds_def intro!: rule_good_drop
        rule_good_rewind rule_good_Proceed_same split: if_splits)
qed

lemma fold_two_good:
  assumes "fold_ok st" "fd_left st + 2 \<le> fd_pos st"
  shows "rule_good st (fold_two lk st)"
  using fold_two_merge_good [OF assms] fold_two_names_good [OF assms] fold_two_drop_good [OF assms]
    rule_good_Proceed_same [OF assms(1)]
  by (auto simp: fold_two_def split: option.splits)

lemma fold_three_ops_good:
  assumes ok: "fold_ok st" and three: "fd_left st + 3 \<le> fd_pos st"
    and r: "fold_three_ops st = Some r"
  shows "rule_good st r"
  using r three ok
  by (auto simp: fold_three_ops_def Let_def intro!: rule_good_drop split: if_splits)

lemma fold_three_unary_good:
  assumes ok: "fold_ok st" and three: "fd_left st + 3 \<le> fd_pos st"
    and r: "fold_three_unary st = Some r"
  shows "rule_good st r"
proof -
  let ?s = "set_tv (fd_left st + 1) (st_copy (tv st (fd_left st + 1)) (tv st (fd_left st + 2))) st"
  have pos: "fd_left st < 8" "fd_left st + 2 < fd_pos st" "fd_pos st \<le> 6"
    using ok three by (auto simp: fold_ok_def)
  then have "tok_type (tv st (fd_left st + 2)) \<noteq> NUL" using ok by (simp add: fold_ok_def)
  then have shifted: "fold_ok ?s"
    using pos unfolding st_copy_def by (intro fold_ok_set_tv [OF ok] wf_tv [OF ok]) auto
  note drop = rule_good_drop(1) [OF shifted, of _ _ st] rule_good_drop(1) [OF ok, of _ _ st]
  show ?thesis
    using r three pos
    by (auto simp: fold_three_unary_def Let_def rewinds_retype simp del: One_nat_def add_2_eq_Suc'
        intro!: drop rule_good_retype_on [OF ok] rule_good_Proceed_same [OF ok] split: if_splits)
qed

lemma fold_three_good:
  assumes "fold_ok st" "fd_left st + 3 \<le> fd_pos st"
  shows "rule_good st (fold_three st)"
  using fold_three_ops_good [OF assms] fold_three_unary_good [OF assms] rule_good_Proceed_same [OF assms(1)]
  by (auto simp: fold_three_def split: option.splits)

section \<open>A round\<close>

definition round_good :: "fold_state \<Rightarrow> fold_out \<Rightarrow> bool" where
  "round_good st r =
     (case r of
        Again st' \<Rightarrow> fold_ok st' \<and> fold_rank st' < fold_rank st
      | Proceed st' \<Rightarrow> fold_ok st' \<and> fd_left st' = fd_pos st'
      | Leave n st' \<Rightarrow> fold_ok st' \<and> 2 \<le> n \<and> n \<le> 6 \<and> n \<le> fd_pos st' \<and> ty st' (n - 1) = TYPE_EVIL
      | Abort \<Rightarrow> False)"

lemma rank_less_advances: "advances a b \<Longrightarrow> fold_rank c < fold_rank b \<Longrightarrow> fold_rank c < fold_rank a"
  unfolding advances_def using rank_less_prog less_trans by blast

text \<open>What a rule that falls through may have changed, and how one step to the right ends it.\<close>

definition shifts :: "fold_state \<Rightarrow> fold_state \<Rightarrow> bool" where
  "shifts st st' \<longleftrightarrow> fold_prog st' = fold_prog st \<and>
     (fd_left st' = fd_left st \<and> all_rewinds st' = all_rewinds st \<or>
      fd_left st' \<le> fd_left st \<and> all_rewinds st' < all_rewinds st)"

lemma shifts_trans: "shifts a b \<Longrightarrow> shifts b c \<Longrightarrow> shifts a c"
  by (auto simp: shifts_def)

lemma shifts_rank:
  assumes "shifts a b" "fd_left b < l" "l \<le> 6"
  shows "fold_rank (b\<lparr>fd_left := l\<rparr>) < fold_rank a"
  using assms by (auto simp: shifts_def fold_rank_def fold_prog_def all_rewinds_def)

lemma rule_good_shifts: "rule_good st (Proceed st') \<Longrightarrow> shifts st st'"
  by (auto simp: rule_good_def shifts_def)

text \<open>The rules on three tokens continue only after dropping a token, and never return.\<close>

definition drops :: "fold_state \<Rightarrow> fold_out \<Rightarrow> bool" where
  "drops st r =
     (case r of Again st' \<Rightarrow> fold_prog st' < fold_prog st | Leave n st' \<Rightarrow> False | _ \<Rightarrow> True)"

lemma drops_simps [simp]: "drops st (Proceed s)" "drops st Abort"
  by (simp_all add: drops_def)

lemma drops_drop:
  "0 < n \<Longrightarrow> n \<le> fd_pos s \<Longrightarrow> fold_left s = fold_left st \<Longrightarrow> drops st (Again (drop_tokens n l s))"
  "0 < n \<Longrightarrow> n \<le> fd_pos s \<Longrightarrow> fold_left s = fold_left st \<Longrightarrow>
   drops st (Again (add_folds k (drop_tokens n l s)))"
  using fold_left_drop [of n s l] by (auto simp: drops_def fold_prog_def)

lemma fold_three_drops:
  assumes three: "fd_left st + 3 \<le> fd_pos st"
  shows "drops st (fold_three st)"
proof -
  have "drops st r" if "fold_three_ops st = Some r" for r
    using that three by (auto simp: fold_three_ops_def Let_def intro!: drops_drop split: if_splits)
  moreover have "drops st r" if "fold_three_unary st = Some r" for r
    using that three
    by (auto simp: fold_three_unary_def Let_def simp del: One_nat_def add_2_eq_Suc'
        intro!: drops_drop split: if_splits)
  ultimately show ?thesis by (auto simp: fold_three_def split: option.splits)
qed

text \<open>The second half of a round, from the state \<open>st3\<close> that the rules on two tokens leave.\<close>

lemma fold_round_three:
  fixes lk :: lookup_fn
  assumes ok: "fold_ok st3" and left: "fd_left st3 \<le> 4" and sh: "shifts st2 st3"
    and adv: "advances st0 st2" and more: "fd_more st3 \<or> fold_prog st2 < fold_prog st0"
  defines "st4 \<equiv> fold_get lk 3 st3"
  shows "round_good st0
    (if fd_pos st4 - fd_left st4 < 3 then Again (st4\<lparr>fd_left := fd_pos st4\<rparr>)
     else case fold_three st4 of Proceed st5 \<Rightarrow> Again (st5\<lparr>fd_left := fd_left st5 + 1\<rparr>) | r \<Rightarrow> r)"
proof -
  note g = fold_get_ok [OF ok, of lk 3, folded st4_def]
  have prog2: "fold_prog st2 \<le> fold_prog st0" using adv by (auto simp: advances_def)
  have prog3: "fold_prog st3 = fold_prog st2" using sh by (simp add: shifts_def)
  have pos: "fd_left st4 \<le> fd_pos st4" "fd_pos st4 \<le> 6" using g(1) by (auto simp: fold_ok_def)
  have less0: "fold_rank s < fold_rank st0" if "fold_prog s < fold_prog st3" for s
    using that prog2 prog3 by (intro rank_less_prog) auto
  have shift: "fold_rank (s\<lparr>fd_left := l\<rparr>) < fold_rank st0"
    if "shifts st4 s" "fd_left s < l" "l \<le> 6" for s l
  proof (cases "st4 = st3")
    case True
    then show ?thesis
      using shifts_rank [OF shifts_trans [OF sh] that(2,3)] that(1) rank_less_advances [OF adv] by blast
  next
    case False
    then have "fold_prog st4 < fold_prog st3" using g(2) by (auto simp: advances_def)
    then show ?thesis using that(1) by (intro less0) (simp add: shifts_def fold_prog_def)
  qed
  show ?thesis
  proof (cases "fd_pos st4 - fd_left st4 < 3")
    case True
    have "fold_rank (st4\<lparr>fd_left := fd_pos st4\<rparr>) < fold_rank st0"
    proof (cases "fd_left st4 < fd_pos st4")
      case True
      then show ?thesis using pos by (intro shift) (auto simp: shifts_def)
    next
      case False
      then have "\<not> fd_more st4" using g(3,5) left pos by (auto simp: MAX_TOKENS_def)
      have "fold_prog st4 < fold_prog st0"
      proof (cases "st4 = st3")
        case True
        then show ?thesis using more prog3 \<open>\<not> fd_more st4\<close> by simp
      next
        case False
        then show ?thesis using g(2) prog2 prog3 by (auto simp: advances_def)
      qed
      then show ?thesis by (intro rank_less_prog) (simp add: fold_prog_def)
    qed
    then show ?thesis
      using True fold_ok_left [OF g(1), of "fd_pos st4"] by (simp add: round_good_def)
  next
    case False
    then have three: "fd_left st4 + 3 \<le> fd_pos st4" using pos by simp
    have good: "rule_good st4 (fold_three st4)" by (rule fold_three_good [OF g(1) three])
    show ?thesis
    proof (cases "fold_three st4")
      case (Again s)
      have "fold_prog s < fold_prog st3"
        using fold_three_drops [OF three] Again g(2) by (auto simp: advances_def drops_def)
      then show ?thesis using False Again good less0 by (simp add: round_good_def rule_good_def)
    next
      case (Proceed s)
      have s: "fold_ok s" "fd_pos s = fd_pos st4" "fd_left s \<le> fd_left st4"
        using good Proceed by (auto simp: rule_good_def)
      have "fold_rank (s\<lparr>fd_left := fd_left s + 1\<rparr>) < fold_rank st0"
        using s three pos rule_good_shifts [of st4 s] good Proceed by (intro shift) auto
      then show ?thesis
        using False Proceed s three fold_ok_left [OF s(1), of "fd_left s + 1"] by (simp add: round_good_def)
    next
      case (Leave n s)
      then show ?thesis using fold_three_drops [OF three] by (simp add: drops_def)
    next
      case Abort
      then show ?thesis using good by (simp add: rule_good_def)
    qed
  qed
qed

lemma fold_round_good:
  assumes ok: "fold_ok st0"
  shows "round_good st0 (fold_round lk st0)"
proof -
  define st1 where "st1 = fold_five st0"
  define st2 where "st2 = fold_get lk 2 st1"
  note five = fold_five_ok [OF ok, folded st1_def]
  note g = fold_get_ok [of st1 lk 2, folded st2_def]
  show ?thesis
  proof (cases "\<not> fd_more st1 \<or> fd_left st1 \<ge> MAX_TOKENS")
    case True
    then show ?thesis
      using five fold_ok_left [of st1 "fd_pos st1"]
      by (auto simp: fold_round_def Let_def round_good_def st1_def)
  next
    case run: False
    have ok2: "fold_ok st2" and adv: "advances st0 st2"
      using five g advances_trans by blast+
    have left2: "fd_left st2 \<le> 4" using run g(3) five by (simp add: MAX_TOKENS_def)
    have pos2: "fd_left st2 \<le> fd_pos st2" using ok2 by (simp add: fold_ok_def)
    have stop: "fold_prog st2 < fold_prog st0" if "\<not> fd_more st2"
      using that run g(2) five by (auto simp: advances_def)
    show ?thesis
    proof (cases "fd_pos st2 - fd_left st2 < 2")
      case True
      then have "\<not> fd_more st2" using g(5) five left2 by (auto simp: MAX_TOKENS_def)
      then have "fold_rank (st2\<lparr>fd_left := fd_pos st2\<rparr>) < fold_rank st0"
        using stop by (intro rank_less_prog) (simp add: fold_prog_def)
      then show ?thesis
        using run True fold_ok_left [OF ok2, of "fd_pos st2"]
        by (simp add: fold_round_def Let_def round_good_def flip: st1_def st2_def)
    next
      case False
      then have good: "rule_good st2 (fold_two lk st2)"
        using pos2 by (intro fold_two_good [OF ok2]) auto
      have round: "fold_round lk st0 =
        (case fold_two lk st2 of
           Proceed st \<Rightarrow>
             (let st4 = fold_get lk 3 st in
              if fd_pos st4 - fd_left st4 < 3 then Again (st4\<lparr>fd_left := fd_pos st4\<rparr>)
              else case fold_three st4 of Proceed st5 \<Rightarrow> Again (st5\<lparr>fd_left := fd_left st5 + 1\<rparr>) | r \<Rightarrow> r)
         | r \<Rightarrow> r)"
        using run False by (simp add: fold_round_def Let_def flip: st1_def st2_def)
      show ?thesis
      proof (cases "fold_two lk st2")
        case (Again s)
        then show ?thesis
          using good rank_less_advances [OF adv] by (simp add: round round_good_def rule_good_def)
      next
        case (Proceed s)
        have s: "fold_ok s" "fd_left s \<le> 4" "shifts st2 s" "fd_more s = fd_more st2"
          using good Proceed left2 by (auto simp: rule_good_def shifts_def)
        then show ?thesis
          using fold_round_three [OF s(1-3) adv, of lk] stop by (auto simp: round Proceed Let_def)
      next
        case (Leave n s)
        then show ?thesis using good left2 by (simp add: round round_good_def rule_good_def)
      next
        case Abort
        then show ?thesis using good by (simp add: rule_good_def)
      qed
    qed
  qed
qed

section \<open>The input and the fingerprint are left alone\<close>

definition input_of :: "sqli_state \<Rightarrow> cmem \<times> nat \<times> int \<times> string" where
  "input_of sf = (sf_s sf, sf_slen sf, sf_flags sf, sf_fingerprint sf)"

definition out_input :: "fold_out \<Rightarrow> (cmem \<times> nat \<times> int \<times> string) option" where
  "out_input r =
     (case r of Again s \<Rightarrow> Some (input_of (fd_sf s)) | Proceed s \<Rightarrow> Some (input_of (fd_sf s))
      | Leave n s \<Rightarrow> Some (input_of (fd_sf s)) | Abort \<Rightarrow> None)"

definition keeps_input :: "fold_state \<Rightarrow> fold_out \<Rightarrow> bool" where
  "keeps_input st r \<longleftrightarrow> r = Abort \<or> out_input r = Some (input_of (fd_sf st))"

lemma input_of_updates [simp]:
  "input_of (fd_sf (set_tv i tok st)) = input_of (fd_sf st)"
  "input_of (fd_sf (set_type i t st)) = input_of (fd_sf st)"
  "input_of (fd_sf (add_folds k st)) = input_of (fd_sf st)"
  "input_of (fd_sf (drop_tokens n l st)) = input_of (fd_sf st)"
  by (simp_all add: input_of_def set_tv_def set_type_def add_folds_def drop_tokens_def)

lemma keeps_input_simps [simp]:
  "keeps_input st (Again s) \<longleftrightarrow> input_of (fd_sf s) = input_of (fd_sf st)"
  "keeps_input st (Proceed s) \<longleftrightarrow> input_of (fd_sf s) = input_of (fd_sf st)"
  "keeps_input st (Leave n s) \<longleftrightarrow> input_of (fd_sf s) = input_of (fd_sf st)"
  "keeps_input st Abort"
  by (simp_all add: keeps_input_def out_input_def)

lemma tokenize_input: "input_of (snd (libinjection_sqli_tokenize lk sf)) = input_of sf"
  by (simp add: input_of_def tokenize_sel)

lemma fold_get_input: "input_of (fd_sf (fold_get lk n st)) = input_of (fd_sf st)"
proof (induction lk n st rule: fold_get.induct)
  case (1 lk n st)
  have "input_of (fd_sf (fold_read lk st)) = input_of (fd_sf st)"
    using tokenize_input [of lk "(fd_sf st)\<lparr>sf_current := fd_pos st\<rparr>"]
    by (simp add: fold_read_def Let_def split_beta input_of_def)
  then show ?case using "1.IH" by (subst fold_get.simps) simp
qed

lemma fold_two_input: "keeps_input st (fold_two lk st)"
proof -
  have "fold_two_merge lk st = Some r \<Longrightarrow> keeps_input st r" for r
    by (auto simp: fold_two_merge_def Let_def split: if_splits option.splits)
  moreover have "fold_two_names st = Some r \<Longrightarrow> keeps_input st r" for r
    by (auto simp: fold_two_names_def Let_def split: if_splits)
  moreover have "fold_two_drop st = Some r \<Longrightarrow> keeps_input st r" for r
    by (auto simp: fold_two_drop_def Let_def split: if_splits)
  ultimately show ?thesis by (auto simp: fold_two_def split: option.splits)
qed

lemma fold_three_input: "keeps_input st (fold_three st)"
proof -
  have "fold_three_ops st = Some r \<Longrightarrow> keeps_input st r" for r
    by (auto simp: fold_three_ops_def Let_def split: if_splits)
  moreover have "fold_three_unary st = Some r \<Longrightarrow> keeps_input st r" for r
    by (auto simp: fold_three_unary_def Let_def simp del: One_nat_def add_2_eq_Suc' split: if_splits)
  ultimately show ?thesis by (auto simp: fold_three_def split: option.splits)
qed

lemma fold_five_input: "input_of (fd_sf (fold_five st)) = input_of (fd_sf st)"
  by (simp add: fold_five_def)

lemma fold_round_input: "keeps_input st (fold_round lk st)"
proof -
  let ?st2 = "fold_get lk 2 (fold_five st)"
  have two: "keeps_input st (fold_two lk ?st2)"
    using fold_two_input [of ?st2 lk] fold_get_input [of lk 2] fold_five_input [of st]
    by (simp add: keeps_input_def)
  have three: "keeps_input s (fold_three (fold_get lk 3 s))" for s
    using fold_three_input [of "fold_get lk 3 s"] by (simp add: keeps_input_def fold_get_input)
  show ?thesis
  proof (cases "fold_two lk ?st2")
    case (Proceed s)
    then show ?thesis
      using two three [of s]
      by (cases "fold_three (fold_get lk 3 s)")
        (auto simp: fold_round_def Let_def fold_get_input fold_five_input)
  qed (use two in \<open>auto simp: fold_round_def Let_def fold_get_input fold_five_input\<close>)
qed

section \<open>The loop ends\<close>

lemma fold_loop_returns:
  assumes "fold_ok st"
  shows "\<exists>e st'. fold_loop lk st = Some (e, st') \<and> fold_ok st' \<and>
    input_of (fd_sf st') = input_of (fd_sf st) \<and>
    (case e of None \<Rightarrow> fd_left st' = fd_pos st'
     | Some n \<Rightarrow> 2 \<le> n \<and> n \<le> 6 \<and> n \<le> fd_pos st' \<and> ty st' (n - 1) = TYPE_EVIL)"
  using assms
proof (induction st rule: measure_induct_rule [of fold_rank])
  case (less st)
  have good: "round_good st (fold_round lk st)" by (rule fold_round_good [OF less.prems])
  have keep: "keeps_input st (fold_round lk st)" by (rule fold_round_input)
  show ?case
  proof (cases "fold_round lk st")
    case (Again s)
    then have "fold_ok s" "fold_rank s < fold_rank st" using good by (auto simp: round_good_def)
    then show ?thesis using less.IH [of s] Again keep by (subst fold_loop.simps) simp
  qed (use good keep in \<open>auto simp: round_good_def fold_loop.simps [of lk st]\<close>)
qed

section \<open>The fold as a whole\<close>

definition sf_ok :: "sqli_state \<Rightarrow> bool" where
  "sf_ok sf \<longleftrightarrow> length (sf_tokenvec sf) = 8 \<and> list_all wf_token (sf_tokenvec sf) \<and>
     sf_pos sf \<le> sf_slen sf"

lemma tokenize_sf_ok:
  assumes "sf_ok sf" "sf_current sf < 8"
  shows "sf_ok (snd (libinjection_sqli_tokenize lk sf))"
proof (cases "sf_slen sf = 0")
  case True
  then show ?thesis using assms by (simp add: libinjection_sqli_tokenize_def)
next
  case False
  then have "wf_token (cur (snd (libinjection_sqli_tokenize lk sf)))"
    using assms by (intro token_of_wf [OF tokenize_token]) (auto simp: sf_ok_def)
  then show ?thesis
    using assms tokenize_pos [of sf lk] tokenize_sel [of lk sf]
    by (auto simp: sf_ok_def list_all_update)
qed

lemma fold_skip_ok:
  assumes "sf_ok sf" "sf_current sf = 0" "fold_skip lk sf = (got, sf')"
  shows "sf_ok sf' \<and> sf_current sf' = 0 \<and> input_of sf' = input_of sf \<and>
    (got \<longrightarrow> tok_type (cur sf') \<noteq> NUL \<and> 0 < sf_slen sf')"
  using assms
proof (induction lk sf arbitrary: got sf' rule: fold_skip.induct)
  case (1 lk sf)
  obtain b sf1 where t: "libinjection_sqli_tokenize lk sf = (b, sf1)" by force
  have ok1: "sf_ok sf1" "sf_current sf1 = 0" "sf_slen sf1 = sf_slen sf"
    using tokenize_sf_ok [of sf lk] "1.prems"(1,2) tokenize_sel [of lk sf] t by auto
  have pos: "0 < sf_slen sf" if b
    using tokenize_decreases [of lk sf] that t by auto
  have type: "tok_type (cur sf1) \<noteq> NUL" if b
  proof -
    have "sf_current sf < length (sf_tokenvec sf)" using "1.prems"(1,2) by (simp add: sf_ok_def)
    then show ?thesis using tokenize_type [of sf lk] t that pos [OF that] by simp
  qed
  show ?case
    using "1.IH" [OF t [symmetric]] "1.prems"(3) ok1 pos type tokenize_input [of lk sf]
    by (subst (asm) fold_skip.simps) (auto simp: t split: if_splits)
qed

lemma fold_finish_ok:
  assumes ok: "fold_ok st" and left: "fd_left st = fd_pos st"
  shows "fst (fold_finish st) \<le> 5" "sf_ok (snd (fold_finish st))"
    "input_of (snd (fold_finish st)) = input_of (fd_sf st)"
    "i < fst (fold_finish st) \<Longrightarrow> tok_type (sf_tokenvec (snd (fold_finish st)) ! i) \<noteq> NUL"
proof -
  have len: "length (sf_tokenvec (fd_sf st)) = 8" using ok by (simp add: fold_ok_def)
  show "fst (fold_finish st) \<le> 5"
    by (auto simp: fold_finish_def Let_def MAX_TOKENS_def)
  show "input_of (snd (fold_finish st)) = input_of (fd_sf st)"
    by (simp add: fold_finish_def Let_def)
  show "sf_ok (snd (fold_finish st))"
    using ok by (auto simp: fold_finish_def Let_def sf_ok_def fold_ok_def st_copy_def list_all_update)
  show "tok_type (sf_tokenvec (snd (fold_finish st)) ! i) \<noteq> NUL" if "i < fst (fold_finish st)"
    using that ok left len
    by (auto simp: fold_finish_def Let_def MAX_TOKENS_def st_copy_def fold_ok_def nth_list_update tv_def
        split: if_splits)
qed

lemma fold_returns:
  assumes "sf_ok sf"
  shows "\<exists>n sf'. libinjection_sqli_fold lk sf = Some (n, sf') \<and> sf_ok sf' \<and>
    input_of sf' = input_of sf \<and> n \<le> 6 \<and>
    (\<forall>i < n. tok_type (sf_tokenvec sf' ! i) \<noteq> NUL) \<and>
    (n = 6 \<longrightarrow> tok_type (sf_tokenvec sf' ! 5) = TYPE_EVIL)"
proof -
  obtain got sf1 where skip: "fold_skip lk (sf\<lparr>sf_current := 0\<rparr>) = (got, sf1)" by force
  have "sf_ok (sf\<lparr>sf_current := 0\<rparr>)" using assms by (simp add: sf_ok_def)
  note sk = fold_skip_ok [OF this _ skip]
  have inp: "input_of (sf\<lparr>sf_current := 0\<rparr>) = input_of sf" by (simp add: input_of_def)
  show ?thesis
  proof (cases got)
    case False
    then show ?thesis using skip sk inp by (simp add: libinjection_sqli_fold_def)
  next
    case True
    let ?st = "\<lparr>fd_sf = sf1, fd_comment = zero_token, fd_pos = 1, fd_left = 0, fd_more = True\<rparr>"
    have "fold_ok ?st" using sk True by (auto simp: fold_ok_def sf_ok_def tv_def cur_def)
    then obtain e st' where loop: "fold_loop lk ?st = Some (e, st')" "fold_ok st'"
      "input_of (fd_sf st') = input_of (fd_sf ?st)"
      "case e of None \<Rightarrow> fd_left st' = fd_pos st'
       | Some n \<Rightarrow> 2 \<le> n \<and> n \<le> 6 \<and> n \<le> fd_pos st' \<and> ty st' (n - 1) = TYPE_EVIL"
      using fold_loop_returns by blast
    show ?thesis
    proof (cases e)
      case None
      then have "fd_left st' = fd_pos st'" using loop(4) by simp
      note fin = fold_finish_ok [OF loop(2) this]
      then show ?thesis
        using None True skip loop(1,3) sk inp by (cases "fold_finish st'") (auto simp: libinjection_sqli_fold_def)
    next
      case (Some n)
      then show ?thesis
        using True skip loop sk inp
        by (auto simp: libinjection_sqli_fold_def fold_ok_def sf_ok_def tv_def)
    qed
  qed
qed

end
