(* ===== verification/Sqli_Fold_Local.thy ===== *)
theory Sqli_Fold_Local
  imports Sqli_Fold_Correct
begin

text \<open>
  The fold reads no byte outside the input: on two memories that agree on the first \<open>slen\<close>
  bytes it does the same.
\<close>

definition at :: "cmem \<Rightarrow> fold_state \<Rightarrow> fold_state" where
  "at m st = st\<lparr>fd_sf := (fd_sf st)\<lparr>sf_s := m\<rparr>\<rparr>"

fun out_at :: "cmem \<Rightarrow> fold_out \<Rightarrow> fold_out" where
  "out_at m (Again s) = Again (at m s)"
| "out_at m (Proceed s) = Proceed (at m s)"
| "out_at m (Leave n s) = Leave n (at m s)"
| "out_at m Abort = Abort"

lemma at_sel [simp]:
  "fd_pos (at m st) = fd_pos st" "fd_left (at m st) = fd_left st" "fd_more (at m st) = fd_more st"
  "fd_comment (at m st) = fd_comment st" "fd_sf (at m st) = (fd_sf st)\<lparr>sf_s := m\<rparr>"
  "tv (at m st) i = tv st i"
  by (simp_all add: at_def tv_def)

lemma at_updates [simp]:
  "set_tv i tok (at m st) = at m (set_tv i tok st)"
  "set_type i t (at m st) = at m (set_type i t st)"
  "add_folds k (at m st) = at m (add_folds k st)"
  "drop_tokens n l (at m st) = at m (drop_tokens n l st)"
  "(at m st)\<lparr>fd_left := l\<rparr> = at m (st\<lparr>fd_left := l\<rparr>)"
  "(at m st)\<lparr>fd_pos := p, fd_left := l\<rparr> = at m (st\<lparr>fd_pos := p, fd_left := l\<rparr>)"
  by (simp_all add: at_def set_tv_def set_type_def add_folds_def drop_tokens_def tv_def)

lemma five_special_at: "five_special (at m st) = five_special st"
  by (simp only: five_special_def at_sel)

lemma fold_five_at: "fold_five (at m st) = at m (fold_five st)"
  by (simp add: fold_five_def five_special_at)

lemmas at_if = if_distrib [of "map_option (out_at _)"] if_distrib [of "out_at _"] if_distrib [of "at _"]

lemma fold_two_at: "fold_two lk (at m st) = out_at m (fold_two lk st)"
proof -
  have "fold_two_merge lk (at m st) = map_option (out_at m) (fold_two_merge lk st)"
    by (simp add: fold_two_merge_def Let_def split: option.split)
  moreover have "fold_two_names (at m st) = map_option (out_at m) (fold_two_names st)"
    by (simp add: fold_two_names_def Let_def at_if split del: if_split cong: if_cong)
  moreover have "fold_two_drop (at m st) = map_option (out_at m) (fold_two_drop st)"
    by (simp add: fold_two_drop_def Let_def at_if split del: if_split cong: if_cong)
  ultimately show ?thesis by (simp add: fold_two_def split: option.split)
qed

lemma fold_three_at: "fold_three (at m st) = out_at m (fold_three st)"
proof -
  have "fold_three_ops (at m st) = map_option (out_at m) (fold_three_ops st)"
    by (simp add: fold_three_ops_def Let_def at_if split del: if_split cong: if_cong)
  moreover have "fold_three_unary (at m st) = map_option (out_at m) (fold_three_unary st)"
    by (simp add: fold_three_unary_def Let_def at_if split del: if_split cong: if_cong)
  ultimately show ?thesis by (simp add: fold_three_def split: option.split)
qed

lemma fold_get_at:
  assumes "agree (sf_slen (fd_sf st)) (sf_s (fd_sf st)) m"
  shows "fold_get lk n (at m st) = at m (fold_get lk n st)"
  using assms
proof (induction lk n st rule: fold_get.induct)
  case (1 lk n st)
  let ?sf = "(fd_sf st)\<lparr>sf_current := fd_pos st\<rparr>"
  have eq: "(fd_sf (at m st))\<lparr>sf_current := fd_pos (at m st)\<rparr> = ?sf\<lparr>sf_s := m\<rparr>" by (simp add: at_def)
  have tok: "libinjection_sqli_tokenize lk (?sf\<lparr>sf_s := m\<rparr>) =
      apsnd (sf_s_update (\<lambda>_. m)) (libinjection_sqli_tokenize lk ?sf)"
    by (rule tokenize_local) (use "1.prems" in simp)
  have read: "fold_read lk (at m st) = at m (fold_read lk st)"
    unfolding fold_read_def eq tok by (simp add: split_beta Let_def at_def)
  have "input_of (fd_sf (fold_read lk st)) = input_of (fd_sf st)"
    using tokenize_input [of lk ?sf] by (simp add: fold_read_def Let_def split_beta input_of_def)
  then have ag: "agree (sf_slen (fd_sf (fold_read lk st))) (sf_s (fd_sf (fold_read lk st))) m"
    using "1.prems" by (simp add: input_of_def)
  show ?case
    using "1.IH" ag read by (subst (1 2) fold_get.simps) simp
qed

lemma agree_input:
  "input_of sf' = input_of sf \<Longrightarrow> agree (sf_slen sf) (sf_s sf) m \<Longrightarrow> agree (sf_slen sf') (sf_s sf') m"
  by (simp add: input_of_def)

lemma fold_round_at:
  assumes ag: "agree (sf_slen (fd_sf st)) (sf_s (fd_sf st)) m"
  shows "fold_round lk (at m st) = out_at m (fold_round lk st)"
proof -
  let ?st2 = "fold_get lk 2 (fold_five st)"
  have two: "fold_get lk 2 (at m (fold_five st)) = at m ?st2"
    by (rule fold_get_at, rule agree_input [OF fold_five_input ag])
  have ag2: "agree (sf_slen (fd_sf ?st2)) (sf_s (fd_sf ?st2)) m"
    by (rule agree_input [OF _ ag]) (simp add: fold_get_input fold_five_input)
  show ?thesis
  proof (cases "fold_two lk ?st2")
    case (Proceed s)
    then have "agree (sf_slen (fd_sf s)) (sf_s (fd_sf s)) m"
      using fold_two_input [of ?st2 lk] by (intro agree_input [OF _ ag2]) simp
    then have three: "fold_get lk 3 (at m s) = at m (fold_get lk 3 s)" by (rule fold_get_at)
    show ?thesis
      using Proceed
      by (cases "fold_three (fold_get lk 3 s)")
        (simp_all add: fold_round_def Let_def fold_five_at two fold_two_at three fold_three_at)
  qed (simp_all add: fold_round_def Let_def fold_five_at two fold_two_at)
qed

lemma fold_loop_at:
  assumes "fold_ok st" "agree (sf_slen (fd_sf st)) (sf_s (fd_sf st)) m"
  shows "fold_loop lk (at m st) = map_option (apsnd (at m)) (fold_loop lk st)"
  using assms
proof (induction st rule: measure_induct_rule [of fold_rank])
  case (less st)
  have good: "round_good st (fold_round lk st)" by (rule fold_round_good [OF less.prems(1)])
  have keep: "keeps_input st (fold_round lk st)" by (rule fold_round_input)
  note eq = fold_round_at [OF less.prems(2), of lk]
  show ?case
  proof (cases "fold_round lk st")
    case (Again s)
    then have "fold_ok s" "fold_rank s < fold_rank st" using good by (auto simp: round_good_def)
    moreover have "agree (sf_slen (fd_sf s)) (sf_s (fd_sf s)) m"
      using Again keep by (intro agree_input [OF _ less.prems(2)]) simp
    ultimately show ?thesis using less.IH [of s] Again eq by (subst (1 2) fold_loop.simps) simp
  qed (simp_all add: fold_loop.simps [of lk st] fold_loop.simps [of lk "at m st"] eq)
qed

lemma fold_skip_local:
  assumes "agree (sf_slen sf) (sf_s sf) m"
  shows "fold_skip lk (sf\<lparr>sf_s := m\<rparr>) = apsnd (sf_s_update (\<lambda>_. m)) (fold_skip lk sf)"
  using assms
proof (induction lk sf rule: fold_skip.induct)
  case (1 lk sf)
  obtain b sf1 where t: "libinjection_sqli_tokenize lk sf = (b, sf1)" by force
  have "agree (sf_slen sf1) (sf_s sf1) m"
    using tokenize_input [of lk sf] t by (intro agree_input [OF _ "1.prems"]) simp
  then show ?case
    using "1.IH" [OF t [symmetric]] tokenize_local [OF "1.prems", of lk] t
    by (subst (1 2) fold_skip.simps) simp
qed

lemma fold_local:
  assumes "sf_ok sf" "agree (sf_slen sf) (sf_s sf) m"
  shows "libinjection_sqli_fold lk (sf\<lparr>sf_s := m\<rparr>) =
    map_option (apsnd (sf_s_update (\<lambda>_. m))) (libinjection_sqli_fold lk sf)"
proof -
  obtain got sf1 where skip: "fold_skip lk (sf\<lparr>sf_current := 0\<rparr>) = (got, sf1)" by force
  have "sf_ok (sf\<lparr>sf_current := 0\<rparr>)" using assms by (simp add: sf_ok_def)
  note sk = fold_skip_ok [OF this _ skip]
  let ?st = "\<lparr>fd_sf = sf1, fd_comment = zero_token, fd_pos = 1, fd_left = 0, fd_more = True\<rparr>"
  have skip': "fold_skip lk (sf\<lparr>sf_s := m, sf_current := 0\<rparr>) = (got, sf1\<lparr>sf_s := m\<rparr>)"
  proof -
    have eq: "sf\<lparr>sf_s := m, sf_current := 0\<rparr> = sf\<lparr>sf_current := 0, sf_s := m\<rparr>" by simp
    show ?thesis unfolding eq using fold_skip_local [of "sf\<lparr>sf_current := 0\<rparr>" m lk] assms(2) skip by simp
  qed
  have at: "\<lparr>fd_sf = sf1\<lparr>sf_s := m\<rparr>, fd_comment = zero_token, fd_pos = 1, fd_left = 0, fd_more = True\<rparr> =
      at m ?st" by (simp add: at_def)
  have finish: "fold_finish (at m st) = apsnd (sf_s_update (\<lambda>_. m)) (fold_finish st)" for st
    by (simp add: fold_finish_def Let_def)
  show ?thesis
  proof (cases got)
    case True
    have "fold_ok ?st" using sk True by (auto simp: fold_ok_def sf_ok_def tv_def cur_def)
    moreover have "agree (sf_slen sf1) (sf_s sf1) m"
      using sk by (intro agree_input [OF _ assms(2)]) (simp add: input_of_def)
    ultimately have "fold_loop lk (at m ?st) = map_option (apsnd (at m)) (fold_loop lk ?st)"
      by (intro fold_loop_at) auto
    note loop = this [folded at]
    show ?thesis
      using True skip skip' loop
      by (auto simp: libinjection_sqli_fold_def finish split: option.split)
  qed (simp add: libinjection_sqli_fold_def skip skip')
qed

section \<open>Properties\<close>

lemma sf_ok_start [simp]: "sf_ok start_state"
  by (simp add: sf_ok_def list_all_length)

text \<open>C4. From every state with eight well-formed tokens whose position is inside the input,
  \<open>libinjection_sqli_fold\<close> returns, whatever the bytes of the input are and whatever the lookup
  answers: the loop ends and none of its assertions fails. It gives at most six tokens, none
  of them with the type \<open>CHAR_NULL\<close>; the documented five can be exceeded only by the early
  return, with \<open>TYPE_EVIL\<close> last. The input, its length and the flags are as before.\<close>

theorem fold_always_returns:
  assumes "sf_ok sf"
  shows "\<exists>n sf'. libinjection_sqli_fold lk sf = Some (n, sf') \<and> sf_ok sf' \<and>
    sf_s sf' = sf_s sf \<and> sf_slen sf' = sf_slen sf \<and> sf_flags sf' = sf_flags sf \<and>
    (n \<le> 5 \<or> n = 6 \<and> tok_type (sf_tokenvec sf' ! 5) = TYPE_EVIL) \<and>
    NUL \<notin> set (map tok_type (take n (sf_tokenvec sf')))"
proof -
  obtain n sf' where r: "libinjection_sqli_fold lk sf = Some (n, sf')" "sf_ok sf'"
    "input_of sf' = input_of sf" "n \<le> 6" "\<forall>i < n. tok_type (sf_tokenvec sf' ! i) \<noteq> NUL"
    "n = 6 \<longrightarrow> tok_type (sf_tokenvec sf' ! 5) = TYPE_EVIL"
    using fold_returns [OF assms, of lk] by blast
  have "n \<le> 5 \<or> n = 6" using r(4) by linarith
  moreover have "NUL \<notin> set (map tok_type (take n (sf_tokenvec sf')))"
    using r(5) by (auto simp: in_set_conv_nth) metis
  ultimately show ?thesis using r by (auto simp: input_of_def)
qed

theorem fold_always_returns_witness:
  "\<exists>n sf'. libinjection_sqli_fold (\<lambda>_ _. NUL) start_state = Some (n, sf') \<and> sf_slen sf' = 1"
  using fold_always_returns [of start_state "\<lambda>_ _. NUL"] by auto

text \<open>The fold depends on the bytes of the input only: on two states that differ outside
  the first \<open>slen\<close> bytes it gives the same tokens and counters.\<close>

theorem fold_reads_input_only:
  assumes "sf_ok sf" "\<And>i. i < sf_slen sf \<Longrightarrow> sf_s sf i = m i"
  shows "libinjection_sqli_fold lk (sf\<lparr>sf_s := m\<rparr>) =
    map_option (apsnd (sf_s_update (\<lambda>_. m))) (libinjection_sqli_fold lk sf)"
  using assms by (intro fold_local) (simp_all add: agree_def)

theorem fold_reads_input_only_witness:
  "libinjection_sqli_fold (\<lambda>_ _. NUL) (start_state\<lparr>sf_s := mem_of ''12''\<rparr>) =
    map_option (apsnd (sf_s_update (\<lambda>_. mem_of ''12''))) (libinjection_sqli_fold (\<lambda>_ _. NUL) start_state)"
  by (rule fold_reads_input_only) (simp_all add: mem_of_def)

end
