(* ===== verification/Sqli_Lookup.thy ===== *)
theory Sqli_Lookup
  imports Sqli_Word_Order
begin

text \<open>
  \<open>bsearch_keyword_type\<close> of \<open>libinjection_sqli.c\<close> over a table of the shape of
  \<open>sql_keywords\<close>. The locale \<open>keyword_table\<close> states what the search relies on (strictly
  ascending words, no lower case, no terminator inside a word) and proves the search equal
  to a lookup in the table read as a map of its words.
\<close>

section \<open>The search\<close>

function bsearch_loop :: "string \<Rightarrow> keyword_t list \<Rightarrow> nat \<Rightarrow> nat \<Rightarrow> nat \<times> nat" where
  "bsearch_loop key keywords left right =
     (if left < right then
        let pos = (left + right) div 2 in
        if cstrcasecmp (fst (keywords ! pos)) key < 0
        then bsearch_loop key keywords (pos + 1) right
        else bsearch_loop key keywords left pos
      else (left, right))"
  by pat_completeness auto
termination
  by (relation "measure (\<lambda>(key, kws, left, right). right - left)") auto

declare bsearch_loop.simps [simp del]

definition bsearch_keyword_type :: "string \<Rightarrow> keyword_t list \<Rightarrow> nat \<Rightarrow> char" where
  "bsearch_keyword_type key keywords numb =
     (case bsearch_loop key keywords 0 (numb - 1) of (left, right) \<Rightarrow>
        if left = right \<and> cstrcasecmp (fst (keywords ! left)) key = 0
        then snd (keywords ! left) else NUL)"

section \<open>Facts about the comparison\<close>

lemma kw_char_iff:
  "kw_char c \<longleftrightarrow> (of_char c :: nat) \<in> {32..95} \<union> {123..127}"
  by (cases c rule: kw_char.cases) (simp split: bool.split add: of_bool_def)

lemma kw_char_schar: "kw_char c \<Longrightarrow> 0 < schar c \<and> is_ascii c"
  by (auto simp: kw_char_iff is_ascii_def schar_ascii)

lemma kw_word_simps [simp]:
  "kw_word []" "kw_word (c # w) \<longleftrightarrow> kw_char c \<and> kw_word w"
  by (simp_all add: kw_word_def)

lemma kw_char_neq_NUL: "kw_char c \<Longrightarrow> c \<noteq> NUL"
  by auto

lemma cstrcasecmp_0_iff:
  "kw_word w \<Longrightarrow> cstrcasecmp w key = 0 \<longleftrightarrow> w = map upcase key"
proof (induction w key rule: cstrcasecmp.induct)
  case (1 a)
  then show ?case by (cases a) (auto dest: kw_char_neq_NUL)
next
  case (2 a b bs)
  show ?case
  proof (cases a)
    case Nil
    then show ?thesis by (auto simp: Let_def dest: arg_cong [where f = schar])
  next
    case (Cons c w)
    with "2.prems" have "c \<noteq> NUL" "kw_word w" by (auto dest: kw_char_neq_NUL)
    with "2.IH" Cons show ?thesis by (auto simp: Let_def)
  qed
qed

lemma kw_char_less:
  "kw_char x \<Longrightarrow> kw_char y \<Longrightarrow> (of_char x :: nat) < of_char y \<Longrightarrow> schar x < schar y"
  by (simp add: kw_char_schar schar_ascii)

text \<open>Words below a word that is not above the key are below the key.\<close>

lemma cstrcasecmp_mono:
  "kw_word v \<Longrightarrow> kw_word w \<Longrightarrow> kw_less v w \<Longrightarrow> cstrcasecmp w key \<le> 0 \<Longrightarrow> cstrcasecmp v key < 0"
proof (induction v w arbitrary: key rule: kw_less.induct)
  case (1 bs)
  then obtain y ys where bs: "bs = y # ys" "kw_char y" by (cases bs) auto
  with 1 obtain k ks where "key = k # ks" by (cases key) (auto dest: kw_char_neq_NUL)
  with bs 1 kw_char_schar [OF bs(2)] show ?case
    by (auto simp: Let_def split: if_splits)
next
  case (3 a as b bs)
  then obtain k ks where key: "key = k # ks" by (cases key) (auto dest: kw_char_neq_NUL)
  from 3 have kw: "kw_char a" "kw_char b" "a \<noteq> NUL" "b \<noteq> NUL" by (auto dest: kw_char_neq_NUL)
  show ?case
  proof (cases "a = b")
    case True
    moreover have "schar b \<le> schar (upcase k) \<Longrightarrow> b \<noteq> upcase k \<Longrightarrow> schar b < schar (upcase k)"
      using schar_inject [of b "upcase k"] by linarith
    ultimately show ?thesis using 3 key kw kw_char_schar [OF kw(2)]
      by (auto simp: Let_def split: if_splits)
  next
    case False
    with 3 have "(of_char a :: nat) < of_char b" by simp
    with kw have "schar a < schar b" by (blast intro: kw_char_less)
    with 3 key kw show ?thesis by (auto simp: Let_def split: if_splits)
  qed
qed simp

lemma kw_less_trans: "kw_less u v \<Longrightarrow> kw_less v w \<Longrightarrow> kw_less u w"
proof (induction u w arbitrary: v rule: kw_less.induct)
  case (1 bs)
  then show ?case by (cases v; cases bs) auto
next
  case (2 a as)
  then show ?case by (cases v) auto
next
  case (3 a as b bs)
  then show ?case by (cases v) (auto split: if_splits)
qed

lemma kw_less_irrefl [simp]: "\<not> kw_less w w"
  by (induction w) auto

lemma kw_chain_sorted:
  "kw_chain lo kws hi \<Longrightarrow> sorted_wrt kw_less (lo # map fst kws)"
proof (induction kws arbitrary: lo)
  case (Cons kw kws)
  then have *: "kw_less lo (fst kw)" "sorted_wrt kw_less (fst kw # map fst kws)" by auto
  then show ?case by (auto intro: kw_less_trans)
qed simp

lemma kw_sorted_distinct: "sorted_wrt kw_less ws \<Longrightarrow> distinct ws"
  by (induction ws) auto

lemma kw_chain_append:
  "kw_chain lo xs m \<Longrightarrow> kw_chain m ys hi \<Longrightarrow> kw_chain lo (xs @ ys) hi"
  by (induction xs arbitrary: lo) auto

lemma kw_words_append [simp]: "kw_words (xs @ ys) \<longleftrightarrow> kw_words xs \<and> kw_words ys"
  by (simp add: kw_words_def)

section \<open>Tables the search is right for\<close>

locale keyword_table =
  fixes tbl :: "keyword_t list" and hi :: string
  assumes chain: "kw_chain [] tbl hi"
    and words: "kw_words tbl"
    and nonempty: "tbl \<noteq> []"
begin

lemma sorted: "sorted_wrt kw_less (map fst tbl)"
  using kw_chain_sorted [OF chain] by simp

lemma word_at: "i < length tbl \<Longrightarrow> kw_word (fst (tbl ! i))"
  using words by (simp add: kw_words_def list_all_length)

lemma less_at: "i < j \<Longrightarrow> j < length tbl \<Longrightarrow> kw_less (fst (tbl ! i)) (fst (tbl ! j))"
  using sorted by (simp add: sorted_wrt_iff_nth_less)

lemma distinct_words: "distinct (map fst tbl)"
  by (rule kw_sorted_distinct [OF sorted])

lemma below:
  "i < j \<Longrightarrow> j < length tbl \<Longrightarrow> cstrcasecmp (fst (tbl ! j)) key \<le> 0 \<Longrightarrow>
   cstrcasecmp (fst (tbl ! i)) key < 0"
  using cstrcasecmp_mono [OF word_at word_at less_at] by simp

text \<open>The loop ends on one index, and passes no entry equal to the key.\<close>

lemma loop_end:
  "left \<le> right \<Longrightarrow> right < length tbl \<Longrightarrow> bsearch_loop key tbl left right = (l, r) \<Longrightarrow>
   left \<le> l \<and> l = r \<and> r \<le> right \<and>
   (\<forall>i. left \<le> i \<and> i \<le> right \<and> cstrcasecmp (fst (tbl ! i)) key = 0 \<longrightarrow> i = l)"
proof (induction "right - left" arbitrary: left right rule: less_induct)
  case less
  note prems = less.prems
  show ?case
  proof (cases "left < right")
    case False
    then have "bsearch_loop key tbl left right = (left, right)"
      by (simp add: bsearch_loop.simps [of key tbl left right])
    with prems False show ?thesis by auto
  next
    case True
    define pos where "pos = (left + right) div 2"
    from True have pos: "left \<le> pos" "pos < right" by (auto simp: pos_def)
    have eq: "bsearch_loop key tbl left right =
        (if cstrcasecmp (fst (tbl ! pos)) key < 0
         then bsearch_loop key tbl (pos + 1) right else bsearch_loop key tbl left pos)"
      using True by (simp add: bsearch_loop.simps [of key tbl left right] pos_def Let_def)
    show ?thesis
    proof (cases "cstrcasecmp (fst (tbl ! pos)) key < 0")
      case True
      have none: "cstrcasecmp (fst (tbl ! i)) key \<noteq> 0" if "i \<le> pos" for i
        using that True below [of i pos key] pos prems by (cases "i = pos") auto
      have out: "pos + 1 \<le> i" if "cstrcasecmp (fst (tbl ! i)) key = 0" for i
        using that none [of i] by (cases "i \<le> pos") auto
      have "pos + 1 \<le> l \<and> l = r \<and> r \<le> right \<and>
          (\<forall>i. pos + 1 \<le> i \<and> i \<le> right \<and> cstrcasecmp (fst (tbl ! i)) key = 0 \<longrightarrow> i = l)"
        by (rule less.hyps) (use prems pos eq True in auto)
      with out pos show ?thesis by (meson add_leD1 le_trans)
    next
      case False
      have "cstrcasecmp (fst (tbl ! i)) key \<noteq> 0" if "pos < i" "i \<le> right" for i
        using that False below [of pos i key] prems by auto
      then have out: "i \<le> pos" if "cstrcasecmp (fst (tbl ! i)) key = 0" "i \<le> right" for i
        using that leI by blast
      have "left \<le> l \<and> l = r \<and> r \<le> pos \<and>
          (\<forall>i. left \<le> i \<and> i \<le> pos \<and> cstrcasecmp (fst (tbl ! i)) key = 0 \<longrightarrow> i = l)"
        by (rule less.hyps) (use prems pos eq False in auto)
      with out pos show ?thesis by auto
    qed
  qed
qed

theorem bsearch_correct:
  "bsearch_keyword_type key tbl (length tbl) =
     (case map_of tbl (map upcase key) of None \<Rightarrow> NUL | Some t \<Rightarrow> t)"
proof -
  obtain l r where lr: "bsearch_loop key tbl 0 (length tbl - 1) = (l, r)"
    by (cases "bsearch_loop key tbl 0 (length tbl - 1)")
  have len: "0 < length tbl" using nonempty by simp
  from len have "length tbl - 1 < length tbl" by simp
  from loop_end [OF _ this lr]
  have fin: "l = r" "r \<le> length tbl - 1"
    "\<forall>i. i \<le> length tbl - 1 \<and> cstrcasecmp (fst (tbl ! i)) key = 0 \<longrightarrow> i = l" by blast+
  then have l: "l = r" "l < length tbl" using len by linarith+
  have only: "i = l" if "i < length tbl" "cstrcasecmp (fst (tbl ! i)) key = 0" for i
    using fin(3) that by (simp add: Suc_leI less_imp_le_nat flip: less_Suc_eq_le)
  have eq: "i < length tbl \<Longrightarrow> cstrcasecmp (fst (tbl ! i)) key = 0 \<longleftrightarrow> fst (tbl ! i) = map upcase key" for i
    by (simp add: cstrcasecmp_0_iff word_at)
  from l have res: "bsearch_keyword_type key tbl (length tbl) =
      (if cstrcasecmp (fst (tbl ! l)) key = 0 then snd (tbl ! l) else NUL)"
    unfolding bsearch_keyword_type_def lr by simp
  show ?thesis
  proof (cases "map_of tbl (map upcase key)")
    case None
    then have "map upcase key \<notin> fst ` set tbl" by (simp add: map_of_eq_None_iff)
    with l have "fst (tbl ! l) \<noteq> map upcase key" by (metis image_eqI nth_mem)
    with None l eq show ?thesis by (simp add: res)
  next
    case (Some t)
    then obtain i where i: "i < length tbl" "tbl ! i = (map upcase key, t)"
      by (metis in_set_conv_nth map_of_SomeD)
    with eq only have "i = l" by auto
    with i l eq [of l] Some show ?thesis by (simp add: res)
  qed
qed

end

section \<open>Looking a word up slice by slice\<close>

text \<open>
  A search tree over the slices of a table: an inner node holds the last word of its left
  half. It gives the same answers as the table and is quick to evaluate.
\<close>

datatype kw_tree = Slice "keyword_t list" | Split kw_tree string kw_tree

fun kw_list :: "kw_tree \<Rightarrow> keyword_t list" where
  "kw_list (Slice kws) = kws"
| "kw_list (Split l m r) = kw_list l @ kw_list r"

fun kw_lookup :: "kw_tree \<Rightarrow> string \<Rightarrow> char option" where
  "kw_lookup (Slice kws) w = map_of kws w"
| "kw_lookup (Split l m r) w = (if kw_less m w then kw_lookup r w else kw_lookup l w)"

fun kw_ordered :: "string \<Rightarrow> kw_tree \<Rightarrow> string \<Rightarrow> bool" where
  "kw_ordered lo (Slice kws) hi \<longleftrightarrow> kw_chain lo kws hi"
| "kw_ordered lo (Split l m r) hi \<longleftrightarrow> kw_ordered lo l m \<and> kw_ordered m r hi"

lemma kw_ordered_chain: "kw_ordered lo t hi \<Longrightarrow> kw_chain lo (kw_list t) hi"
proof (induction t arbitrary: lo hi)
  case (Split l m r)
  then have "kw_chain lo (kw_list l) m" "kw_chain m (kw_list r) hi" by simp_all
  then show ?case by (simp add: kw_chain_append)
qed simp

lemma kw_chain_lower: "kw_chain lo kws hi \<Longrightarrow> kw \<in> set kws \<Longrightarrow> kw_less lo (fst kw)"
  using kw_chain_sorted [of lo kws hi] by auto

lemma kw_chain_upper: "kw_chain lo kws hi \<Longrightarrow> kw \<in> set kws \<Longrightarrow> \<not> kw_less hi (fst kw)"
proof (induction kws arbitrary: lo)
  case (Cons x kws)
  show ?case
  proof (cases "kw = x")
    case True
    from Cons.prems have "kw_chain (fst x) kws hi" by simp
    then have "hi = fst x \<or> kw_less (fst x) hi"
      by (induction kws arbitrary: x) (auto intro: kw_less_trans)
    then show ?thesis using True kw_less_trans kw_less_irrefl by metis
  next
    case False
    with Cons show ?thesis by auto
  qed
qed simp

lemma kw_lookup_map_of: "kw_ordered lo t hi \<Longrightarrow> kw_lookup t w = map_of (kw_list t) w"
proof (induction t arbitrary: lo hi)
  case (Split l m r)
  from Split.prems have l: "kw_chain lo (kw_list l) m" and r: "kw_chain m (kw_list r) hi"
    by (auto dest: kw_ordered_chain)
  have "map_of (kw_list l) w = None" if "kw_less m w"
    using kw_chain_upper [OF l] that by (auto simp: map_of_eq_None_iff)
  moreover have "map_of (kw_list r) w = None" if "\<not> kw_less m w"
    using kw_chain_lower [OF r] that by (auto simp: map_of_eq_None_iff)
  ultimately show ?case using Split by (auto simp: map_add_def split: option.split)
qed simp

end
