(* ===== verification/Sqli_Keywords_0.thy ===== *)
theory Sqli_Keywords_0
  imports Sqli_Word_Order
begin

text \<open>
  Part 0 of the table \<open>sql_keywords\<close> of \<open>src/src/headers/libinjection_sqli_data.h\<close>
  (lines 298 to 1497), in slices of at most 150 entries in the order of the source. Each slice
  \<open>sql_keywords_n\<close> comes with the fact that it continues the strictly ascending chain
  of words from the last word of the slice before it to its own last word.
\<close>

definition sql_keywords_0 :: "keyword_t list" where
  "sql_keywords_0 = [
    (''!!'', CHR ''o''), (''!<'', CHR ''o''), (''!='', CHR ''o''), (''!>'', CHR ''o''),
    (''%='', CHR ''o''), (''&&'', CHR ''&''), (''&='', CHR ''o''), (''*='', CHR ''o''),
    (''+='', CHR ''o''), (''-='', CHR ''o''), (''/='', CHR ''o''), (''0&(1)O'', CHR ''F''),
    (''0&(1)U'', CHR ''F''), (''0&(1O('', CHR ''F''), (''0&(1OF'', CHR ''F''),
    (''0&(1OS'', CHR ''F''), (''0&(1OV'', CHR ''F''), (''0&(F()'', CHR ''F''),
    (''0&(F(1'', CHR ''F''), (''0&(F(F'', CHR ''F''), (''0&(F(N'', CHR ''F''),
    (''0&(F(S'', CHR ''F''), (''0&(F(V'', CHR ''F''), (''0&(N)O'', CHR ''F''),
    (''0&(N)U'', CHR ''F''), (''0&(NO('', CHR ''F''), (''0&(NOF'', CHR ''F''),
    (''0&(NOS'', CHR ''F''), (''0&(NOV'', CHR ''F''), (''0&(S)O'', CHR ''F''),
    (''0&(S)U'', CHR ''F''), (''0&(SO('', CHR ''F''), (''0&(SO1'', CHR ''F''),
    (''0&(SOF'', CHR ''F''), (''0&(SON'', CHR ''F''), (''0&(SOS'', CHR ''F''),
    (''0&(SOV'', CHR ''F''), (''0&(V)O'', CHR ''F''), (''0&(V)U'', CHR ''F''),
    (''0&(VO('', CHR ''F''), (''0&(VOF'', CHR ''F''), (''0&(VOS'', CHR ''F''),
    (''0&1O(1'', CHR ''F''), (''0&1O(F'', CHR ''F''), (''0&1O(N'', CHR ''F''),
    (''0&1O(S'', CHR ''F''), (''0&1O(V'', CHR ''F''), (''0&1OF('', CHR ''F''),
    (''0&1OS('', CHR ''F''), (''0&1OS1'', CHR ''F''), (''0&1OSF'', CHR ''F''),
    (''0&1OSU'', CHR ''F''), (''0&1OSV'', CHR ''F''), (''0&1OV('', CHR ''F''),
    (''0&1OVF'', CHR ''F''), (''0&1OVO'', CHR ''F''), (''0&1OVS'', CHR ''F''),
    (''0&1OVU'', CHR ''F''), (''0&1UE('', CHR ''F''), (''0&1UE1'', CHR ''F''),
    (''0&1UEF'', CHR ''F''), (''0&1UEK'', CHR ''F''), (''0&1UEN'', CHR ''F''),
    (''0&1UES'', CHR ''F''), (''0&1UEV'', CHR ''F''), (''0&F()O'', CHR ''F''),
    (''0&F()U'', CHR ''F''), (''0&F(1)'', CHR ''F''), (''0&F(1O'', CHR ''F''),
    (''0&F(F('', CHR ''F''), (''0&F(N)'', CHR ''F''), (''0&F(NO'', CHR ''F''),
    (''0&F(S)'', CHR ''F''), (''0&F(SO'', CHR ''F''), (''0&F(V)'', CHR ''F''),
    (''0&F(VO'', CHR ''F''), (''0&NO(1'', CHR ''F''), (''0&NO(F'', CHR ''F''),
    (''0&NO(N'', CHR ''F''), (''0&NO(S'', CHR ''F''), (''0&NO(V'', CHR ''F''),
    (''0&NOF('', CHR ''F''), (''0&NOS('', CHR ''F''), (''0&NOS1'', CHR ''F''),
    (''0&NOSF'', CHR ''F''), (''0&NOSU'', CHR ''F''), (''0&NOSV'', CHR ''F''),
    (''0&NOV('', CHR ''F''), (''0&NOVF'', CHR ''F''), (''0&NOVO'', CHR ''F''),
    (''0&NOVS'', CHR ''F''), (''0&NOVU'', CHR ''F''), (''0&NUE('', CHR ''F''),
    (''0&NUE1'', CHR ''F''), (''0&NUEF'', CHR ''F''), (''0&NUEK'', CHR ''F''),
    (''0&NUEN'', CHR ''F''), (''0&NUES'', CHR ''F''), (''0&NUEV'', CHR ''F''),
    (''0&SO(1'', CHR ''F''), (''0&SO(F'', CHR ''F''), (''0&SO(N'', CHR ''F''),
    (''0&SO(S'', CHR ''F''), (''0&SO(V'', CHR ''F''), (''0&SO1('', CHR ''F''),
    (''0&SO1F'', CHR ''F''), (''0&SO1N'', CHR ''F''), (''0&SO1S'', CHR ''F''),
    (''0&SO1U'', CHR ''F''), (''0&SO1V'', CHR ''F''), (''0&SOF('', CHR ''F''),
    (''0&SON('', CHR ''F''), (''0&SON1'', CHR ''F''), (''0&SONF'', CHR ''F''),
    (''0&SONU'', CHR ''F''), (''0&SOS('', CHR ''F''), (''0&SOS1'', CHR ''F''),
    (''0&SOSF'', CHR ''F''), (''0&SOSU'', CHR ''F''), (''0&SOSV'', CHR ''F''),
    (''0&SOV('', CHR ''F''), (''0&SOVF'', CHR ''F''), (''0&SOVO'', CHR ''F''),
    (''0&SOVS'', CHR ''F''), (''0&SOVU'', CHR ''F''), (''0&SUE('', CHR ''F''),
    (''0&SUE1'', CHR ''F''), (''0&SUEF'', CHR ''F''), (''0&SUEK'', CHR ''F''),
    (''0&SUEN'', CHR ''F''), (''0&SUES'', CHR ''F''), (''0&SUEV'', CHR ''F''),
    (''0&VO(1'', CHR ''F''), (''0&VO(F'', CHR ''F''), (''0&VO(N'', CHR ''F''),
    (''0&VO(S'', CHR ''F''), (''0&VO(V'', CHR ''F''), (''0&VOF('', CHR ''F''),
    (''0&VOS('', CHR ''F''), (''0&VOS1'', CHR ''F''), (''0&VOSF'', CHR ''F''),
    (''0&VOSU'', CHR ''F''), (''0&VOSV'', CHR ''F''), (''0&VUE('', CHR ''F''),
    (''0&VUE1'', CHR ''F''), (''0&VUEF'', CHR ''F''), (''0&VUEK'', CHR ''F''),
    (''0&VUEN'', CHR ''F''), (''0&VUES'', CHR ''F''), (''0&VUEV'', CHR ''F'')]"

lemma sql_keywords_0_chain: "kw_chain [] sql_keywords_0 ''0&VUEV''"
  by (simp add: sql_keywords_0_def)

lemma sql_keywords_0_words: "kw_words sql_keywords_0"
  by (simp add: sql_keywords_0_def kw_words_def kw_word_def)

lemma sql_keywords_0_length: "length sql_keywords_0 = 150"
  by (simp add: sql_keywords_0_def)

definition sql_keywords_1 :: "keyword_t list" where
  "sql_keywords_1 = [
    (''0)&(EK'', CHR ''F''), (''0)&(EN'', CHR ''F''), (''0)UE(1'', CHR ''F''),
    (''0)UE(F'', CHR ''F''), (''0)UE(N'', CHR ''F''), (''0)UE(S'', CHR ''F''),
    (''0)UE(V'', CHR ''F''), (''0)UE1K'', CHR ''F''), (''0)UE1O'', CHR ''F''),
    (''0)UEF('', CHR ''F''), (''0)UEK('', CHR ''F''), (''0)UEK1'', CHR ''F''),
    (''0)UEKF'', CHR ''F''), (''0)UEKN'', CHR ''F''), (''0)UEKS'', CHR ''F''),
    (''0)UEKV'', CHR ''F''), (''0)UENK'', CHR ''F''), (''0)UENO'', CHR ''F''),
    (''0)UESK'', CHR ''F''), (''0)UESO'', CHR ''F''), (''0)UEVK'', CHR ''F''),
    (''0)UEVO'', CHR ''F''), (''01&(1&'', CHR ''F''), (''01&(1)'', CHR ''F''),
    (''01&(1,'', CHR ''F''), (''01&(1O'', CHR ''F''), (''01&(E('', CHR ''F''),
    (''01&(E1'', CHR ''F''), (''01&(EF'', CHR ''F''), (''01&(EK'', CHR ''F''),
    (''01&(EN'', CHR ''F''), (''01&(EO'', CHR ''F''), (''01&(ES'', CHR ''F''),
    (''01&(EV'', CHR ''F''), (''01&(F('', CHR ''F''), (''01&(N&'', CHR ''F''),
    (''01&(N)'', CHR ''F''), (''01&(N,'', CHR ''F''), (''01&(NO'', CHR ''F''),
    (''01&(S&'', CHR ''F''), (''01&(S)'', CHR ''F''), (''01&(S,'', CHR ''F''),
    (''01&(SO'', CHR ''F''), (''01&(V&'', CHR ''F''), (''01&(V)'', CHR ''F''),
    (''01&(V,'', CHR ''F''), (''01&(VO'', CHR ''F''), (''01&1'', CHR ''F''),
    (''01&1&('', CHR ''F''), (''01&1&1'', CHR ''F''), (''01&1&F'', CHR ''F''),
    (''01&1&N'', CHR ''F''), (''01&1&S'', CHR ''F''), (''01&1&V'', CHR ''F''),
    (''01&1)&'', CHR ''F''), (''01&1)C'', CHR ''F''), (''01&1)O'', CHR ''F''),
    (''01&1)U'', CHR ''F''), (''01&1;'', CHR ''F''), (''01&1;C'', CHR ''F''),
    (''01&1;E'', CHR ''F''), (''01&1;T'', CHR ''F''), (''01&1B('', CHR ''F''),
    (''01&1B1'', CHR ''F''), (''01&1BF'', CHR ''F''), (''01&1BN'', CHR ''F''),
    (''01&1BS'', CHR ''F''), (''01&1BV'', CHR ''F''), (''01&1C'', CHR ''F''),
    (''01&1EK'', CHR ''F''), (''01&1EN'', CHR ''F''), (''01&1F('', CHR ''F''),
    (''01&1K('', CHR ''F''), (''01&1K1'', CHR ''F''), (''01&1KF'', CHR ''F''),
    (''01&1KN'', CHR ''F''), (''01&1KS'', CHR ''F''), (''01&1KV'', CHR ''F''),
    (''01&1O('', CHR ''F''), (''01&1OF'', CHR ''F''), (''01&1OS'', CHR ''F''),
    (''01&1OV'', CHR ''F''), (''01&1TN'', CHR ''F''), (''01&1U'', CHR ''F''),
    (''01&1U('', CHR ''F''), (''01&1U;'', CHR ''F''), (''01&1UC'', CHR ''F''),
    (''01&1UE'', CHR ''F''), (''01&E(1'', CHR ''F''), (''01&E(F'', CHR ''F''),
    (''01&E(N'', CHR ''F''), (''01&E(O'', CHR ''F''), (''01&E(S'', CHR ''F''),
    (''01&E(V'', CHR ''F''), (''01&E1'', CHR ''F''), (''01&E1;'', CHR ''F''),
    (''01&E1C'', CHR ''F''), (''01&E1K'', CHR ''F''), (''01&E1O'', CHR ''F''),
    (''01&EF('', CHR ''F''), (''01&EK('', CHR ''F''), (''01&EK1'', CHR ''F''),
    (''01&EKF'', CHR ''F''), (''01&EKN'', CHR ''F''), (''01&EKS'', CHR ''F''),
    (''01&EKU'', CHR ''F''), (''01&EKV'', CHR ''F''), (''01&EN'', CHR ''F''),
    (''01&EN;'', CHR ''F''), (''01&ENC'', CHR ''F''), (''01&ENK'', CHR ''F''),
    (''01&ENO'', CHR ''F''), (''01&ES'', CHR ''F''), (''01&ES;'', CHR ''F''),
    (''01&ESC'', CHR ''F''), (''01&ESK'', CHR ''F''), (''01&ESO'', CHR ''F''),
    (''01&EUE'', CHR ''F''), (''01&EV'', CHR ''F''), (''01&EV;'', CHR ''F''),
    (''01&EVC'', CHR ''F''), (''01&EVK'', CHR ''F''), (''01&EVO'', CHR ''F''),
    (''01&F()'', CHR ''F''), (''01&F(1'', CHR ''F''), (''01&F(E'', CHR ''F''),
    (''01&F(F'', CHR ''F''), (''01&F(N'', CHR ''F''), (''01&F(S'', CHR ''F''),
    (''01&F(V'', CHR ''F''), (''01&K&('', CHR ''F''), (''01&K&1'', CHR ''F''),
    (''01&K&F'', CHR ''F''), (''01&K&N'', CHR ''F''), (''01&K&S'', CHR ''F''),
    (''01&K&V'', CHR ''F''), (''01&K(1'', CHR ''F''), (''01&K(F'', CHR ''F''),
    (''01&K(N'', CHR ''F''), (''01&K(S'', CHR ''F''), (''01&K(V'', CHR ''F''),
    (''01&K1O'', CHR ''F''), (''01&KC'', CHR ''F''), (''01&KF('', CHR ''F''),
    (''01&KNK'', CHR ''F''), (''01&KO('', CHR ''F''), (''01&KO1'', CHR ''F''),
    (''01&KOF'', CHR ''F''), (''01&KOK'', CHR ''F''), (''01&KON'', CHR ''F'')]"

lemma sql_keywords_1_chain: "kw_chain ''0&VUEV'' sql_keywords_1 ''01&KON''"
  by (simp add: sql_keywords_1_def)

lemma sql_keywords_1_words: "kw_words sql_keywords_1"
  by (simp add: sql_keywords_1_def kw_words_def kw_word_def)

lemma sql_keywords_1_length: "length sql_keywords_1 = 150"
  by (simp add: sql_keywords_1_def)

definition sql_keywords_2 :: "keyword_t list" where
  "sql_keywords_2 = [
    (''01&KOS'', CHR ''F''), (''01&KOV'', CHR ''F''), (''01&KSO'', CHR ''F''),
    (''01&KVO'', CHR ''F''), (''01&N&('', CHR ''F''), (''01&N&1'', CHR ''F''),
    (''01&N&F'', CHR ''F''), (''01&N&N'', CHR ''F''), (''01&N&S'', CHR ''F''),
    (''01&N&V'', CHR ''F''), (''01&N)&'', CHR ''F''), (''01&N)C'', CHR ''F''),
    (''01&N)O'', CHR ''F''), (''01&N)U'', CHR ''F''), (''01&N;'', CHR ''F''),
    (''01&N;C'', CHR ''F''), (''01&N;E'', CHR ''F''), (''01&N;T'', CHR ''F''),
    (''01&NB('', CHR ''F''), (''01&NB1'', CHR ''F''), (''01&NBF'', CHR ''F''),
    (''01&NBN'', CHR ''F''), (''01&NBS'', CHR ''F''), (''01&NBV'', CHR ''F''),
    (''01&NC'', CHR ''F''), (''01&NEN'', CHR ''F''), (''01&NF('', CHR ''F''),
    (''01&NK('', CHR ''F''), (''01&NK1'', CHR ''F''), (''01&NKF'', CHR ''F''),
    (''01&NKN'', CHR ''F''), (''01&NKS'', CHR ''F''), (''01&NKV'', CHR ''F''),
    (''01&NO('', CHR ''F''), (''01&NOF'', CHR ''F''), (''01&NOS'', CHR ''F''),
    (''01&NOV'', CHR ''F''), (''01&NTN'', CHR ''F''), (''01&NU'', CHR ''F''),
    (''01&NU('', CHR ''F''), (''01&NU;'', CHR ''F''), (''01&NUC'', CHR ''F''),
    (''01&NUE'', CHR ''F''), (''01&S'', CHR ''F''), (''01&S&('', CHR ''F''),
    (''01&S&1'', CHR ''F''), (''01&S&F'', CHR ''F''), (''01&S&N'', CHR ''F''),
    (''01&S&S'', CHR ''F''), (''01&S&V'', CHR ''F''), (''01&S)&'', CHR ''F''),
    (''01&S)C'', CHR ''F''), (''01&S)O'', CHR ''F''), (''01&S)U'', CHR ''F''),
    (''01&S1'', CHR ''F''), (''01&S1;'', CHR ''F''), (''01&S1C'', CHR ''F''),
    (''01&S;'', CHR ''F''), (''01&S;C'', CHR ''F''), (''01&S;E'', CHR ''F''),
    (''01&S;T'', CHR ''F''), (''01&SB('', CHR ''F''), (''01&SB1'', CHR ''F''),
    (''01&SBF'', CHR ''F''), (''01&SBN'', CHR ''F''), (''01&SBS'', CHR ''F''),
    (''01&SBV'', CHR ''F''), (''01&SC'', CHR ''F''), (''01&SEK'', CHR ''F''),
    (''01&SEN'', CHR ''F''), (''01&SF('', CHR ''F''), (''01&SK('', CHR ''F''),
    (''01&SK1'', CHR ''F''), (''01&SKF'', CHR ''F''), (''01&SKN'', CHR ''F''),
    (''01&SKS'', CHR ''F''), (''01&SKV'', CHR ''F''), (''01&SO('', CHR ''F''),
    (''01&SO1'', CHR ''F''), (''01&SOF'', CHR ''F''), (''01&SON'', CHR ''F''),
    (''01&SOS'', CHR ''F''), (''01&SOV'', CHR ''F''), (''01&STN'', CHR ''F''),
    (''01&SU'', CHR ''F''), (''01&SU('', CHR ''F''), (''01&SU;'', CHR ''F''),
    (''01&SUC'', CHR ''F''), (''01&SUE'', CHR ''F''), (''01&SV'', CHR ''F''),
    (''01&SV;'', CHR ''F''), (''01&SVC'', CHR ''F''), (''01&SVO'', CHR ''F''),
    (''01&V'', CHR ''F''), (''01&V&('', CHR ''F''), (''01&V&1'', CHR ''F''),
    (''01&V&F'', CHR ''F''), (''01&V&N'', CHR ''F''), (''01&V&S'', CHR ''F''),
    (''01&V&V'', CHR ''F''), (''01&V)&'', CHR ''F''), (''01&V)C'', CHR ''F''),
    (''01&V)O'', CHR ''F''), (''01&V)U'', CHR ''F''), (''01&V;'', CHR ''F''),
    (''01&V;C'', CHR ''F''), (''01&V;E'', CHR ''F''), (''01&V;T'', CHR ''F''),
    (''01&VB('', CHR ''F''), (''01&VB1'', CHR ''F''), (''01&VBF'', CHR ''F''),
    (''01&VBN'', CHR ''F''), (''01&VBS'', CHR ''F''), (''01&VBV'', CHR ''F''),
    (''01&VC'', CHR ''F''), (''01&VEK'', CHR ''F''), (''01&VEN'', CHR ''F''),
    (''01&VF('', CHR ''F''), (''01&VK('', CHR ''F''), (''01&VK1'', CHR ''F''),
    (''01&VKF'', CHR ''F''), (''01&VKN'', CHR ''F''), (''01&VKS'', CHR ''F''),
    (''01&VKV'', CHR ''F''), (''01&VO('', CHR ''F''), (''01&VOF'', CHR ''F''),
    (''01&VOS'', CHR ''F''), (''01&VS'', CHR ''F''), (''01&VS;'', CHR ''F''),
    (''01&VSC'', CHR ''F''), (''01&VSO'', CHR ''F''), (''01&VTN'', CHR ''F''),
    (''01&VU'', CHR ''F''), (''01&VU('', CHR ''F''), (''01&VU;'', CHR ''F''),
    (''01&VUC'', CHR ''F''), (''01&VUE'', CHR ''F''), (''01(EF('', CHR ''F''),
    (''01(EKF'', CHR ''F''), (''01(EKN'', CHR ''F''), (''01(ENK'', CHR ''F''),
    (''01(U(E'', CHR ''F''), (''01)&(1'', CHR ''F''), (''01)&(E'', CHR ''F''),
    (''01)&(F'', CHR ''F''), (''01)&(N'', CHR ''F''), (''01)&(S'', CHR ''F''),
    (''01)&(V'', CHR ''F''), (''01)&1'', CHR ''F''), (''01)&1&'', CHR ''F'')]"

lemma sql_keywords_2_chain: "kw_chain ''01&KON'' sql_keywords_2 ''01)&1&''"
  by (simp add: sql_keywords_2_def)

lemma sql_keywords_2_words: "kw_words sql_keywords_2"
  by (simp add: sql_keywords_2_def kw_words_def kw_word_def)

lemma sql_keywords_2_length: "length sql_keywords_2 = 150"
  by (simp add: sql_keywords_2_def)

definition sql_keywords_3 :: "keyword_t list" where
  "sql_keywords_3 = [
    (''01)&1)'', CHR ''F''), (''01)&1;'', CHR ''F''), (''01)&1B'', CHR ''F''),
    (''01)&1C'', CHR ''F''), (''01)&1F'', CHR ''F''), (''01)&1O'', CHR ''F''),
    (''01)&1U'', CHR ''F''), (''01)&F('', CHR ''F''), (''01)&N'', CHR ''F''),
    (''01)&N&'', CHR ''F''), (''01)&N)'', CHR ''F''), (''01)&N;'', CHR ''F''),
    (''01)&NB'', CHR ''F''), (''01)&NC'', CHR ''F''), (''01)&NF'', CHR ''F''),
    (''01)&NO'', CHR ''F''), (''01)&NU'', CHR ''F''), (''01)&S'', CHR ''F''),
    (''01)&S&'', CHR ''F''), (''01)&S)'', CHR ''F''), (''01)&S;'', CHR ''F''),
    (''01)&SB'', CHR ''F''), (''01)&SC'', CHR ''F''), (''01)&SF'', CHR ''F''),
    (''01)&SO'', CHR ''F''), (''01)&SU'', CHR ''F''), (''01)&V'', CHR ''F''),
    (''01)&V&'', CHR ''F''), (''01)&V)'', CHR ''F''), (''01)&V;'', CHR ''F''),
    (''01)&VB'', CHR ''F''), (''01)&VC'', CHR ''F''), (''01)&VF'', CHR ''F''),
    (''01)&VO'', CHR ''F''), (''01)&VU'', CHR ''F''), (''01),(1'', CHR ''F''),
    (''01),(F'', CHR ''F''), (''01),(N'', CHR ''F''), (''01),(S'', CHR ''F''),
    (''01),(V'', CHR ''F''), (''01);E('', CHR ''F''), (''01);E1'', CHR ''F''),
    (''01);EF'', CHR ''F''), (''01);EK'', CHR ''F''), (''01);EN'', CHR ''F''),
    (''01);EO'', CHR ''F''), (''01);ES'', CHR ''F''), (''01);EV'', CHR ''F''),
    (''01);T('', CHR ''F''), (''01);T1'', CHR ''F''), (''01);TF'', CHR ''F''),
    (''01);TK'', CHR ''F''), (''01);TN'', CHR ''F''), (''01);TO'', CHR ''F''),
    (''01);TS'', CHR ''F''), (''01);TV'', CHR ''F''), (''01)B(1'', CHR ''F''),
    (''01)B(F'', CHR ''F''), (''01)B(N'', CHR ''F''), (''01)B(S'', CHR ''F''),
    (''01)B(V'', CHR ''F''), (''01)B1'', CHR ''F''), (''01)B1&'', CHR ''F''),
    (''01)B1;'', CHR ''F''), (''01)B1C'', CHR ''F''), (''01)B1K'', CHR ''F''),
    (''01)B1N'', CHR ''F''), (''01)B1O'', CHR ''F''), (''01)B1U'', CHR ''F''),
    (''01)BF('', CHR ''F''), (''01)BN'', CHR ''F''), (''01)BN&'', CHR ''F''),
    (''01)BN;'', CHR ''F''), (''01)BNC'', CHR ''F''), (''01)BNK'', CHR ''F''),
    (''01)BNO'', CHR ''F''), (''01)BNU'', CHR ''F''), (''01)BS'', CHR ''F''),
    (''01)BS&'', CHR ''F''), (''01)BS;'', CHR ''F''), (''01)BSC'', CHR ''F''),
    (''01)BSK'', CHR ''F''), (''01)BSO'', CHR ''F''), (''01)BSU'', CHR ''F''),
    (''01)BV'', CHR ''F''), (''01)BV&'', CHR ''F''), (''01)BV;'', CHR ''F''),
    (''01)BVC'', CHR ''F''), (''01)BVK'', CHR ''F''), (''01)BVO'', CHR ''F''),
    (''01)BVU'', CHR ''F''), (''01)C'', CHR ''F''), (''01)E(1'', CHR ''F''),
    (''01)E(F'', CHR ''F''), (''01)E(N'', CHR ''F''), (''01)E(S'', CHR ''F''),
    (''01)E(V'', CHR ''F''), (''01)E1C'', CHR ''F''), (''01)E1O'', CHR ''F''),
    (''01)EF('', CHR ''F''), (''01)EK('', CHR ''F''), (''01)EK1'', CHR ''F''),
    (''01)EKF'', CHR ''F''), (''01)EKN'', CHR ''F''), (''01)EKS'', CHR ''F''),
    (''01)EKV'', CHR ''F''), (''01)ENC'', CHR ''F''), (''01)ENO'', CHR ''F''),
    (''01)ESC'', CHR ''F''), (''01)ESO'', CHR ''F''), (''01)EVC'', CHR ''F''),
    (''01)EVO'', CHR ''F''), (''01)F(F'', CHR ''F''), (''01)K(1'', CHR ''F''),
    (''01)K(F'', CHR ''F''), (''01)K(N'', CHR ''F''), (''01)K(S'', CHR ''F''),
    (''01)K(V'', CHR ''F''), (''01)K1&'', CHR ''F''), (''01)K1;'', CHR ''F''),
    (''01)K1B'', CHR ''F''), (''01)K1E'', CHR ''F''), (''01)K1O'', CHR ''F''),
    (''01)K1U'', CHR ''F''), (''01)KB('', CHR ''F''), (''01)KB1'', CHR ''F''),
    (''01)KBF'', CHR ''F''), (''01)KBN'', CHR ''F''), (''01)KBS'', CHR ''F''),
    (''01)KBV'', CHR ''F''), (''01)KF('', CHR ''F''), (''01)KN&'', CHR ''F''),
    (''01)KN;'', CHR ''F''), (''01)KNB'', CHR ''F''), (''01)KNC'', CHR ''F''),
    (''01)KNE'', CHR ''F''), (''01)KNK'', CHR ''F''), (''01)KNU'', CHR ''F''),
    (''01)KS&'', CHR ''F''), (''01)KS;'', CHR ''F''), (''01)KSB'', CHR ''F''),
    (''01)KSE'', CHR ''F''), (''01)KSO'', CHR ''F''), (''01)KSU'', CHR ''F''),
    (''01)KUE'', CHR ''F''), (''01)KV&'', CHR ''F''), (''01)KV;'', CHR ''F''),
    (''01)KVB'', CHR ''F''), (''01)KVE'', CHR ''F''), (''01)KVO'', CHR ''F'')]"

lemma sql_keywords_3_chain: "kw_chain ''01)&1&'' sql_keywords_3 ''01)KVO''"
  by (simp add: sql_keywords_3_def)

lemma sql_keywords_3_words: "kw_words sql_keywords_3"
  by (simp add: sql_keywords_3_def kw_words_def kw_word_def)

lemma sql_keywords_3_length: "length sql_keywords_3 = 150"
  by (simp add: sql_keywords_3_def)

definition sql_keywords_4 :: "keyword_t list" where
  "sql_keywords_4 = [
    (''01)KVU'', CHR ''F''), (''01)O(1'', CHR ''F''), (''01)O(E'', CHR ''F''),
    (''01)O(F'', CHR ''F''), (''01)O(N'', CHR ''F''), (''01)O(S'', CHR ''F''),
    (''01)O(V'', CHR ''F''), (''01)O1'', CHR ''F''), (''01)O1&'', CHR ''F''),
    (''01)O1)'', CHR ''F''), (''01)O1;'', CHR ''F''), (''01)O1B'', CHR ''F''),
    (''01)O1C'', CHR ''F''), (''01)O1K'', CHR ''F''), (''01)O1U'', CHR ''F''),
    (''01)OF('', CHR ''F''), (''01)ON&'', CHR ''F''), (''01)ON)'', CHR ''F''),
    (''01)ON;'', CHR ''F''), (''01)ONB'', CHR ''F''), (''01)ONC'', CHR ''F''),
    (''01)ONK'', CHR ''F''), (''01)ONU'', CHR ''F''), (''01)OS'', CHR ''F''),
    (''01)OS&'', CHR ''F''), (''01)OS)'', CHR ''F''), (''01)OS;'', CHR ''F''),
    (''01)OSB'', CHR ''F''), (''01)OSC'', CHR ''F''), (''01)OSK'', CHR ''F''),
    (''01)OSU'', CHR ''F''), (''01)OV'', CHR ''F''), (''01)OV&'', CHR ''F''),
    (''01)OV)'', CHR ''F''), (''01)OV;'', CHR ''F''), (''01)OVB'', CHR ''F''),
    (''01)OVC'', CHR ''F''), (''01)OVK'', CHR ''F''), (''01)OVO'', CHR ''F''),
    (''01)OVU'', CHR ''F''), (''01)U(E'', CHR ''F''), (''01)UE('', CHR ''F''),
    (''01)UE1'', CHR ''F''), (''01)UEF'', CHR ''F''), (''01)UEK'', CHR ''F''),
    (''01)UEN'', CHR ''F''), (''01)UES'', CHR ''F''), (''01)UEV'', CHR ''F''),
    (''01,(1)'', CHR ''F''), (''01,(1O'', CHR ''F''), (''01,(E('', CHR ''F''),
    (''01,(E1'', CHR ''F''), (''01,(EF'', CHR ''F''), (''01,(EK'', CHR ''F''),
    (''01,(EN'', CHR ''F''), (''01,(ES'', CHR ''F''), (''01,(EV'', CHR ''F''),
    (''01,(F('', CHR ''F''), (''01,(N)'', CHR ''F''), (''01,(NO'', CHR ''F''),
    (''01,(S)'', CHR ''F''), (''01,(SO'', CHR ''F''), (''01,(V)'', CHR ''F''),
    (''01,(VO'', CHR ''F''), (''01,F()'', CHR ''F''), (''01,F(1'', CHR ''F''),
    (''01,F(F'', CHR ''F''), (''01,F(N'', CHR ''F''), (''01,F(S'', CHR ''F''),
    (''01,F(V'', CHR ''F''), (''01;E(1'', CHR ''F''), (''01;E(E'', CHR ''F''),
    (''01;E(F'', CHR ''F''), (''01;E(N'', CHR ''F''), (''01;E(S'', CHR ''F''),
    (''01;E(V'', CHR ''F''), (''01;E1,'', CHR ''F''), (''01;E1;'', CHR ''F''),
    (''01;E1C'', CHR ''F''), (''01;E1K'', CHR ''F''), (''01;E1O'', CHR ''F''),
    (''01;E1T'', CHR ''F''), (''01;EF('', CHR ''F''), (''01;EK('', CHR ''F''),
    (''01;EK1'', CHR ''F''), (''01;EKF'', CHR ''F''), (''01;EKN'', CHR ''F''),
    (''01;EKO'', CHR ''F''), (''01;EKS'', CHR ''F''), (''01;EKV'', CHR ''F''),
    (''01;EN,'', CHR ''F''), (''01;EN;'', CHR ''F''), (''01;ENC'', CHR ''F''),
    (''01;ENE'', CHR ''F''), (''01;ENK'', CHR ''F''), (''01;ENO'', CHR ''F''),
    (''01;ENT'', CHR ''F''), (''01;ES,'', CHR ''F''), (''01;ES;'', CHR ''F''),
    (''01;ESC'', CHR ''F''), (''01;ESK'', CHR ''F''), (''01;ESO'', CHR ''F''),
    (''01;EST'', CHR ''F''), (''01;EV,'', CHR ''F''), (''01;EV;'', CHR ''F''),
    (''01;EVC'', CHR ''F''), (''01;EVK'', CHR ''F''), (''01;EVO'', CHR ''F''),
    (''01;EVT'', CHR ''F''), (''01;N:T'', CHR ''F''), (''01;T(1'', CHR ''F''),
    (''01;T(C'', CHR ''F''), (''01;T(E'', CHR ''F''), (''01;T(F'', CHR ''F''),
    (''01;T(N'', CHR ''F''), (''01;T(S'', CHR ''F''), (''01;T(V'', CHR ''F''),
    (''01;T1('', CHR ''F''), (''01;T1,'', CHR ''F''), (''01;T1;'', CHR ''F''),
    (''01;T1C'', CHR ''F''), (''01;T1F'', CHR ''F''), (''01;T1K'', CHR ''F''),
    (''01;T1O'', CHR ''F''), (''01;T1T'', CHR ''F''), (''01;T;'', CHR ''F''),
    (''01;T;C'', CHR ''F''), (''01;TF('', CHR ''F''), (''01;TK('', CHR ''F''),
    (''01;TK1'', CHR ''F''), (''01;TKF'', CHR ''F''), (''01;TKK'', CHR ''F''),
    (''01;TKN'', CHR ''F''), (''01;TKO'', CHR ''F''), (''01;TKS'', CHR ''F''),
    (''01;TKV'', CHR ''F''), (''01;TN('', CHR ''F''), (''01;TN,'', CHR ''F''),
    (''01;TN1'', CHR ''F''), (''01;TN;'', CHR ''F''), (''01;TNC'', CHR ''F''),
    (''01;TNF'', CHR ''F''), (''01;TNK'', CHR ''F''), (''01;TNN'', CHR ''F''),
    (''01;TNO'', CHR ''F''), (''01;TNS'', CHR ''F''), (''01;TNT'', CHR ''F''),
    (''01;TNV'', CHR ''F''), (''01;TO('', CHR ''F''), (''01;TS('', CHR ''F'')]"

lemma sql_keywords_4_chain: "kw_chain ''01)KVO'' sql_keywords_4 ''01;TS(''"
  by (simp add: sql_keywords_4_def)

lemma sql_keywords_4_words: "kw_words sql_keywords_4"
  by (simp add: sql_keywords_4_def kw_words_def kw_word_def)

lemma sql_keywords_4_length: "length sql_keywords_4 = 150"
  by (simp add: sql_keywords_4_def)

definition sql_keywords_5 :: "keyword_t list" where
  "sql_keywords_5 = [
    (''01;TS,'', CHR ''F''), (''01;TS;'', CHR ''F''), (''01;TSC'', CHR ''F''),
    (''01;TSF'', CHR ''F''), (''01;TSK'', CHR ''F''), (''01;TSO'', CHR ''F''),
    (''01;TST'', CHR ''F''), (''01;TTN'', CHR ''F''), (''01;TV('', CHR ''F''),
    (''01;TV,'', CHR ''F''), (''01;TV;'', CHR ''F''), (''01;TVC'', CHR ''F''),
    (''01;TVF'', CHR ''F''), (''01;TVK'', CHR ''F''), (''01;TVO'', CHR ''F''),
    (''01;TVT'', CHR ''F''), (''01A(F('', CHR ''F''), (''01A(N)'', CHR ''F''),
    (''01A(NO'', CHR ''F''), (''01A(S)'', CHR ''F''), (''01A(SO'', CHR ''F''),
    (''01A(V)'', CHR ''F''), (''01A(VO'', CHR ''F''), (''01AF()'', CHR ''F''),
    (''01AF(1'', CHR ''F''), (''01AF(F'', CHR ''F''), (''01AF(N'', CHR ''F''),
    (''01AF(S'', CHR ''F''), (''01AF(V'', CHR ''F''), (''01ASO('', CHR ''F''),
    (''01ASO1'', CHR ''F''), (''01ASOF'', CHR ''F''), (''01ASON'', CHR ''F''),
    (''01ASOS'', CHR ''F''), (''01ASOV'', CHR ''F''), (''01ASUE'', CHR ''F''),
    (''01ATO('', CHR ''F''), (''01ATO1'', CHR ''F''), (''01ATOF'', CHR ''F''),
    (''01ATON'', CHR ''F''), (''01ATOS'', CHR ''F''), (''01ATOV'', CHR ''F''),
    (''01ATUE'', CHR ''F''), (''01AVO('', CHR ''F''), (''01AVOF'', CHR ''F''),
    (''01AVOS'', CHR ''F''), (''01AVUE'', CHR ''F''), (''01B(1)'', CHR ''F''),
    (''01B(1O'', CHR ''F''), (''01B(F('', CHR ''F''), (''01B(NO'', CHR ''F''),
    (''01B(S)'', CHR ''F''), (''01B(SO'', CHR ''F''), (''01B(V)'', CHR ''F''),
    (''01B(VO'', CHR ''F''), (''01B1'', CHR ''F''), (''01B1&('', CHR ''F''),
    (''01B1&1'', CHR ''F''), (''01B1&F'', CHR ''F''), (''01B1&N'', CHR ''F''),
    (''01B1&S'', CHR ''F''), (''01B1&V'', CHR ''F''), (''01B1,('', CHR ''F''),
    (''01B1,F'', CHR ''F''), (''01B1;'', CHR ''F''), (''01B1;C'', CHR ''F''),
    (''01B1B('', CHR ''F''), (''01B1B1'', CHR ''F''), (''01B1BF'', CHR ''F''),
    (''01B1BN'', CHR ''F''), (''01B1BS'', CHR ''F''), (''01B1BV'', CHR ''F''),
    (''01B1C'', CHR ''F''), (''01B1K('', CHR ''F''), (''01B1K1'', CHR ''F''),
    (''01B1KF'', CHR ''F''), (''01B1KN'', CHR ''F''), (''01B1KS'', CHR ''F''),
    (''01B1KV'', CHR ''F''), (''01B1O('', CHR ''F''), (''01B1OF'', CHR ''F''),
    (''01B1OS'', CHR ''F''), (''01B1OV'', CHR ''F''), (''01B1U('', CHR ''F''),
    (''01B1UE'', CHR ''F''), (''01BE(1'', CHR ''F''), (''01BE(F'', CHR ''F''),
    (''01BE(N'', CHR ''F''), (''01BE(S'', CHR ''F''), (''01BE(V'', CHR ''F''),
    (''01BEK('', CHR ''F''), (''01BF()'', CHR ''F''), (''01BF(1'', CHR ''F''),
    (''01BF(F'', CHR ''F''), (''01BF(N'', CHR ''F''), (''01BF(S'', CHR ''F''),
    (''01BF(V'', CHR ''F''), (''01BN'', CHR ''F''), (''01BN&('', CHR ''F''),
    (''01BN&1'', CHR ''F''), (''01BN&F'', CHR ''F''), (''01BN&N'', CHR ''F''),
    (''01BN&S'', CHR ''F''), (''01BN&V'', CHR ''F''), (''01BN,('', CHR ''F''),
    (''01BN,F'', CHR ''F''), (''01BN;'', CHR ''F''), (''01BN;C'', CHR ''F''),
    (''01BNB('', CHR ''F''), (''01BNB1'', CHR ''F''), (''01BNBF'', CHR ''F''),
    (''01BNBN'', CHR ''F''), (''01BNBS'', CHR ''F''), (''01BNBV'', CHR ''F''),
    (''01BNC'', CHR ''F''), (''01BNK('', CHR ''F''), (''01BNK1'', CHR ''F''),
    (''01BNKF'', CHR ''F''), (''01BNKN'', CHR ''F''), (''01BNKS'', CHR ''F''),
    (''01BNKV'', CHR ''F''), (''01BNO('', CHR ''F''), (''01BNOF'', CHR ''F''),
    (''01BNOS'', CHR ''F''), (''01BNOV'', CHR ''F''), (''01BNU('', CHR ''F''),
    (''01BNUE'', CHR ''F''), (''01BS'', CHR ''F''), (''01BS&('', CHR ''F''),
    (''01BS&1'', CHR ''F''), (''01BS&F'', CHR ''F''), (''01BS&N'', CHR ''F''),
    (''01BS&S'', CHR ''F''), (''01BS&V'', CHR ''F''), (''01BS,('', CHR ''F''),
    (''01BS,F'', CHR ''F''), (''01BS;'', CHR ''F''), (''01BS;C'', CHR ''F''),
    (''01BSB('', CHR ''F''), (''01BSB1'', CHR ''F''), (''01BSBF'', CHR ''F''),
    (''01BSBN'', CHR ''F''), (''01BSBS'', CHR ''F''), (''01BSBV'', CHR ''F''),
    (''01BSC'', CHR ''F''), (''01BSK('', CHR ''F''), (''01BSK1'', CHR ''F''),
    (''01BSKF'', CHR ''F''), (''01BSKN'', CHR ''F''), (''01BSKS'', CHR ''F'')]"

lemma sql_keywords_5_chain: "kw_chain ''01;TS('' sql_keywords_5 ''01BSKS''"
  by (simp add: sql_keywords_5_def)

lemma sql_keywords_5_words: "kw_words sql_keywords_5"
  by (simp add: sql_keywords_5_def kw_words_def kw_word_def)

lemma sql_keywords_5_length: "length sql_keywords_5 = 150"
  by (simp add: sql_keywords_5_def)

definition sql_keywords_6 :: "keyword_t list" where
  "sql_keywords_6 = [
    (''01BSKV'', CHR ''F''), (''01BSO('', CHR ''F''), (''01BSO1'', CHR ''F''),
    (''01BSOF'', CHR ''F''), (''01BSON'', CHR ''F''), (''01BSOS'', CHR ''F''),
    (''01BSOV'', CHR ''F''), (''01BSU('', CHR ''F''), (''01BSUE'', CHR ''F''),
    (''01BV'', CHR ''F''), (''01BV&('', CHR ''F''), (''01BV&1'', CHR ''F''),
    (''01BV&F'', CHR ''F''), (''01BV&N'', CHR ''F''), (''01BV&S'', CHR ''F''),
    (''01BV&V'', CHR ''F''), (''01BV,('', CHR ''F''), (''01BV,F'', CHR ''F''),
    (''01BV;'', CHR ''F''), (''01BV;C'', CHR ''F''), (''01BVB('', CHR ''F''),
    (''01BVB1'', CHR ''F''), (''01BVBF'', CHR ''F''), (''01BVBN'', CHR ''F''),
    (''01BVBS'', CHR ''F''), (''01BVBV'', CHR ''F''), (''01BVC'', CHR ''F''),
    (''01BVK('', CHR ''F''), (''01BVK1'', CHR ''F''), (''01BVKF'', CHR ''F''),
    (''01BVKN'', CHR ''F''), (''01BVKS'', CHR ''F''), (''01BVKV'', CHR ''F''),
    (''01BVO('', CHR ''F''), (''01BVOF'', CHR ''F''), (''01BVOS'', CHR ''F''),
    (''01BVU('', CHR ''F''), (''01BVUE'', CHR ''F''), (''01C'', CHR ''F''),
    (''01E(1)'', CHR ''F''), (''01E(1O'', CHR ''F''), (''01E(F('', CHR ''F''),
    (''01E(N)'', CHR ''F''), (''01E(NO'', CHR ''F''), (''01E(S)'', CHR ''F''),
    (''01E(SO'', CHR ''F''), (''01E(V)'', CHR ''F''), (''01E(VO'', CHR ''F''),
    (''01E1;T'', CHR ''F''), (''01E1C'', CHR ''F''), (''01E1O('', CHR ''F''),
    (''01E1OF'', CHR ''F''), (''01E1OS'', CHR ''F''), (''01E1OV'', CHR ''F''),
    (''01E1T('', CHR ''F''), (''01E1T1'', CHR ''F''), (''01E1TF'', CHR ''F''),
    (''01E1TN'', CHR ''F''), (''01E1TS'', CHR ''F''), (''01E1TV'', CHR ''F''),
    (''01E1UE'', CHR ''F''), (''01EF()'', CHR ''F''), (''01EF(1'', CHR ''F''),
    (''01EF(F'', CHR ''F''), (''01EF(N'', CHR ''F''), (''01EF(S'', CHR ''F''),
    (''01EF(V'', CHR ''F''), (''01EK(1'', CHR ''F''), (''01EK(E'', CHR ''F''),
    (''01EK(F'', CHR ''F''), (''01EK(N'', CHR ''F''), (''01EK(S'', CHR ''F''),
    (''01EK(V'', CHR ''F''), (''01EK1;'', CHR ''F''), (''01EK1C'', CHR ''F''),
    (''01EK1O'', CHR ''F''), (''01EK1T'', CHR ''F''), (''01EK1U'', CHR ''F''),
    (''01EKF('', CHR ''F''), (''01EKN;'', CHR ''F''), (''01EKNC'', CHR ''F''),
    (''01EKNE'', CHR ''F''), (''01EKNT'', CHR ''F''), (''01EKNU'', CHR ''F''),
    (''01EKOK'', CHR ''F''), (''01EKS;'', CHR ''F''), (''01EKSC'', CHR ''F''),
    (''01EKSO'', CHR ''F''), (''01EKST'', CHR ''F''), (''01EKSU'', CHR ''F''),
    (''01EKU('', CHR ''F''), (''01EKU1'', CHR ''F''), (''01EKUE'', CHR ''F''),
    (''01EKUF'', CHR ''F''), (''01EKUS'', CHR ''F''), (''01EKUV'', CHR ''F''),
    (''01EKV;'', CHR ''F''), (''01EKVC'', CHR ''F''), (''01EKVO'', CHR ''F''),
    (''01EKVT'', CHR ''F''), (''01EKVU'', CHR ''F''), (''01EN;T'', CHR ''F''),
    (''01ENC'', CHR ''F''), (''01ENEN'', CHR ''F''), (''01ENO('', CHR ''F''),
    (''01ENOF'', CHR ''F''), (''01ENOS'', CHR ''F''), (''01ENOV'', CHR ''F''),
    (''01ENT('', CHR ''F''), (''01ENT1'', CHR ''F''), (''01ENTF'', CHR ''F''),
    (''01ENTN'', CHR ''F''), (''01ENTS'', CHR ''F''), (''01ENTV'', CHR ''F''),
    (''01ENUE'', CHR ''F''), (''01EOKN'', CHR ''F''), (''01ES;T'', CHR ''F''),
    (''01ESC'', CHR ''F''), (''01ESO('', CHR ''F''), (''01ESO1'', CHR ''F''),
    (''01ESOF'', CHR ''F''), (''01ESON'', CHR ''F''), (''01ESOS'', CHR ''F''),
    (''01ESOV'', CHR ''F''), (''01EST('', CHR ''F''), (''01EST1'', CHR ''F''),
    (''01ESTF'', CHR ''F''), (''01ESTN'', CHR ''F''), (''01ESTS'', CHR ''F''),
    (''01ESTV'', CHR ''F''), (''01ESUE'', CHR ''F''), (''01EU(1'', CHR ''F''),
    (''01EU(F'', CHR ''F''), (''01EU(N'', CHR ''F''), (''01EU(S'', CHR ''F''),
    (''01EU(V'', CHR ''F''), (''01EU1,'', CHR ''F''), (''01EU1C'', CHR ''F''),
    (''01EU1O'', CHR ''F''), (''01EUEF'', CHR ''F''), (''01EUEK'', CHR ''F''),
    (''01EUF('', CHR ''F''), (''01EUS,'', CHR ''F''), (''01EUSC'', CHR ''F''),
    (''01EUSO'', CHR ''F''), (''01EUV,'', CHR ''F''), (''01EUVC'', CHR ''F''),
    (''01EUVO'', CHR ''F''), (''01EV;T'', CHR ''F''), (''01EVC'', CHR ''F'')]"

lemma sql_keywords_6_chain: "kw_chain ''01BSKS'' sql_keywords_6 ''01EVC''"
  by (simp add: sql_keywords_6_def)

lemma sql_keywords_6_words: "kw_words sql_keywords_6"
  by (simp add: sql_keywords_6_def kw_words_def kw_word_def)

lemma sql_keywords_6_length: "length sql_keywords_6 = 150"
  by (simp add: sql_keywords_6_def)

definition sql_keywords_7 :: "keyword_t list" where
  "sql_keywords_7 = [
    (''01EVO('', CHR ''F''), (''01EVOF'', CHR ''F''), (''01EVOS'', CHR ''F''),
    (''01EVT('', CHR ''F''), (''01EVT1'', CHR ''F''), (''01EVTF'', CHR ''F''),
    (''01EVTN'', CHR ''F''), (''01EVTS'', CHR ''F''), (''01EVTV'', CHR ''F''),
    (''01EVUE'', CHR ''F''), (''01F()1'', CHR ''F''), (''01F()F'', CHR ''F''),
    (''01F()K'', CHR ''F''), (''01F()N'', CHR ''F''), (''01F()O'', CHR ''F''),
    (''01F()S'', CHR ''F''), (''01F()U'', CHR ''F''), (''01F()V'', CHR ''F''),
    (''01F(1)'', CHR ''F''), (''01F(1N'', CHR ''F''), (''01F(1O'', CHR ''F''),
    (''01F(E('', CHR ''F''), (''01F(E1'', CHR ''F''), (''01F(EF'', CHR ''F''),
    (''01F(EK'', CHR ''F''), (''01F(EN'', CHR ''F''), (''01F(ES'', CHR ''F''),
    (''01F(EV'', CHR ''F''), (''01F(F('', CHR ''F''), (''01F(N)'', CHR ''F''),
    (''01F(N,'', CHR ''F''), (''01F(NO'', CHR ''F''), (''01F(S)'', CHR ''F''),
    (''01F(SO'', CHR ''F''), (''01F(V)'', CHR ''F''), (''01F(VO'', CHR ''F''),
    (''01K(1O'', CHR ''F''), (''01K(F('', CHR ''F''), (''01K(N)'', CHR ''F''),
    (''01K(NO'', CHR ''F''), (''01K(S)'', CHR ''F''), (''01K(SO'', CHR ''F''),
    (''01K(V)'', CHR ''F''), (''01K(VO'', CHR ''F''), (''01K)&('', CHR ''F''),
    (''01K)&1'', CHR ''F''), (''01K)&F'', CHR ''F''), (''01K)&N'', CHR ''F''),
    (''01K)&S'', CHR ''F''), (''01K)&V'', CHR ''F''), (''01K);E'', CHR ''F''),
    (''01K);T'', CHR ''F''), (''01K)B('', CHR ''F''), (''01K)B1'', CHR ''F''),
    (''01K)BF'', CHR ''F''), (''01K)BN'', CHR ''F''), (''01K)BS'', CHR ''F''),
    (''01K)BV'', CHR ''F''), (''01K)E('', CHR ''F''), (''01K)E1'', CHR ''F''),
    (''01K)EF'', CHR ''F''), (''01K)EK'', CHR ''F''), (''01K)EN'', CHR ''F''),
    (''01K)ES'', CHR ''F''), (''01K)EV'', CHR ''F''), (''01K)F('', CHR ''F''),
    (''01K)O('', CHR ''F''), (''01K)OF'', CHR ''F''), (''01K)UE'', CHR ''F''),
    (''01K1'', CHR ''F''), (''01K1&('', CHR ''F''), (''01K1&1'', CHR ''F''),
    (''01K1&F'', CHR ''F''), (''01K1&N'', CHR ''F''), (''01K1&S'', CHR ''F''),
    (''01K1&V'', CHR ''F''), (''01K1;'', CHR ''F''), (''01K1;C'', CHR ''F''),
    (''01K1;E'', CHR ''F''), (''01K1;T'', CHR ''F''), (''01K1B('', CHR ''F''),
    (''01K1B1'', CHR ''F''), (''01K1BF'', CHR ''F''), (''01K1BN'', CHR ''F''),
    (''01K1BS'', CHR ''F''), (''01K1BV'', CHR ''F''), (''01K1C'', CHR ''F''),
    (''01K1E('', CHR ''F''), (''01K1E1'', CHR ''F''), (''01K1EF'', CHR ''F''),
    (''01K1EK'', CHR ''F''), (''01K1EN'', CHR ''F''), (''01K1ES'', CHR ''F''),
    (''01K1EV'', CHR ''F''), (''01K1O('', CHR ''F''), (''01K1OF'', CHR ''F''),
    (''01K1OS'', CHR ''F''), (''01K1OV'', CHR ''F''), (''01K1U('', CHR ''F''),
    (''01K1UE'', CHR ''F''), (''01KF()'', CHR ''F''), (''01KF(1'', CHR ''F''),
    (''01KF(F'', CHR ''F''), (''01KF(N'', CHR ''F''), (''01KF(S'', CHR ''F''),
    (''01KF(V'', CHR ''F''), (''01KN'', CHR ''F''), (''01KN&('', CHR ''F''),
    (''01KN&1'', CHR ''F''), (''01KN&F'', CHR ''F''), (''01KN&N'', CHR ''F''),
    (''01KN&S'', CHR ''F''), (''01KN&V'', CHR ''F''), (''01KN;'', CHR ''F''),
    (''01KN;C'', CHR ''F''), (''01KN;E'', CHR ''F''), (''01KN;T'', CHR ''F''),
    (''01KNB('', CHR ''F''), (''01KNB1'', CHR ''F''), (''01KNBF'', CHR ''F''),
    (''01KNBN'', CHR ''F''), (''01KNBS'', CHR ''F''), (''01KNBV'', CHR ''F''),
    (''01KNC'', CHR ''F''), (''01KNE('', CHR ''F''), (''01KNE1'', CHR ''F''),
    (''01KNEF'', CHR ''F''), (''01KNEN'', CHR ''F''), (''01KNES'', CHR ''F''),
    (''01KNEV'', CHR ''F''), (''01KNU('', CHR ''F''), (''01KNUE'', CHR ''F''),
    (''01KS'', CHR ''F''), (''01KS&('', CHR ''F''), (''01KS&1'', CHR ''F''),
    (''01KS&F'', CHR ''F''), (''01KS&N'', CHR ''F''), (''01KS&S'', CHR ''F''),
    (''01KS&V'', CHR ''F''), (''01KS;'', CHR ''F''), (''01KS;C'', CHR ''F''),
    (''01KS;E'', CHR ''F''), (''01KS;T'', CHR ''F''), (''01KSB('', CHR ''F''),
    (''01KSB1'', CHR ''F''), (''01KSBF'', CHR ''F''), (''01KSBN'', CHR ''F''),
    (''01KSBS'', CHR ''F''), (''01KSBV'', CHR ''F''), (''01KSC'', CHR ''F'')]"

lemma sql_keywords_7_chain: "kw_chain ''01EVC'' sql_keywords_7 ''01KSC''"
  by (simp add: sql_keywords_7_def)

lemma sql_keywords_7_words: "kw_words sql_keywords_7"
  by (simp add: sql_keywords_7_def kw_words_def kw_word_def)

lemma sql_keywords_7_length: "length sql_keywords_7 = 150"
  by (simp add: sql_keywords_7_def)

end
