(* ===== verification/Sqli_Keywords_1.thy ===== *)
theory Sqli_Keywords_1
  imports Sqli_Word_Order
begin

text \<open>
  Part 1 of the table \<open>sql_keywords\<close> of \<open>src/src/headers/libinjection_sqli_data.h\<close>
  (lines 1498 to 2697), in slices of at most 150 entries in the order of the source. Each slice
  \<open>sql_keywords_n\<close> comes with the fact that it continues the strictly ascending chain
  of words from the last word of the slice before it to its own last word.
\<close>

definition sql_keywords_8 :: "keyword_t list" where
  "sql_keywords_8 = [
    (''01KSE('', CHR ''F''), (''01KSE1'', CHR ''F''), (''01KSEF'', CHR ''F''),
    (''01KSEK'', CHR ''F''), (''01KSEN'', CHR ''F''), (''01KSES'', CHR ''F''),
    (''01KSEV'', CHR ''F''), (''01KSO('', CHR ''F''), (''01KSO1'', CHR ''F''),
    (''01KSOF'', CHR ''F''), (''01KSON'', CHR ''F''), (''01KSOS'', CHR ''F''),
    (''01KSOV'', CHR ''F''), (''01KSU('', CHR ''F''), (''01KSUE'', CHR ''F''),
    (''01KUE('', CHR ''F''), (''01KUE1'', CHR ''F''), (''01KUEF'', CHR ''F''),
    (''01KUEK'', CHR ''F''), (''01KUEN'', CHR ''F''), (''01KUES'', CHR ''F''),
    (''01KUEV'', CHR ''F''), (''01KV'', CHR ''F''), (''01KV&('', CHR ''F''),
    (''01KV&1'', CHR ''F''), (''01KV&F'', CHR ''F''), (''01KV&N'', CHR ''F''),
    (''01KV&S'', CHR ''F''), (''01KV&V'', CHR ''F''), (''01KV;'', CHR ''F''),
    (''01KV;C'', CHR ''F''), (''01KV;E'', CHR ''F''), (''01KV;T'', CHR ''F''),
    (''01KVB('', CHR ''F''), (''01KVB1'', CHR ''F''), (''01KVBF'', CHR ''F''),
    (''01KVBN'', CHR ''F''), (''01KVBS'', CHR ''F''), (''01KVBV'', CHR ''F''),
    (''01KVC'', CHR ''F''), (''01KVE('', CHR ''F''), (''01KVE1'', CHR ''F''),
    (''01KVEF'', CHR ''F''), (''01KVEK'', CHR ''F''), (''01KVEN'', CHR ''F''),
    (''01KVES'', CHR ''F''), (''01KVEV'', CHR ''F''), (''01KVO('', CHR ''F''),
    (''01KVOF'', CHR ''F''), (''01KVOS'', CHR ''F''), (''01KVU('', CHR ''F''),
    (''01KVUE'', CHR ''F''), (''01N&F('', CHR ''F''), (''01N(1O'', CHR ''F''),
    (''01N(F('', CHR ''F''), (''01N(S)'', CHR ''F''), (''01N(SO'', CHR ''F''),
    (''01N(V)'', CHR ''F''), (''01N(VO'', CHR ''F''), (''01N)UE'', CHR ''F''),
    (''01N,F('', CHR ''F''), (''01NE(1'', CHR ''F''), (''01NE(F'', CHR ''F''),
    (''01NE(N'', CHR ''F''), (''01NE(S'', CHR ''F''), (''01NE(V'', CHR ''F''),
    (''01NE1C'', CHR ''F''), (''01NE1O'', CHR ''F''), (''01NEF('', CHR ''F''),
    (''01NENC'', CHR ''F''), (''01NENO'', CHR ''F''), (''01NESC'', CHR ''F''),
    (''01NESO'', CHR ''F''), (''01NEVC'', CHR ''F''), (''01NEVO'', CHR ''F''),
    (''01NU(E'', CHR ''F''), (''01NUE'', CHR ''F''), (''01NUE('', CHR ''F''),
    (''01NUE1'', CHR ''F''), (''01NUE;'', CHR ''F''), (''01NUEC'', CHR ''F''),
    (''01NUEF'', CHR ''F''), (''01NUEK'', CHR ''F''), (''01NUEN'', CHR ''F''),
    (''01NUES'', CHR ''F''), (''01NUEV'', CHR ''F''), (''01O(1&'', CHR ''F''),
    (''01O(1)'', CHR ''F''), (''01O(1,'', CHR ''F''), (''01O(1O'', CHR ''F''),
    (''01O(E('', CHR ''F''), (''01O(E1'', CHR ''F''), (''01O(EE'', CHR ''F''),
    (''01O(EF'', CHR ''F''), (''01O(EK'', CHR ''F''), (''01O(EN'', CHR ''F''),
    (''01O(EO'', CHR ''F''), (''01O(ES'', CHR ''F''), (''01O(EV'', CHR ''F''),
    (''01O(F('', CHR ''F''), (''01O(N&'', CHR ''F''), (''01O(N)'', CHR ''F''),
    (''01O(N,'', CHR ''F''), (''01O(NO'', CHR ''F''), (''01O(S&'', CHR ''F''),
    (''01O(S)'', CHR ''F''), (''01O(S,'', CHR ''F''), (''01O(SO'', CHR ''F''),
    (''01O(V&'', CHR ''F''), (''01O(V)'', CHR ''F''), (''01O(V,'', CHR ''F''),
    (''01O(VO'', CHR ''F''), (''01OF()'', CHR ''F''), (''01OF(1'', CHR ''F''),
    (''01OF(E'', CHR ''F''), (''01OF(F'', CHR ''F''), (''01OF(N'', CHR ''F''),
    (''01OF(S'', CHR ''F''), (''01OF(V'', CHR ''F''), (''01OK&('', CHR ''F''),
    (''01OK&1'', CHR ''F''), (''01OK&F'', CHR ''F''), (''01OK&N'', CHR ''F''),
    (''01OK&S'', CHR ''F''), (''01OK&V'', CHR ''F''), (''01OK(1'', CHR ''F''),
    (''01OK(F'', CHR ''F''), (''01OK(N'', CHR ''F''), (''01OK(S'', CHR ''F''),
    (''01OK(V'', CHR ''F''), (''01OK1C'', CHR ''F''), (''01OK1O'', CHR ''F''),
    (''01OKF('', CHR ''F''), (''01OKNC'', CHR ''F''), (''01OKO('', CHR ''F''),
    (''01OKO1'', CHR ''F''), (''01OKOF'', CHR ''F''), (''01OKON'', CHR ''F''),
    (''01OKOS'', CHR ''F''), (''01OKOV'', CHR ''F''), (''01OKSC'', CHR ''F''),
    (''01OKSO'', CHR ''F''), (''01OKVC'', CHR ''F''), (''01OKVO'', CHR ''F''),
    (''01ONSU'', CHR ''F''), (''01OS&('', CHR ''F''), (''01OS&1'', CHR ''F''),
    (''01OS&E'', CHR ''F''), (''01OS&F'', CHR ''F''), (''01OS&K'', CHR ''F'')]"

lemma sql_keywords_8_chain: "kw_chain ''01KSC'' sql_keywords_8 ''01OS&K''"
  by (simp add: sql_keywords_8_def)

lemma sql_keywords_8_words: "kw_words sql_keywords_8"
  by (simp add: sql_keywords_8_def kw_words_def kw_word_def)

lemma sql_keywords_8_length: "length sql_keywords_8 = 150"
  by (simp add: sql_keywords_8_def)

definition sql_keywords_9 :: "keyword_t list" where
  "sql_keywords_9 = [
    (''01OS&N'', CHR ''F''), (''01OS&S'', CHR ''F''), (''01OS&U'', CHR ''F''),
    (''01OS&V'', CHR ''F''), (''01OS(E'', CHR ''F''), (''01OS(U'', CHR ''F''),
    (''01OS)&'', CHR ''F''), (''01OS),'', CHR ''F''), (''01OS);'', CHR ''F''),
    (''01OS)B'', CHR ''F''), (''01OS)C'', CHR ''F''), (''01OS)E'', CHR ''F''),
    (''01OS)F'', CHR ''F''), (''01OS)K'', CHR ''F''), (''01OS)O'', CHR ''F''),
    (''01OS)U'', CHR ''F''), (''01OS,('', CHR ''F''), (''01OS,F'', CHR ''F''),
    (''01OS1('', CHR ''F''), (''01OS1F'', CHR ''F''), (''01OS1N'', CHR ''F''),
    (''01OS1S'', CHR ''F''), (''01OS1U'', CHR ''F''), (''01OS1V'', CHR ''F''),
    (''01OS;'', CHR ''F''), (''01OS;C'', CHR ''F''), (''01OS;E'', CHR ''F''),
    (''01OS;N'', CHR ''F''), (''01OS;T'', CHR ''F''), (''01OSA('', CHR ''F''),
    (''01OSAF'', CHR ''F''), (''01OSAS'', CHR ''F''), (''01OSAT'', CHR ''F''),
    (''01OSAV'', CHR ''F''), (''01OSB('', CHR ''F''), (''01OSB1'', CHR ''F''),
    (''01OSBE'', CHR ''F''), (''01OSBF'', CHR ''F''), (''01OSBN'', CHR ''F''),
    (''01OSBS'', CHR ''F''), (''01OSBV'', CHR ''F''), (''01OSC'', CHR ''F''),
    (''01OSE('', CHR ''F''), (''01OSE1'', CHR ''F''), (''01OSEF'', CHR ''F''),
    (''01OSEK'', CHR ''F''), (''01OSEN'', CHR ''F''), (''01OSEO'', CHR ''F''),
    (''01OSES'', CHR ''F''), (''01OSEU'', CHR ''F''), (''01OSEV'', CHR ''F''),
    (''01OSF('', CHR ''F''), (''01OSK('', CHR ''F''), (''01OSK)'', CHR ''F''),
    (''01OSK1'', CHR ''F''), (''01OSKB'', CHR ''F''), (''01OSKF'', CHR ''F''),
    (''01OSKN'', CHR ''F''), (''01OSKS'', CHR ''F''), (''01OSKU'', CHR ''F''),
    (''01OSKV'', CHR ''F''), (''01OST('', CHR ''F''), (''01OST1'', CHR ''F''),
    (''01OSTE'', CHR ''F''), (''01OSTF'', CHR ''F''), (''01OSTN'', CHR ''F''),
    (''01OSTS'', CHR ''F''), (''01OSTT'', CHR ''F''), (''01OSTV'', CHR ''F''),
    (''01OSU'', CHR ''F''), (''01OSU('', CHR ''F''), (''01OSU1'', CHR ''F''),
    (''01OSU;'', CHR ''F''), (''01OSUC'', CHR ''F''), (''01OSUE'', CHR ''F''),
    (''01OSUF'', CHR ''F''), (''01OSUK'', CHR ''F''), (''01OSUO'', CHR ''F''),
    (''01OSUS'', CHR ''F''), (''01OSUT'', CHR ''F''), (''01OSUV'', CHR ''F''),
    (''01OSV('', CHR ''F''), (''01OSVF'', CHR ''F''), (''01OSVO'', CHR ''F''),
    (''01OSVS'', CHR ''F''), (''01OSVU'', CHR ''F''), (''01OU(E'', CHR ''F''),
    (''01OUEK'', CHR ''F''), (''01OUEN'', CHR ''F''), (''01OV'', CHR ''F''),
    (''01OV&('', CHR ''F''), (''01OV&1'', CHR ''F''), (''01OV&E'', CHR ''F''),
    (''01OV&F'', CHR ''F''), (''01OV&K'', CHR ''F''), (''01OV&N'', CHR ''F''),
    (''01OV&S'', CHR ''F''), (''01OV&U'', CHR ''F''), (''01OV&V'', CHR ''F''),
    (''01OV(E'', CHR ''F''), (''01OV(U'', CHR ''F''), (''01OV)&'', CHR ''F''),
    (''01OV),'', CHR ''F''), (''01OV);'', CHR ''F''), (''01OV)B'', CHR ''F''),
    (''01OV)C'', CHR ''F''), (''01OV)E'', CHR ''F''), (''01OV)F'', CHR ''F''),
    (''01OV)K'', CHR ''F''), (''01OV)O'', CHR ''F''), (''01OV)U'', CHR ''F''),
    (''01OV,('', CHR ''F''), (''01OV,F'', CHR ''F''), (''01OV;'', CHR ''F''),
    (''01OV;C'', CHR ''F''), (''01OV;E'', CHR ''F''), (''01OV;N'', CHR ''F''),
    (''01OV;T'', CHR ''F''), (''01OVA('', CHR ''F''), (''01OVAF'', CHR ''F''),
    (''01OVAS'', CHR ''F''), (''01OVAT'', CHR ''F''), (''01OVAV'', CHR ''F''),
    (''01OVB('', CHR ''F''), (''01OVB1'', CHR ''F''), (''01OVBE'', CHR ''F''),
    (''01OVBF'', CHR ''F''), (''01OVBN'', CHR ''F''), (''01OVBS'', CHR ''F''),
    (''01OVBV'', CHR ''F''), (''01OVC'', CHR ''F''), (''01OVE('', CHR ''F''),
    (''01OVE1'', CHR ''F''), (''01OVEF'', CHR ''F''), (''01OVEK'', CHR ''F''),
    (''01OVEN'', CHR ''F''), (''01OVEO'', CHR ''F''), (''01OVES'', CHR ''F''),
    (''01OVEU'', CHR ''F''), (''01OVEV'', CHR ''F''), (''01OVF('', CHR ''F''),
    (''01OVK('', CHR ''F''), (''01OVK)'', CHR ''F''), (''01OVK1'', CHR ''F''),
    (''01OVKB'', CHR ''F''), (''01OVKF'', CHR ''F''), (''01OVKN'', CHR ''F''),
    (''01OVKS'', CHR ''F''), (''01OVKU'', CHR ''F''), (''01OVKV'', CHR ''F'')]"

lemma sql_keywords_9_chain: "kw_chain ''01OS&K'' sql_keywords_9 ''01OVKV''"
  by (simp add: sql_keywords_9_def)

lemma sql_keywords_9_words: "kw_words sql_keywords_9"
  by (simp add: sql_keywords_9_def kw_words_def kw_word_def)

lemma sql_keywords_9_length: "length sql_keywords_9 = 150"
  by (simp add: sql_keywords_9_def)

definition sql_keywords_10 :: "keyword_t list" where
  "sql_keywords_10 = [
    (''01OVO('', CHR ''F''), (''01OVOF'', CHR ''F''), (''01OVOK'', CHR ''F''),
    (''01OVOS'', CHR ''F''), (''01OVOU'', CHR ''F''), (''01OVS('', CHR ''F''),
    (''01OVS1'', CHR ''F''), (''01OVSF'', CHR ''F''), (''01OVSO'', CHR ''F''),
    (''01OVSU'', CHR ''F''), (''01OVSV'', CHR ''F''), (''01OVT('', CHR ''F''),
    (''01OVT1'', CHR ''F''), (''01OVTE'', CHR ''F''), (''01OVTF'', CHR ''F''),
    (''01OVTN'', CHR ''F''), (''01OVTS'', CHR ''F''), (''01OVTT'', CHR ''F''),
    (''01OVTV'', CHR ''F''), (''01OVU'', CHR ''F''), (''01OVU('', CHR ''F''),
    (''01OVU1'', CHR ''F''), (''01OVU;'', CHR ''F''), (''01OVUC'', CHR ''F''),
    (''01OVUE'', CHR ''F''), (''01OVUF'', CHR ''F''), (''01OVUK'', CHR ''F''),
    (''01OVUO'', CHR ''F''), (''01OVUS'', CHR ''F''), (''01OVUT'', CHR ''F''),
    (''01OVUV'', CHR ''F''), (''01SF()'', CHR ''F''), (''01SF(1'', CHR ''F''),
    (''01SF(F'', CHR ''F''), (''01SF(N'', CHR ''F''), (''01SF(S'', CHR ''F''),
    (''01SF(V'', CHR ''F''), (''01SUE'', CHR ''F''), (''01SUE;'', CHR ''F''),
    (''01SUEC'', CHR ''F''), (''01SUEK'', CHR ''F''), (''01SV'', CHR ''F''),
    (''01SV;'', CHR ''F''), (''01SV;C'', CHR ''F''), (''01SVC'', CHR ''F''),
    (''01SVO('', CHR ''F''), (''01SVOF'', CHR ''F''), (''01SVOS'', CHR ''F''),
    (''01T(1)'', CHR ''F''), (''01T(1O'', CHR ''F''), (''01T(F('', CHR ''F''),
    (''01T(N)'', CHR ''F''), (''01T(NO'', CHR ''F''), (''01T(S)'', CHR ''F''),
    (''01T(SO'', CHR ''F''), (''01T(V)'', CHR ''F''), (''01T(VO'', CHR ''F''),
    (''01T1(F'', CHR ''F''), (''01T1O('', CHR ''F''), (''01T1OF'', CHR ''F''),
    (''01T1OS'', CHR ''F''), (''01T1OV'', CHR ''F''), (''01TE(1'', CHR ''F''),
    (''01TE(F'', CHR ''F''), (''01TE(N'', CHR ''F''), (''01TE(S'', CHR ''F''),
    (''01TE(V'', CHR ''F''), (''01TE1N'', CHR ''F''), (''01TE1O'', CHR ''F''),
    (''01TEF('', CHR ''F''), (''01TEK('', CHR ''F''), (''01TEK1'', CHR ''F''),
    (''01TEKF'', CHR ''F''), (''01TEKN'', CHR ''F''), (''01TEKS'', CHR ''F''),
    (''01TEKV'', CHR ''F''), (''01TENN'', CHR ''F''), (''01TENO'', CHR ''F''),
    (''01TESN'', CHR ''F''), (''01TESO'', CHR ''F''), (''01TEVN'', CHR ''F''),
    (''01TEVO'', CHR ''F''), (''01TF()'', CHR ''F''), (''01TF(1'', CHR ''F''),
    (''01TF(F'', CHR ''F''), (''01TF(N'', CHR ''F''), (''01TF(S'', CHR ''F''),
    (''01TF(V'', CHR ''F''), (''01TN(1'', CHR ''F''), (''01TN(F'', CHR ''F''),
    (''01TN(S'', CHR ''F''), (''01TN(V'', CHR ''F''), (''01TN1C'', CHR ''F''),
    (''01TN1O'', CHR ''F''), (''01TN;E'', CHR ''F''), (''01TN;N'', CHR ''F''),
    (''01TN;T'', CHR ''F''), (''01TNE('', CHR ''F''), (''01TNE1'', CHR ''F''),
    (''01TNEF'', CHR ''F''), (''01TNEN'', CHR ''F''), (''01TNES'', CHR ''F''),
    (''01TNEV'', CHR ''F''), (''01TNF('', CHR ''F''), (''01TNKN'', CHR ''F''),
    (''01TNN:'', CHR ''F''), (''01TNNC'', CHR ''F''), (''01TNNO'', CHR ''F''),
    (''01TNO('', CHR ''F''), (''01TNOF'', CHR ''F''), (''01TNOS'', CHR ''F''),
    (''01TNOV'', CHR ''F''), (''01TNSC'', CHR ''F''), (''01TNSO'', CHR ''F''),
    (''01TNT('', CHR ''F''), (''01TNT1'', CHR ''F''), (''01TNTF'', CHR ''F''),
    (''01TNTN'', CHR ''F''), (''01TNTS'', CHR ''F''), (''01TNTV'', CHR ''F''),
    (''01TNVC'', CHR ''F''), (''01TNVO'', CHR ''F''), (''01TS(F'', CHR ''F''),
    (''01TSO('', CHR ''F''), (''01TSO1'', CHR ''F''), (''01TSOF'', CHR ''F''),
    (''01TSON'', CHR ''F''), (''01TSOS'', CHR ''F''), (''01TSOV'', CHR ''F''),
    (''01TTNE'', CHR ''F''), (''01TTNK'', CHR ''F''), (''01TTNN'', CHR ''F''),
    (''01TTNT'', CHR ''F''), (''01TV(1'', CHR ''F''), (''01TV(F'', CHR ''F''),
    (''01TVO('', CHR ''F''), (''01TVOF'', CHR ''F''), (''01TVOS'', CHR ''F''),
    (''01U'', CHR ''F''), (''01U(1)'', CHR ''F''), (''01U(1O'', CHR ''F''),
    (''01U(E('', CHR ''F''), (''01U(E1'', CHR ''F''), (''01U(EF'', CHR ''F''),
    (''01U(EK'', CHR ''F''), (''01U(EN'', CHR ''F''), (''01U(ES'', CHR ''F''),
    (''01U(EV'', CHR ''F''), (''01U(F('', CHR ''F''), (''01U(N)'', CHR ''F'')]"

lemma sql_keywords_10_chain: "kw_chain ''01OVKV'' sql_keywords_10 ''01U(N)''"
  by (simp add: sql_keywords_10_def)

lemma sql_keywords_10_words: "kw_words sql_keywords_10"
  by (simp add: sql_keywords_10_def kw_words_def kw_word_def)

lemma sql_keywords_10_length: "length sql_keywords_10 = 150"
  by (simp add: sql_keywords_10_def)

definition sql_keywords_11 :: "keyword_t list" where
  "sql_keywords_11 = [
    (''01U(NO'', CHR ''F''), (''01U(S)'', CHR ''F''), (''01U(SO'', CHR ''F''),
    (''01U(V)'', CHR ''F''), (''01U(VO'', CHR ''F''), (''01U1,('', CHR ''F''),
    (''01U1,F'', CHR ''F''), (''01U1C'', CHR ''F''), (''01U1O('', CHR ''F''),
    (''01U1OF'', CHR ''F''), (''01U1OS'', CHR ''F''), (''01U1OV'', CHR ''F''),
    (''01U;'', CHR ''F''), (''01U;C'', CHR ''F''), (''01UC'', CHR ''F''), (''01UE'', CHR ''F''),
    (''01UE(1'', CHR ''F''), (''01UE(E'', CHR ''F''), (''01UE(F'', CHR ''F''),
    (''01UE(N'', CHR ''F''), (''01UE(O'', CHR ''F''), (''01UE(S'', CHR ''F''),
    (''01UE(V'', CHR ''F''), (''01UE1'', CHR ''F''), (''01UE1&'', CHR ''F''),
    (''01UE1('', CHR ''F''), (''01UE1)'', CHR ''F''), (''01UE1,'', CHR ''F''),
    (''01UE1;'', CHR ''F''), (''01UE1B'', CHR ''F''), (''01UE1C'', CHR ''F''),
    (''01UE1F'', CHR ''F''), (''01UE1K'', CHR ''F''), (''01UE1N'', CHR ''F''),
    (''01UE1O'', CHR ''F''), (''01UE1S'', CHR ''F''), (''01UE1U'', CHR ''F''),
    (''01UE1V'', CHR ''F''), (''01UE;'', CHR ''F''), (''01UE;C'', CHR ''F''),
    (''01UEC'', CHR ''F''), (''01UEF'', CHR ''F''), (''01UEF('', CHR ''F''),
    (''01UEF,'', CHR ''F''), (''01UEF;'', CHR ''F''), (''01UEFC'', CHR ''F''),
    (''01UEK'', CHR ''F''), (''01UEK('', CHR ''F''), (''01UEK1'', CHR ''F''),
    (''01UEK;'', CHR ''F''), (''01UEKC'', CHR ''F''), (''01UEKF'', CHR ''F''),
    (''01UEKN'', CHR ''F''), (''01UEKO'', CHR ''F''), (''01UEKS'', CHR ''F''),
    (''01UEKV'', CHR ''F''), (''01UEN'', CHR ''F''), (''01UEN&'', CHR ''F''),
    (''01UEN('', CHR ''F''), (''01UEN)'', CHR ''F''), (''01UEN,'', CHR ''F''),
    (''01UEN1'', CHR ''F''), (''01UEN;'', CHR ''F''), (''01UENB'', CHR ''F''),
    (''01UENC'', CHR ''F''), (''01UENF'', CHR ''F''), (''01UENK'', CHR ''F''),
    (''01UENN'', CHR ''F''), (''01UENO'', CHR ''F''), (''01UENS'', CHR ''F''),
    (''01UENU'', CHR ''F''), (''01UEOK'', CHR ''F''), (''01UEON'', CHR ''F''),
    (''01UES'', CHR ''F''), (''01UES&'', CHR ''F''), (''01UES('', CHR ''F''),
    (''01UES)'', CHR ''F''), (''01UES,'', CHR ''F''), (''01UES1'', CHR ''F''),
    (''01UES;'', CHR ''F''), (''01UESB'', CHR ''F''), (''01UESC'', CHR ''F''),
    (''01UESF'', CHR ''F''), (''01UESK'', CHR ''F''), (''01UESO'', CHR ''F''),
    (''01UESU'', CHR ''F''), (''01UESV'', CHR ''F''), (''01UEV'', CHR ''F''),
    (''01UEV&'', CHR ''F''), (''01UEV('', CHR ''F''), (''01UEV)'', CHR ''F''),
    (''01UEV,'', CHR ''F''), (''01UEV;'', CHR ''F''), (''01UEVB'', CHR ''F''),
    (''01UEVC'', CHR ''F''), (''01UEVF'', CHR ''F''), (''01UEVK'', CHR ''F''),
    (''01UEVN'', CHR ''F''), (''01UEVO'', CHR ''F''), (''01UEVS'', CHR ''F''),
    (''01UEVU'', CHR ''F''), (''01UF()'', CHR ''F''), (''01UF(1'', CHR ''F''),
    (''01UF(F'', CHR ''F''), (''01UF(N'', CHR ''F''), (''01UF(S'', CHR ''F''),
    (''01UF(V'', CHR ''F''), (''01UK(E'', CHR ''F''), (''01UO(E'', CHR ''F''),
    (''01UON('', CHR ''F''), (''01UON1'', CHR ''F''), (''01UONF'', CHR ''F''),
    (''01UONS'', CHR ''F''), (''01US,('', CHR ''F''), (''01US,F'', CHR ''F''),
    (''01USC'', CHR ''F''), (''01USO('', CHR ''F''), (''01USO1'', CHR ''F''),
    (''01USOF'', CHR ''F''), (''01USON'', CHR ''F''), (''01USOS'', CHR ''F''),
    (''01USOV'', CHR ''F''), (''01UTN('', CHR ''F''), (''01UTN1'', CHR ''F''),
    (''01UTNF'', CHR ''F''), (''01UTNN'', CHR ''F''), (''01UTNS'', CHR ''F''),
    (''01UTNV'', CHR ''F''), (''01UV,('', CHR ''F''), (''01UV,F'', CHR ''F''),
    (''01UVC'', CHR ''F''), (''01UVO('', CHR ''F''), (''01UVOF'', CHR ''F''),
    (''01UVOS'', CHR ''F''), (''01VF()'', CHR ''F''), (''01VF(1'', CHR ''F''),
    (''01VF(F'', CHR ''F''), (''01VF(N'', CHR ''F''), (''01VF(S'', CHR ''F''),
    (''01VF(V'', CHR ''F''), (''01VO(1'', CHR ''F''), (''01VO(F'', CHR ''F''),
    (''01VO(N'', CHR ''F''), (''01VO(S'', CHR ''F''), (''01VO(V'', CHR ''F''),
    (''01VOF('', CHR ''F''), (''01VOS('', CHR ''F''), (''01VOS1'', CHR ''F''),
    (''01VOSF'', CHR ''F''), (''01VOSU'', CHR ''F'')]"

lemma sql_keywords_11_chain: "kw_chain ''01U(N)'' sql_keywords_11 ''01VOSU''"
  by (simp add: sql_keywords_11_def)

lemma sql_keywords_11_words: "kw_words sql_keywords_11"
  by (simp add: sql_keywords_11_def kw_words_def kw_word_def)

lemma sql_keywords_11_length: "length sql_keywords_11 = 150"
  by (simp add: sql_keywords_11_def)

definition sql_keywords_12 :: "keyword_t list" where
  "sql_keywords_12 = [
    (''01VOSV'', CHR ''F''), (''01VS'', CHR ''F''), (''01VS;'', CHR ''F''),
    (''01VS;C'', CHR ''F''), (''01VSC'', CHR ''F''), (''01VSO('', CHR ''F''),
    (''01VSO1'', CHR ''F''), (''01VSOF'', CHR ''F''), (''01VSON'', CHR ''F''),
    (''01VSOS'', CHR ''F''), (''01VSOV'', CHR ''F''), (''01VUE'', CHR ''F''),
    (''01VUE;'', CHR ''F''), (''01VUEC'', CHR ''F''), (''01VUEK'', CHR ''F''),
    (''0;T(EF'', CHR ''F''), (''0;T(EK'', CHR ''F''), (''0;TKNC'', CHR ''F''),
    (''0E(1&('', CHR ''F''), (''0E(1&1'', CHR ''F''), (''0E(1&F'', CHR ''F''),
    (''0E(1&N'', CHR ''F''), (''0E(1&S'', CHR ''F''), (''0E(1&V'', CHR ''F''),
    (''0E(1)&'', CHR ''F''), (''0E(1),'', CHR ''F''), (''0E(1)1'', CHR ''F''),
    (''0E(1);'', CHR ''F''), (''0E(1)B'', CHR ''F''), (''0E(1)C'', CHR ''F''),
    (''0E(1)F'', CHR ''F''), (''0E(1)K'', CHR ''F''), (''0E(1)N'', CHR ''F''),
    (''0E(1)O'', CHR ''F''), (''0E(1)S'', CHR ''F''), (''0E(1)U'', CHR ''F''),
    (''0E(1)V'', CHR ''F''), (''0E(1,F'', CHR ''F''), (''0E(1F('', CHR ''F''),
    (''0E(1N)'', CHR ''F''), (''0E(1O('', CHR ''F''), (''0E(1OF'', CHR ''F''),
    (''0E(1OS'', CHR ''F''), (''0E(1OV'', CHR ''F''), (''0E(1S)'', CHR ''F''),
    (''0E(1V)'', CHR ''F''), (''0E(1VO'', CHR ''F''), (''0E(E(1'', CHR ''F''),
    (''0E(E(E'', CHR ''F''), (''0E(E(F'', CHR ''F''), (''0E(E(N'', CHR ''F''),
    (''0E(E(S'', CHR ''F''), (''0E(E(V'', CHR ''F''), (''0E(E1&'', CHR ''F''),
    (''0E(E1)'', CHR ''F''), (''0E(E1O'', CHR ''F''), (''0E(EF('', CHR ''F''),
    (''0E(EK('', CHR ''F''), (''0E(EK1'', CHR ''F''), (''0E(EKF'', CHR ''F''),
    (''0E(EKN'', CHR ''F''), (''0E(EKS'', CHR ''F''), (''0E(EKV'', CHR ''F''),
    (''0E(EN&'', CHR ''F''), (''0E(EN)'', CHR ''F''), (''0E(ENO'', CHR ''F''),
    (''0E(ES&'', CHR ''F''), (''0E(ES)'', CHR ''F''), (''0E(ESO'', CHR ''F''),
    (''0E(EV&'', CHR ''F''), (''0E(EV)'', CHR ''F''), (''0E(EVO'', CHR ''F''),
    (''0E(F()'', CHR ''F''), (''0E(F(1'', CHR ''F''), (''0E(F(E'', CHR ''F''),
    (''0E(F(F'', CHR ''F''), (''0E(F(N'', CHR ''F''), (''0E(F(S'', CHR ''F''),
    (''0E(F(V'', CHR ''F''), (''0E(N&('', CHR ''F''), (''0E(N&1'', CHR ''F''),
    (''0E(N&F'', CHR ''F''), (''0E(N&N'', CHR ''F''), (''0E(N&S'', CHR ''F''),
    (''0E(N&V'', CHR ''F''), (''0E(N(1'', CHR ''F''), (''0E(N(F'', CHR ''F''),
    (''0E(N(S'', CHR ''F''), (''0E(N(V'', CHR ''F''), (''0E(N)&'', CHR ''F''),
    (''0E(N),'', CHR ''F''), (''0E(N)1'', CHR ''F''), (''0E(N);'', CHR ''F''),
    (''0E(N)B'', CHR ''F''), (''0E(N)C'', CHR ''F''), (''0E(N)F'', CHR ''F''),
    (''0E(N)K'', CHR ''F''), (''0E(N)N'', CHR ''F''), (''0E(N)O'', CHR ''F''),
    (''0E(N)S'', CHR ''F''), (''0E(N)U'', CHR ''F''), (''0E(N)V'', CHR ''F''),
    (''0E(N,F'', CHR ''F''), (''0E(N1)'', CHR ''F''), (''0E(N1O'', CHR ''F''),
    (''0E(NF('', CHR ''F''), (''0E(NO('', CHR ''F''), (''0E(NOF'', CHR ''F''),
    (''0E(NOS'', CHR ''F''), (''0E(NOV'', CHR ''F''), (''0E(S&('', CHR ''F''),
    (''0E(S&1'', CHR ''F''), (''0E(S&F'', CHR ''F''), (''0E(S&N'', CHR ''F''),
    (''0E(S&S'', CHR ''F''), (''0E(S&V'', CHR ''F''), (''0E(S)&'', CHR ''F''),
    (''0E(S),'', CHR ''F''), (''0E(S)1'', CHR ''F''), (''0E(S);'', CHR ''F''),
    (''0E(S)B'', CHR ''F''), (''0E(S)C'', CHR ''F''), (''0E(S)F'', CHR ''F''),
    (''0E(S)K'', CHR ''F''), (''0E(S)N'', CHR ''F''), (''0E(S)O'', CHR ''F''),
    (''0E(S)S'', CHR ''F''), (''0E(S)U'', CHR ''F''), (''0E(S)V'', CHR ''F''),
    (''0E(S,F'', CHR ''F''), (''0E(S1)'', CHR ''F''), (''0E(SF('', CHR ''F''),
    (''0E(SO('', CHR ''F''), (''0E(SO1'', CHR ''F''), (''0E(SOF'', CHR ''F''),
    (''0E(SON'', CHR ''F''), (''0E(SOS'', CHR ''F''), (''0E(SOV'', CHR ''F''),
    (''0E(SV)'', CHR ''F''), (''0E(SVO'', CHR ''F''), (''0E(V&('', CHR ''F''),
    (''0E(V&1'', CHR ''F''), (''0E(V&F'', CHR ''F''), (''0E(V&N'', CHR ''F''),
    (''0E(V&S'', CHR ''F''), (''0E(V&V'', CHR ''F''), (''0E(V)&'', CHR ''F''),
    (''0E(V),'', CHR ''F''), (''0E(V)1'', CHR ''F''), (''0E(V);'', CHR ''F'')]"

lemma sql_keywords_12_chain: "kw_chain ''01VOSU'' sql_keywords_12 ''0E(V);''"
  by (simp add: sql_keywords_12_def)

lemma sql_keywords_12_words: "kw_words sql_keywords_12"
  by (simp add: sql_keywords_12_def kw_words_def kw_word_def)

lemma sql_keywords_12_length: "length sql_keywords_12 = 150"
  by (simp add: sql_keywords_12_def)

definition sql_keywords_13 :: "keyword_t list" where
  "sql_keywords_13 = [
    (''0E(V)B'', CHR ''F''), (''0E(V)C'', CHR ''F''), (''0E(V)F'', CHR ''F''),
    (''0E(V)K'', CHR ''F''), (''0E(V)N'', CHR ''F''), (''0E(V)O'', CHR ''F''),
    (''0E(V)S'', CHR ''F''), (''0E(V)U'', CHR ''F''), (''0E(V)V'', CHR ''F''),
    (''0E(V,F'', CHR ''F''), (''0E(VF('', CHR ''F''), (''0E(VO('', CHR ''F''),
    (''0E(VOF'', CHR ''F''), (''0E(VOS'', CHR ''F''), (''0E(VS)'', CHR ''F''),
    (''0E(VSO'', CHR ''F''), (''0E1&(1'', CHR ''F''), (''0E1&(E'', CHR ''F''),
    (''0E1&(F'', CHR ''F''), (''0E1&(N'', CHR ''F''), (''0E1&(S'', CHR ''F''),
    (''0E1&(V'', CHR ''F''), (''0E1&1)'', CHR ''F''), (''0E1&1O'', CHR ''F''),
    (''0E1&F('', CHR ''F''), (''0E1&N)'', CHR ''F''), (''0E1&NO'', CHR ''F''),
    (''0E1&S)'', CHR ''F''), (''0E1&SO'', CHR ''F''), (''0E1&V)'', CHR ''F''),
    (''0E1&VO'', CHR ''F''), (''0E1)'', CHR ''F''), (''0E1)&('', CHR ''F''),
    (''0E1)&1'', CHR ''F''), (''0E1)&F'', CHR ''F''), (''0E1)&N'', CHR ''F''),
    (''0E1)&S'', CHR ''F''), (''0E1)&V'', CHR ''F''), (''0E1);'', CHR ''F''),
    (''0E1);('', CHR ''F''), (''0E1);C'', CHR ''F''), (''0E1);E'', CHR ''F''),
    (''0E1);T'', CHR ''F''), (''0E1)C'', CHR ''F''), (''0E1)KN'', CHR ''F''),
    (''0E1)O('', CHR ''F''), (''0E1)O1'', CHR ''F''), (''0E1)OF'', CHR ''F''),
    (''0E1)ON'', CHR ''F''), (''0E1)OS'', CHR ''F''), (''0E1)OV'', CHR ''F''),
    (''0E1)UE'', CHR ''F''), (''0E1,(1'', CHR ''F''), (''0E1,(F'', CHR ''F''),
    (''0E1,(N'', CHR ''F''), (''0E1,(S'', CHR ''F''), (''0E1,(V'', CHR ''F''),
    (''0E1,F('', CHR ''F''), (''0E1;(E'', CHR ''F''), (''0E1B(1'', CHR ''F''),
    (''0E1B(F'', CHR ''F''), (''0E1B(N'', CHR ''F''), (''0E1B(S'', CHR ''F''),
    (''0E1B(V'', CHR ''F''), (''0E1B1)'', CHR ''F''), (''0E1B1O'', CHR ''F''),
    (''0E1BF('', CHR ''F''), (''0E1BN)'', CHR ''F''), (''0E1BNO'', CHR ''F''),
    (''0E1BS)'', CHR ''F''), (''0E1BSO'', CHR ''F''), (''0E1BV)'', CHR ''F''),
    (''0E1BVO'', CHR ''F''), (''0E1F()'', CHR ''F''), (''0E1F(1'', CHR ''F''),
    (''0E1F(F'', CHR ''F''), (''0E1F(N'', CHR ''F''), (''0E1F(S'', CHR ''F''),
    (''0E1F(V'', CHR ''F''), (''0E1K(1'', CHR ''F''), (''0E1K(E'', CHR ''F''),
    (''0E1K(F'', CHR ''F''), (''0E1K(N'', CHR ''F''), (''0E1K(S'', CHR ''F''),
    (''0E1K(V'', CHR ''F''), (''0E1K1)'', CHR ''F''), (''0E1K1K'', CHR ''F''),
    (''0E1K1O'', CHR ''F''), (''0E1KF('', CHR ''F''), (''0E1KN'', CHR ''F''),
    (''0E1KN)'', CHR ''F''), (''0E1KN;'', CHR ''F''), (''0E1KNC'', CHR ''F''),
    (''0E1KNK'', CHR ''F''), (''0E1KNU'', CHR ''F''), (''0E1KS)'', CHR ''F''),
    (''0E1KSK'', CHR ''F''), (''0E1KSO'', CHR ''F''), (''0E1KV)'', CHR ''F''),
    (''0E1KVK'', CHR ''F''), (''0E1KVO'', CHR ''F''), (''0E1N)U'', CHR ''F''),
    (''0E1N;'', CHR ''F''), (''0E1N;C'', CHR ''F''), (''0E1NC'', CHR ''F''),
    (''0E1NKN'', CHR ''F''), (''0E1O(1'', CHR ''F''), (''0E1O(E'', CHR ''F''),
    (''0E1O(F'', CHR ''F''), (''0E1O(N'', CHR ''F''), (''0E1O(S'', CHR ''F''),
    (''0E1O(V'', CHR ''F''), (''0E1OF('', CHR ''F''), (''0E1OS&'', CHR ''F''),
    (''0E1OS('', CHR ''F''), (''0E1OS)'', CHR ''F''), (''0E1OS,'', CHR ''F''),
    (''0E1OS1'', CHR ''F''), (''0E1OS;'', CHR ''F''), (''0E1OSB'', CHR ''F''),
    (''0E1OSF'', CHR ''F''), (''0E1OSK'', CHR ''F''), (''0E1OSU'', CHR ''F''),
    (''0E1OSV'', CHR ''F''), (''0E1OV&'', CHR ''F''), (''0E1OV('', CHR ''F''),
    (''0E1OV)'', CHR ''F''), (''0E1OV,'', CHR ''F''), (''0E1OV;'', CHR ''F''),
    (''0E1OVB'', CHR ''F''), (''0E1OVF'', CHR ''F''), (''0E1OVK'', CHR ''F''),
    (''0E1OVO'', CHR ''F''), (''0E1OVS'', CHR ''F''), (''0E1OVU'', CHR ''F''),
    (''0E1S;'', CHR ''F''), (''0E1S;C'', CHR ''F''), (''0E1SC'', CHR ''F''),
    (''0E1U(E'', CHR ''F''), (''0E1UE('', CHR ''F''), (''0E1UE1'', CHR ''F''),
    (''0E1UEF'', CHR ''F''), (''0E1UEK'', CHR ''F''), (''0E1UEN'', CHR ''F''),
    (''0E1UES'', CHR ''F''), (''0E1UEV'', CHR ''F''), (''0E1V'', CHR ''F''),
    (''0E1V;'', CHR ''F''), (''0E1V;C'', CHR ''F''), (''0E1VC'', CHR ''F'')]"

lemma sql_keywords_13_chain: "kw_chain ''0E(V);'' sql_keywords_13 ''0E1VC''"
  by (simp add: sql_keywords_13_def)

lemma sql_keywords_13_words: "kw_words sql_keywords_13"
  by (simp add: sql_keywords_13_def kw_words_def kw_word_def)

lemma sql_keywords_13_length: "length sql_keywords_13 = 150"
  by (simp add: sql_keywords_13_def)

definition sql_keywords_14 :: "keyword_t list" where
  "sql_keywords_14 = [
    (''0E1VO('', CHR ''F''), (''0E1VOF'', CHR ''F''), (''0E1VOS'', CHR ''F''),
    (''0EE(F('', CHR ''F''), (''0EEK(F'', CHR ''F''), (''0EF()&'', CHR ''F''),
    (''0EF(),'', CHR ''F''), (''0EF()1'', CHR ''F''), (''0EF();'', CHR ''F''),
    (''0EF()B'', CHR ''F''), (''0EF()F'', CHR ''F''), (''0EF()K'', CHR ''F''),
    (''0EF()N'', CHR ''F''), (''0EF()O'', CHR ''F''), (''0EF()S'', CHR ''F''),
    (''0EF()U'', CHR ''F''), (''0EF()V'', CHR ''F''), (''0EF(1&'', CHR ''F''),
    (''0EF(1)'', CHR ''F''), (''0EF(1,'', CHR ''F''), (''0EF(1O'', CHR ''F''),
    (''0EF(E('', CHR ''F''), (''0EF(E1'', CHR ''F''), (''0EF(EF'', CHR ''F''),
    (''0EF(EK'', CHR ''F''), (''0EF(EN'', CHR ''F''), (''0EF(ES'', CHR ''F''),
    (''0EF(EV'', CHR ''F''), (''0EF(F('', CHR ''F''), (''0EF(N&'', CHR ''F''),
    (''0EF(N)'', CHR ''F''), (''0EF(N,'', CHR ''F''), (''0EF(NO'', CHR ''F''),
    (''0EF(O)'', CHR ''F''), (''0EF(S&'', CHR ''F''), (''0EF(S)'', CHR ''F''),
    (''0EF(S,'', CHR ''F''), (''0EF(SO'', CHR ''F''), (''0EF(V&'', CHR ''F''),
    (''0EF(V)'', CHR ''F''), (''0EF(V,'', CHR ''F''), (''0EF(VO'', CHR ''F''),
    (''0EK(1&'', CHR ''F''), (''0EK(1('', CHR ''F''), (''0EK(1)'', CHR ''F''),
    (''0EK(1,'', CHR ''F''), (''0EK(1F'', CHR ''F''), (''0EK(1N'', CHR ''F''),
    (''0EK(1O'', CHR ''F''), (''0EK(1S'', CHR ''F''), (''0EK(1V'', CHR ''F''),
    (''0EK(E('', CHR ''F''), (''0EK(E1'', CHR ''F''), (''0EK(EF'', CHR ''F''),
    (''0EK(EK'', CHR ''F''), (''0EK(EN'', CHR ''F''), (''0EK(ES'', CHR ''F''),
    (''0EK(EV'', CHR ''F''), (''0EK(F('', CHR ''F''), (''0EK(N&'', CHR ''F''),
    (''0EK(N('', CHR ''F''), (''0EK(N)'', CHR ''F''), (''0EK(N,'', CHR ''F''),
    (''0EK(N1'', CHR ''F''), (''0EK(NF'', CHR ''F''), (''0EK(NO'', CHR ''F''),
    (''0EK(S&'', CHR ''F''), (''0EK(S('', CHR ''F''), (''0EK(S)'', CHR ''F''),
    (''0EK(S,'', CHR ''F''), (''0EK(S1'', CHR ''F''), (''0EK(SF'', CHR ''F''),
    (''0EK(SO'', CHR ''F''), (''0EK(SV'', CHR ''F''), (''0EK(V&'', CHR ''F''),
    (''0EK(V('', CHR ''F''), (''0EK(V)'', CHR ''F''), (''0EK(V,'', CHR ''F''),
    (''0EK(VF'', CHR ''F''), (''0EK(VO'', CHR ''F''), (''0EK(VS'', CHR ''F''),
    (''0EK1&('', CHR ''F''), (''0EK1&1'', CHR ''F''), (''0EK1&F'', CHR ''F''),
    (''0EK1&N'', CHR ''F''), (''0EK1&S'', CHR ''F''), (''0EK1&V'', CHR ''F''),
    (''0EK1)'', CHR ''F''), (''0EK1)&'', CHR ''F''), (''0EK1);'', CHR ''F''),
    (''0EK1)C'', CHR ''F''), (''0EK1)K'', CHR ''F''), (''0EK1)O'', CHR ''F''),
    (''0EK1)U'', CHR ''F''), (''0EK1,('', CHR ''F''), (''0EK1,F'', CHR ''F''),
    (''0EK1;('', CHR ''F''), (''0EK1B('', CHR ''F''), (''0EK1B1'', CHR ''F''),
    (''0EK1BF'', CHR ''F''), (''0EK1BN'', CHR ''F''), (''0EK1BS'', CHR ''F''),
    (''0EK1BV'', CHR ''F''), (''0EK1F('', CHR ''F''), (''0EK1K('', CHR ''F''),
    (''0EK1K1'', CHR ''F''), (''0EK1KF'', CHR ''F''), (''0EK1KN'', CHR ''F''),
    (''0EK1KS'', CHR ''F''), (''0EK1KV'', CHR ''F''), (''0EK1N'', CHR ''F''),
    (''0EK1N)'', CHR ''F''), (''0EK1N;'', CHR ''F''), (''0EK1NC'', CHR ''F''),
    (''0EK1NK'', CHR ''F''), (''0EK1O('', CHR ''F''), (''0EK1OF'', CHR ''F''),
    (''0EK1OS'', CHR ''F''), (''0EK1OV'', CHR ''F''), (''0EK1S'', CHR ''F''),
    (''0EK1S;'', CHR ''F''), (''0EK1SC'', CHR ''F''), (''0EK1SF'', CHR ''F''),
    (''0EK1SK'', CHR ''F''), (''0EK1U('', CHR ''F''), (''0EK1UE'', CHR ''F''),
    (''0EK1V'', CHR ''F''), (''0EK1V;'', CHR ''F''), (''0EK1VC'', CHR ''F''),
    (''0EK1VF'', CHR ''F''), (''0EK1VK'', CHR ''F''), (''0EK1VO'', CHR ''F''),
    (''0EKE(F'', CHR ''F''), (''0EKEK('', CHR ''F''), (''0EKF()'', CHR ''F''),
    (''0EKF(1'', CHR ''F''), (''0EKF(E'', CHR ''F''), (''0EKF(F'', CHR ''F''),
    (''0EKF(N'', CHR ''F''), (''0EKF(O'', CHR ''F''), (''0EKF(S'', CHR ''F''),
    (''0EKF(V'', CHR ''F''), (''0EKN&('', CHR ''F''), (''0EKN&1'', CHR ''F''),
    (''0EKN&F'', CHR ''F''), (''0EKN&N'', CHR ''F''), (''0EKN&S'', CHR ''F''),
    (''0EKN&V'', CHR ''F''), (''0EKN(1'', CHR ''F''), (''0EKN(F'', CHR ''F'')]"

lemma sql_keywords_14_chain: "kw_chain ''0E1VC'' sql_keywords_14 ''0EKN(F''"
  by (simp add: sql_keywords_14_def)

lemma sql_keywords_14_words: "kw_words sql_keywords_14"
  by (simp add: sql_keywords_14_def kw_words_def kw_word_def)

lemma sql_keywords_14_length: "length sql_keywords_14 = 150"
  by (simp add: sql_keywords_14_def)

definition sql_keywords_15 :: "keyword_t list" where
  "sql_keywords_15 = [
    (''0EKN(S'', CHR ''F''), (''0EKN(V'', CHR ''F''), (''0EKN)'', CHR ''F''),
    (''0EKN)&'', CHR ''F''), (''0EKN);'', CHR ''F''), (''0EKN)C'', CHR ''F''),
    (''0EKN)K'', CHR ''F''), (''0EKN)O'', CHR ''F''), (''0EKN)U'', CHR ''F''),
    (''0EKN,('', CHR ''F''), (''0EKN,F'', CHR ''F''), (''0EKN1'', CHR ''F''),
    (''0EKN1;'', CHR ''F''), (''0EKN1C'', CHR ''F''), (''0EKN1K'', CHR ''F''),
    (''0EKN1O'', CHR ''F''), (''0EKN;('', CHR ''F''), (''0EKNB('', CHR ''F''),
    (''0EKNB1'', CHR ''F''), (''0EKNBF'', CHR ''F''), (''0EKNBN'', CHR ''F''),
    (''0EKNBS'', CHR ''F''), (''0EKNBV'', CHR ''F''), (''0EKNF('', CHR ''F''),
    (''0EKNK('', CHR ''F''), (''0EKNK1'', CHR ''F''), (''0EKNKF'', CHR ''F''),
    (''0EKNKN'', CHR ''F''), (''0EKNKS'', CHR ''F''), (''0EKNKV'', CHR ''F''),
    (''0EKNU('', CHR ''F''), (''0EKNUE'', CHR ''F''), (''0EKO(1'', CHR ''F''),
    (''0EKO(F'', CHR ''F''), (''0EKO(N'', CHR ''F''), (''0EKO(S'', CHR ''F''),
    (''0EKO(V'', CHR ''F''), (''0EKOK('', CHR ''F''), (''0EKOKN'', CHR ''F''),
    (''0EKS&('', CHR ''F''), (''0EKS&1'', CHR ''F''), (''0EKS&F'', CHR ''F''),
    (''0EKS&N'', CHR ''F''), (''0EKS&S'', CHR ''F''), (''0EKS&V'', CHR ''F''),
    (''0EKS)'', CHR ''F''), (''0EKS)&'', CHR ''F''), (''0EKS);'', CHR ''F''),
    (''0EKS)C'', CHR ''F''), (''0EKS)K'', CHR ''F''), (''0EKS)O'', CHR ''F''),
    (''0EKS)U'', CHR ''F''), (''0EKS,('', CHR ''F''), (''0EKS,F'', CHR ''F''),
    (''0EKS1'', CHR ''F''), (''0EKS1;'', CHR ''F''), (''0EKS1C'', CHR ''F''),
    (''0EKS1F'', CHR ''F''), (''0EKS1K'', CHR ''F''), (''0EKS;('', CHR ''F''),
    (''0EKSB('', CHR ''F''), (''0EKSB1'', CHR ''F''), (''0EKSBF'', CHR ''F''),
    (''0EKSBN'', CHR ''F''), (''0EKSBS'', CHR ''F''), (''0EKSBV'', CHR ''F''),
    (''0EKSF('', CHR ''F''), (''0EKSK('', CHR ''F''), (''0EKSK1'', CHR ''F''),
    (''0EKSKF'', CHR ''F''), (''0EKSKN'', CHR ''F''), (''0EKSKS'', CHR ''F''),
    (''0EKSKV'', CHR ''F''), (''0EKSO('', CHR ''F''), (''0EKSO1'', CHR ''F''),
    (''0EKSOF'', CHR ''F''), (''0EKSON'', CHR ''F''), (''0EKSOS'', CHR ''F''),
    (''0EKSOV'', CHR ''F''), (''0EKSU('', CHR ''F''), (''0EKSUE'', CHR ''F''),
    (''0EKSV'', CHR ''F''), (''0EKSV;'', CHR ''F''), (''0EKSVC'', CHR ''F''),
    (''0EKSVF'', CHR ''F''), (''0EKSVK'', CHR ''F''), (''0EKSVO'', CHR ''F''),
    (''0EKV&('', CHR ''F''), (''0EKV&1'', CHR ''F''), (''0EKV&F'', CHR ''F''),
    (''0EKV&N'', CHR ''F''), (''0EKV&S'', CHR ''F''), (''0EKV&V'', CHR ''F''),
    (''0EKV)'', CHR ''F''), (''0EKV)&'', CHR ''F''), (''0EKV);'', CHR ''F''),
    (''0EKV)C'', CHR ''F''), (''0EKV)K'', CHR ''F''), (''0EKV)O'', CHR ''F''),
    (''0EKV)U'', CHR ''F''), (''0EKV,('', CHR ''F''), (''0EKV,F'', CHR ''F''),
    (''0EKV;('', CHR ''F''), (''0EKVB('', CHR ''F''), (''0EKVB1'', CHR ''F''),
    (''0EKVBF'', CHR ''F''), (''0EKVBN'', CHR ''F''), (''0EKVBS'', CHR ''F''),
    (''0EKVBV'', CHR ''F''), (''0EKVF('', CHR ''F''), (''0EKVK('', CHR ''F''),
    (''0EKVK1'', CHR ''F''), (''0EKVKF'', CHR ''F''), (''0EKVKN'', CHR ''F''),
    (''0EKVKS'', CHR ''F''), (''0EKVKV'', CHR ''F''), (''0EKVO('', CHR ''F''),
    (''0EKVOF'', CHR ''F''), (''0EKVOS'', CHR ''F''), (''0EKVS'', CHR ''F''),
    (''0EKVS;'', CHR ''F''), (''0EKVSC'', CHR ''F''), (''0EKVSF'', CHR ''F''),
    (''0EKVSK'', CHR ''F''), (''0EKVSO'', CHR ''F''), (''0EKVU('', CHR ''F''),
    (''0EKVUE'', CHR ''F''), (''0EN&(1'', CHR ''F''), (''0EN&(E'', CHR ''F''),
    (''0EN&(F'', CHR ''F''), (''0EN&(N'', CHR ''F''), (''0EN&(S'', CHR ''F''),
    (''0EN&(V'', CHR ''F''), (''0EN&1)'', CHR ''F''), (''0EN&1O'', CHR ''F''),
    (''0EN&F('', CHR ''F''), (''0EN&N)'', CHR ''F''), (''0EN&NO'', CHR ''F''),
    (''0EN&S)'', CHR ''F''), (''0EN&SO'', CHR ''F''), (''0EN&V)'', CHR ''F''),
    (''0EN&VO'', CHR ''F''), (''0EN(1O'', CHR ''F''), (''0EN(F('', CHR ''F''),
    (''0EN(S)'', CHR ''F''), (''0EN(SO'', CHR ''F''), (''0EN(V)'', CHR ''F''),
    (''0EN(VO'', CHR ''F''), (''0EN)'', CHR ''F''), (''0EN)&('', CHR ''F'')]"

lemma sql_keywords_15_chain: "kw_chain ''0EKN(F'' sql_keywords_15 ''0EN)&(''"
  by (simp add: sql_keywords_15_def)

lemma sql_keywords_15_words: "kw_words sql_keywords_15"
  by (simp add: sql_keywords_15_def kw_words_def kw_word_def)

lemma sql_keywords_15_length: "length sql_keywords_15 = 150"
  by (simp add: sql_keywords_15_def)

end
