(* ===== verification/Sqli_Keywords_2.thy ===== *)
theory Sqli_Keywords_2
  imports Sqli_Word_Order
begin

text \<open>
  Part 2 of the table \<open>sql_keywords\<close> of \<open>src/src/headers/libinjection_sqli_data.h\<close>
  (lines 2698 to 3897), in slices of at most 150 entries in the order of the source. Each slice
  \<open>sql_keywords_n\<close> comes with the fact that it continues the strictly ascending chain
  of words from the last word of the slice before it to its own last word.
\<close>

definition sql_keywords_16 :: "keyword_t list" where
  "sql_keywords_16 = [
    (''0EN)&1'', CHR ''F''), (''0EN)&F'', CHR ''F''), (''0EN)&N'', CHR ''F''),
    (''0EN)&S'', CHR ''F''), (''0EN)&V'', CHR ''F''), (''0EN);'', CHR ''F''),
    (''0EN);('', CHR ''F''), (''0EN);C'', CHR ''F''), (''0EN);E'', CHR ''F''),
    (''0EN);T'', CHR ''F''), (''0EN)C'', CHR ''F''), (''0EN)KN'', CHR ''F''),
    (''0EN)O('', CHR ''F''), (''0EN)O1'', CHR ''F''), (''0EN)OF'', CHR ''F''),
    (''0EN)ON'', CHR ''F''), (''0EN)OS'', CHR ''F''), (''0EN)OV'', CHR ''F''),
    (''0EN)UE'', CHR ''F''), (''0EN,(1'', CHR ''F''), (''0EN,(F'', CHR ''F''),
    (''0EN,(N'', CHR ''F''), (''0EN,(S'', CHR ''F''), (''0EN,(V'', CHR ''F''),
    (''0EN,F('', CHR ''F''), (''0EN1;'', CHR ''F''), (''0EN1;C'', CHR ''F''),
    (''0EN1O('', CHR ''F''), (''0EN1OF'', CHR ''F''), (''0EN1OS'', CHR ''F''),
    (''0EN1OV'', CHR ''F''), (''0EN;(E'', CHR ''F''), (''0ENB(1'', CHR ''F''),
    (''0ENB(F'', CHR ''F''), (''0ENB(N'', CHR ''F''), (''0ENB(S'', CHR ''F''),
    (''0ENB(V'', CHR ''F''), (''0ENB1)'', CHR ''F''), (''0ENB1O'', CHR ''F''),
    (''0ENBF('', CHR ''F''), (''0ENBN)'', CHR ''F''), (''0ENBNO'', CHR ''F''),
    (''0ENBS)'', CHR ''F''), (''0ENBSO'', CHR ''F''), (''0ENBV)'', CHR ''F''),
    (''0ENBVO'', CHR ''F''), (''0ENF()'', CHR ''F''), (''0ENF(1'', CHR ''F''),
    (''0ENF(F'', CHR ''F''), (''0ENF(N'', CHR ''F''), (''0ENF(S'', CHR ''F''),
    (''0ENF(V'', CHR ''F''), (''0ENK(1'', CHR ''F''), (''0ENK(E'', CHR ''F''),
    (''0ENK(F'', CHR ''F''), (''0ENK(N'', CHR ''F''), (''0ENK(S'', CHR ''F''),
    (''0ENK(V'', CHR ''F''), (''0ENK1)'', CHR ''F''), (''0ENK1K'', CHR ''F''),
    (''0ENK1O'', CHR ''F''), (''0ENKF('', CHR ''F''), (''0ENKN)'', CHR ''F''),
    (''0ENKN,'', CHR ''F''), (''0ENKN;'', CHR ''F''), (''0ENKNB'', CHR ''F''),
    (''0ENKNC'', CHR ''F''), (''0ENKNK'', CHR ''F''), (''0ENKNU'', CHR ''F''),
    (''0ENKS)'', CHR ''F''), (''0ENKSK'', CHR ''F''), (''0ENKSO'', CHR ''F''),
    (''0ENKV)'', CHR ''F''), (''0ENKVK'', CHR ''F''), (''0ENKVO'', CHR ''F''),
    (''0ENO(1'', CHR ''F''), (''0ENO(E'', CHR ''F''), (''0ENO(F'', CHR ''F''),
    (''0ENO(N'', CHR ''F''), (''0ENO(S'', CHR ''F''), (''0ENO(V'', CHR ''F''),
    (''0ENOF('', CHR ''F''), (''0ENOS&'', CHR ''F''), (''0ENOS('', CHR ''F''),
    (''0ENOS)'', CHR ''F''), (''0ENOS,'', CHR ''F''), (''0ENOS1'', CHR ''F''),
    (''0ENOS;'', CHR ''F''), (''0ENOSB'', CHR ''F''), (''0ENOSF'', CHR ''F''),
    (''0ENOSK'', CHR ''F''), (''0ENOSU'', CHR ''F''), (''0ENOSV'', CHR ''F''),
    (''0ENOV&'', CHR ''F''), (''0ENOV('', CHR ''F''), (''0ENOV)'', CHR ''F''),
    (''0ENOV,'', CHR ''F''), (''0ENOV;'', CHR ''F''), (''0ENOVB'', CHR ''F''),
    (''0ENOVF'', CHR ''F''), (''0ENOVK'', CHR ''F''), (''0ENOVO'', CHR ''F''),
    (''0ENOVS'', CHR ''F''), (''0ENOVU'', CHR ''F''), (''0ENU(E'', CHR ''F''),
    (''0ENUE('', CHR ''F''), (''0ENUE1'', CHR ''F''), (''0ENUEF'', CHR ''F''),
    (''0ENUEK'', CHR ''F''), (''0ENUEN'', CHR ''F''), (''0ENUES'', CHR ''F''),
    (''0ENUEV'', CHR ''F''), (''0EOK(E'', CHR ''F''), (''0EOKNK'', CHR ''F''),
    (''0ES&(1'', CHR ''F''), (''0ES&(E'', CHR ''F''), (''0ES&(F'', CHR ''F''),
    (''0ES&(N'', CHR ''F''), (''0ES&(S'', CHR ''F''), (''0ES&(V'', CHR ''F''),
    (''0ES&1)'', CHR ''F''), (''0ES&1O'', CHR ''F''), (''0ES&F('', CHR ''F''),
    (''0ES&N)'', CHR ''F''), (''0ES&NO'', CHR ''F''), (''0ES&S)'', CHR ''F''),
    (''0ES&SO'', CHR ''F''), (''0ES&V)'', CHR ''F''), (''0ES&VO'', CHR ''F''),
    (''0ES)'', CHR ''F''), (''0ES)&('', CHR ''F''), (''0ES)&1'', CHR ''F''),
    (''0ES)&F'', CHR ''F''), (''0ES)&N'', CHR ''F''), (''0ES)&S'', CHR ''F''),
    (''0ES)&V'', CHR ''F''), (''0ES);'', CHR ''F''), (''0ES);('', CHR ''F''),
    (''0ES);C'', CHR ''F''), (''0ES);E'', CHR ''F''), (''0ES);T'', CHR ''F''),
    (''0ES)C'', CHR ''F''), (''0ES)KN'', CHR ''F''), (''0ES)O('', CHR ''F''),
    (''0ES)O1'', CHR ''F''), (''0ES)OF'', CHR ''F''), (''0ES)ON'', CHR ''F''),
    (''0ES)OS'', CHR ''F''), (''0ES)OV'', CHR ''F''), (''0ES)UE'', CHR ''F'')]"

lemma sql_keywords_16_chain: "kw_chain ''0EN)&('' sql_keywords_16 ''0ES)UE''"
  by (simp add: sql_keywords_16_def)

lemma sql_keywords_16_words: "kw_words sql_keywords_16"
  by (simp add: sql_keywords_16_def kw_words_def kw_word_def)

lemma sql_keywords_16_length: "length sql_keywords_16 = 150"
  by (simp add: sql_keywords_16_def)

definition sql_keywords_17 :: "keyword_t list" where
  "sql_keywords_17 = [
    (''0ES,(1'', CHR ''F''), (''0ES,(F'', CHR ''F''), (''0ES,(N'', CHR ''F''),
    (''0ES,(S'', CHR ''F''), (''0ES,(V'', CHR ''F''), (''0ES,F('', CHR ''F''),
    (''0ES1'', CHR ''F''), (''0ES1;'', CHR ''F''), (''0ES1;C'', CHR ''F''), (''0ES1C'', CHR ''F''),
    (''0ES;(E'', CHR ''F''), (''0ESB(1'', CHR ''F''), (''0ESB(F'', CHR ''F''),
    (''0ESB(N'', CHR ''F''), (''0ESB(S'', CHR ''F''), (''0ESB(V'', CHR ''F''),
    (''0ESB1)'', CHR ''F''), (''0ESB1O'', CHR ''F''), (''0ESBF('', CHR ''F''),
    (''0ESBN)'', CHR ''F''), (''0ESBNO'', CHR ''F''), (''0ESBS)'', CHR ''F''),
    (''0ESBSO'', CHR ''F''), (''0ESBV)'', CHR ''F''), (''0ESBVO'', CHR ''F''),
    (''0ESF()'', CHR ''F''), (''0ESF(1'', CHR ''F''), (''0ESF(F'', CHR ''F''),
    (''0ESF(N'', CHR ''F''), (''0ESF(S'', CHR ''F''), (''0ESF(V'', CHR ''F''),
    (''0ESK(1'', CHR ''F''), (''0ESK(E'', CHR ''F''), (''0ESK(F'', CHR ''F''),
    (''0ESK(N'', CHR ''F''), (''0ESK(S'', CHR ''F''), (''0ESK(V'', CHR ''F''),
    (''0ESK1)'', CHR ''F''), (''0ESK1K'', CHR ''F''), (''0ESK1O'', CHR ''F''),
    (''0ESKF('', CHR ''F''), (''0ESKN'', CHR ''F''), (''0ESKN)'', CHR ''F''),
    (''0ESKN;'', CHR ''F''), (''0ESKNC'', CHR ''F''), (''0ESKNK'', CHR ''F''),
    (''0ESKNU'', CHR ''F''), (''0ESKS)'', CHR ''F''), (''0ESKSK'', CHR ''F''),
    (''0ESKSO'', CHR ''F''), (''0ESKV)'', CHR ''F''), (''0ESKVK'', CHR ''F''),
    (''0ESKVO'', CHR ''F''), (''0ESO(1'', CHR ''F''), (''0ESO(E'', CHR ''F''),
    (''0ESO(F'', CHR ''F''), (''0ESO(N'', CHR ''F''), (''0ESO(S'', CHR ''F''),
    (''0ESO(V'', CHR ''F''), (''0ESO1&'', CHR ''F''), (''0ESO1('', CHR ''F''),
    (''0ESO1)'', CHR ''F''), (''0ESO1,'', CHR ''F''), (''0ESO1;'', CHR ''F''),
    (''0ESO1B'', CHR ''F''), (''0ESO1F'', CHR ''F''), (''0ESO1K'', CHR ''F''),
    (''0ESO1N'', CHR ''F''), (''0ESO1S'', CHR ''F''), (''0ESO1U'', CHR ''F''),
    (''0ESO1V'', CHR ''F''), (''0ESOF('', CHR ''F''), (''0ESON&'', CHR ''F''),
    (''0ESON('', CHR ''F''), (''0ESON)'', CHR ''F''), (''0ESON,'', CHR ''F''),
    (''0ESON1'', CHR ''F''), (''0ESON;'', CHR ''F''), (''0ESONB'', CHR ''F''),
    (''0ESONF'', CHR ''F''), (''0ESONK'', CHR ''F''), (''0ESONU'', CHR ''F''),
    (''0ESOS&'', CHR ''F''), (''0ESOS('', CHR ''F''), (''0ESOS)'', CHR ''F''),
    (''0ESOS,'', CHR ''F''), (''0ESOS1'', CHR ''F''), (''0ESOS;'', CHR ''F''),
    (''0ESOSB'', CHR ''F''), (''0ESOSF'', CHR ''F''), (''0ESOSK'', CHR ''F''),
    (''0ESOSU'', CHR ''F''), (''0ESOSV'', CHR ''F''), (''0ESOV&'', CHR ''F''),
    (''0ESOV('', CHR ''F''), (''0ESOV)'', CHR ''F''), (''0ESOV,'', CHR ''F''),
    (''0ESOV;'', CHR ''F''), (''0ESOVB'', CHR ''F''), (''0ESOVF'', CHR ''F''),
    (''0ESOVK'', CHR ''F''), (''0ESOVO'', CHR ''F''), (''0ESOVS'', CHR ''F''),
    (''0ESOVU'', CHR ''F''), (''0ESU(E'', CHR ''F''), (''0ESUE('', CHR ''F''),
    (''0ESUE1'', CHR ''F''), (''0ESUEF'', CHR ''F''), (''0ESUEK'', CHR ''F''),
    (''0ESUEN'', CHR ''F''), (''0ESUES'', CHR ''F''), (''0ESUEV'', CHR ''F''),
    (''0ESV'', CHR ''F''), (''0ESV;'', CHR ''F''), (''0ESV;C'', CHR ''F''), (''0ESVC'', CHR ''F''),
    (''0ESVO('', CHR ''F''), (''0ESVOF'', CHR ''F''), (''0ESVOS'', CHR ''F''),
    (''0EV&(1'', CHR ''F''), (''0EV&(E'', CHR ''F''), (''0EV&(F'', CHR ''F''),
    (''0EV&(N'', CHR ''F''), (''0EV&(S'', CHR ''F''), (''0EV&(V'', CHR ''F''),
    (''0EV&1)'', CHR ''F''), (''0EV&1O'', CHR ''F''), (''0EV&F('', CHR ''F''),
    (''0EV&N)'', CHR ''F''), (''0EV&NO'', CHR ''F''), (''0EV&S)'', CHR ''F''),
    (''0EV&SO'', CHR ''F''), (''0EV&V)'', CHR ''F''), (''0EV&VO'', CHR ''F''),
    (''0EV)'', CHR ''F''), (''0EV)&('', CHR ''F''), (''0EV)&1'', CHR ''F''),
    (''0EV)&F'', CHR ''F''), (''0EV)&N'', CHR ''F''), (''0EV)&S'', CHR ''F''),
    (''0EV)&V'', CHR ''F''), (''0EV);'', CHR ''F''), (''0EV);('', CHR ''F''),
    (''0EV);C'', CHR ''F''), (''0EV);E'', CHR ''F''), (''0EV);T'', CHR ''F''),
    (''0EV)C'', CHR ''F''), (''0EV)KN'', CHR ''F''), (''0EV)O('', CHR ''F''),
    (''0EV)O1'', CHR ''F'')]"

lemma sql_keywords_17_chain: "kw_chain ''0ES)UE'' sql_keywords_17 ''0EV)O1''"
  by (simp add: sql_keywords_17_def)

lemma sql_keywords_17_words: "kw_words sql_keywords_17"
  by (simp add: sql_keywords_17_def kw_words_def kw_word_def)

lemma sql_keywords_17_length: "length sql_keywords_17 = 150"
  by (simp add: sql_keywords_17_def)

definition sql_keywords_18 :: "keyword_t list" where
  "sql_keywords_18 = [
    (''0EV)OF'', CHR ''F''), (''0EV)ON'', CHR ''F''), (''0EV)OS'', CHR ''F''),
    (''0EV)OV'', CHR ''F''), (''0EV)UE'', CHR ''F''), (''0EV,(1'', CHR ''F''),
    (''0EV,(F'', CHR ''F''), (''0EV,(N'', CHR ''F''), (''0EV,(S'', CHR ''F''),
    (''0EV,(V'', CHR ''F''), (''0EV,F('', CHR ''F''), (''0EV;(E'', CHR ''F''),
    (''0EVB(1'', CHR ''F''), (''0EVB(F'', CHR ''F''), (''0EVB(N'', CHR ''F''),
    (''0EVB(S'', CHR ''F''), (''0EVB(V'', CHR ''F''), (''0EVB1)'', CHR ''F''),
    (''0EVB1O'', CHR ''F''), (''0EVBF('', CHR ''F''), (''0EVBN)'', CHR ''F''),
    (''0EVBNO'', CHR ''F''), (''0EVBS)'', CHR ''F''), (''0EVBSO'', CHR ''F''),
    (''0EVBV)'', CHR ''F''), (''0EVBVO'', CHR ''F''), (''0EVF()'', CHR ''F''),
    (''0EVF(1'', CHR ''F''), (''0EVF(F'', CHR ''F''), (''0EVF(N'', CHR ''F''),
    (''0EVF(S'', CHR ''F''), (''0EVF(V'', CHR ''F''), (''0EVK(1'', CHR ''F''),
    (''0EVK(E'', CHR ''F''), (''0EVK(F'', CHR ''F''), (''0EVK(N'', CHR ''F''),
    (''0EVK(S'', CHR ''F''), (''0EVK(V'', CHR ''F''), (''0EVK1)'', CHR ''F''),
    (''0EVK1K'', CHR ''F''), (''0EVK1O'', CHR ''F''), (''0EVKF('', CHR ''F''),
    (''0EVKN'', CHR ''F''), (''0EVKN)'', CHR ''F''), (''0EVKN;'', CHR ''F''),
    (''0EVKNC'', CHR ''F''), (''0EVKNK'', CHR ''F''), (''0EVKNU'', CHR ''F''),
    (''0EVKS)'', CHR ''F''), (''0EVKSK'', CHR ''F''), (''0EVKSO'', CHR ''F''),
    (''0EVKV)'', CHR ''F''), (''0EVKVK'', CHR ''F''), (''0EVKVO'', CHR ''F''),
    (''0EVN'', CHR ''F''), (''0EVN)U'', CHR ''F''), (''0EVN;'', CHR ''F''),
    (''0EVN;C'', CHR ''F''), (''0EVNC'', CHR ''F''), (''0EVNKN'', CHR ''F''),
    (''0EVNO('', CHR ''F''), (''0EVNOF'', CHR ''F''), (''0EVNOS'', CHR ''F''),
    (''0EVNOV'', CHR ''F''), (''0EVO(1'', CHR ''F''), (''0EVO(E'', CHR ''F''),
    (''0EVO(F'', CHR ''F''), (''0EVO(N'', CHR ''F''), (''0EVO(S'', CHR ''F''),
    (''0EVO(V'', CHR ''F''), (''0EVOF('', CHR ''F''), (''0EVOS&'', CHR ''F''),
    (''0EVOS('', CHR ''F''), (''0EVOS)'', CHR ''F''), (''0EVOS,'', CHR ''F''),
    (''0EVOS1'', CHR ''F''), (''0EVOS;'', CHR ''F''), (''0EVOSB'', CHR ''F''),
    (''0EVOSF'', CHR ''F''), (''0EVOSK'', CHR ''F''), (''0EVOSU'', CHR ''F''),
    (''0EVOSV'', CHR ''F''), (''0EVS'', CHR ''F''), (''0EVS;'', CHR ''F''),
    (''0EVS;C'', CHR ''F''), (''0EVSC'', CHR ''F''), (''0EVSO('', CHR ''F''),
    (''0EVSO1'', CHR ''F''), (''0EVSOF'', CHR ''F''), (''0EVSON'', CHR ''F''),
    (''0EVSOS'', CHR ''F''), (''0EVSOV'', CHR ''F''), (''0EVU(E'', CHR ''F''),
    (''0EVUE('', CHR ''F''), (''0EVUE1'', CHR ''F''), (''0EVUEF'', CHR ''F''),
    (''0EVUEK'', CHR ''F''), (''0EVUEN'', CHR ''F''), (''0EVUES'', CHR ''F''),
    (''0EVUEV'', CHR ''F''), (''0F()&('', CHR ''F''), (''0F()&1'', CHR ''F''),
    (''0F()&E'', CHR ''F''), (''0F()&F'', CHR ''F''), (''0F()&K'', CHR ''F''),
    (''0F()&N'', CHR ''F''), (''0F()&S'', CHR ''F''), (''0F()&V'', CHR ''F''),
    (''0F(),('', CHR ''F''), (''0F(),1'', CHR ''F''), (''0F(),F'', CHR ''F''),
    (''0F(),N'', CHR ''F''), (''0F(),S'', CHR ''F''), (''0F(),V'', CHR ''F''),
    (''0F()1('', CHR ''F''), (''0F()1F'', CHR ''F''), (''0F()1N'', CHR ''F''),
    (''0F()1O'', CHR ''F''), (''0F()1S'', CHR ''F''), (''0F()1U'', CHR ''F''),
    (''0F()1V'', CHR ''F''), (''0F();E'', CHR ''F''), (''0F();N'', CHR ''F''),
    (''0F();T'', CHR ''F''), (''0F()A('', CHR ''F''), (''0F()AF'', CHR ''F''),
    (''0F()AS'', CHR ''F''), (''0F()AT'', CHR ''F''), (''0F()AV'', CHR ''F''),
    (''0F()B('', CHR ''F''), (''0F()B1'', CHR ''F''), (''0F()BE'', CHR ''F''),
    (''0F()BF'', CHR ''F''), (''0F()BN'', CHR ''F''), (''0F()BS'', CHR ''F''),
    (''0F()BV'', CHR ''F''), (''0F()C'', CHR ''F''), (''0F()E('', CHR ''F''),
    (''0F()E1'', CHR ''F''), (''0F()EF'', CHR ''F''), (''0F()EK'', CHR ''F''),
    (''0F()EN'', CHR ''F''), (''0F()EO'', CHR ''F''), (''0F()ES'', CHR ''F''),
    (''0F()EU'', CHR ''F''), (''0F()EV'', CHR ''F''), (''0F()F('', CHR ''F''),
    (''0F()K('', CHR ''F''), (''0F()K)'', CHR ''F''), (''0F()K1'', CHR ''F'')]"

lemma sql_keywords_18_chain: "kw_chain ''0EV)O1'' sql_keywords_18 ''0F()K1''"
  by (simp add: sql_keywords_18_def)

lemma sql_keywords_18_words: "kw_words sql_keywords_18"
  by (simp add: sql_keywords_18_def kw_words_def kw_word_def)

lemma sql_keywords_18_length: "length sql_keywords_18 = 150"
  by (simp add: sql_keywords_18_def)

definition sql_keywords_19 :: "keyword_t list" where
  "sql_keywords_19 = [
    (''0F()KF'', CHR ''F''), (''0F()KN'', CHR ''F''), (''0F()KS'', CHR ''F''),
    (''0F()KU'', CHR ''F''), (''0F()KV'', CHR ''F''), (''0F()N&'', CHR ''F''),
    (''0F()N('', CHR ''F''), (''0F()N)'', CHR ''F''), (''0F()N,'', CHR ''F''),
    (''0F()N1'', CHR ''F''), (''0F()NE'', CHR ''F''), (''0F()NF'', CHR ''F''),
    (''0F()NO'', CHR ''F''), (''0F()NU'', CHR ''F''), (''0F()O('', CHR ''F''),
    (''0F()O1'', CHR ''F''), (''0F()OF'', CHR ''F''), (''0F()OK'', CHR ''F''),
    (''0F()ON'', CHR ''F''), (''0F()OS'', CHR ''F''), (''0F()OU'', CHR ''F''),
    (''0F()OV'', CHR ''F''), (''0F()S('', CHR ''F''), (''0F()S1'', CHR ''F''),
    (''0F()SF'', CHR ''F''), (''0F()SO'', CHR ''F''), (''0F()SU'', CHR ''F''),
    (''0F()SV'', CHR ''F''), (''0F()T('', CHR ''F''), (''0F()T1'', CHR ''F''),
    (''0F()TE'', CHR ''F''), (''0F()TF'', CHR ''F''), (''0F()TN'', CHR ''F''),
    (''0F()TS'', CHR ''F''), (''0F()TT'', CHR ''F''), (''0F()TV'', CHR ''F''),
    (''0F()U'', CHR ''F''), (''0F()U('', CHR ''F''), (''0F()U1'', CHR ''F''),
    (''0F()U;'', CHR ''F''), (''0F()UC'', CHR ''F''), (''0F()UE'', CHR ''F''),
    (''0F()UF'', CHR ''F''), (''0F()UK'', CHR ''F''), (''0F()UO'', CHR ''F''),
    (''0F()US'', CHR ''F''), (''0F()UT'', CHR ''F''), (''0F()UV'', CHR ''F''),
    (''0F()V('', CHR ''F''), (''0F()VF'', CHR ''F''), (''0F()VO'', CHR ''F''),
    (''0F()VS'', CHR ''F''), (''0F()VU'', CHR ''F''), (''0F(1&('', CHR ''F''),
    (''0F(1&1'', CHR ''F''), (''0F(1&F'', CHR ''F''), (''0F(1&N'', CHR ''F''),
    (''0F(1&S'', CHR ''F''), (''0F(1&V'', CHR ''F''), (''0F(1)'', CHR ''F''),
    (''0F(1)&'', CHR ''F''), (''0F(1),'', CHR ''F''), (''0F(1)1'', CHR ''F''),
    (''0F(1);'', CHR ''F''), (''0F(1)A'', CHR ''F''), (''0F(1)B'', CHR ''F''),
    (''0F(1)C'', CHR ''F''), (''0F(1)E'', CHR ''F''), (''0F(1)F'', CHR ''F''),
    (''0F(1)K'', CHR ''F''), (''0F(1)N'', CHR ''F''), (''0F(1)O'', CHR ''F''),
    (''0F(1)S'', CHR ''F''), (''0F(1)T'', CHR ''F''), (''0F(1)U'', CHR ''F''),
    (''0F(1)V'', CHR ''F''), (''0F(1,('', CHR ''F''), (''0F(1,F'', CHR ''F''),
    (''0F(1O('', CHR ''F''), (''0F(1OF'', CHR ''F''), (''0F(1OS'', CHR ''F''),
    (''0F(1OV'', CHR ''F''), (''0F(E(1'', CHR ''F''), (''0F(E(E'', CHR ''F''),
    (''0F(E(F'', CHR ''F''), (''0F(E(N'', CHR ''F''), (''0F(E(S'', CHR ''F''),
    (''0F(E(V'', CHR ''F''), (''0F(E1&'', CHR ''F''), (''0F(E1)'', CHR ''F''),
    (''0F(E1K'', CHR ''F''), (''0F(E1O'', CHR ''F''), (''0F(EF('', CHR ''F''),
    (''0F(EK('', CHR ''F''), (''0F(EK1'', CHR ''F''), (''0F(EKF'', CHR ''F''),
    (''0F(EKN'', CHR ''F''), (''0F(EKO'', CHR ''F''), (''0F(EKS'', CHR ''F''),
    (''0F(EKV'', CHR ''F''), (''0F(EN&'', CHR ''F''), (''0F(EN)'', CHR ''F''),
    (''0F(ENK'', CHR ''F''), (''0F(ENO'', CHR ''F''), (''0F(EOK'', CHR ''F''),
    (''0F(ES&'', CHR ''F''), (''0F(ES)'', CHR ''F''), (''0F(ESK'', CHR ''F''),
    (''0F(ESO'', CHR ''F''), (''0F(EV&'', CHR ''F''), (''0F(EV)'', CHR ''F''),
    (''0F(EVK'', CHR ''F''), (''0F(EVO'', CHR ''F''), (''0F(F()'', CHR ''F''),
    (''0F(F(1'', CHR ''F''), (''0F(F(E'', CHR ''F''), (''0F(F(F'', CHR ''F''),
    (''0F(F(N'', CHR ''F''), (''0F(F(S'', CHR ''F''), (''0F(F(V'', CHR ''F''),
    (''0F(K()'', CHR ''F''), (''0F(K,('', CHR ''F''), (''0F(K,F'', CHR ''F''),
    (''0F(N&('', CHR ''F''), (''0F(N&1'', CHR ''F''), (''0F(N&F'', CHR ''F''),
    (''0F(N&N'', CHR ''F''), (''0F(N&S'', CHR ''F''), (''0F(N&V'', CHR ''F''),
    (''0F(N)'', CHR ''F''), (''0F(N)&'', CHR ''F''), (''0F(N),'', CHR ''F''),
    (''0F(N)1'', CHR ''F''), (''0F(N);'', CHR ''F''), (''0F(N)A'', CHR ''F''),
    (''0F(N)B'', CHR ''F''), (''0F(N)C'', CHR ''F''), (''0F(N)E'', CHR ''F''),
    (''0F(N)F'', CHR ''F''), (''0F(N)K'', CHR ''F''), (''0F(N)N'', CHR ''F''),
    (''0F(N)O'', CHR ''F''), (''0F(N)S'', CHR ''F''), (''0F(N)T'', CHR ''F''),
    (''0F(N)U'', CHR ''F''), (''0F(N)V'', CHR ''F''), (''0F(N,('', CHR ''F''),
    (''0F(N,F'', CHR ''F''), (''0F(NO('', CHR ''F''), (''0F(NOF'', CHR ''F'')]"

lemma sql_keywords_19_chain: "kw_chain ''0F()K1'' sql_keywords_19 ''0F(NOF''"
  by (simp add: sql_keywords_19_def)

lemma sql_keywords_19_words: "kw_words sql_keywords_19"
  by (simp add: sql_keywords_19_def kw_words_def kw_word_def)

lemma sql_keywords_19_length: "length sql_keywords_19 = 150"
  by (simp add: sql_keywords_19_def)

definition sql_keywords_20 :: "keyword_t list" where
  "sql_keywords_20 = [
    (''0F(NOS'', CHR ''F''), (''0F(NOV'', CHR ''F''), (''0F(S&('', CHR ''F''),
    (''0F(S&1'', CHR ''F''), (''0F(S&F'', CHR ''F''), (''0F(S&N'', CHR ''F''),
    (''0F(S&S'', CHR ''F''), (''0F(S&V'', CHR ''F''), (''0F(S)'', CHR ''F''),
    (''0F(S)&'', CHR ''F''), (''0F(S),'', CHR ''F''), (''0F(S)1'', CHR ''F''),
    (''0F(S);'', CHR ''F''), (''0F(S)A'', CHR ''F''), (''0F(S)B'', CHR ''F''),
    (''0F(S)C'', CHR ''F''), (''0F(S)E'', CHR ''F''), (''0F(S)F'', CHR ''F''),
    (''0F(S)K'', CHR ''F''), (''0F(S)N'', CHR ''F''), (''0F(S)O'', CHR ''F''),
    (''0F(S)S'', CHR ''F''), (''0F(S)T'', CHR ''F''), (''0F(S)U'', CHR ''F''),
    (''0F(S)V'', CHR ''F''), (''0F(S,('', CHR ''F''), (''0F(S,F'', CHR ''F''),
    (''0F(SO('', CHR ''F''), (''0F(SO1'', CHR ''F''), (''0F(SOF'', CHR ''F''),
    (''0F(SON'', CHR ''F''), (''0F(SOS'', CHR ''F''), (''0F(SOV'', CHR ''F''),
    (''0F(T,('', CHR ''F''), (''0F(T,F'', CHR ''F''), (''0F(V&('', CHR ''F''),
    (''0F(V&1'', CHR ''F''), (''0F(V&F'', CHR ''F''), (''0F(V&N'', CHR ''F''),
    (''0F(V&S'', CHR ''F''), (''0F(V&V'', CHR ''F''), (''0F(V)'', CHR ''F''),
    (''0F(V)&'', CHR ''F''), (''0F(V),'', CHR ''F''), (''0F(V)1'', CHR ''F''),
    (''0F(V);'', CHR ''F''), (''0F(V)A'', CHR ''F''), (''0F(V)B'', CHR ''F''),
    (''0F(V)C'', CHR ''F''), (''0F(V)E'', CHR ''F''), (''0F(V)F'', CHR ''F''),
    (''0F(V)K'', CHR ''F''), (''0F(V)N'', CHR ''F''), (''0F(V)O'', CHR ''F''),
    (''0F(V)S'', CHR ''F''), (''0F(V)T'', CHR ''F''), (''0F(V)U'', CHR ''F''),
    (''0F(V)V'', CHR ''F''), (''0F(V,('', CHR ''F''), (''0F(V,F'', CHR ''F''),
    (''0F(VO('', CHR ''F''), (''0F(VOF'', CHR ''F''), (''0F(VOS'', CHR ''F''),
    (''0K(1),'', CHR ''F''), (''0K(1)A'', CHR ''F''), (''0K(1)K'', CHR ''F''),
    (''0K(1)O'', CHR ''F''), (''0K(1O('', CHR ''F''), (''0K(1OF'', CHR ''F''),
    (''0K(1OS'', CHR ''F''), (''0K(1OV'', CHR ''F''), (''0K(F()'', CHR ''F''),
    (''0K(F(1'', CHR ''F''), (''0K(F(F'', CHR ''F''), (''0K(F(N'', CHR ''F''),
    (''0K(F(S'', CHR ''F''), (''0K(F(V'', CHR ''F''), (''0K(N),'', CHR ''F''),
    (''0K(N)A'', CHR ''F''), (''0K(N)K'', CHR ''F''), (''0K(N)O'', CHR ''F''),
    (''0K(NO('', CHR ''F''), (''0K(NOF'', CHR ''F''), (''0K(NOS'', CHR ''F''),
    (''0K(NOV'', CHR ''F''), (''0K(S),'', CHR ''F''), (''0K(S)A'', CHR ''F''),
    (''0K(S)K'', CHR ''F''), (''0K(S)O'', CHR ''F''), (''0K(SO('', CHR ''F''),
    (''0K(SO1'', CHR ''F''), (''0K(SOF'', CHR ''F''), (''0K(SON'', CHR ''F''),
    (''0K(SOS'', CHR ''F''), (''0K(SOV'', CHR ''F''), (''0K(V),'', CHR ''F''),
    (''0K(V)A'', CHR ''F''), (''0K(V)K'', CHR ''F''), (''0K(V)O'', CHR ''F''),
    (''0K(VO('', CHR ''F''), (''0K(VOF'', CHR ''F''), (''0K(VOS'', CHR ''F''),
    (''0K1,(1'', CHR ''F''), (''0K1,(F'', CHR ''F''), (''0K1,(N'', CHR ''F''),
    (''0K1,(S'', CHR ''F''), (''0K1,(V'', CHR ''F''), (''0K1,F('', CHR ''F''),
    (''0K1A(F'', CHR ''F''), (''0K1A(N'', CHR ''F''), (''0K1A(S'', CHR ''F''),
    (''0K1A(V'', CHR ''F''), (''0K1AF('', CHR ''F''), (''0K1ASO'', CHR ''F''),
    (''0K1AVO'', CHR ''F''), (''0K1K(1'', CHR ''F''), (''0K1K(F'', CHR ''F''),
    (''0K1K(N'', CHR ''F''), (''0K1K(S'', CHR ''F''), (''0K1K(V'', CHR ''F''),
    (''0K1K1O'', CHR ''F''), (''0K1K1U'', CHR ''F''), (''0K1KF('', CHR ''F''),
    (''0K1KNU'', CHR ''F''), (''0K1KSO'', CHR ''F''), (''0K1KSU'', CHR ''F''),
    (''0K1KVO'', CHR ''F''), (''0K1KVU'', CHR ''F''), (''0K1O(1'', CHR ''F''),
    (''0K1O(F'', CHR ''F''), (''0K1O(N'', CHR ''F''), (''0K1O(S'', CHR ''F''),
    (''0K1O(V'', CHR ''F''), (''0K1OF('', CHR ''F''), (''0K1OS('', CHR ''F''),
    (''0K1OS,'', CHR ''F''), (''0K1OS1'', CHR ''F''), (''0K1OSA'', CHR ''F''),
    (''0K1OSF'', CHR ''F''), (''0K1OSK'', CHR ''F''), (''0K1OSV'', CHR ''F''),
    (''0K1OV('', CHR ''F''), (''0K1OV,'', CHR ''F''), (''0K1OVA'', CHR ''F''),
    (''0K1OVF'', CHR ''F''), (''0K1OVK'', CHR ''F''), (''0K1OVO'', CHR ''F''),
    (''0K1OVS'', CHR ''F''), (''0KF(),'', CHR ''F''), (''0KF()A'', CHR ''F'')]"

lemma sql_keywords_20_chain: "kw_chain ''0F(NOF'' sql_keywords_20 ''0KF()A''"
  by (simp add: sql_keywords_20_def)

lemma sql_keywords_20_words: "kw_words sql_keywords_20"
  by (simp add: sql_keywords_20_def kw_words_def kw_word_def)

lemma sql_keywords_20_length: "length sql_keywords_20 = 150"
  by (simp add: sql_keywords_20_def)

definition sql_keywords_21 :: "keyword_t list" where
  "sql_keywords_21 = [
    (''0KF()K'', CHR ''F''), (''0KF()O'', CHR ''F''), (''0KF(1)'', CHR ''F''),
    (''0KF(1O'', CHR ''F''), (''0KF(F('', CHR ''F''), (''0KF(N)'', CHR ''F''),
    (''0KF(NO'', CHR ''F''), (''0KF(S)'', CHR ''F''), (''0KF(SO'', CHR ''F''),
    (''0KF(V)'', CHR ''F''), (''0KF(VO'', CHR ''F''), (''0KN,(1'', CHR ''F''),
    (''0KN,(F'', CHR ''F''), (''0KN,(N'', CHR ''F''), (''0KN,(S'', CHR ''F''),
    (''0KN,(V'', CHR ''F''), (''0KN,F('', CHR ''F''), (''0KNA(F'', CHR ''F''),
    (''0KNA(N'', CHR ''F''), (''0KNA(S'', CHR ''F''), (''0KNA(V'', CHR ''F''),
    (''0KNAF('', CHR ''F''), (''0KNASO'', CHR ''F''), (''0KNAVO'', CHR ''F''),
    (''0KNK(1'', CHR ''F''), (''0KNK(F'', CHR ''F''), (''0KNK(N'', CHR ''F''),
    (''0KNK(S'', CHR ''F''), (''0KNK(V'', CHR ''F''), (''0KNK1O'', CHR ''F''),
    (''0KNK1U'', CHR ''F''), (''0KNKF('', CHR ''F''), (''0KNKNU'', CHR ''F''),
    (''0KNKSO'', CHR ''F''), (''0KNKSU'', CHR ''F''), (''0KNKVO'', CHR ''F''),
    (''0KNKVU'', CHR ''F''), (''0KS,(1'', CHR ''F''), (''0KS,(F'', CHR ''F''),
    (''0KS,(N'', CHR ''F''), (''0KS,(S'', CHR ''F''), (''0KS,(V'', CHR ''F''),
    (''0KS,F('', CHR ''F''), (''0KSA(F'', CHR ''F''), (''0KSA(N'', CHR ''F''),
    (''0KSA(S'', CHR ''F''), (''0KSA(V'', CHR ''F''), (''0KSAF('', CHR ''F''),
    (''0KSASO'', CHR ''F''), (''0KSAVO'', CHR ''F''), (''0KSK(1'', CHR ''F''),
    (''0KSK(F'', CHR ''F''), (''0KSK(N'', CHR ''F''), (''0KSK(S'', CHR ''F''),
    (''0KSK(V'', CHR ''F''), (''0KSK1O'', CHR ''F''), (''0KSK1U'', CHR ''F''),
    (''0KSKF('', CHR ''F''), (''0KSKNU'', CHR ''F''), (''0KSKSO'', CHR ''F''),
    (''0KSKSU'', CHR ''F''), (''0KSKVO'', CHR ''F''), (''0KSKVU'', CHR ''F''),
    (''0KSO(1'', CHR ''F''), (''0KSO(F'', CHR ''F''), (''0KSO(N'', CHR ''F''),
    (''0KSO(S'', CHR ''F''), (''0KSO(V'', CHR ''F''), (''0KSO1('', CHR ''F''),
    (''0KSO1,'', CHR ''F''), (''0KSO1A'', CHR ''F''), (''0KSO1F'', CHR ''F''),
    (''0KSO1K'', CHR ''F''), (''0KSO1N'', CHR ''F''), (''0KSO1S'', CHR ''F''),
    (''0KSO1V'', CHR ''F''), (''0KSOF('', CHR ''F''), (''0KSON('', CHR ''F''),
    (''0KSON,'', CHR ''F''), (''0KSON1'', CHR ''F''), (''0KSONA'', CHR ''F''),
    (''0KSONF'', CHR ''F''), (''0KSONK'', CHR ''F''), (''0KSOS('', CHR ''F''),
    (''0KSOS,'', CHR ''F''), (''0KSOS1'', CHR ''F''), (''0KSOSA'', CHR ''F''),
    (''0KSOSF'', CHR ''F''), (''0KSOSK'', CHR ''F''), (''0KSOSV'', CHR ''F''),
    (''0KSOV('', CHR ''F''), (''0KSOV,'', CHR ''F''), (''0KSOVA'', CHR ''F''),
    (''0KSOVF'', CHR ''F''), (''0KSOVK'', CHR ''F''), (''0KSOVO'', CHR ''F''),
    (''0KSOVS'', CHR ''F''), (''0KV,(1'', CHR ''F''), (''0KV,(F'', CHR ''F''),
    (''0KV,(N'', CHR ''F''), (''0KV,(S'', CHR ''F''), (''0KV,(V'', CHR ''F''),
    (''0KV,F('', CHR ''F''), (''0KVA(F'', CHR ''F''), (''0KVA(N'', CHR ''F''),
    (''0KVA(S'', CHR ''F''), (''0KVA(V'', CHR ''F''), (''0KVAF('', CHR ''F''),
    (''0KVASO'', CHR ''F''), (''0KVAVO'', CHR ''F''), (''0KVK(1'', CHR ''F''),
    (''0KVK(F'', CHR ''F''), (''0KVK(N'', CHR ''F''), (''0KVK(S'', CHR ''F''),
    (''0KVK(V'', CHR ''F''), (''0KVK1O'', CHR ''F''), (''0KVK1U'', CHR ''F''),
    (''0KVKF('', CHR ''F''), (''0KVKNU'', CHR ''F''), (''0KVKSO'', CHR ''F''),
    (''0KVKSU'', CHR ''F''), (''0KVKVO'', CHR ''F''), (''0KVKVU'', CHR ''F''),
    (''0KVO(1'', CHR ''F''), (''0KVO(F'', CHR ''F''), (''0KVO(N'', CHR ''F''),
    (''0KVO(S'', CHR ''F''), (''0KVO(V'', CHR ''F''), (''0KVOF('', CHR ''F''),
    (''0KVOS('', CHR ''F''), (''0KVOS,'', CHR ''F''), (''0KVOS1'', CHR ''F''),
    (''0KVOSA'', CHR ''F''), (''0KVOSF'', CHR ''F''), (''0KVOSK'', CHR ''F''),
    (''0KVOSV'', CHR ''F''), (''0N&(1&'', CHR ''F''), (''0N&(1)'', CHR ''F''),
    (''0N&(1,'', CHR ''F''), (''0N&(1O'', CHR ''F''), (''0N&(E('', CHR ''F''),
    (''0N&(E1'', CHR ''F''), (''0N&(EF'', CHR ''F''), (''0N&(EK'', CHR ''F''),
    (''0N&(EN'', CHR ''F''), (''0N&(EO'', CHR ''F''), (''0N&(ES'', CHR ''F''),
    (''0N&(EV'', CHR ''F''), (''0N&(F('', CHR ''F''), (''0N&(N&'', CHR ''F'')]"

lemma sql_keywords_21_chain: "kw_chain ''0KF()A'' sql_keywords_21 ''0N&(N&''"
  by (simp add: sql_keywords_21_def)

lemma sql_keywords_21_words: "kw_words sql_keywords_21"
  by (simp add: sql_keywords_21_def kw_words_def kw_word_def)

lemma sql_keywords_21_length: "length sql_keywords_21 = 150"
  by (simp add: sql_keywords_21_def)

definition sql_keywords_22 :: "keyword_t list" where
  "sql_keywords_22 = [
    (''0N&(N)'', CHR ''F''), (''0N&(N,'', CHR ''F''), (''0N&(NO'', CHR ''F''),
    (''0N&(S&'', CHR ''F''), (''0N&(S)'', CHR ''F''), (''0N&(S,'', CHR ''F''),
    (''0N&(SO'', CHR ''F''), (''0N&(V&'', CHR ''F''), (''0N&(V)'', CHR ''F''),
    (''0N&(V,'', CHR ''F''), (''0N&(VO'', CHR ''F''), (''0N&1'', CHR ''F''),
    (''0N&1&('', CHR ''F''), (''0N&1&1'', CHR ''F''), (''0N&1&F'', CHR ''F''),
    (''0N&1&N'', CHR ''F''), (''0N&1&S'', CHR ''F''), (''0N&1&V'', CHR ''F''),
    (''0N&1)&'', CHR ''F''), (''0N&1)C'', CHR ''F''), (''0N&1)O'', CHR ''F''),
    (''0N&1)U'', CHR ''F''), (''0N&1;'', CHR ''F''), (''0N&1;C'', CHR ''F''),
    (''0N&1;E'', CHR ''F''), (''0N&1;T'', CHR ''F''), (''0N&1B('', CHR ''F''),
    (''0N&1B1'', CHR ''F''), (''0N&1BF'', CHR ''F''), (''0N&1BN'', CHR ''F''),
    (''0N&1BS'', CHR ''F''), (''0N&1BV'', CHR ''F''), (''0N&1C'', CHR ''F''),
    (''0N&1EK'', CHR ''F''), (''0N&1EN'', CHR ''F''), (''0N&1F('', CHR ''F''),
    (''0N&1K('', CHR ''F''), (''0N&1K1'', CHR ''F''), (''0N&1KF'', CHR ''F''),
    (''0N&1KN'', CHR ''F''), (''0N&1KS'', CHR ''F''), (''0N&1KV'', CHR ''F''),
    (''0N&1O('', CHR ''F''), (''0N&1OF'', CHR ''F''), (''0N&1OS'', CHR ''F''),
    (''0N&1OV'', CHR ''F''), (''0N&1TN'', CHR ''F''), (''0N&1U'', CHR ''F''),
    (''0N&1U('', CHR ''F''), (''0N&1U;'', CHR ''F''), (''0N&1UC'', CHR ''F''),
    (''0N&1UE'', CHR ''F''), (''0N&E(1'', CHR ''F''), (''0N&E(F'', CHR ''F''),
    (''0N&E(N'', CHR ''F''), (''0N&E(O'', CHR ''F''), (''0N&E(S'', CHR ''F''),
    (''0N&E(V'', CHR ''F''), (''0N&E1'', CHR ''F''), (''0N&E1;'', CHR ''F''),
    (''0N&E1C'', CHR ''F''), (''0N&E1K'', CHR ''F''), (''0N&E1O'', CHR ''F''),
    (''0N&EF('', CHR ''F''), (''0N&EK('', CHR ''F''), (''0N&EK1'', CHR ''F''),
    (''0N&EKF'', CHR ''F''), (''0N&EKN'', CHR ''F''), (''0N&EKS'', CHR ''F''),
    (''0N&EKV'', CHR ''F''), (''0N&EN;'', CHR ''F''), (''0N&ENC'', CHR ''F''),
    (''0N&ENK'', CHR ''F''), (''0N&ENO'', CHR ''F''), (''0N&ES'', CHR ''F''),
    (''0N&ES;'', CHR ''F''), (''0N&ESC'', CHR ''F''), (''0N&ESK'', CHR ''F''),
    (''0N&ESO'', CHR ''F''), (''0N&EV'', CHR ''F''), (''0N&EV;'', CHR ''F''),
    (''0N&EVC'', CHR ''F''), (''0N&EVK'', CHR ''F''), (''0N&EVO'', CHR ''F''),
    (''0N&F()'', CHR ''F''), (''0N&F(1'', CHR ''F''), (''0N&F(E'', CHR ''F''),
    (''0N&F(F'', CHR ''F''), (''0N&F(N'', CHR ''F''), (''0N&F(S'', CHR ''F''),
    (''0N&F(V'', CHR ''F''), (''0N&K&('', CHR ''F''), (''0N&K&1'', CHR ''F''),
    (''0N&K&F'', CHR ''F''), (''0N&K&N'', CHR ''F''), (''0N&K&S'', CHR ''F''),
    (''0N&K&V'', CHR ''F''), (''0N&K(1'', CHR ''F''), (''0N&K(F'', CHR ''F''),
    (''0N&K(N'', CHR ''F''), (''0N&K(S'', CHR ''F''), (''0N&K(V'', CHR ''F''),
    (''0N&K1O'', CHR ''F''), (''0N&KC'', CHR ''F''), (''0N&KF('', CHR ''F''),
    (''0N&KNK'', CHR ''F''), (''0N&KO('', CHR ''F''), (''0N&KO1'', CHR ''F''),
    (''0N&KOF'', CHR ''F''), (''0N&KOK'', CHR ''F''), (''0N&KON'', CHR ''F''),
    (''0N&KOS'', CHR ''F''), (''0N&KOV'', CHR ''F''), (''0N&KSO'', CHR ''F''),
    (''0N&KVO'', CHR ''F''), (''0N&N&('', CHR ''F''), (''0N&N&1'', CHR ''F''),
    (''0N&N&F'', CHR ''F''), (''0N&N&S'', CHR ''F''), (''0N&N&V'', CHR ''F''),
    (''0N&N)&'', CHR ''F''), (''0N&N)C'', CHR ''F''), (''0N&N)O'', CHR ''F''),
    (''0N&N)U'', CHR ''F''), (''0N&N;C'', CHR ''F''), (''0N&N;E'', CHR ''F''),
    (''0N&N;T'', CHR ''F''), (''0N&NB('', CHR ''F''), (''0N&NB1'', CHR ''F''),
    (''0N&NBF'', CHR ''F''), (''0N&NBS'', CHR ''F''), (''0N&NBV'', CHR ''F''),
    (''0N&NF('', CHR ''F''), (''0N&NK('', CHR ''F''), (''0N&NK1'', CHR ''F''),
    (''0N&NKF'', CHR ''F''), (''0N&NKS'', CHR ''F''), (''0N&NKV'', CHR ''F''),
    (''0N&NO('', CHR ''F''), (''0N&NOF'', CHR ''F''), (''0N&NOS'', CHR ''F''),
    (''0N&NOV'', CHR ''F''), (''0N&NU'', CHR ''F''), (''0N&NU('', CHR ''F''),
    (''0N&NU;'', CHR ''F''), (''0N&NUC'', CHR ''F''), (''0N&NUE'', CHR ''F''),
    (''0N&S&('', CHR ''F''), (''0N&S&1'', CHR ''F''), (''0N&S&F'', CHR ''F'')]"

lemma sql_keywords_22_chain: "kw_chain ''0N&(N&'' sql_keywords_22 ''0N&S&F''"
  by (simp add: sql_keywords_22_def)

lemma sql_keywords_22_words: "kw_words sql_keywords_22"
  by (simp add: sql_keywords_22_def kw_words_def kw_word_def)

lemma sql_keywords_22_length: "length sql_keywords_22 = 150"
  by (simp add: sql_keywords_22_def)

definition sql_keywords_23 :: "keyword_t list" where
  "sql_keywords_23 = [
    (''0N&S&N'', CHR ''F''), (''0N&S&S'', CHR ''F''), (''0N&S&V'', CHR ''F''),
    (''0N&S)&'', CHR ''F''), (''0N&S)C'', CHR ''F''), (''0N&S)O'', CHR ''F''),
    (''0N&S)U'', CHR ''F''), (''0N&S1'', CHR ''F''), (''0N&S1;'', CHR ''F''),
    (''0N&S1C'', CHR ''F''), (''0N&S;'', CHR ''F''), (''0N&S;C'', CHR ''F''),
    (''0N&S;E'', CHR ''F''), (''0N&S;T'', CHR ''F''), (''0N&SB('', CHR ''F''),
    (''0N&SB1'', CHR ''F''), (''0N&SBF'', CHR ''F''), (''0N&SBN'', CHR ''F''),
    (''0N&SBS'', CHR ''F''), (''0N&SBV'', CHR ''F''), (''0N&SC'', CHR ''F''),
    (''0N&SEK'', CHR ''F''), (''0N&SEN'', CHR ''F''), (''0N&SF('', CHR ''F''),
    (''0N&SK('', CHR ''F''), (''0N&SK1'', CHR ''F''), (''0N&SKF'', CHR ''F''),
    (''0N&SKN'', CHR ''F''), (''0N&SKS'', CHR ''F''), (''0N&SKV'', CHR ''F''),
    (''0N&SO('', CHR ''F''), (''0N&SO1'', CHR ''F''), (''0N&SOF'', CHR ''F''),
    (''0N&SON'', CHR ''F''), (''0N&SOS'', CHR ''F''), (''0N&SOV'', CHR ''F''),
    (''0N&STN'', CHR ''F''), (''0N&SU'', CHR ''F''), (''0N&SU('', CHR ''F''),
    (''0N&SU;'', CHR ''F''), (''0N&SUC'', CHR ''F''), (''0N&SUE'', CHR ''F''),
    (''0N&SV'', CHR ''F''), (''0N&SV;'', CHR ''F''), (''0N&SVC'', CHR ''F''),
    (''0N&SVO'', CHR ''F''), (''0N&V'', CHR ''F''), (''0N&V&('', CHR ''F''),
    (''0N&V&1'', CHR ''F''), (''0N&V&F'', CHR ''F''), (''0N&V&N'', CHR ''F''),
    (''0N&V&S'', CHR ''F''), (''0N&V&V'', CHR ''F''), (''0N&V)&'', CHR ''F''),
    (''0N&V)C'', CHR ''F''), (''0N&V)O'', CHR ''F''), (''0N&V)U'', CHR ''F''),
    (''0N&V;'', CHR ''F''), (''0N&V;C'', CHR ''F''), (''0N&V;E'', CHR ''F''),
    (''0N&V;T'', CHR ''F''), (''0N&VB('', CHR ''F''), (''0N&VB1'', CHR ''F''),
    (''0N&VBF'', CHR ''F''), (''0N&VBN'', CHR ''F''), (''0N&VBS'', CHR ''F''),
    (''0N&VBV'', CHR ''F''), (''0N&VC'', CHR ''F''), (''0N&VEK'', CHR ''F''),
    (''0N&VEN'', CHR ''F''), (''0N&VF('', CHR ''F''), (''0N&VK('', CHR ''F''),
    (''0N&VK1'', CHR ''F''), (''0N&VKF'', CHR ''F''), (''0N&VKN'', CHR ''F''),
    (''0N&VKS'', CHR ''F''), (''0N&VKV'', CHR ''F''), (''0N&VO('', CHR ''F''),
    (''0N&VOF'', CHR ''F''), (''0N&VOS'', CHR ''F''), (''0N&VS'', CHR ''F''),
    (''0N&VS;'', CHR ''F''), (''0N&VSC'', CHR ''F''), (''0N&VSO'', CHR ''F''),
    (''0N&VTN'', CHR ''F''), (''0N&VU'', CHR ''F''), (''0N&VU('', CHR ''F''),
    (''0N&VU;'', CHR ''F''), (''0N&VUC'', CHR ''F''), (''0N&VUE'', CHR ''F''),
    (''0N)&(1'', CHR ''F''), (''0N)&(E'', CHR ''F''), (''0N)&(F'', CHR ''F''),
    (''0N)&(N'', CHR ''F''), (''0N)&(S'', CHR ''F''), (''0N)&(V'', CHR ''F''),
    (''0N)&1'', CHR ''F''), (''0N)&1&'', CHR ''F''), (''0N)&1)'', CHR ''F''),
    (''0N)&1;'', CHR ''F''), (''0N)&1B'', CHR ''F''), (''0N)&1C'', CHR ''F''),
    (''0N)&1F'', CHR ''F''), (''0N)&1O'', CHR ''F''), (''0N)&1U'', CHR ''F''),
    (''0N)&F('', CHR ''F''), (''0N)&N'', CHR ''F''), (''0N)&N&'', CHR ''F''),
    (''0N)&N)'', CHR ''F''), (''0N)&N;'', CHR ''F''), (''0N)&NB'', CHR ''F''),
    (''0N)&NC'', CHR ''F''), (''0N)&NF'', CHR ''F''), (''0N)&NO'', CHR ''F''),
    (''0N)&NU'', CHR ''F''), (''0N)&S'', CHR ''F''), (''0N)&S&'', CHR ''F''),
    (''0N)&S)'', CHR ''F''), (''0N)&S;'', CHR ''F''), (''0N)&SB'', CHR ''F''),
    (''0N)&SC'', CHR ''F''), (''0N)&SF'', CHR ''F''), (''0N)&SO'', CHR ''F''),
    (''0N)&SU'', CHR ''F''), (''0N)&V'', CHR ''F''), (''0N)&V&'', CHR ''F''),
    (''0N)&V)'', CHR ''F''), (''0N)&V;'', CHR ''F''), (''0N)&VB'', CHR ''F''),
    (''0N)&VC'', CHR ''F''), (''0N)&VF'', CHR ''F''), (''0N)&VO'', CHR ''F''),
    (''0N)&VU'', CHR ''F''), (''0N),(1'', CHR ''F''), (''0N),(F'', CHR ''F''),
    (''0N),(N'', CHR ''F''), (''0N),(S'', CHR ''F''), (''0N),(V'', CHR ''F''),
    (''0N);E('', CHR ''F''), (''0N);E1'', CHR ''F''), (''0N);EF'', CHR ''F''),
    (''0N);EK'', CHR ''F''), (''0N);EN'', CHR ''F''), (''0N);EO'', CHR ''F''),
    (''0N);ES'', CHR ''F''), (''0N);EV'', CHR ''F''), (''0N);T('', CHR ''F''),
    (''0N);T1'', CHR ''F''), (''0N);TF'', CHR ''F''), (''0N);TK'', CHR ''F'')]"

lemma sql_keywords_23_chain: "kw_chain ''0N&S&F'' sql_keywords_23 ''0N);TK''"
  by (simp add: sql_keywords_23_def)

lemma sql_keywords_23_words: "kw_words sql_keywords_23"
  by (simp add: sql_keywords_23_def kw_words_def kw_word_def)

lemma sql_keywords_23_length: "length sql_keywords_23 = 150"
  by (simp add: sql_keywords_23_def)

end
