(* ===== verification/Sqli_Keywords_3.thy ===== *)
theory Sqli_Keywords_3
  imports Sqli_Word_Order
begin

text \<open>
  Part 3 of the table \<open>sql_keywords\<close> of \<open>src/src/headers/libinjection_sqli_data.h\<close>
  (lines 3898 to 5097), in slices of at most 150 entries in the order of the source. Each slice
  \<open>sql_keywords_n\<close> comes with the fact that it continues the strictly ascending chain
  of words from the last word of the slice before it to its own last word.
\<close>

definition sql_keywords_24 :: "keyword_t list" where
  "sql_keywords_24 = [
    (''0N);TN'', CHR ''F''), (''0N);TO'', CHR ''F''), (''0N);TS'', CHR ''F''),
    (''0N);TV'', CHR ''F''), (''0N)B(1'', CHR ''F''), (''0N)B(F'', CHR ''F''),
    (''0N)B(N'', CHR ''F''), (''0N)B(S'', CHR ''F''), (''0N)B(V'', CHR ''F''),
    (''0N)B1'', CHR ''F''), (''0N)B1&'', CHR ''F''), (''0N)B1;'', CHR ''F''),
    (''0N)B1C'', CHR ''F''), (''0N)B1K'', CHR ''F''), (''0N)B1N'', CHR ''F''),
    (''0N)B1O'', CHR ''F''), (''0N)B1U'', CHR ''F''), (''0N)BF('', CHR ''F''),
    (''0N)BN'', CHR ''F''), (''0N)BN&'', CHR ''F''), (''0N)BN;'', CHR ''F''),
    (''0N)BNC'', CHR ''F''), (''0N)BNK'', CHR ''F''), (''0N)BNO'', CHR ''F''),
    (''0N)BNU'', CHR ''F''), (''0N)BS'', CHR ''F''), (''0N)BS&'', CHR ''F''),
    (''0N)BS;'', CHR ''F''), (''0N)BSC'', CHR ''F''), (''0N)BSK'', CHR ''F''),
    (''0N)BSO'', CHR ''F''), (''0N)BSU'', CHR ''F''), (''0N)BV'', CHR ''F''),
    (''0N)BV&'', CHR ''F''), (''0N)BV;'', CHR ''F''), (''0N)BVC'', CHR ''F''),
    (''0N)BVK'', CHR ''F''), (''0N)BVO'', CHR ''F''), (''0N)BVU'', CHR ''F''),
    (''0N)E(1'', CHR ''F''), (''0N)E(F'', CHR ''F''), (''0N)E(N'', CHR ''F''),
    (''0N)E(S'', CHR ''F''), (''0N)E(V'', CHR ''F''), (''0N)E1C'', CHR ''F''),
    (''0N)E1O'', CHR ''F''), (''0N)EF('', CHR ''F''), (''0N)EK('', CHR ''F''),
    (''0N)EK1'', CHR ''F''), (''0N)EKF'', CHR ''F''), (''0N)EKN'', CHR ''F''),
    (''0N)EKS'', CHR ''F''), (''0N)EKV'', CHR ''F''), (''0N)ENC'', CHR ''F''),
    (''0N)ENO'', CHR ''F''), (''0N)ESC'', CHR ''F''), (''0N)ESO'', CHR ''F''),
    (''0N)EVC'', CHR ''F''), (''0N)EVO'', CHR ''F''), (''0N)F(F'', CHR ''F''),
    (''0N)K(1'', CHR ''F''), (''0N)K(F'', CHR ''F''), (''0N)K(N'', CHR ''F''),
    (''0N)K(S'', CHR ''F''), (''0N)K(V'', CHR ''F''), (''0N)K1&'', CHR ''F''),
    (''0N)K1;'', CHR ''F''), (''0N)K1B'', CHR ''F''), (''0N)K1E'', CHR ''F''),
    (''0N)K1O'', CHR ''F''), (''0N)K1U'', CHR ''F''), (''0N)KB('', CHR ''F''),
    (''0N)KB1'', CHR ''F''), (''0N)KBF'', CHR ''F''), (''0N)KBN'', CHR ''F''),
    (''0N)KBS'', CHR ''F''), (''0N)KBV'', CHR ''F''), (''0N)KF('', CHR ''F''),
    (''0N)KN&'', CHR ''F''), (''0N)KN;'', CHR ''F''), (''0N)KNB'', CHR ''F''),
    (''0N)KNC'', CHR ''F''), (''0N)KNE'', CHR ''F''), (''0N)KNK'', CHR ''F''),
    (''0N)KNU'', CHR ''F''), (''0N)KS&'', CHR ''F''), (''0N)KS;'', CHR ''F''),
    (''0N)KSB'', CHR ''F''), (''0N)KSE'', CHR ''F''), (''0N)KSO'', CHR ''F''),
    (''0N)KSU'', CHR ''F''), (''0N)KUE'', CHR ''F''), (''0N)KV&'', CHR ''F''),
    (''0N)KV;'', CHR ''F''), (''0N)KVB'', CHR ''F''), (''0N)KVE'', CHR ''F''),
    (''0N)KVO'', CHR ''F''), (''0N)KVU'', CHR ''F''), (''0N)O(1'', CHR ''F''),
    (''0N)O(E'', CHR ''F''), (''0N)O(F'', CHR ''F''), (''0N)O(N'', CHR ''F''),
    (''0N)O(S'', CHR ''F''), (''0N)O(V'', CHR ''F''), (''0N)O1&'', CHR ''F''),
    (''0N)O1)'', CHR ''F''), (''0N)O1;'', CHR ''F''), (''0N)O1B'', CHR ''F''),
    (''0N)O1C'', CHR ''F''), (''0N)O1K'', CHR ''F''), (''0N)O1U'', CHR ''F''),
    (''0N)OF('', CHR ''F''), (''0N)ON&'', CHR ''F''), (''0N)ON)'', CHR ''F''),
    (''0N)ON;'', CHR ''F''), (''0N)ONB'', CHR ''F''), (''0N)ONC'', CHR ''F''),
    (''0N)ONK'', CHR ''F''), (''0N)ONU'', CHR ''F''), (''0N)OS'', CHR ''F''),
    (''0N)OS&'', CHR ''F''), (''0N)OS)'', CHR ''F''), (''0N)OS;'', CHR ''F''),
    (''0N)OSB'', CHR ''F''), (''0N)OSC'', CHR ''F''), (''0N)OSK'', CHR ''F''),
    (''0N)OSU'', CHR ''F''), (''0N)OV'', CHR ''F''), (''0N)OV&'', CHR ''F''),
    (''0N)OV)'', CHR ''F''), (''0N)OV;'', CHR ''F''), (''0N)OVB'', CHR ''F''),
    (''0N)OVC'', CHR ''F''), (''0N)OVK'', CHR ''F''), (''0N)OVO'', CHR ''F''),
    (''0N)OVU'', CHR ''F''), (''0N)U(E'', CHR ''F''), (''0N)UE('', CHR ''F''),
    (''0N)UE1'', CHR ''F''), (''0N)UEF'', CHR ''F''), (''0N)UEK'', CHR ''F''),
    (''0N)UEN'', CHR ''F''), (''0N)UES'', CHR ''F''), (''0N)UEV'', CHR ''F''),
    (''0N,(1)'', CHR ''F''), (''0N,(1O'', CHR ''F''), (''0N,(E('', CHR ''F''),
    (''0N,(E1'', CHR ''F''), (''0N,(EF'', CHR ''F''), (''0N,(EK'', CHR ''F'')]"

lemma sql_keywords_24_chain: "kw_chain ''0N);TK'' sql_keywords_24 ''0N,(EK''"
  by (simp add: sql_keywords_24_def)

lemma sql_keywords_24_words: "kw_words sql_keywords_24"
  by (simp add: sql_keywords_24_def kw_words_def kw_word_def)

lemma sql_keywords_24_length: "length sql_keywords_24 = 150"
  by (simp add: sql_keywords_24_def)

definition sql_keywords_25 :: "keyword_t list" where
  "sql_keywords_25 = [
    (''0N,(EN'', CHR ''F''), (''0N,(ES'', CHR ''F''), (''0N,(EV'', CHR ''F''),
    (''0N,(F('', CHR ''F''), (''0N,(NO'', CHR ''F''), (''0N,(S)'', CHR ''F''),
    (''0N,(SO'', CHR ''F''), (''0N,(V)'', CHR ''F''), (''0N,(VO'', CHR ''F''),
    (''0N,F()'', CHR ''F''), (''0N,F(1'', CHR ''F''), (''0N,F(F'', CHR ''F''),
    (''0N,F(N'', CHR ''F''), (''0N,F(S'', CHR ''F''), (''0N,F(V'', CHR ''F''),
    (''0N1O(1'', CHR ''F''), (''0N1O(F'', CHR ''F''), (''0N1O(N'', CHR ''F''),
    (''0N1O(S'', CHR ''F''), (''0N1O(V'', CHR ''F''), (''0N1OF('', CHR ''F''),
    (''0N1OS('', CHR ''F''), (''0N1OS1'', CHR ''F''), (''0N1OSF'', CHR ''F''),
    (''0N1OSU'', CHR ''F''), (''0N1OSV'', CHR ''F''), (''0N1OV('', CHR ''F''),
    (''0N1OVF'', CHR ''F''), (''0N1OVO'', CHR ''F''), (''0N1OVS'', CHR ''F''),
    (''0N1OVU'', CHR ''F''), (''0N1S;'', CHR ''F''), (''0N1S;C'', CHR ''F''),
    (''0N1SC'', CHR ''F''), (''0N1UE'', CHR ''F''), (''0N1UE;'', CHR ''F''),
    (''0N1UEC'', CHR ''F''), (''0N1UEK'', CHR ''F''), (''0N1V;'', CHR ''F''),
    (''0N1V;C'', CHR ''F''), (''0N1VC'', CHR ''F''), (''0N1VO('', CHR ''F''),
    (''0N1VOF'', CHR ''F''), (''0N1VOS'', CHR ''F''), (''0N;E(1'', CHR ''F''),
    (''0N;E(E'', CHR ''F''), (''0N;E(F'', CHR ''F''), (''0N;E(N'', CHR ''F''),
    (''0N;E(S'', CHR ''F''), (''0N;E(V'', CHR ''F''), (''0N;E1,'', CHR ''F''),
    (''0N;E1;'', CHR ''F''), (''0N;E1C'', CHR ''F''), (''0N;E1K'', CHR ''F''),
    (''0N;E1O'', CHR ''F''), (''0N;E1T'', CHR ''F''), (''0N;EF('', CHR ''F''),
    (''0N;EK('', CHR ''F''), (''0N;EK1'', CHR ''F''), (''0N;EKF'', CHR ''F''),
    (''0N;EKN'', CHR ''F''), (''0N;EKO'', CHR ''F''), (''0N;EKS'', CHR ''F''),
    (''0N;EKV'', CHR ''F''), (''0N;EN,'', CHR ''F''), (''0N;EN;'', CHR ''F''),
    (''0N;ENC'', CHR ''F''), (''0N;ENE'', CHR ''F''), (''0N;ENK'', CHR ''F''),
    (''0N;ENO'', CHR ''F''), (''0N;ENT'', CHR ''F''), (''0N;ES,'', CHR ''F''),
    (''0N;ES;'', CHR ''F''), (''0N;ESC'', CHR ''F''), (''0N;ESK'', CHR ''F''),
    (''0N;ESO'', CHR ''F''), (''0N;EST'', CHR ''F''), (''0N;EV,'', CHR ''F''),
    (''0N;EV;'', CHR ''F''), (''0N;EVC'', CHR ''F''), (''0N;EVK'', CHR ''F''),
    (''0N;EVO'', CHR ''F''), (''0N;EVT'', CHR ''F''), (''0N;N:T'', CHR ''F''),
    (''0N;T(1'', CHR ''F''), (''0N;T(C'', CHR ''F''), (''0N;T(E'', CHR ''F''),
    (''0N;T(F'', CHR ''F''), (''0N;T(N'', CHR ''F''), (''0N;T(S'', CHR ''F''),
    (''0N;T(V'', CHR ''F''), (''0N;T1('', CHR ''F''), (''0N;T1,'', CHR ''F''),
    (''0N;T1;'', CHR ''F''), (''0N;T1C'', CHR ''F''), (''0N;T1F'', CHR ''F''),
    (''0N;T1K'', CHR ''F''), (''0N;T1O'', CHR ''F''), (''0N;T1T'', CHR ''F''),
    (''0N;T;'', CHR ''F''), (''0N;T;C'', CHR ''F''), (''0N;TF('', CHR ''F''),
    (''0N;TK('', CHR ''F''), (''0N;TK1'', CHR ''F''), (''0N;TKF'', CHR ''F''),
    (''0N;TKK'', CHR ''F''), (''0N;TKO'', CHR ''F''), (''0N;TKS'', CHR ''F''),
    (''0N;TKV'', CHR ''F''), (''0N;TN('', CHR ''F''), (''0N;TN,'', CHR ''F''),
    (''0N;TN1'', CHR ''F''), (''0N;TN;'', CHR ''F''), (''0N;TNC'', CHR ''F''),
    (''0N;TNE'', CHR ''F''), (''0N;TNF'', CHR ''F''), (''0N;TNK'', CHR ''F''),
    (''0N;TNN'', CHR ''F''), (''0N;TNO'', CHR ''F''), (''0N;TNS'', CHR ''F''),
    (''0N;TNT'', CHR ''F''), (''0N;TNV'', CHR ''F''), (''0N;TO('', CHR ''F''),
    (''0N;TS('', CHR ''F''), (''0N;TS,'', CHR ''F''), (''0N;TS;'', CHR ''F''),
    (''0N;TSC'', CHR ''F''), (''0N;TSF'', CHR ''F''), (''0N;TSK'', CHR ''F''),
    (''0N;TSO'', CHR ''F''), (''0N;TST'', CHR ''F''), (''0N;TTN'', CHR ''F''),
    (''0N;TV('', CHR ''F''), (''0N;TV,'', CHR ''F''), (''0N;TV;'', CHR ''F''),
    (''0N;TVC'', CHR ''F''), (''0N;TVF'', CHR ''F''), (''0N;TVK'', CHR ''F''),
    (''0N;TVO'', CHR ''F''), (''0N;TVT'', CHR ''F''), (''0NA(F('', CHR ''F''),
    (''0NA(N)'', CHR ''F''), (''0NA(NO'', CHR ''F''), (''0NA(S)'', CHR ''F''),
    (''0NA(SO'', CHR ''F''), (''0NA(V)'', CHR ''F''), (''0NA(VO'', CHR ''F''),
    (''0NAF()'', CHR ''F''), (''0NAF(1'', CHR ''F''), (''0NAF(F'', CHR ''F'')]"

lemma sql_keywords_25_chain: "kw_chain ''0N,(EK'' sql_keywords_25 ''0NAF(F''"
  by (simp add: sql_keywords_25_def)

lemma sql_keywords_25_words: "kw_words sql_keywords_25"
  by (simp add: sql_keywords_25_def kw_words_def kw_word_def)

lemma sql_keywords_25_length: "length sql_keywords_25 = 150"
  by (simp add: sql_keywords_25_def)

definition sql_keywords_26 :: "keyword_t list" where
  "sql_keywords_26 = [
    (''0NAF(N'', CHR ''F''), (''0NAF(S'', CHR ''F''), (''0NAF(V'', CHR ''F''),
    (''0NASO('', CHR ''F''), (''0NASO1'', CHR ''F''), (''0NASOF'', CHR ''F''),
    (''0NASON'', CHR ''F''), (''0NASOS'', CHR ''F''), (''0NASOV'', CHR ''F''),
    (''0NASUE'', CHR ''F''), (''0NATO('', CHR ''F''), (''0NATO1'', CHR ''F''),
    (''0NATOF'', CHR ''F''), (''0NATON'', CHR ''F''), (''0NATOS'', CHR ''F''),
    (''0NATOV'', CHR ''F''), (''0NATUE'', CHR ''F''), (''0NAVO('', CHR ''F''),
    (''0NAVOF'', CHR ''F''), (''0NAVOS'', CHR ''F''), (''0NAVUE'', CHR ''F''),
    (''0NB(1&'', CHR ''F''), (''0NB(1)'', CHR ''F''), (''0NB(1O'', CHR ''F''),
    (''0NB(F('', CHR ''F''), (''0NB(N&'', CHR ''F''), (''0NB(NO'', CHR ''F''),
    (''0NB(S&'', CHR ''F''), (''0NB(S)'', CHR ''F''), (''0NB(SO'', CHR ''F''),
    (''0NB(V&'', CHR ''F''), (''0NB(V)'', CHR ''F''), (''0NB(VO'', CHR ''F''),
    (''0NB1'', CHR ''F''), (''0NB1&('', CHR ''F''), (''0NB1&1'', CHR ''F''),
    (''0NB1&F'', CHR ''F''), (''0NB1&N'', CHR ''F''), (''0NB1&S'', CHR ''F''),
    (''0NB1&V'', CHR ''F''), (''0NB1,('', CHR ''F''), (''0NB1,F'', CHR ''F''),
    (''0NB1;'', CHR ''F''), (''0NB1;C'', CHR ''F''), (''0NB1B('', CHR ''F''),
    (''0NB1B1'', CHR ''F''), (''0NB1BF'', CHR ''F''), (''0NB1BN'', CHR ''F''),
    (''0NB1BS'', CHR ''F''), (''0NB1BV'', CHR ''F''), (''0NB1C'', CHR ''F''),
    (''0NB1K('', CHR ''F''), (''0NB1K1'', CHR ''F''), (''0NB1KF'', CHR ''F''),
    (''0NB1KN'', CHR ''F''), (''0NB1KS'', CHR ''F''), (''0NB1KV'', CHR ''F''),
    (''0NB1O('', CHR ''F''), (''0NB1OF'', CHR ''F''), (''0NB1OS'', CHR ''F''),
    (''0NB1OV'', CHR ''F''), (''0NB1U('', CHR ''F''), (''0NB1UE'', CHR ''F''),
    (''0NBE(1'', CHR ''F''), (''0NBE(F'', CHR ''F''), (''0NBE(N'', CHR ''F''),
    (''0NBE(S'', CHR ''F''), (''0NBE(V'', CHR ''F''), (''0NBEK('', CHR ''F''),
    (''0NBF()'', CHR ''F''), (''0NBF(1'', CHR ''F''), (''0NBF(F'', CHR ''F''),
    (''0NBF(N'', CHR ''F''), (''0NBF(S'', CHR ''F''), (''0NBF(V'', CHR ''F''),
    (''0NBN&('', CHR ''F''), (''0NBN&1'', CHR ''F''), (''0NBN&F'', CHR ''F''),
    (''0NBN&N'', CHR ''F''), (''0NBN&S'', CHR ''F''), (''0NBN&V'', CHR ''F''),
    (''0NBN,('', CHR ''F''), (''0NBN,F'', CHR ''F''), (''0NBN;'', CHR ''F''),
    (''0NBN;C'', CHR ''F''), (''0NBNB('', CHR ''F''), (''0NBNB1'', CHR ''F''),
    (''0NBNBF'', CHR ''F''), (''0NBNBN'', CHR ''F''), (''0NBNBS'', CHR ''F''),
    (''0NBNBV'', CHR ''F''), (''0NBNC'', CHR ''F''), (''0NBNK('', CHR ''F''),
    (''0NBNK1'', CHR ''F''), (''0NBNKF'', CHR ''F''), (''0NBNKN'', CHR ''F''),
    (''0NBNKS'', CHR ''F''), (''0NBNKV'', CHR ''F''), (''0NBNO('', CHR ''F''),
    (''0NBNOF'', CHR ''F''), (''0NBNOS'', CHR ''F''), (''0NBNOV'', CHR ''F''),
    (''0NBNU('', CHR ''F''), (''0NBNUE'', CHR ''F''), (''0NBS'', CHR ''F''),
    (''0NBS&('', CHR ''F''), (''0NBS&1'', CHR ''F''), (''0NBS&F'', CHR ''F''),
    (''0NBS&N'', CHR ''F''), (''0NBS&S'', CHR ''F''), (''0NBS&V'', CHR ''F''),
    (''0NBS,('', CHR ''F''), (''0NBS,F'', CHR ''F''), (''0NBS;'', CHR ''F''),
    (''0NBS;C'', CHR ''F''), (''0NBSB('', CHR ''F''), (''0NBSB1'', CHR ''F''),
    (''0NBSBF'', CHR ''F''), (''0NBSBN'', CHR ''F''), (''0NBSBS'', CHR ''F''),
    (''0NBSBV'', CHR ''F''), (''0NBSC'', CHR ''F''), (''0NBSK('', CHR ''F''),
    (''0NBSK1'', CHR ''F''), (''0NBSKF'', CHR ''F''), (''0NBSKN'', CHR ''F''),
    (''0NBSKS'', CHR ''F''), (''0NBSKV'', CHR ''F''), (''0NBSO('', CHR ''F''),
    (''0NBSO1'', CHR ''F''), (''0NBSOF'', CHR ''F''), (''0NBSON'', CHR ''F''),
    (''0NBSOS'', CHR ''F''), (''0NBSOV'', CHR ''F''), (''0NBSU('', CHR ''F''),
    (''0NBSUE'', CHR ''F''), (''0NBV'', CHR ''F''), (''0NBV&('', CHR ''F''),
    (''0NBV&1'', CHR ''F''), (''0NBV&F'', CHR ''F''), (''0NBV&N'', CHR ''F''),
    (''0NBV&S'', CHR ''F''), (''0NBV&V'', CHR ''F''), (''0NBV,('', CHR ''F''),
    (''0NBV,F'', CHR ''F''), (''0NBV;'', CHR ''F''), (''0NBV;C'', CHR ''F''),
    (''0NBVB('', CHR ''F''), (''0NBVB1'', CHR ''F''), (''0NBVBF'', CHR ''F'')]"

lemma sql_keywords_26_chain: "kw_chain ''0NAF(F'' sql_keywords_26 ''0NBVBF''"
  by (simp add: sql_keywords_26_def)

lemma sql_keywords_26_words: "kw_words sql_keywords_26"
  by (simp add: sql_keywords_26_def kw_words_def kw_word_def)

lemma sql_keywords_26_length: "length sql_keywords_26 = 150"
  by (simp add: sql_keywords_26_def)

definition sql_keywords_27 :: "keyword_t list" where
  "sql_keywords_27 = [
    (''0NBVBN'', CHR ''F''), (''0NBVBS'', CHR ''F''), (''0NBVBV'', CHR ''F''),
    (''0NBVC'', CHR ''F''), (''0NBVK('', CHR ''F''), (''0NBVK1'', CHR ''F''),
    (''0NBVKF'', CHR ''F''), (''0NBVKN'', CHR ''F''), (''0NBVKS'', CHR ''F''),
    (''0NBVKV'', CHR ''F''), (''0NBVO('', CHR ''F''), (''0NBVOF'', CHR ''F''),
    (''0NBVOS'', CHR ''F''), (''0NBVU('', CHR ''F''), (''0NBVUE'', CHR ''F''),
    (''0NC'', CHR ''F''), (''0NE(1)'', CHR ''F''), (''0NE(1O'', CHR ''F''),
    (''0NE(F('', CHR ''F''), (''0NE(N)'', CHR ''F''), (''0NE(NO'', CHR ''F''),
    (''0NE(S)'', CHR ''F''), (''0NE(SO'', CHR ''F''), (''0NE(V)'', CHR ''F''),
    (''0NE(VO'', CHR ''F''), (''0NE1;T'', CHR ''F''), (''0NE1C'', CHR ''F''),
    (''0NE1O('', CHR ''F''), (''0NE1OF'', CHR ''F''), (''0NE1OS'', CHR ''F''),
    (''0NE1OV'', CHR ''F''), (''0NE1T('', CHR ''F''), (''0NE1T1'', CHR ''F''),
    (''0NE1TF'', CHR ''F''), (''0NE1TN'', CHR ''F''), (''0NE1TS'', CHR ''F''),
    (''0NE1TV'', CHR ''F''), (''0NE1UE'', CHR ''F''), (''0NEF()'', CHR ''F''),
    (''0NEF(1'', CHR ''F''), (''0NEF(F'', CHR ''F''), (''0NEF(N'', CHR ''F''),
    (''0NEF(S'', CHR ''F''), (''0NEF(V'', CHR ''F''), (''0NEN;T'', CHR ''F''),
    (''0NENO('', CHR ''F''), (''0NENOF'', CHR ''F''), (''0NENOS'', CHR ''F''),
    (''0NENOV'', CHR ''F''), (''0NENT('', CHR ''F''), (''0NENT1'', CHR ''F''),
    (''0NENTF'', CHR ''F''), (''0NENTN'', CHR ''F''), (''0NENTS'', CHR ''F''),
    (''0NENTV'', CHR ''F''), (''0NENUE'', CHR ''F''), (''0NEOKN'', CHR ''F''),
    (''0NES;T'', CHR ''F''), (''0NESC'', CHR ''F''), (''0NESO('', CHR ''F''),
    (''0NESO1'', CHR ''F''), (''0NESOF'', CHR ''F''), (''0NESON'', CHR ''F''),
    (''0NESOS'', CHR ''F''), (''0NESOV'', CHR ''F''), (''0NEST('', CHR ''F''),
    (''0NEST1'', CHR ''F''), (''0NESTF'', CHR ''F''), (''0NESTN'', CHR ''F''),
    (''0NESTS'', CHR ''F''), (''0NESTV'', CHR ''F''), (''0NESUE'', CHR ''F''),
    (''0NEU(1'', CHR ''F''), (''0NEU(F'', CHR ''F''), (''0NEU(N'', CHR ''F''),
    (''0NEU(S'', CHR ''F''), (''0NEU(V'', CHR ''F''), (''0NEU1,'', CHR ''F''),
    (''0NEU1C'', CHR ''F''), (''0NEU1O'', CHR ''F''), (''0NEUEF'', CHR ''F''),
    (''0NEUEK'', CHR ''F''), (''0NEUF('', CHR ''F''), (''0NEUS,'', CHR ''F''),
    (''0NEUSC'', CHR ''F''), (''0NEUSO'', CHR ''F''), (''0NEUV,'', CHR ''F''),
    (''0NEUVC'', CHR ''F''), (''0NEUVO'', CHR ''F''), (''0NEV;T'', CHR ''F''),
    (''0NEVC'', CHR ''F''), (''0NEVO('', CHR ''F''), (''0NEVOF'', CHR ''F''),
    (''0NEVOS'', CHR ''F''), (''0NEVT('', CHR ''F''), (''0NEVT1'', CHR ''F''),
    (''0NEVTF'', CHR ''F''), (''0NEVTN'', CHR ''F''), (''0NEVTS'', CHR ''F''),
    (''0NEVTV'', CHR ''F''), (''0NEVUE'', CHR ''F''), (''0NF()1'', CHR ''F''),
    (''0NF()F'', CHR ''F''), (''0NF()K'', CHR ''F''), (''0NF()N'', CHR ''F''),
    (''0NF()O'', CHR ''F''), (''0NF()S'', CHR ''F''), (''0NF()U'', CHR ''F''),
    (''0NF()V'', CHR ''F''), (''0NF(1)'', CHR ''F''), (''0NF(1O'', CHR ''F''),
    (''0NF(E('', CHR ''F''), (''0NF(E1'', CHR ''F''), (''0NF(EF'', CHR ''F''),
    (''0NF(EK'', CHR ''F''), (''0NF(EN'', CHR ''F''), (''0NF(ES'', CHR ''F''),
    (''0NF(EV'', CHR ''F''), (''0NF(F('', CHR ''F''), (''0NF(N,'', CHR ''F''),
    (''0NF(NO'', CHR ''F''), (''0NF(S)'', CHR ''F''), (''0NF(SO'', CHR ''F''),
    (''0NF(V)'', CHR ''F''), (''0NF(VO'', CHR ''F''), (''0NK(1)'', CHR ''F''),
    (''0NK(1O'', CHR ''F''), (''0NK(F('', CHR ''F''), (''0NK(NO'', CHR ''F''),
    (''0NK(S)'', CHR ''F''), (''0NK(SO'', CHR ''F''), (''0NK(V)'', CHR ''F''),
    (''0NK(VO'', CHR ''F''), (''0NK)&('', CHR ''F''), (''0NK)&1'', CHR ''F''),
    (''0NK)&F'', CHR ''F''), (''0NK)&N'', CHR ''F''), (''0NK)&S'', CHR ''F''),
    (''0NK)&V'', CHR ''F''), (''0NK);E'', CHR ''F''), (''0NK);T'', CHR ''F''),
    (''0NK)B('', CHR ''F''), (''0NK)B1'', CHR ''F''), (''0NK)BF'', CHR ''F''),
    (''0NK)BN'', CHR ''F''), (''0NK)BS'', CHR ''F''), (''0NK)BV'', CHR ''F''),
    (''0NK)E('', CHR ''F''), (''0NK)E1'', CHR ''F''), (''0NK)EF'', CHR ''F'')]"

lemma sql_keywords_27_chain: "kw_chain ''0NBVBF'' sql_keywords_27 ''0NK)EF''"
  by (simp add: sql_keywords_27_def)

lemma sql_keywords_27_words: "kw_words sql_keywords_27"
  by (simp add: sql_keywords_27_def kw_words_def kw_word_def)

lemma sql_keywords_27_length: "length sql_keywords_27 = 150"
  by (simp add: sql_keywords_27_def)

definition sql_keywords_28 :: "keyword_t list" where
  "sql_keywords_28 = [
    (''0NK)EK'', CHR ''F''), (''0NK)EN'', CHR ''F''), (''0NK)ES'', CHR ''F''),
    (''0NK)EV'', CHR ''F''), (''0NK)F('', CHR ''F''), (''0NK)O('', CHR ''F''),
    (''0NK)OF'', CHR ''F''), (''0NK)UE'', CHR ''F''), (''0NK1'', CHR ''F''),
    (''0NK1&('', CHR ''F''), (''0NK1&1'', CHR ''F''), (''0NK1&F'', CHR ''F''),
    (''0NK1&N'', CHR ''F''), (''0NK1&S'', CHR ''F''), (''0NK1&V'', CHR ''F''),
    (''0NK1;C'', CHR ''F''), (''0NK1;E'', CHR ''F''), (''0NK1;T'', CHR ''F''),
    (''0NK1B('', CHR ''F''), (''0NK1B1'', CHR ''F''), (''0NK1BF'', CHR ''F''),
    (''0NK1BN'', CHR ''F''), (''0NK1BS'', CHR ''F''), (''0NK1BV'', CHR ''F''),
    (''0NK1C'', CHR ''F''), (''0NK1E('', CHR ''F''), (''0NK1E1'', CHR ''F''),
    (''0NK1EF'', CHR ''F''), (''0NK1EK'', CHR ''F''), (''0NK1EN'', CHR ''F''),
    (''0NK1ES'', CHR ''F''), (''0NK1EV'', CHR ''F''), (''0NK1O('', CHR ''F''),
    (''0NK1OF'', CHR ''F''), (''0NK1OS'', CHR ''F''), (''0NK1OV'', CHR ''F''),
    (''0NK1U('', CHR ''F''), (''0NK1UE'', CHR ''F''), (''0NKF()'', CHR ''F''),
    (''0NKF(1'', CHR ''F''), (''0NKF(F'', CHR ''F''), (''0NKF(N'', CHR ''F''),
    (''0NKF(S'', CHR ''F''), (''0NKF(V'', CHR ''F''), (''0NKN'', CHR ''F''),
    (''0NKN&('', CHR ''F''), (''0NKN&1'', CHR ''F''), (''0NKN&F'', CHR ''F''),
    (''0NKN&S'', CHR ''F''), (''0NKN&V'', CHR ''F''), (''0NKN;C'', CHR ''F''),
    (''0NKN;E'', CHR ''F''), (''0NKN;T'', CHR ''F''), (''0NKNB('', CHR ''F''),
    (''0NKNB1'', CHR ''F''), (''0NKNBF'', CHR ''F''), (''0NKNBN'', CHR ''F''),
    (''0NKNBS'', CHR ''F''), (''0NKNBV'', CHR ''F''), (''0NKNE('', CHR ''F''),
    (''0NKNE1'', CHR ''F''), (''0NKNEF'', CHR ''F''), (''0NKNES'', CHR ''F''),
    (''0NKNEV'', CHR ''F''), (''0NKNU('', CHR ''F''), (''0NKNUE'', CHR ''F''),
    (''0NKS'', CHR ''F''), (''0NKS&('', CHR ''F''), (''0NKS&1'', CHR ''F''),
    (''0NKS&F'', CHR ''F''), (''0NKS&N'', CHR ''F''), (''0NKS&S'', CHR ''F''),
    (''0NKS&V'', CHR ''F''), (''0NKS;'', CHR ''F''), (''0NKS;C'', CHR ''F''),
    (''0NKS;E'', CHR ''F''), (''0NKS;T'', CHR ''F''), (''0NKSB('', CHR ''F''),
    (''0NKSB1'', CHR ''F''), (''0NKSBF'', CHR ''F''), (''0NKSBN'', CHR ''F''),
    (''0NKSBS'', CHR ''F''), (''0NKSBV'', CHR ''F''), (''0NKSC'', CHR ''F''),
    (''0NKSE('', CHR ''F''), (''0NKSE1'', CHR ''F''), (''0NKSEF'', CHR ''F''),
    (''0NKSEK'', CHR ''F''), (''0NKSEN'', CHR ''F''), (''0NKSES'', CHR ''F''),
    (''0NKSEV'', CHR ''F''), (''0NKSO('', CHR ''F''), (''0NKSO1'', CHR ''F''),
    (''0NKSOF'', CHR ''F''), (''0NKSON'', CHR ''F''), (''0NKSOS'', CHR ''F''),
    (''0NKSOV'', CHR ''F''), (''0NKSU('', CHR ''F''), (''0NKSUE'', CHR ''F''),
    (''0NKUE('', CHR ''F''), (''0NKUE1'', CHR ''F''), (''0NKUEF'', CHR ''F''),
    (''0NKUEK'', CHR ''F''), (''0NKUEN'', CHR ''F''), (''0NKUES'', CHR ''F''),
    (''0NKUEV'', CHR ''F''), (''0NKV'', CHR ''F''), (''0NKV&('', CHR ''F''),
    (''0NKV&1'', CHR ''F''), (''0NKV&F'', CHR ''F''), (''0NKV&N'', CHR ''F''),
    (''0NKV&S'', CHR ''F''), (''0NKV&V'', CHR ''F''), (''0NKV;'', CHR ''F''),
    (''0NKV;C'', CHR ''F''), (''0NKV;E'', CHR ''F''), (''0NKV;T'', CHR ''F''),
    (''0NKVB('', CHR ''F''), (''0NKVB1'', CHR ''F''), (''0NKVBF'', CHR ''F''),
    (''0NKVBN'', CHR ''F''), (''0NKVBS'', CHR ''F''), (''0NKVBV'', CHR ''F''),
    (''0NKVC'', CHR ''F''), (''0NKVE('', CHR ''F''), (''0NKVE1'', CHR ''F''),
    (''0NKVEF'', CHR ''F''), (''0NKVEK'', CHR ''F''), (''0NKVEN'', CHR ''F''),
    (''0NKVES'', CHR ''F''), (''0NKVEV'', CHR ''F''), (''0NKVO('', CHR ''F''),
    (''0NKVOF'', CHR ''F''), (''0NKVOS'', CHR ''F''), (''0NKVU('', CHR ''F''),
    (''0NKVUE'', CHR ''F''), (''0NO(1&'', CHR ''F''), (''0NO(1)'', CHR ''F''),
    (''0NO(1,'', CHR ''F''), (''0NO(1O'', CHR ''F''), (''0NO(E('', CHR ''F''),
    (''0NO(E1'', CHR ''F''), (''0NO(EE'', CHR ''F''), (''0NO(EF'', CHR ''F''),
    (''0NO(EK'', CHR ''F''), (''0NO(EN'', CHR ''F''), (''0NO(EO'', CHR ''F''),
    (''0NO(ES'', CHR ''F''), (''0NO(EV'', CHR ''F''), (''0NO(F('', CHR ''F'')]"

lemma sql_keywords_28_chain: "kw_chain ''0NK)EF'' sql_keywords_28 ''0NO(F(''"
  by (simp add: sql_keywords_28_def)

lemma sql_keywords_28_words: "kw_words sql_keywords_28"
  by (simp add: sql_keywords_28_def kw_words_def kw_word_def)

lemma sql_keywords_28_length: "length sql_keywords_28 = 150"
  by (simp add: sql_keywords_28_def)

definition sql_keywords_29 :: "keyword_t list" where
  "sql_keywords_29 = [
    (''0NO(N&'', CHR ''F''), (''0NO(N)'', CHR ''F''), (''0NO(N,'', CHR ''F''),
    (''0NO(NO'', CHR ''F''), (''0NO(S&'', CHR ''F''), (''0NO(S)'', CHR ''F''),
    (''0NO(S,'', CHR ''F''), (''0NO(SO'', CHR ''F''), (''0NO(V&'', CHR ''F''),
    (''0NO(V)'', CHR ''F''), (''0NO(V,'', CHR ''F''), (''0NO(VO'', CHR ''F''),
    (''0NOF()'', CHR ''F''), (''0NOF(1'', CHR ''F''), (''0NOF(E'', CHR ''F''),
    (''0NOF(F'', CHR ''F''), (''0NOF(N'', CHR ''F''), (''0NOF(S'', CHR ''F''),
    (''0NOF(V'', CHR ''F''), (''0NOK&('', CHR ''F''), (''0NOK(1'', CHR ''F''),
    (''0NOK(F'', CHR ''F''), (''0NOK(N'', CHR ''F''), (''0NOK(S'', CHR ''F''),
    (''0NOK(V'', CHR ''F''), (''0NOK1C'', CHR ''F''), (''0NOK1O'', CHR ''F''),
    (''0NOKF('', CHR ''F''), (''0NOKNC'', CHR ''F''), (''0NOKO('', CHR ''F''),
    (''0NOKO1'', CHR ''F''), (''0NOKOF'', CHR ''F''), (''0NOKON'', CHR ''F''),
    (''0NOKOS'', CHR ''F''), (''0NOKOV'', CHR ''F''), (''0NOKSC'', CHR ''F''),
    (''0NOKSO'', CHR ''F''), (''0NOKVC'', CHR ''F''), (''0NOKVO'', CHR ''F''),
    (''0NONSU'', CHR ''F''), (''0NOS&('', CHR ''F''), (''0NOS&1'', CHR ''F''),
    (''0NOS&E'', CHR ''F''), (''0NOS&F'', CHR ''F''), (''0NOS&K'', CHR ''F''),
    (''0NOS&N'', CHR ''F''), (''0NOS&S'', CHR ''F''), (''0NOS&U'', CHR ''F''),
    (''0NOS&V'', CHR ''F''), (''0NOS(E'', CHR ''F''), (''0NOS(U'', CHR ''F''),
    (''0NOS)&'', CHR ''F''), (''0NOS),'', CHR ''F''), (''0NOS);'', CHR ''F''),
    (''0NOS)B'', CHR ''F''), (''0NOS)C'', CHR ''F''), (''0NOS)E'', CHR ''F''),
    (''0NOS)F'', CHR ''F''), (''0NOS)K'', CHR ''F''), (''0NOS)O'', CHR ''F''),
    (''0NOS)U'', CHR ''F''), (''0NOS,('', CHR ''F''), (''0NOS,F'', CHR ''F''),
    (''0NOS1('', CHR ''F''), (''0NOS1F'', CHR ''F''), (''0NOS1N'', CHR ''F''),
    (''0NOS1S'', CHR ''F''), (''0NOS1U'', CHR ''F''), (''0NOS1V'', CHR ''F''),
    (''0NOS;'', CHR ''F''), (''0NOS;C'', CHR ''F''), (''0NOS;E'', CHR ''F''),
    (''0NOS;T'', CHR ''F''), (''0NOSA('', CHR ''F''), (''0NOSAF'', CHR ''F''),
    (''0NOSAS'', CHR ''F''), (''0NOSAT'', CHR ''F''), (''0NOSAV'', CHR ''F''),
    (''0NOSB('', CHR ''F''), (''0NOSB1'', CHR ''F''), (''0NOSBE'', CHR ''F''),
    (''0NOSBF'', CHR ''F''), (''0NOSBN'', CHR ''F''), (''0NOSBS'', CHR ''F''),
    (''0NOSBV'', CHR ''F''), (''0NOSC'', CHR ''F''), (''0NOSE('', CHR ''F''),
    (''0NOSE1'', CHR ''F''), (''0NOSEF'', CHR ''F''), (''0NOSEK'', CHR ''F''),
    (''0NOSEN'', CHR ''F''), (''0NOSEO'', CHR ''F''), (''0NOSES'', CHR ''F''),
    (''0NOSEU'', CHR ''F''), (''0NOSEV'', CHR ''F''), (''0NOSF('', CHR ''F''),
    (''0NOSK('', CHR ''F''), (''0NOSK)'', CHR ''F''), (''0NOSK1'', CHR ''F''),
    (''0NOSKB'', CHR ''F''), (''0NOSKF'', CHR ''F''), (''0NOSKN'', CHR ''F''),
    (''0NOSKS'', CHR ''F''), (''0NOSKU'', CHR ''F''), (''0NOSKV'', CHR ''F''),
    (''0NOST('', CHR ''F''), (''0NOST1'', CHR ''F''), (''0NOSTE'', CHR ''F''),
    (''0NOSTF'', CHR ''F''), (''0NOSTN'', CHR ''F''), (''0NOSTS'', CHR ''F''),
    (''0NOSTT'', CHR ''F''), (''0NOSTV'', CHR ''F''), (''0NOSU'', CHR ''F''),
    (''0NOSU('', CHR ''F''), (''0NOSU1'', CHR ''F''), (''0NOSU;'', CHR ''F''),
    (''0NOSUC'', CHR ''F''), (''0NOSUE'', CHR ''F''), (''0NOSUF'', CHR ''F''),
    (''0NOSUK'', CHR ''F''), (''0NOSUO'', CHR ''F''), (''0NOSUS'', CHR ''F''),
    (''0NOSUT'', CHR ''F''), (''0NOSUV'', CHR ''F''), (''0NOSV('', CHR ''F''),
    (''0NOSVF'', CHR ''F''), (''0NOSVO'', CHR ''F''), (''0NOSVS'', CHR ''F''),
    (''0NOSVU'', CHR ''F''), (''0NOU(E'', CHR ''F''), (''0NOUEK'', CHR ''F''),
    (''0NOUEN'', CHR ''F''), (''0NOV&('', CHR ''F''), (''0NOV&1'', CHR ''F''),
    (''0NOV&E'', CHR ''F''), (''0NOV&F'', CHR ''F''), (''0NOV&K'', CHR ''F''),
    (''0NOV&N'', CHR ''F''), (''0NOV&S'', CHR ''F''), (''0NOV&U'', CHR ''F''),
    (''0NOV&V'', CHR ''F''), (''0NOV(E'', CHR ''F''), (''0NOV(U'', CHR ''F''),
    (''0NOV)&'', CHR ''F''), (''0NOV),'', CHR ''F''), (''0NOV);'', CHR ''F''),
    (''0NOV)B'', CHR ''F''), (''0NOV)C'', CHR ''F''), (''0NOV)E'', CHR ''F'')]"

lemma sql_keywords_29_chain: "kw_chain ''0NO(F('' sql_keywords_29 ''0NOV)E''"
  by (simp add: sql_keywords_29_def)

lemma sql_keywords_29_words: "kw_words sql_keywords_29"
  by (simp add: sql_keywords_29_def kw_words_def kw_word_def)

lemma sql_keywords_29_length: "length sql_keywords_29 = 150"
  by (simp add: sql_keywords_29_def)

definition sql_keywords_30 :: "keyword_t list" where
  "sql_keywords_30 = [
    (''0NOV)F'', CHR ''F''), (''0NOV)K'', CHR ''F''), (''0NOV)O'', CHR ''F''),
    (''0NOV)U'', CHR ''F''), (''0NOV,('', CHR ''F''), (''0NOV,F'', CHR ''F''),
    (''0NOV;'', CHR ''F''), (''0NOV;C'', CHR ''F''), (''0NOV;E'', CHR ''F''),
    (''0NOV;N'', CHR ''F''), (''0NOV;T'', CHR ''F''), (''0NOVA('', CHR ''F''),
    (''0NOVAF'', CHR ''F''), (''0NOVAS'', CHR ''F''), (''0NOVAT'', CHR ''F''),
    (''0NOVAV'', CHR ''F''), (''0NOVB('', CHR ''F''), (''0NOVB1'', CHR ''F''),
    (''0NOVBE'', CHR ''F''), (''0NOVBF'', CHR ''F''), (''0NOVBN'', CHR ''F''),
    (''0NOVBS'', CHR ''F''), (''0NOVBV'', CHR ''F''), (''0NOVC'', CHR ''F''),
    (''0NOVE('', CHR ''F''), (''0NOVE1'', CHR ''F''), (''0NOVEF'', CHR ''F''),
    (''0NOVEK'', CHR ''F''), (''0NOVEN'', CHR ''F''), (''0NOVEO'', CHR ''F''),
    (''0NOVES'', CHR ''F''), (''0NOVEU'', CHR ''F''), (''0NOVEV'', CHR ''F''),
    (''0NOVF('', CHR ''F''), (''0NOVK('', CHR ''F''), (''0NOVK)'', CHR ''F''),
    (''0NOVK1'', CHR ''F''), (''0NOVKB'', CHR ''F''), (''0NOVKF'', CHR ''F''),
    (''0NOVKN'', CHR ''F''), (''0NOVKS'', CHR ''F''), (''0NOVKU'', CHR ''F''),
    (''0NOVKV'', CHR ''F''), (''0NOVO('', CHR ''F''), (''0NOVOF'', CHR ''F''),
    (''0NOVOK'', CHR ''F''), (''0NOVOS'', CHR ''F''), (''0NOVOU'', CHR ''F''),
    (''0NOVS('', CHR ''F''), (''0NOVS1'', CHR ''F''), (''0NOVSF'', CHR ''F''),
    (''0NOVSO'', CHR ''F''), (''0NOVSU'', CHR ''F''), (''0NOVSV'', CHR ''F''),
    (''0NOVT('', CHR ''F''), (''0NOVT1'', CHR ''F''), (''0NOVTE'', CHR ''F''),
    (''0NOVTF'', CHR ''F''), (''0NOVTN'', CHR ''F''), (''0NOVTS'', CHR ''F''),
    (''0NOVTT'', CHR ''F''), (''0NOVTV'', CHR ''F''), (''0NOVU'', CHR ''F''),
    (''0NOVU('', CHR ''F''), (''0NOVU1'', CHR ''F''), (''0NOVU;'', CHR ''F''),
    (''0NOVUC'', CHR ''F''), (''0NOVUE'', CHR ''F''), (''0NOVUF'', CHR ''F''),
    (''0NOVUK'', CHR ''F''), (''0NOVUO'', CHR ''F''), (''0NOVUS'', CHR ''F''),
    (''0NOVUT'', CHR ''F''), (''0NOVUV'', CHR ''F''), (''0NSO1U'', CHR ''F''),
    (''0NSONU'', CHR ''F''), (''0NSOSU'', CHR ''F''), (''0NSOVU'', CHR ''F''),
    (''0NSUE'', CHR ''F''), (''0NSUE;'', CHR ''F''), (''0NSUEC'', CHR ''F''),
    (''0NSUEK'', CHR ''F''), (''0NT(1)'', CHR ''F''), (''0NT(1O'', CHR ''F''),
    (''0NT(F('', CHR ''F''), (''0NT(N)'', CHR ''F''), (''0NT(NO'', CHR ''F''),
    (''0NT(S)'', CHR ''F''), (''0NT(SO'', CHR ''F''), (''0NT(V)'', CHR ''F''),
    (''0NT(VO'', CHR ''F''), (''0NT1(F'', CHR ''F''), (''0NT1O('', CHR ''F''),
    (''0NT1OF'', CHR ''F''), (''0NT1OS'', CHR ''F''), (''0NT1OV'', CHR ''F''),
    (''0NTE(1'', CHR ''F''), (''0NTE(F'', CHR ''F''), (''0NTE(N'', CHR ''F''),
    (''0NTE(S'', CHR ''F''), (''0NTE(V'', CHR ''F''), (''0NTE1N'', CHR ''F''),
    (''0NTE1O'', CHR ''F''), (''0NTEF('', CHR ''F''), (''0NTEK('', CHR ''F''),
    (''0NTEK1'', CHR ''F''), (''0NTEKF'', CHR ''F''), (''0NTEKN'', CHR ''F''),
    (''0NTEKS'', CHR ''F''), (''0NTEKV'', CHR ''F''), (''0NTENN'', CHR ''F''),
    (''0NTENO'', CHR ''F''), (''0NTESN'', CHR ''F''), (''0NTESO'', CHR ''F''),
    (''0NTEVN'', CHR ''F''), (''0NTEVO'', CHR ''F''), (''0NTF()'', CHR ''F''),
    (''0NTF(1'', CHR ''F''), (''0NTF(F'', CHR ''F''), (''0NTF(N'', CHR ''F''),
    (''0NTF(S'', CHR ''F''), (''0NTF(V'', CHR ''F''), (''0NTN(1'', CHR ''F''),
    (''0NTN(F'', CHR ''F''), (''0NTN(S'', CHR ''F''), (''0NTN(V'', CHR ''F''),
    (''0NTN1C'', CHR ''F''), (''0NTN1O'', CHR ''F''), (''0NTN;E'', CHR ''F''),
    (''0NTN;N'', CHR ''F''), (''0NTN;T'', CHR ''F''), (''0NTNE('', CHR ''F''),
    (''0NTNE1'', CHR ''F''), (''0NTNEF'', CHR ''F''), (''0NTNEN'', CHR ''F''),
    (''0NTNES'', CHR ''F''), (''0NTNEV'', CHR ''F''), (''0NTNF('', CHR ''F''),
    (''0NTNKN'', CHR ''F''), (''0NTNN:'', CHR ''F''), (''0NTNNC'', CHR ''F''),
    (''0NTNNO'', CHR ''F''), (''0NTNO('', CHR ''F''), (''0NTNOF'', CHR ''F''),
    (''0NTNOS'', CHR ''F''), (''0NTNOV'', CHR ''F''), (''0NTNSC'', CHR ''F''),
    (''0NTNSO'', CHR ''F''), (''0NTNT('', CHR ''F''), (''0NTNT1'', CHR ''F'')]"

lemma sql_keywords_30_chain: "kw_chain ''0NOV)E'' sql_keywords_30 ''0NTNT1''"
  by (simp add: sql_keywords_30_def)

lemma sql_keywords_30_words: "kw_words sql_keywords_30"
  by (simp add: sql_keywords_30_def kw_words_def kw_word_def)

lemma sql_keywords_30_length: "length sql_keywords_30 = 150"
  by (simp add: sql_keywords_30_def)

definition sql_keywords_31 :: "keyword_t list" where
  "sql_keywords_31 = [
    (''0NTNTF'', CHR ''F''), (''0NTNTN'', CHR ''F''), (''0NTNTS'', CHR ''F''),
    (''0NTNTV'', CHR ''F''), (''0NTNVC'', CHR ''F''), (''0NTNVO'', CHR ''F''),
    (''0NTS(F'', CHR ''F''), (''0NTSO('', CHR ''F''), (''0NTSO1'', CHR ''F''),
    (''0NTSOF'', CHR ''F''), (''0NTSON'', CHR ''F''), (''0NTSOS'', CHR ''F''),
    (''0NTSOV'', CHR ''F''), (''0NTTNE'', CHR ''F''), (''0NTTNK'', CHR ''F''),
    (''0NTTNN'', CHR ''F''), (''0NTTNT'', CHR ''F''), (''0NTV(1'', CHR ''F''),
    (''0NTV(F'', CHR ''F''), (''0NTVO('', CHR ''F''), (''0NTVOF'', CHR ''F''),
    (''0NTVOS'', CHR ''F''), (''0NU(1)'', CHR ''F''), (''0NU(1O'', CHR ''F''),
    (''0NU(E('', CHR ''F''), (''0NU(E1'', CHR ''F''), (''0NU(EF'', CHR ''F''),
    (''0NU(EK'', CHR ''F''), (''0NU(EN'', CHR ''F''), (''0NU(ES'', CHR ''F''),
    (''0NU(EV'', CHR ''F''), (''0NU(F('', CHR ''F''), (''0NU(N)'', CHR ''F''),
    (''0NU(NO'', CHR ''F''), (''0NU(S)'', CHR ''F''), (''0NU(SO'', CHR ''F''),
    (''0NU(V)'', CHR ''F''), (''0NU(VO'', CHR ''F''), (''0NU1,('', CHR ''F''),
    (''0NU1,F'', CHR ''F''), (''0NU1C'', CHR ''F''), (''0NU1O('', CHR ''F''),
    (''0NU1OF'', CHR ''F''), (''0NU1OS'', CHR ''F''), (''0NU1OV'', CHR ''F''),
    (''0NU;'', CHR ''F''), (''0NU;C'', CHR ''F''), (''0NUC'', CHR ''F''), (''0NUE'', CHR ''F''),
    (''0NUE(1'', CHR ''F''), (''0NUE(E'', CHR ''F''), (''0NUE(F'', CHR ''F''),
    (''0NUE(N'', CHR ''F''), (''0NUE(O'', CHR ''F''), (''0NUE(S'', CHR ''F''),
    (''0NUE(V'', CHR ''F''), (''0NUE1'', CHR ''F''), (''0NUE1&'', CHR ''F''),
    (''0NUE1('', CHR ''F''), (''0NUE1)'', CHR ''F''), (''0NUE1,'', CHR ''F''),
    (''0NUE1;'', CHR ''F''), (''0NUE1B'', CHR ''F''), (''0NUE1C'', CHR ''F''),
    (''0NUE1F'', CHR ''F''), (''0NUE1K'', CHR ''F''), (''0NUE1N'', CHR ''F''),
    (''0NUE1O'', CHR ''F''), (''0NUE1S'', CHR ''F''), (''0NUE1U'', CHR ''F''),
    (''0NUE1V'', CHR ''F''), (''0NUE;'', CHR ''F''), (''0NUE;C'', CHR ''F''),
    (''0NUEC'', CHR ''F''), (''0NUEF'', CHR ''F''), (''0NUEF('', CHR ''F''),
    (''0NUEF,'', CHR ''F''), (''0NUEF;'', CHR ''F''), (''0NUEFC'', CHR ''F''),
    (''0NUEK'', CHR ''F''), (''0NUEK('', CHR ''F''), (''0NUEK1'', CHR ''F''),
    (''0NUEK;'', CHR ''F''), (''0NUEKC'', CHR ''F''), (''0NUEKF'', CHR ''F''),
    (''0NUEKN'', CHR ''F''), (''0NUEKO'', CHR ''F''), (''0NUEKS'', CHR ''F''),
    (''0NUEKV'', CHR ''F''), (''0NUEN'', CHR ''F''), (''0NUEN&'', CHR ''F''),
    (''0NUEN('', CHR ''F''), (''0NUEN)'', CHR ''F''), (''0NUEN,'', CHR ''F''),
    (''0NUEN1'', CHR ''F''), (''0NUEN;'', CHR ''F''), (''0NUENB'', CHR ''F''),
    (''0NUENC'', CHR ''F''), (''0NUENF'', CHR ''F''), (''0NUENK'', CHR ''F''),
    (''0NUENO'', CHR ''F''), (''0NUENS'', CHR ''F''), (''0NUENU'', CHR ''F''),
    (''0NUEOK'', CHR ''F''), (''0NUEON'', CHR ''F''), (''0NUES'', CHR ''F''),
    (''0NUES&'', CHR ''F''), (''0NUES('', CHR ''F''), (''0NUES)'', CHR ''F''),
    (''0NUES,'', CHR ''F''), (''0NUES1'', CHR ''F''), (''0NUES;'', CHR ''F''),
    (''0NUESB'', CHR ''F''), (''0NUESC'', CHR ''F''), (''0NUESF'', CHR ''F''),
    (''0NUESK'', CHR ''F''), (''0NUESO'', CHR ''F''), (''0NUESU'', CHR ''F''),
    (''0NUESV'', CHR ''F''), (''0NUEV'', CHR ''F''), (''0NUEV&'', CHR ''F''),
    (''0NUEV('', CHR ''F''), (''0NUEV)'', CHR ''F''), (''0NUEV,'', CHR ''F''),
    (''0NUEV;'', CHR ''F''), (''0NUEVB'', CHR ''F''), (''0NUEVC'', CHR ''F''),
    (''0NUEVF'', CHR ''F''), (''0NUEVK'', CHR ''F''), (''0NUEVN'', CHR ''F''),
    (''0NUEVO'', CHR ''F''), (''0NUEVS'', CHR ''F''), (''0NUEVU'', CHR ''F''),
    (''0NUF()'', CHR ''F''), (''0NUF(1'', CHR ''F''), (''0NUF(F'', CHR ''F''),
    (''0NUF(N'', CHR ''F''), (''0NUF(S'', CHR ''F''), (''0NUF(V'', CHR ''F''),
    (''0NUK(E'', CHR ''F''), (''0NUO(E'', CHR ''F''), (''0NUON('', CHR ''F''),
    (''0NUON1'', CHR ''F''), (''0NUONF'', CHR ''F''), (''0NUONS'', CHR ''F''),
    (''0NUS,('', CHR ''F''), (''0NUS,F'', CHR ''F''), (''0NUSC'', CHR ''F''),
    (''0NUSO('', CHR ''F''), (''0NUSO1'', CHR ''F'')]"

lemma sql_keywords_31_chain: "kw_chain ''0NTNT1'' sql_keywords_31 ''0NUSO1''"
  by (simp add: sql_keywords_31_def)

lemma sql_keywords_31_words: "kw_words sql_keywords_31"
  by (simp add: sql_keywords_31_def kw_words_def kw_word_def)

lemma sql_keywords_31_length: "length sql_keywords_31 = 150"
  by (simp add: sql_keywords_31_def)

end
