(* ===== verification/Sqli_Keywords_4.thy ===== *)
theory Sqli_Keywords_4
  imports Sqli_Word_Order
begin

text \<open>
  Part 4 of the table \<open>sql_keywords\<close> of \<open>src/src/headers/libinjection_sqli_data.h\<close>
  (lines 5098 to 6297), in slices of at most 150 entries in the order of the source. Each slice
  \<open>sql_keywords_n\<close> comes with the fact that it continues the strictly ascending chain
  of words from the last word of the slice before it to its own last word.
\<close>

definition sql_keywords_32 :: "keyword_t list" where
  "sql_keywords_32 = [
    (''0NUSOF'', CHR ''F''), (''0NUSON'', CHR ''F''), (''0NUSOS'', CHR ''F''),
    (''0NUSOV'', CHR ''F''), (''0NUTN('', CHR ''F''), (''0NUTN1'', CHR ''F''),
    (''0NUTNF'', CHR ''F''), (''0NUTNN'', CHR ''F''), (''0NUTNS'', CHR ''F''),
    (''0NUTNV'', CHR ''F''), (''0NUV,('', CHR ''F''), (''0NUV,F'', CHR ''F''),
    (''0NUVC'', CHR ''F''), (''0NUVO('', CHR ''F''), (''0NUVOF'', CHR ''F''),
    (''0NUVOS'', CHR ''F''), (''0S&(1&'', CHR ''F''), (''0S&(1)'', CHR ''F''),
    (''0S&(1,'', CHR ''F''), (''0S&(1O'', CHR ''F''), (''0S&(E('', CHR ''F''),
    (''0S&(E1'', CHR ''F''), (''0S&(EF'', CHR ''F''), (''0S&(EK'', CHR ''F''),
    (''0S&(EN'', CHR ''F''), (''0S&(EO'', CHR ''F''), (''0S&(ES'', CHR ''F''),
    (''0S&(EV'', CHR ''F''), (''0S&(F('', CHR ''F''), (''0S&(N&'', CHR ''F''),
    (''0S&(N)'', CHR ''F''), (''0S&(N,'', CHR ''F''), (''0S&(NO'', CHR ''F''),
    (''0S&(S&'', CHR ''F''), (''0S&(S)'', CHR ''F''), (''0S&(S,'', CHR ''F''),
    (''0S&(SO'', CHR ''F''), (''0S&(V&'', CHR ''F''), (''0S&(V)'', CHR ''F''),
    (''0S&(V,'', CHR ''F''), (''0S&(VO'', CHR ''F''), (''0S&1'', CHR ''F''),
    (''0S&1&('', CHR ''F''), (''0S&1&1'', CHR ''F''), (''0S&1&F'', CHR ''F''),
    (''0S&1&N'', CHR ''F''), (''0S&1&S'', CHR ''F''), (''0S&1&V'', CHR ''F''),
    (''0S&1)&'', CHR ''F''), (''0S&1)C'', CHR ''F''), (''0S&1)O'', CHR ''F''),
    (''0S&1)U'', CHR ''F''), (''0S&1;'', CHR ''F''), (''0S&1;C'', CHR ''F''),
    (''0S&1;E'', CHR ''F''), (''0S&1;T'', CHR ''F''), (''0S&1B('', CHR ''F''),
    (''0S&1B1'', CHR ''F''), (''0S&1BF'', CHR ''F''), (''0S&1BN'', CHR ''F''),
    (''0S&1BS'', CHR ''F''), (''0S&1BV'', CHR ''F''), (''0S&1C'', CHR ''F''),
    (''0S&1EK'', CHR ''F''), (''0S&1EN'', CHR ''F''), (''0S&1F('', CHR ''F''),
    (''0S&1K('', CHR ''F''), (''0S&1K1'', CHR ''F''), (''0S&1KF'', CHR ''F''),
    (''0S&1KN'', CHR ''F''), (''0S&1KS'', CHR ''F''), (''0S&1KV'', CHR ''F''),
    (''0S&1O('', CHR ''F''), (''0S&1OF'', CHR ''F''), (''0S&1OS'', CHR ''F''),
    (''0S&1OV'', CHR ''F''), (''0S&1TN'', CHR ''F''), (''0S&1U'', CHR ''F''),
    (''0S&1U('', CHR ''F''), (''0S&1U;'', CHR ''F''), (''0S&1UC'', CHR ''F''),
    (''0S&1UE'', CHR ''F''), (''0S&E(1'', CHR ''F''), (''0S&E(F'', CHR ''F''),
    (''0S&E(N'', CHR ''F''), (''0S&E(O'', CHR ''F''), (''0S&E(S'', CHR ''F''),
    (''0S&E(V'', CHR ''F''), (''0S&E1'', CHR ''F''), (''0S&E1;'', CHR ''F''),
    (''0S&E1C'', CHR ''F''), (''0S&E1K'', CHR ''F''), (''0S&E1O'', CHR ''F''),
    (''0S&EF('', CHR ''F''), (''0S&EK('', CHR ''F''), (''0S&EK1'', CHR ''F''),
    (''0S&EKF'', CHR ''F''), (''0S&EKN'', CHR ''F''), (''0S&EKS'', CHR ''F''),
    (''0S&EKV'', CHR ''F''), (''0S&EN'', CHR ''F''), (''0S&EN;'', CHR ''F''),
    (''0S&ENC'', CHR ''F''), (''0S&ENK'', CHR ''F''), (''0S&ENO'', CHR ''F''),
    (''0S&ES'', CHR ''F''), (''0S&ES;'', CHR ''F''), (''0S&ESC'', CHR ''F''),
    (''0S&ESK'', CHR ''F''), (''0S&ESO'', CHR ''F''), (''0S&EV'', CHR ''F''),
    (''0S&EV;'', CHR ''F''), (''0S&EVC'', CHR ''F''), (''0S&EVK'', CHR ''F''),
    (''0S&EVO'', CHR ''F''), (''0S&F()'', CHR ''F''), (''0S&F(1'', CHR ''F''),
    (''0S&F(E'', CHR ''F''), (''0S&F(F'', CHR ''F''), (''0S&F(N'', CHR ''F''),
    (''0S&F(S'', CHR ''F''), (''0S&F(V'', CHR ''F''), (''0S&K&('', CHR ''F''),
    (''0S&K&1'', CHR ''F''), (''0S&K&F'', CHR ''F''), (''0S&K&N'', CHR ''F''),
    (''0S&K&S'', CHR ''F''), (''0S&K&V'', CHR ''F''), (''0S&K(1'', CHR ''F''),
    (''0S&K(F'', CHR ''F''), (''0S&K(N'', CHR ''F''), (''0S&K(S'', CHR ''F''),
    (''0S&K(V'', CHR ''F''), (''0S&K1O'', CHR ''F''), (''0S&KC'', CHR ''F''),
    (''0S&KF('', CHR ''F''), (''0S&KNK'', CHR ''F''), (''0S&KO('', CHR ''F''),
    (''0S&KO1'', CHR ''F''), (''0S&KOF'', CHR ''F''), (''0S&KOK'', CHR ''F''),
    (''0S&KON'', CHR ''F''), (''0S&KOS'', CHR ''F''), (''0S&KOV'', CHR ''F''),
    (''0S&KSO'', CHR ''F''), (''0S&KVO'', CHR ''F''), (''0S&N'', CHR ''F''),
    (''0S&N&('', CHR ''F''), (''0S&N&1'', CHR ''F''), (''0S&N&F'', CHR ''F'')]"

lemma sql_keywords_32_chain: "kw_chain ''0NUSO1'' sql_keywords_32 ''0S&N&F''"
  by (simp add: sql_keywords_32_def)

lemma sql_keywords_32_words: "kw_words sql_keywords_32"
  by (simp add: sql_keywords_32_def kw_words_def kw_word_def)

lemma sql_keywords_32_length: "length sql_keywords_32 = 150"
  by (simp add: sql_keywords_32_def)

definition sql_keywords_33 :: "keyword_t list" where
  "sql_keywords_33 = [
    (''0S&N&N'', CHR ''F''), (''0S&N&S'', CHR ''F''), (''0S&N&V'', CHR ''F''),
    (''0S&N)&'', CHR ''F''), (''0S&N)C'', CHR ''F''), (''0S&N)O'', CHR ''F''),
    (''0S&N)U'', CHR ''F''), (''0S&N;'', CHR ''F''), (''0S&N;C'', CHR ''F''),
    (''0S&N;E'', CHR ''F''), (''0S&N;T'', CHR ''F''), (''0S&NB('', CHR ''F''),
    (''0S&NB1'', CHR ''F''), (''0S&NBF'', CHR ''F''), (''0S&NBN'', CHR ''F''),
    (''0S&NBS'', CHR ''F''), (''0S&NBV'', CHR ''F''), (''0S&NC'', CHR ''F''),
    (''0S&NEN'', CHR ''F''), (''0S&NF('', CHR ''F''), (''0S&NK('', CHR ''F''),
    (''0S&NK1'', CHR ''F''), (''0S&NKF'', CHR ''F''), (''0S&NKN'', CHR ''F''),
    (''0S&NKS'', CHR ''F''), (''0S&NKV'', CHR ''F''), (''0S&NO('', CHR ''F''),
    (''0S&NOF'', CHR ''F''), (''0S&NOS'', CHR ''F''), (''0S&NOV'', CHR ''F''),
    (''0S&NTN'', CHR ''F''), (''0S&NU'', CHR ''F''), (''0S&NU('', CHR ''F''),
    (''0S&NU;'', CHR ''F''), (''0S&NUC'', CHR ''F''), (''0S&NUE'', CHR ''F''),
    (''0S&S'', CHR ''F''), (''0S&S&('', CHR ''F''), (''0S&S&1'', CHR ''F''),
    (''0S&S&F'', CHR ''F''), (''0S&S&N'', CHR ''F''), (''0S&S&S'', CHR ''F''),
    (''0S&S&V'', CHR ''F''), (''0S&S)&'', CHR ''F''), (''0S&S)C'', CHR ''F''),
    (''0S&S)O'', CHR ''F''), (''0S&S)U'', CHR ''F''), (''0S&S1'', CHR ''F''),
    (''0S&S1;'', CHR ''F''), (''0S&S1C'', CHR ''F''), (''0S&S;'', CHR ''F''),
    (''0S&S;C'', CHR ''F''), (''0S&S;E'', CHR ''F''), (''0S&S;T'', CHR ''F''),
    (''0S&SB('', CHR ''F''), (''0S&SB1'', CHR ''F''), (''0S&SBF'', CHR ''F''),
    (''0S&SBN'', CHR ''F''), (''0S&SBS'', CHR ''F''), (''0S&SBV'', CHR ''F''),
    (''0S&SC'', CHR ''F''), (''0S&SEK'', CHR ''F''), (''0S&SEN'', CHR ''F''),
    (''0S&SF('', CHR ''F''), (''0S&SK('', CHR ''F''), (''0S&SK1'', CHR ''F''),
    (''0S&SKF'', CHR ''F''), (''0S&SKN'', CHR ''F''), (''0S&SKS'', CHR ''F''),
    (''0S&SKV'', CHR ''F''), (''0S&SO('', CHR ''F''), (''0S&SO1'', CHR ''F''),
    (''0S&SOF'', CHR ''F''), (''0S&SON'', CHR ''F''), (''0S&SOS'', CHR ''F''),
    (''0S&SOV'', CHR ''F''), (''0S&STN'', CHR ''F''), (''0S&SU'', CHR ''F''),
    (''0S&SU('', CHR ''F''), (''0S&SU;'', CHR ''F''), (''0S&SUC'', CHR ''F''),
    (''0S&SUE'', CHR ''F''), (''0S&SV'', CHR ''F''), (''0S&SV;'', CHR ''F''),
    (''0S&SVC'', CHR ''F''), (''0S&SVO'', CHR ''F''), (''0S&V'', CHR ''F''),
    (''0S&V&('', CHR ''F''), (''0S&V&1'', CHR ''F''), (''0S&V&F'', CHR ''F''),
    (''0S&V&N'', CHR ''F''), (''0S&V&S'', CHR ''F''), (''0S&V&V'', CHR ''F''),
    (''0S&V)&'', CHR ''F''), (''0S&V)C'', CHR ''F''), (''0S&V)O'', CHR ''F''),
    (''0S&V)U'', CHR ''F''), (''0S&V;'', CHR ''F''), (''0S&V;C'', CHR ''F''),
    (''0S&V;E'', CHR ''F''), (''0S&V;T'', CHR ''F''), (''0S&VB('', CHR ''F''),
    (''0S&VB1'', CHR ''F''), (''0S&VBF'', CHR ''F''), (''0S&VBN'', CHR ''F''),
    (''0S&VBS'', CHR ''F''), (''0S&VBV'', CHR ''F''), (''0S&VC'', CHR ''F''),
    (''0S&VEK'', CHR ''F''), (''0S&VEN'', CHR ''F''), (''0S&VF('', CHR ''F''),
    (''0S&VK('', CHR ''F''), (''0S&VK1'', CHR ''F''), (''0S&VKF'', CHR ''F''),
    (''0S&VKN'', CHR ''F''), (''0S&VKS'', CHR ''F''), (''0S&VKV'', CHR ''F''),
    (''0S&VO('', CHR ''F''), (''0S&VOF'', CHR ''F''), (''0S&VOS'', CHR ''F''),
    (''0S&VS'', CHR ''F''), (''0S&VS;'', CHR ''F''), (''0S&VSC'', CHR ''F''),
    (''0S&VSO'', CHR ''F''), (''0S&VTN'', CHR ''F''), (''0S&VU'', CHR ''F''),
    (''0S&VU('', CHR ''F''), (''0S&VU;'', CHR ''F''), (''0S&VUC'', CHR ''F''),
    (''0S&VUE'', CHR ''F''), (''0S(EF('', CHR ''F''), (''0S(EKF'', CHR ''F''),
    (''0S(EKN'', CHR ''F''), (''0S(ENK'', CHR ''F''), (''0S(U(E'', CHR ''F''),
    (''0S)&(1'', CHR ''F''), (''0S)&(E'', CHR ''F''), (''0S)&(F'', CHR ''F''),
    (''0S)&(N'', CHR ''F''), (''0S)&(S'', CHR ''F''), (''0S)&(V'', CHR ''F''),
    (''0S)&1'', CHR ''F''), (''0S)&1&'', CHR ''F''), (''0S)&1)'', CHR ''F''),
    (''0S)&1;'', CHR ''F''), (''0S)&1B'', CHR ''F''), (''0S)&1C'', CHR ''F''),
    (''0S)&1F'', CHR ''F''), (''0S)&1O'', CHR ''F''), (''0S)&1U'', CHR ''F'')]"

lemma sql_keywords_33_chain: "kw_chain ''0S&N&F'' sql_keywords_33 ''0S)&1U''"
  by (simp add: sql_keywords_33_def)

lemma sql_keywords_33_words: "kw_words sql_keywords_33"
  by (simp add: sql_keywords_33_def kw_words_def kw_word_def)

lemma sql_keywords_33_length: "length sql_keywords_33 = 150"
  by (simp add: sql_keywords_33_def)

definition sql_keywords_34 :: "keyword_t list" where
  "sql_keywords_34 = [
    (''0S)&F('', CHR ''F''), (''0S)&N'', CHR ''F''), (''0S)&N&'', CHR ''F''),
    (''0S)&N)'', CHR ''F''), (''0S)&N;'', CHR ''F''), (''0S)&NB'', CHR ''F''),
    (''0S)&NC'', CHR ''F''), (''0S)&NF'', CHR ''F''), (''0S)&NO'', CHR ''F''),
    (''0S)&NU'', CHR ''F''), (''0S)&S'', CHR ''F''), (''0S)&S&'', CHR ''F''),
    (''0S)&S)'', CHR ''F''), (''0S)&S;'', CHR ''F''), (''0S)&SB'', CHR ''F''),
    (''0S)&SC'', CHR ''F''), (''0S)&SF'', CHR ''F''), (''0S)&SO'', CHR ''F''),
    (''0S)&SU'', CHR ''F''), (''0S)&V'', CHR ''F''), (''0S)&V&'', CHR ''F''),
    (''0S)&V)'', CHR ''F''), (''0S)&V;'', CHR ''F''), (''0S)&VB'', CHR ''F''),
    (''0S)&VC'', CHR ''F''), (''0S)&VF'', CHR ''F''), (''0S)&VO'', CHR ''F''),
    (''0S)&VU'', CHR ''F''), (''0S),(1'', CHR ''F''), (''0S),(F'', CHR ''F''),
    (''0S),(N'', CHR ''F''), (''0S),(S'', CHR ''F''), (''0S),(V'', CHR ''F''),
    (''0S);E('', CHR ''F''), (''0S);E1'', CHR ''F''), (''0S);EF'', CHR ''F''),
    (''0S);EK'', CHR ''F''), (''0S);EN'', CHR ''F''), (''0S);EO'', CHR ''F''),
    (''0S);ES'', CHR ''F''), (''0S);EV'', CHR ''F''), (''0S);T('', CHR ''F''),
    (''0S);T1'', CHR ''F''), (''0S);TF'', CHR ''F''), (''0S);TK'', CHR ''F''),
    (''0S);TN'', CHR ''F''), (''0S);TO'', CHR ''F''), (''0S);TS'', CHR ''F''),
    (''0S);TV'', CHR ''F''), (''0S)B(1'', CHR ''F''), (''0S)B(F'', CHR ''F''),
    (''0S)B(N'', CHR ''F''), (''0S)B(S'', CHR ''F''), (''0S)B(V'', CHR ''F''),
    (''0S)B1'', CHR ''F''), (''0S)B1&'', CHR ''F''), (''0S)B1;'', CHR ''F''),
    (''0S)B1C'', CHR ''F''), (''0S)B1K'', CHR ''F''), (''0S)B1N'', CHR ''F''),
    (''0S)B1O'', CHR ''F''), (''0S)B1U'', CHR ''F''), (''0S)BF('', CHR ''F''),
    (''0S)BN'', CHR ''F''), (''0S)BN&'', CHR ''F''), (''0S)BN;'', CHR ''F''),
    (''0S)BNC'', CHR ''F''), (''0S)BNK'', CHR ''F''), (''0S)BNO'', CHR ''F''),
    (''0S)BNU'', CHR ''F''), (''0S)BS'', CHR ''F''), (''0S)BS&'', CHR ''F''),
    (''0S)BS;'', CHR ''F''), (''0S)BSC'', CHR ''F''), (''0S)BSK'', CHR ''F''),
    (''0S)BSO'', CHR ''F''), (''0S)BSU'', CHR ''F''), (''0S)BV'', CHR ''F''),
    (''0S)BV&'', CHR ''F''), (''0S)BV;'', CHR ''F''), (''0S)BVC'', CHR ''F''),
    (''0S)BVK'', CHR ''F''), (''0S)BVO'', CHR ''F''), (''0S)BVU'', CHR ''F''),
    (''0S)C'', CHR ''F''), (''0S)E(1'', CHR ''F''), (''0S)E(F'', CHR ''F''),
    (''0S)E(N'', CHR ''F''), (''0S)E(S'', CHR ''F''), (''0S)E(V'', CHR ''F''),
    (''0S)E1C'', CHR ''F''), (''0S)E1O'', CHR ''F''), (''0S)EF('', CHR ''F''),
    (''0S)EK('', CHR ''F''), (''0S)EK1'', CHR ''F''), (''0S)EKF'', CHR ''F''),
    (''0S)EKN'', CHR ''F''), (''0S)EKS'', CHR ''F''), (''0S)EKV'', CHR ''F''),
    (''0S)ENC'', CHR ''F''), (''0S)ENO'', CHR ''F''), (''0S)ESC'', CHR ''F''),
    (''0S)ESO'', CHR ''F''), (''0S)EVC'', CHR ''F''), (''0S)EVO'', CHR ''F''),
    (''0S)F(F'', CHR ''F''), (''0S)K(1'', CHR ''F''), (''0S)K(F'', CHR ''F''),
    (''0S)K(N'', CHR ''F''), (''0S)K(S'', CHR ''F''), (''0S)K(V'', CHR ''F''),
    (''0S)K1&'', CHR ''F''), (''0S)K1;'', CHR ''F''), (''0S)K1B'', CHR ''F''),
    (''0S)K1E'', CHR ''F''), (''0S)K1O'', CHR ''F''), (''0S)K1U'', CHR ''F''),
    (''0S)KB('', CHR ''F''), (''0S)KB1'', CHR ''F''), (''0S)KBF'', CHR ''F''),
    (''0S)KBN'', CHR ''F''), (''0S)KBS'', CHR ''F''), (''0S)KBV'', CHR ''F''),
    (''0S)KF('', CHR ''F''), (''0S)KN&'', CHR ''F''), (''0S)KN;'', CHR ''F''),
    (''0S)KNB'', CHR ''F''), (''0S)KNC'', CHR ''F''), (''0S)KNE'', CHR ''F''),
    (''0S)KNK'', CHR ''F''), (''0S)KNU'', CHR ''F''), (''0S)KS&'', CHR ''F''),
    (''0S)KS;'', CHR ''F''), (''0S)KSB'', CHR ''F''), (''0S)KSE'', CHR ''F''),
    (''0S)KSO'', CHR ''F''), (''0S)KSU'', CHR ''F''), (''0S)KUE'', CHR ''F''),
    (''0S)KV&'', CHR ''F''), (''0S)KV;'', CHR ''F''), (''0S)KVB'', CHR ''F''),
    (''0S)KVE'', CHR ''F''), (''0S)KVO'', CHR ''F''), (''0S)KVU'', CHR ''F''),
    (''0S)O(1'', CHR ''F''), (''0S)O(E'', CHR ''F''), (''0S)O(F'', CHR ''F''),
    (''0S)O(N'', CHR ''F''), (''0S)O(S'', CHR ''F''), (''0S)O(V'', CHR ''F'')]"

lemma sql_keywords_34_chain: "kw_chain ''0S)&1U'' sql_keywords_34 ''0S)O(V''"
  by (simp add: sql_keywords_34_def)

lemma sql_keywords_34_words: "kw_words sql_keywords_34"
  by (simp add: sql_keywords_34_def kw_words_def kw_word_def)

lemma sql_keywords_34_length: "length sql_keywords_34 = 150"
  by (simp add: sql_keywords_34_def)

definition sql_keywords_35 :: "keyword_t list" where
  "sql_keywords_35 = [
    (''0S)O1'', CHR ''F''), (''0S)O1&'', CHR ''F''), (''0S)O1)'', CHR ''F''),
    (''0S)O1;'', CHR ''F''), (''0S)O1B'', CHR ''F''), (''0S)O1C'', CHR ''F''),
    (''0S)O1K'', CHR ''F''), (''0S)O1U'', CHR ''F''), (''0S)OF('', CHR ''F''),
    (''0S)ON&'', CHR ''F''), (''0S)ON)'', CHR ''F''), (''0S)ON;'', CHR ''F''),
    (''0S)ONB'', CHR ''F''), (''0S)ONC'', CHR ''F''), (''0S)ONK'', CHR ''F''),
    (''0S)ONU'', CHR ''F''), (''0S)OS'', CHR ''F''), (''0S)OS&'', CHR ''F''),
    (''0S)OS)'', CHR ''F''), (''0S)OS;'', CHR ''F''), (''0S)OSB'', CHR ''F''),
    (''0S)OSC'', CHR ''F''), (''0S)OSK'', CHR ''F''), (''0S)OSU'', CHR ''F''),
    (''0S)OV'', CHR ''F''), (''0S)OV&'', CHR ''F''), (''0S)OV)'', CHR ''F''),
    (''0S)OV;'', CHR ''F''), (''0S)OVB'', CHR ''F''), (''0S)OVC'', CHR ''F''),
    (''0S)OVK'', CHR ''F''), (''0S)OVO'', CHR ''F''), (''0S)OVU'', CHR ''F''),
    (''0S)U(E'', CHR ''F''), (''0S)UE('', CHR ''F''), (''0S)UE1'', CHR ''F''),
    (''0S)UEF'', CHR ''F''), (''0S)UEK'', CHR ''F''), (''0S)UEN'', CHR ''F''),
    (''0S)UES'', CHR ''F''), (''0S)UEV'', CHR ''F''), (''0S,(1)'', CHR ''F''),
    (''0S,(1O'', CHR ''F''), (''0S,(E('', CHR ''F''), (''0S,(E1'', CHR ''F''),
    (''0S,(EF'', CHR ''F''), (''0S,(EK'', CHR ''F''), (''0S,(EN'', CHR ''F''),
    (''0S,(ES'', CHR ''F''), (''0S,(EV'', CHR ''F''), (''0S,(F('', CHR ''F''),
    (''0S,(N)'', CHR ''F''), (''0S,(NO'', CHR ''F''), (''0S,(S)'', CHR ''F''),
    (''0S,(SO'', CHR ''F''), (''0S,(V)'', CHR ''F''), (''0S,(VO'', CHR ''F''),
    (''0S,F()'', CHR ''F''), (''0S,F(1'', CHR ''F''), (''0S,F(F'', CHR ''F''),
    (''0S,F(N'', CHR ''F''), (''0S,F(S'', CHR ''F''), (''0S,F(V'', CHR ''F''),
    (''0S1F()'', CHR ''F''), (''0S1F(1'', CHR ''F''), (''0S1F(F'', CHR ''F''),
    (''0S1F(N'', CHR ''F''), (''0S1F(S'', CHR ''F''), (''0S1F(V'', CHR ''F''),
    (''0S1NC'', CHR ''F''), (''0S1S;'', CHR ''F''), (''0S1S;C'', CHR ''F''),
    (''0S1SC'', CHR ''F''), (''0S1UE'', CHR ''F''), (''0S1UE;'', CHR ''F''),
    (''0S1UEC'', CHR ''F''), (''0S1UEK'', CHR ''F''), (''0S1V'', CHR ''F''),
    (''0S1V;'', CHR ''F''), (''0S1V;C'', CHR ''F''), (''0S1VC'', CHR ''F''),
    (''0S1VO('', CHR ''F''), (''0S1VOF'', CHR ''F''), (''0S1VOS'', CHR ''F''),
    (''0S;E(1'', CHR ''F''), (''0S;E(E'', CHR ''F''), (''0S;E(F'', CHR ''F''),
    (''0S;E(N'', CHR ''F''), (''0S;E(S'', CHR ''F''), (''0S;E(V'', CHR ''F''),
    (''0S;E1,'', CHR ''F''), (''0S;E1;'', CHR ''F''), (''0S;E1C'', CHR ''F''),
    (''0S;E1K'', CHR ''F''), (''0S;E1O'', CHR ''F''), (''0S;E1T'', CHR ''F''),
    (''0S;EF('', CHR ''F''), (''0S;EK('', CHR ''F''), (''0S;EK1'', CHR ''F''),
    (''0S;EKF'', CHR ''F''), (''0S;EKN'', CHR ''F''), (''0S;EKO'', CHR ''F''),
    (''0S;EKS'', CHR ''F''), (''0S;EKV'', CHR ''F''), (''0S;EN,'', CHR ''F''),
    (''0S;EN;'', CHR ''F''), (''0S;ENC'', CHR ''F''), (''0S;ENE'', CHR ''F''),
    (''0S;ENK'', CHR ''F''), (''0S;ENO'', CHR ''F''), (''0S;ENT'', CHR ''F''),
    (''0S;ES,'', CHR ''F''), (''0S;ES;'', CHR ''F''), (''0S;ESC'', CHR ''F''),
    (''0S;ESK'', CHR ''F''), (''0S;ESO'', CHR ''F''), (''0S;EST'', CHR ''F''),
    (''0S;EV,'', CHR ''F''), (''0S;EV;'', CHR ''F''), (''0S;EVC'', CHR ''F''),
    (''0S;EVK'', CHR ''F''), (''0S;EVO'', CHR ''F''), (''0S;EVT'', CHR ''F''),
    (''0S;N:T'', CHR ''F''), (''0S;T(1'', CHR ''F''), (''0S;T(C'', CHR ''F''),
    (''0S;T(E'', CHR ''F''), (''0S;T(F'', CHR ''F''), (''0S;T(N'', CHR ''F''),
    (''0S;T(S'', CHR ''F''), (''0S;T(V'', CHR ''F''), (''0S;T1('', CHR ''F''),
    (''0S;T1,'', CHR ''F''), (''0S;T1;'', CHR ''F''), (''0S;T1C'', CHR ''F''),
    (''0S;T1F'', CHR ''F''), (''0S;T1K'', CHR ''F''), (''0S;T1O'', CHR ''F''),
    (''0S;T1T'', CHR ''F''), (''0S;T;'', CHR ''F''), (''0S;T;C'', CHR ''F''),
    (''0S;TF('', CHR ''F''), (''0S;TK('', CHR ''F''), (''0S;TK1'', CHR ''F''),
    (''0S;TKF'', CHR ''F''), (''0S;TKK'', CHR ''F''), (''0S;TKN'', CHR ''F''),
    (''0S;TKO'', CHR ''F''), (''0S;TKS'', CHR ''F''), (''0S;TKV'', CHR ''F'')]"

lemma sql_keywords_35_chain: "kw_chain ''0S)O(V'' sql_keywords_35 ''0S;TKV''"
  by (simp add: sql_keywords_35_def)

lemma sql_keywords_35_words: "kw_words sql_keywords_35"
  by (simp add: sql_keywords_35_def kw_words_def kw_word_def)

lemma sql_keywords_35_length: "length sql_keywords_35 = 150"
  by (simp add: sql_keywords_35_def)

definition sql_keywords_36 :: "keyword_t list" where
  "sql_keywords_36 = [
    (''0S;TN('', CHR ''F''), (''0S;TN,'', CHR ''F''), (''0S;TN1'', CHR ''F''),
    (''0S;TN;'', CHR ''F''), (''0S;TNC'', CHR ''F''), (''0S;TNE'', CHR ''F''),
    (''0S;TNF'', CHR ''F''), (''0S;TNK'', CHR ''F''), (''0S;TNN'', CHR ''F''),
    (''0S;TNO'', CHR ''F''), (''0S;TNS'', CHR ''F''), (''0S;TNT'', CHR ''F''),
    (''0S;TNV'', CHR ''F''), (''0S;TO('', CHR ''F''), (''0S;TS('', CHR ''F''),
    (''0S;TS,'', CHR ''F''), (''0S;TS;'', CHR ''F''), (''0S;TSC'', CHR ''F''),
    (''0S;TSF'', CHR ''F''), (''0S;TSK'', CHR ''F''), (''0S;TSO'', CHR ''F''),
    (''0S;TST'', CHR ''F''), (''0S;TTN'', CHR ''F''), (''0S;TV('', CHR ''F''),
    (''0S;TV,'', CHR ''F''), (''0S;TV;'', CHR ''F''), (''0S;TVC'', CHR ''F''),
    (''0S;TVF'', CHR ''F''), (''0S;TVK'', CHR ''F''), (''0S;TVO'', CHR ''F''),
    (''0S;TVT'', CHR ''F''), (''0SA(F('', CHR ''F''), (''0SA(N)'', CHR ''F''),
    (''0SA(NO'', CHR ''F''), (''0SA(S)'', CHR ''F''), (''0SA(SO'', CHR ''F''),
    (''0SA(V)'', CHR ''F''), (''0SA(VO'', CHR ''F''), (''0SAF()'', CHR ''F''),
    (''0SAF(1'', CHR ''F''), (''0SAF(F'', CHR ''F''), (''0SAF(N'', CHR ''F''),
    (''0SAF(S'', CHR ''F''), (''0SAF(V'', CHR ''F''), (''0SASO('', CHR ''F''),
    (''0SASO1'', CHR ''F''), (''0SASOF'', CHR ''F''), (''0SASON'', CHR ''F''),
    (''0SASOS'', CHR ''F''), (''0SASOV'', CHR ''F''), (''0SASUE'', CHR ''F''),
    (''0SATO('', CHR ''F''), (''0SATO1'', CHR ''F''), (''0SATOF'', CHR ''F''),
    (''0SATON'', CHR ''F''), (''0SATOS'', CHR ''F''), (''0SATOV'', CHR ''F''),
    (''0SATUE'', CHR ''F''), (''0SAVO('', CHR ''F''), (''0SAVOF'', CHR ''F''),
    (''0SAVOS'', CHR ''F''), (''0SAVUE'', CHR ''F''), (''0SB(1)'', CHR ''F''),
    (''0SB(1O'', CHR ''F''), (''0SB(F('', CHR ''F''), (''0SB(NO'', CHR ''F''),
    (''0SB(S)'', CHR ''F''), (''0SB(SO'', CHR ''F''), (''0SB(V)'', CHR ''F''),
    (''0SB(VO'', CHR ''F''), (''0SB1'', CHR ''F''), (''0SB1&('', CHR ''F''),
    (''0SB1&1'', CHR ''F''), (''0SB1&F'', CHR ''F''), (''0SB1&N'', CHR ''F''),
    (''0SB1&S'', CHR ''F''), (''0SB1&V'', CHR ''F''), (''0SB1,('', CHR ''F''),
    (''0SB1,F'', CHR ''F''), (''0SB1;'', CHR ''F''), (''0SB1;C'', CHR ''F''),
    (''0SB1B('', CHR ''F''), (''0SB1B1'', CHR ''F''), (''0SB1BF'', CHR ''F''),
    (''0SB1BN'', CHR ''F''), (''0SB1BS'', CHR ''F''), (''0SB1BV'', CHR ''F''),
    (''0SB1C'', CHR ''F''), (''0SB1K('', CHR ''F''), (''0SB1K1'', CHR ''F''),
    (''0SB1KF'', CHR ''F''), (''0SB1KN'', CHR ''F''), (''0SB1KS'', CHR ''F''),
    (''0SB1KV'', CHR ''F''), (''0SB1O('', CHR ''F''), (''0SB1OF'', CHR ''F''),
    (''0SB1OS'', CHR ''F''), (''0SB1OV'', CHR ''F''), (''0SB1U('', CHR ''F''),
    (''0SB1UE'', CHR ''F''), (''0SBE(1'', CHR ''F''), (''0SBE(F'', CHR ''F''),
    (''0SBE(N'', CHR ''F''), (''0SBE(S'', CHR ''F''), (''0SBE(V'', CHR ''F''),
    (''0SBEK('', CHR ''F''), (''0SBF()'', CHR ''F''), (''0SBF(1'', CHR ''F''),
    (''0SBF(F'', CHR ''F''), (''0SBF(N'', CHR ''F''), (''0SBF(S'', CHR ''F''),
    (''0SBF(V'', CHR ''F''), (''0SBN'', CHR ''F''), (''0SBN&('', CHR ''F''),
    (''0SBN&1'', CHR ''F''), (''0SBN&F'', CHR ''F''), (''0SBN&N'', CHR ''F''),
    (''0SBN&S'', CHR ''F''), (''0SBN&V'', CHR ''F''), (''0SBN,('', CHR ''F''),
    (''0SBN,F'', CHR ''F''), (''0SBN;'', CHR ''F''), (''0SBN;C'', CHR ''F''),
    (''0SBNB('', CHR ''F''), (''0SBNB1'', CHR ''F''), (''0SBNBF'', CHR ''F''),
    (''0SBNBN'', CHR ''F''), (''0SBNBS'', CHR ''F''), (''0SBNBV'', CHR ''F''),
    (''0SBNC'', CHR ''F''), (''0SBNK('', CHR ''F''), (''0SBNK1'', CHR ''F''),
    (''0SBNKF'', CHR ''F''), (''0SBNKN'', CHR ''F''), (''0SBNKS'', CHR ''F''),
    (''0SBNKV'', CHR ''F''), (''0SBNO('', CHR ''F''), (''0SBNOF'', CHR ''F''),
    (''0SBNOS'', CHR ''F''), (''0SBNOV'', CHR ''F''), (''0SBNU('', CHR ''F''),
    (''0SBNUE'', CHR ''F''), (''0SBS'', CHR ''F''), (''0SBS&('', CHR ''F''),
    (''0SBS&1'', CHR ''F''), (''0SBS&F'', CHR ''F''), (''0SBS&N'', CHR ''F''),
    (''0SBS&S'', CHR ''F''), (''0SBS&V'', CHR ''F''), (''0SBS,('', CHR ''F'')]"

lemma sql_keywords_36_chain: "kw_chain ''0S;TKV'' sql_keywords_36 ''0SBS,(''"
  by (simp add: sql_keywords_36_def)

lemma sql_keywords_36_words: "kw_words sql_keywords_36"
  by (simp add: sql_keywords_36_def kw_words_def kw_word_def)

lemma sql_keywords_36_length: "length sql_keywords_36 = 150"
  by (simp add: sql_keywords_36_def)

definition sql_keywords_37 :: "keyword_t list" where
  "sql_keywords_37 = [
    (''0SBS,F'', CHR ''F''), (''0SBS;'', CHR ''F''), (''0SBS;C'', CHR ''F''),
    (''0SBSB('', CHR ''F''), (''0SBSB1'', CHR ''F''), (''0SBSBF'', CHR ''F''),
    (''0SBSBN'', CHR ''F''), (''0SBSBS'', CHR ''F''), (''0SBSBV'', CHR ''F''),
    (''0SBSC'', CHR ''F''), (''0SBSK('', CHR ''F''), (''0SBSK1'', CHR ''F''),
    (''0SBSKF'', CHR ''F''), (''0SBSKN'', CHR ''F''), (''0SBSKS'', CHR ''F''),
    (''0SBSKV'', CHR ''F''), (''0SBSO('', CHR ''F''), (''0SBSO1'', CHR ''F''),
    (''0SBSOF'', CHR ''F''), (''0SBSON'', CHR ''F''), (''0SBSOS'', CHR ''F''),
    (''0SBSOV'', CHR ''F''), (''0SBSU('', CHR ''F''), (''0SBSUE'', CHR ''F''),
    (''0SBV'', CHR ''F''), (''0SBV&('', CHR ''F''), (''0SBV&1'', CHR ''F''),
    (''0SBV&F'', CHR ''F''), (''0SBV&N'', CHR ''F''), (''0SBV&S'', CHR ''F''),
    (''0SBV&V'', CHR ''F''), (''0SBV,('', CHR ''F''), (''0SBV,F'', CHR ''F''),
    (''0SBV;'', CHR ''F''), (''0SBV;C'', CHR ''F''), (''0SBVB('', CHR ''F''),
    (''0SBVB1'', CHR ''F''), (''0SBVBF'', CHR ''F''), (''0SBVBN'', CHR ''F''),
    (''0SBVBS'', CHR ''F''), (''0SBVBV'', CHR ''F''), (''0SBVC'', CHR ''F''),
    (''0SBVK('', CHR ''F''), (''0SBVK1'', CHR ''F''), (''0SBVKF'', CHR ''F''),
    (''0SBVKN'', CHR ''F''), (''0SBVKS'', CHR ''F''), (''0SBVKV'', CHR ''F''),
    (''0SBVO('', CHR ''F''), (''0SBVOF'', CHR ''F''), (''0SBVOS'', CHR ''F''),
    (''0SBVU('', CHR ''F''), (''0SBVUE'', CHR ''F''), (''0SC'', CHR ''F''),
    (''0SE(1)'', CHR ''F''), (''0SE(1O'', CHR ''F''), (''0SE(F('', CHR ''F''),
    (''0SE(N)'', CHR ''F''), (''0SE(NO'', CHR ''F''), (''0SE(S)'', CHR ''F''),
    (''0SE(SO'', CHR ''F''), (''0SE(V)'', CHR ''F''), (''0SE(VO'', CHR ''F''),
    (''0SE1;T'', CHR ''F''), (''0SE1C'', CHR ''F''), (''0SE1O('', CHR ''F''),
    (''0SE1OF'', CHR ''F''), (''0SE1OS'', CHR ''F''), (''0SE1OV'', CHR ''F''),
    (''0SE1T('', CHR ''F''), (''0SE1T1'', CHR ''F''), (''0SE1TF'', CHR ''F''),
    (''0SE1TN'', CHR ''F''), (''0SE1TS'', CHR ''F''), (''0SE1TV'', CHR ''F''),
    (''0SE1UE'', CHR ''F''), (''0SEF()'', CHR ''F''), (''0SEF(1'', CHR ''F''),
    (''0SEF(F'', CHR ''F''), (''0SEF(N'', CHR ''F''), (''0SEF(S'', CHR ''F''),
    (''0SEF(V'', CHR ''F''), (''0SEK(1'', CHR ''F''), (''0SEK(E'', CHR ''F''),
    (''0SEK(F'', CHR ''F''), (''0SEK(N'', CHR ''F''), (''0SEK(S'', CHR ''F''),
    (''0SEK(V'', CHR ''F''), (''0SEK1;'', CHR ''F''), (''0SEK1C'', CHR ''F''),
    (''0SEK1O'', CHR ''F''), (''0SEK1T'', CHR ''F''), (''0SEK1U'', CHR ''F''),
    (''0SEKF('', CHR ''F''), (''0SEKN;'', CHR ''F''), (''0SEKNC'', CHR ''F''),
    (''0SEKNE'', CHR ''F''), (''0SEKNT'', CHR ''F''), (''0SEKNU'', CHR ''F''),
    (''0SEKOK'', CHR ''F''), (''0SEKS;'', CHR ''F''), (''0SEKSC'', CHR ''F''),
    (''0SEKSO'', CHR ''F''), (''0SEKST'', CHR ''F''), (''0SEKSU'', CHR ''F''),
    (''0SEKU('', CHR ''F''), (''0SEKU1'', CHR ''F''), (''0SEKUE'', CHR ''F''),
    (''0SEKUF'', CHR ''F''), (''0SEKUS'', CHR ''F''), (''0SEKUV'', CHR ''F''),
    (''0SEKV;'', CHR ''F''), (''0SEKVC'', CHR ''F''), (''0SEKVO'', CHR ''F''),
    (''0SEKVT'', CHR ''F''), (''0SEKVU'', CHR ''F''), (''0SEN;T'', CHR ''F''),
    (''0SENC'', CHR ''F''), (''0SENEN'', CHR ''F''), (''0SENO('', CHR ''F''),
    (''0SENOF'', CHR ''F''), (''0SENOS'', CHR ''F''), (''0SENOV'', CHR ''F''),
    (''0SENT('', CHR ''F''), (''0SENT1'', CHR ''F''), (''0SENTF'', CHR ''F''),
    (''0SENTN'', CHR ''F''), (''0SENTS'', CHR ''F''), (''0SENTV'', CHR ''F''),
    (''0SENUE'', CHR ''F''), (''0SEOKN'', CHR ''F''), (''0SES;T'', CHR ''F''),
    (''0SESC'', CHR ''F''), (''0SESO('', CHR ''F''), (''0SESO1'', CHR ''F''),
    (''0SESOF'', CHR ''F''), (''0SESON'', CHR ''F''), (''0SESOS'', CHR ''F''),
    (''0SESOV'', CHR ''F''), (''0SEST('', CHR ''F''), (''0SEST1'', CHR ''F''),
    (''0SESTF'', CHR ''F''), (''0SESTN'', CHR ''F''), (''0SESTS'', CHR ''F''),
    (''0SESTV'', CHR ''F''), (''0SESUE'', CHR ''F''), (''0SEU(1'', CHR ''F''),
    (''0SEU(F'', CHR ''F''), (''0SEU(N'', CHR ''F''), (''0SEU(S'', CHR ''F'')]"

lemma sql_keywords_37_chain: "kw_chain ''0SBS,('' sql_keywords_37 ''0SEU(S''"
  by (simp add: sql_keywords_37_def)

lemma sql_keywords_37_words: "kw_words sql_keywords_37"
  by (simp add: sql_keywords_37_def kw_words_def kw_word_def)

lemma sql_keywords_37_length: "length sql_keywords_37 = 150"
  by (simp add: sql_keywords_37_def)

definition sql_keywords_38 :: "keyword_t list" where
  "sql_keywords_38 = [
    (''0SEU(V'', CHR ''F''), (''0SEU1,'', CHR ''F''), (''0SEU1C'', CHR ''F''),
    (''0SEU1O'', CHR ''F''), (''0SEUEF'', CHR ''F''), (''0SEUEK'', CHR ''F''),
    (''0SEUF('', CHR ''F''), (''0SEUS,'', CHR ''F''), (''0SEUSC'', CHR ''F''),
    (''0SEUSO'', CHR ''F''), (''0SEUV,'', CHR ''F''), (''0SEUVC'', CHR ''F''),
    (''0SEUVO'', CHR ''F''), (''0SEV;T'', CHR ''F''), (''0SEVC'', CHR ''F''),
    (''0SEVO('', CHR ''F''), (''0SEVOF'', CHR ''F''), (''0SEVOS'', CHR ''F''),
    (''0SEVT('', CHR ''F''), (''0SEVT1'', CHR ''F''), (''0SEVTF'', CHR ''F''),
    (''0SEVTN'', CHR ''F''), (''0SEVTS'', CHR ''F''), (''0SEVTV'', CHR ''F''),
    (''0SEVUE'', CHR ''F''), (''0SF()1'', CHR ''F''), (''0SF()F'', CHR ''F''),
    (''0SF()K'', CHR ''F''), (''0SF()N'', CHR ''F''), (''0SF()O'', CHR ''F''),
    (''0SF()S'', CHR ''F''), (''0SF()U'', CHR ''F''), (''0SF()V'', CHR ''F''),
    (''0SF(1)'', CHR ''F''), (''0SF(1N'', CHR ''F''), (''0SF(1O'', CHR ''F''),
    (''0SF(E('', CHR ''F''), (''0SF(E1'', CHR ''F''), (''0SF(EF'', CHR ''F''),
    (''0SF(EK'', CHR ''F''), (''0SF(EN'', CHR ''F''), (''0SF(ES'', CHR ''F''),
    (''0SF(EV'', CHR ''F''), (''0SF(F('', CHR ''F''), (''0SF(N)'', CHR ''F''),
    (''0SF(N,'', CHR ''F''), (''0SF(NO'', CHR ''F''), (''0SF(S)'', CHR ''F''),
    (''0SF(SO'', CHR ''F''), (''0SF(V)'', CHR ''F''), (''0SF(VO'', CHR ''F''),
    (''0SK(1)'', CHR ''F''), (''0SK(1O'', CHR ''F''), (''0SK(F('', CHR ''F''),
    (''0SK(N)'', CHR ''F''), (''0SK(NO'', CHR ''F''), (''0SK(S)'', CHR ''F''),
    (''0SK(SO'', CHR ''F''), (''0SK(V)'', CHR ''F''), (''0SK(VO'', CHR ''F''),
    (''0SK)&('', CHR ''F''), (''0SK)&1'', CHR ''F''), (''0SK)&F'', CHR ''F''),
    (''0SK)&N'', CHR ''F''), (''0SK)&S'', CHR ''F''), (''0SK)&V'', CHR ''F''),
    (''0SK);E'', CHR ''F''), (''0SK);T'', CHR ''F''), (''0SK)B('', CHR ''F''),
    (''0SK)B1'', CHR ''F''), (''0SK)BF'', CHR ''F''), (''0SK)BN'', CHR ''F''),
    (''0SK)BS'', CHR ''F''), (''0SK)BV'', CHR ''F''), (''0SK)E('', CHR ''F''),
    (''0SK)E1'', CHR ''F''), (''0SK)EF'', CHR ''F''), (''0SK)EK'', CHR ''F''),
    (''0SK)EN'', CHR ''F''), (''0SK)ES'', CHR ''F''), (''0SK)EV'', CHR ''F''),
    (''0SK)F('', CHR ''F''), (''0SK)O('', CHR ''F''), (''0SK)OF'', CHR ''F''),
    (''0SK)UE'', CHR ''F''), (''0SK1'', CHR ''F''), (''0SK1&('', CHR ''F''),
    (''0SK1&1'', CHR ''F''), (''0SK1&F'', CHR ''F''), (''0SK1&N'', CHR ''F''),
    (''0SK1&S'', CHR ''F''), (''0SK1&V'', CHR ''F''), (''0SK1;'', CHR ''F''),
    (''0SK1;C'', CHR ''F''), (''0SK1;E'', CHR ''F''), (''0SK1;T'', CHR ''F''),
    (''0SK1B('', CHR ''F''), (''0SK1B1'', CHR ''F''), (''0SK1BF'', CHR ''F''),
    (''0SK1BN'', CHR ''F''), (''0SK1BS'', CHR ''F''), (''0SK1BV'', CHR ''F''),
    (''0SK1C'', CHR ''F''), (''0SK1E('', CHR ''F''), (''0SK1E1'', CHR ''F''),
    (''0SK1EF'', CHR ''F''), (''0SK1EK'', CHR ''F''), (''0SK1EN'', CHR ''F''),
    (''0SK1ES'', CHR ''F''), (''0SK1EV'', CHR ''F''), (''0SK1O('', CHR ''F''),
    (''0SK1OF'', CHR ''F''), (''0SK1OS'', CHR ''F''), (''0SK1OV'', CHR ''F''),
    (''0SK1U('', CHR ''F''), (''0SK1UE'', CHR ''F''), (''0SKF()'', CHR ''F''),
    (''0SKF(1'', CHR ''F''), (''0SKF(F'', CHR ''F''), (''0SKF(N'', CHR ''F''),
    (''0SKF(S'', CHR ''F''), (''0SKF(V'', CHR ''F''), (''0SKN'', CHR ''F''),
    (''0SKN&('', CHR ''F''), (''0SKN&1'', CHR ''F''), (''0SKN&F'', CHR ''F''),
    (''0SKN&N'', CHR ''F''), (''0SKN&S'', CHR ''F''), (''0SKN&V'', CHR ''F''),
    (''0SKN;'', CHR ''F''), (''0SKN;C'', CHR ''F''), (''0SKN;E'', CHR ''F''),
    (''0SKN;T'', CHR ''F''), (''0SKNB('', CHR ''F''), (''0SKNB1'', CHR ''F''),
    (''0SKNBF'', CHR ''F''), (''0SKNBN'', CHR ''F''), (''0SKNBS'', CHR ''F''),
    (''0SKNBV'', CHR ''F''), (''0SKNC'', CHR ''F''), (''0SKNE('', CHR ''F''),
    (''0SKNE1'', CHR ''F''), (''0SKNEF'', CHR ''F''), (''0SKNEN'', CHR ''F''),
    (''0SKNES'', CHR ''F''), (''0SKNEV'', CHR ''F''), (''0SKNU('', CHR ''F''),
    (''0SKNUE'', CHR ''F''), (''0SKS'', CHR ''F''), (''0SKS&('', CHR ''F'')]"

lemma sql_keywords_38_chain: "kw_chain ''0SEU(S'' sql_keywords_38 ''0SKS&(''"
  by (simp add: sql_keywords_38_def)

lemma sql_keywords_38_words: "kw_words sql_keywords_38"
  by (simp add: sql_keywords_38_def kw_words_def kw_word_def)

lemma sql_keywords_38_length: "length sql_keywords_38 = 150"
  by (simp add: sql_keywords_38_def)

definition sql_keywords_39 :: "keyword_t list" where
  "sql_keywords_39 = [
    (''0SKS&1'', CHR ''F''), (''0SKS&F'', CHR ''F''), (''0SKS&N'', CHR ''F''),
    (''0SKS&S'', CHR ''F''), (''0SKS&V'', CHR ''F''), (''0SKS;'', CHR ''F''),
    (''0SKS;C'', CHR ''F''), (''0SKS;E'', CHR ''F''), (''0SKS;T'', CHR ''F''),
    (''0SKSB('', CHR ''F''), (''0SKSB1'', CHR ''F''), (''0SKSBF'', CHR ''F''),
    (''0SKSBN'', CHR ''F''), (''0SKSBS'', CHR ''F''), (''0SKSBV'', CHR ''F''),
    (''0SKSC'', CHR ''F''), (''0SKSE('', CHR ''F''), (''0SKSE1'', CHR ''F''),
    (''0SKSEF'', CHR ''F''), (''0SKSEK'', CHR ''F''), (''0SKSEN'', CHR ''F''),
    (''0SKSES'', CHR ''F''), (''0SKSEV'', CHR ''F''), (''0SKSO('', CHR ''F''),
    (''0SKSO1'', CHR ''F''), (''0SKSOF'', CHR ''F''), (''0SKSON'', CHR ''F''),
    (''0SKSOS'', CHR ''F''), (''0SKSOV'', CHR ''F''), (''0SKSU('', CHR ''F''),
    (''0SKSUE'', CHR ''F''), (''0SKUE('', CHR ''F''), (''0SKUE1'', CHR ''F''),
    (''0SKUEF'', CHR ''F''), (''0SKUEK'', CHR ''F''), (''0SKUEN'', CHR ''F''),
    (''0SKUES'', CHR ''F''), (''0SKUEV'', CHR ''F''), (''0SKV'', CHR ''F''),
    (''0SKV&('', CHR ''F''), (''0SKV&1'', CHR ''F''), (''0SKV&F'', CHR ''F''),
    (''0SKV&N'', CHR ''F''), (''0SKV&S'', CHR ''F''), (''0SKV&V'', CHR ''F''),
    (''0SKV;'', CHR ''F''), (''0SKV;C'', CHR ''F''), (''0SKV;E'', CHR ''F''),
    (''0SKV;T'', CHR ''F''), (''0SKVB('', CHR ''F''), (''0SKVB1'', CHR ''F''),
    (''0SKVBF'', CHR ''F''), (''0SKVBN'', CHR ''F''), (''0SKVBS'', CHR ''F''),
    (''0SKVBV'', CHR ''F''), (''0SKVC'', CHR ''F''), (''0SKVE('', CHR ''F''),
    (''0SKVE1'', CHR ''F''), (''0SKVEF'', CHR ''F''), (''0SKVEK'', CHR ''F''),
    (''0SKVEN'', CHR ''F''), (''0SKVES'', CHR ''F''), (''0SKVEV'', CHR ''F''),
    (''0SKVO('', CHR ''F''), (''0SKVOF'', CHR ''F''), (''0SKVOS'', CHR ''F''),
    (''0SKVU('', CHR ''F''), (''0SKVUE'', CHR ''F''), (''0SO(1&'', CHR ''F''),
    (''0SO(1)'', CHR ''F''), (''0SO(1,'', CHR ''F''), (''0SO(1O'', CHR ''F''),
    (''0SO(E('', CHR ''F''), (''0SO(E1'', CHR ''F''), (''0SO(EE'', CHR ''F''),
    (''0SO(EF'', CHR ''F''), (''0SO(EK'', CHR ''F''), (''0SO(EN'', CHR ''F''),
    (''0SO(EO'', CHR ''F''), (''0SO(ES'', CHR ''F''), (''0SO(EV'', CHR ''F''),
    (''0SO(F('', CHR ''F''), (''0SO(N&'', CHR ''F''), (''0SO(N)'', CHR ''F''),
    (''0SO(N,'', CHR ''F''), (''0SO(NO'', CHR ''F''), (''0SO(S&'', CHR ''F''),
    (''0SO(S)'', CHR ''F''), (''0SO(S,'', CHR ''F''), (''0SO(SO'', CHR ''F''),
    (''0SO(V&'', CHR ''F''), (''0SO(V)'', CHR ''F''), (''0SO(V,'', CHR ''F''),
    (''0SO(VO'', CHR ''F''), (''0SO1&('', CHR ''F''), (''0SO1&1'', CHR ''F''),
    (''0SO1&E'', CHR ''F''), (''0SO1&F'', CHR ''F''), (''0SO1&K'', CHR ''F''),
    (''0SO1&N'', CHR ''F''), (''0SO1&S'', CHR ''F''), (''0SO1&U'', CHR ''F''),
    (''0SO1&V'', CHR ''F''), (''0SO1(E'', CHR ''F''), (''0SO1(U'', CHR ''F''),
    (''0SO1)&'', CHR ''F''), (''0SO1),'', CHR ''F''), (''0SO1);'', CHR ''F''),
    (''0SO1)B'', CHR ''F''), (''0SO1)C'', CHR ''F''), (''0SO1)E'', CHR ''F''),
    (''0SO1)F'', CHR ''F''), (''0SO1)K'', CHR ''F''), (''0SO1)O'', CHR ''F''),
    (''0SO1)U'', CHR ''F''), (''0SO1,('', CHR ''F''), (''0SO1,F'', CHR ''F''),
    (''0SO1;'', CHR ''F''), (''0SO1;C'', CHR ''F''), (''0SO1;E'', CHR ''F''),
    (''0SO1;N'', CHR ''F''), (''0SO1;T'', CHR ''F''), (''0SO1A('', CHR ''F''),
    (''0SO1AF'', CHR ''F''), (''0SO1AS'', CHR ''F''), (''0SO1AT'', CHR ''F''),
    (''0SO1AV'', CHR ''F''), (''0SO1B('', CHR ''F''), (''0SO1B1'', CHR ''F''),
    (''0SO1BE'', CHR ''F''), (''0SO1BF'', CHR ''F''), (''0SO1BN'', CHR ''F''),
    (''0SO1BS'', CHR ''F''), (''0SO1BV'', CHR ''F''), (''0SO1C'', CHR ''F''),
    (''0SO1E('', CHR ''F''), (''0SO1E1'', CHR ''F''), (''0SO1EF'', CHR ''F''),
    (''0SO1EK'', CHR ''F''), (''0SO1EN'', CHR ''F''), (''0SO1EO'', CHR ''F''),
    (''0SO1ES'', CHR ''F''), (''0SO1EU'', CHR ''F''), (''0SO1EV'', CHR ''F''),
    (''0SO1F('', CHR ''F''), (''0SO1K('', CHR ''F''), (''0SO1K)'', CHR ''F''),
    (''0SO1K1'', CHR ''F''), (''0SO1KB'', CHR ''F''), (''0SO1KF'', CHR ''F'')]"

lemma sql_keywords_39_chain: "kw_chain ''0SKS&('' sql_keywords_39 ''0SO1KF''"
  by (simp add: sql_keywords_39_def)

lemma sql_keywords_39_words: "kw_words sql_keywords_39"
  by (simp add: sql_keywords_39_def kw_words_def kw_word_def)

lemma sql_keywords_39_length: "length sql_keywords_39 = 150"
  by (simp add: sql_keywords_39_def)

end
