(* ===== verification/Sqli_Keywords_5.thy ===== *)
theory Sqli_Keywords_5
  imports Sqli_Word_Order
begin

text \<open>
  Part 5 of the table \<open>sql_keywords\<close> of \<open>src/src/headers/libinjection_sqli_data.h\<close>
  (lines 6298 to 7497), in slices of at most 150 entries in the order of the source. Each slice
  \<open>sql_keywords_n\<close> comes with the fact that it continues the strictly ascending chain
  of words from the last word of the slice before it to its own last word.
\<close>

definition sql_keywords_40 :: "keyword_t list" where
  "sql_keywords_40 = [
    (''0SO1KN'', CHR ''F''), (''0SO1KS'', CHR ''F''), (''0SO1KU'', CHR ''F''),
    (''0SO1KV'', CHR ''F''), (''0SO1N&'', CHR ''F''), (''0SO1N('', CHR ''F''),
    (''0SO1N,'', CHR ''F''), (''0SO1NE'', CHR ''F''), (''0SO1NU'', CHR ''F''),
    (''0SO1SU'', CHR ''F''), (''0SO1SV'', CHR ''F''), (''0SO1T('', CHR ''F''),
    (''0SO1T1'', CHR ''F''), (''0SO1TE'', CHR ''F''), (''0SO1TF'', CHR ''F''),
    (''0SO1TN'', CHR ''F''), (''0SO1TS'', CHR ''F''), (''0SO1TT'', CHR ''F''),
    (''0SO1TV'', CHR ''F''), (''0SO1U'', CHR ''F''), (''0SO1U('', CHR ''F''),
    (''0SO1U1'', CHR ''F''), (''0SO1U;'', CHR ''F''), (''0SO1UC'', CHR ''F''),
    (''0SO1UE'', CHR ''F''), (''0SO1UF'', CHR ''F''), (''0SO1UK'', CHR ''F''),
    (''0SO1UO'', CHR ''F''), (''0SO1US'', CHR ''F''), (''0SO1UT'', CHR ''F''),
    (''0SO1UV'', CHR ''F''), (''0SO1V('', CHR ''F''), (''0SO1VF'', CHR ''F''),
    (''0SO1VO'', CHR ''F''), (''0SO1VS'', CHR ''F''), (''0SO1VU'', CHR ''F''),
    (''0SOF()'', CHR ''F''), (''0SOF(1'', CHR ''F''), (''0SOF(E'', CHR ''F''),
    (''0SOF(F'', CHR ''F''), (''0SOF(N'', CHR ''F''), (''0SOF(S'', CHR ''F''),
    (''0SOF(V'', CHR ''F''), (''0SOK&('', CHR ''F''), (''0SOK&1'', CHR ''F''),
    (''0SOK&F'', CHR ''F''), (''0SOK&N'', CHR ''F''), (''0SOK&S'', CHR ''F''),
    (''0SOK&V'', CHR ''F''), (''0SOK(1'', CHR ''F''), (''0SOK(F'', CHR ''F''),
    (''0SOK(N'', CHR ''F''), (''0SOK(S'', CHR ''F''), (''0SOK(V'', CHR ''F''),
    (''0SOK1C'', CHR ''F''), (''0SOK1O'', CHR ''F''), (''0SOKF('', CHR ''F''),
    (''0SOKNC'', CHR ''F''), (''0SOKO('', CHR ''F''), (''0SOKO1'', CHR ''F''),
    (''0SOKOF'', CHR ''F''), (''0SOKON'', CHR ''F''), (''0SOKOS'', CHR ''F''),
    (''0SOKOV'', CHR ''F''), (''0SOKSC'', CHR ''F''), (''0SOKSO'', CHR ''F''),
    (''0SOKVC'', CHR ''F''), (''0SOKVO'', CHR ''F''), (''0SON&('', CHR ''F''),
    (''0SON&1'', CHR ''F''), (''0SON&E'', CHR ''F''), (''0SON&F'', CHR ''F''),
    (''0SON&K'', CHR ''F''), (''0SON&N'', CHR ''F''), (''0SON&S'', CHR ''F''),
    (''0SON&U'', CHR ''F''), (''0SON&V'', CHR ''F''), (''0SON(1'', CHR ''F''),
    (''0SON(E'', CHR ''F''), (''0SON(F'', CHR ''F''), (''0SON(S'', CHR ''F''),
    (''0SON(U'', CHR ''F''), (''0SON(V'', CHR ''F''), (''0SON)&'', CHR ''F''),
    (''0SON),'', CHR ''F''), (''0SON);'', CHR ''F''), (''0SON)B'', CHR ''F''),
    (''0SON)C'', CHR ''F''), (''0SON)E'', CHR ''F''), (''0SON)F'', CHR ''F''),
    (''0SON)K'', CHR ''F''), (''0SON)O'', CHR ''F''), (''0SON)U'', CHR ''F''),
    (''0SON,('', CHR ''F''), (''0SON,F'', CHR ''F''), (''0SON1('', CHR ''F''),
    (''0SON1O'', CHR ''F''), (''0SON1U'', CHR ''F''), (''0SON1V'', CHR ''F''),
    (''0SON;'', CHR ''F''), (''0SON;C'', CHR ''F''), (''0SON;E'', CHR ''F''),
    (''0SON;N'', CHR ''F''), (''0SON;T'', CHR ''F''), (''0SONA('', CHR ''F''),
    (''0SONAF'', CHR ''F''), (''0SONAS'', CHR ''F''), (''0SONAT'', CHR ''F''),
    (''0SONAV'', CHR ''F''), (''0SONB('', CHR ''F''), (''0SONB1'', CHR ''F''),
    (''0SONBE'', CHR ''F''), (''0SONBF'', CHR ''F''), (''0SONBN'', CHR ''F''),
    (''0SONBS'', CHR ''F''), (''0SONBV'', CHR ''F''), (''0SONE('', CHR ''F''),
    (''0SONE1'', CHR ''F''), (''0SONEF'', CHR ''F''), (''0SONEN'', CHR ''F''),
    (''0SONEO'', CHR ''F''), (''0SONES'', CHR ''F''), (''0SONEU'', CHR ''F''),
    (''0SONEV'', CHR ''F''), (''0SONF('', CHR ''F''), (''0SONK('', CHR ''F''),
    (''0SONK)'', CHR ''F''), (''0SONK1'', CHR ''F''), (''0SONKB'', CHR ''F''),
    (''0SONKF'', CHR ''F''), (''0SONKS'', CHR ''F''), (''0SONKU'', CHR ''F''),
    (''0SONKV'', CHR ''F''), (''0SONSU'', CHR ''F''), (''0SONT('', CHR ''F''),
    (''0SONT1'', CHR ''F''), (''0SONTE'', CHR ''F''), (''0SONTF'', CHR ''F''),
    (''0SONTN'', CHR ''F''), (''0SONTS'', CHR ''F''), (''0SONTT'', CHR ''F''),
    (''0SONTV'', CHR ''F''), (''0SONU'', CHR ''F''), (''0SONU('', CHR ''F''),
    (''0SONU1'', CHR ''F''), (''0SONU;'', CHR ''F''), (''0SONUC'', CHR ''F''),
    (''0SONUE'', CHR ''F''), (''0SONUF'', CHR ''F''), (''0SONUK'', CHR ''F'')]"

lemma sql_keywords_40_chain: "kw_chain ''0SO1KF'' sql_keywords_40 ''0SONUK''"
  by (simp add: sql_keywords_40_def)

lemma sql_keywords_40_words: "kw_words sql_keywords_40"
  by (simp add: sql_keywords_40_def kw_words_def kw_word_def)

lemma sql_keywords_40_length: "length sql_keywords_40 = 150"
  by (simp add: sql_keywords_40_def)

definition sql_keywords_41 :: "keyword_t list" where
  "sql_keywords_41 = [
    (''0SONUO'', CHR ''F''), (''0SONUS'', CHR ''F''), (''0SONUT'', CHR ''F''),
    (''0SONUV'', CHR ''F''), (''0SOS'', CHR ''F''), (''0SOS&('', CHR ''F''),
    (''0SOS&1'', CHR ''F''), (''0SOS&E'', CHR ''F''), (''0SOS&F'', CHR ''F''),
    (''0SOS&K'', CHR ''F''), (''0SOS&N'', CHR ''F''), (''0SOS&S'', CHR ''F''),
    (''0SOS&U'', CHR ''F''), (''0SOS&V'', CHR ''F''), (''0SOS(E'', CHR ''F''),
    (''0SOS(U'', CHR ''F''), (''0SOS)&'', CHR ''F''), (''0SOS),'', CHR ''F''),
    (''0SOS);'', CHR ''F''), (''0SOS)B'', CHR ''F''), (''0SOS)C'', CHR ''F''),
    (''0SOS)E'', CHR ''F''), (''0SOS)F'', CHR ''F''), (''0SOS)K'', CHR ''F''),
    (''0SOS)O'', CHR ''F''), (''0SOS)U'', CHR ''F''), (''0SOS,('', CHR ''F''),
    (''0SOS,F'', CHR ''F''), (''0SOS1('', CHR ''F''), (''0SOS1F'', CHR ''F''),
    (''0SOS1N'', CHR ''F''), (''0SOS1S'', CHR ''F''), (''0SOS1U'', CHR ''F''),
    (''0SOS1V'', CHR ''F''), (''0SOS;'', CHR ''F''), (''0SOS;C'', CHR ''F''),
    (''0SOS;E'', CHR ''F''), (''0SOS;N'', CHR ''F''), (''0SOS;T'', CHR ''F''),
    (''0SOSA('', CHR ''F''), (''0SOSAF'', CHR ''F''), (''0SOSAS'', CHR ''F''),
    (''0SOSAT'', CHR ''F''), (''0SOSAV'', CHR ''F''), (''0SOSB('', CHR ''F''),
    (''0SOSB1'', CHR ''F''), (''0SOSBE'', CHR ''F''), (''0SOSBF'', CHR ''F''),
    (''0SOSBN'', CHR ''F''), (''0SOSBS'', CHR ''F''), (''0SOSBV'', CHR ''F''),
    (''0SOSC'', CHR ''F''), (''0SOSE('', CHR ''F''), (''0SOSE1'', CHR ''F''),
    (''0SOSEF'', CHR ''F''), (''0SOSEK'', CHR ''F''), (''0SOSEN'', CHR ''F''),
    (''0SOSEO'', CHR ''F''), (''0SOSES'', CHR ''F''), (''0SOSEU'', CHR ''F''),
    (''0SOSEV'', CHR ''F''), (''0SOSF('', CHR ''F''), (''0SOSK('', CHR ''F''),
    (''0SOSK)'', CHR ''F''), (''0SOSK1'', CHR ''F''), (''0SOSKB'', CHR ''F''),
    (''0SOSKF'', CHR ''F''), (''0SOSKN'', CHR ''F''), (''0SOSKS'', CHR ''F''),
    (''0SOSKU'', CHR ''F''), (''0SOSKV'', CHR ''F''), (''0SOST('', CHR ''F''),
    (''0SOST1'', CHR ''F''), (''0SOSTE'', CHR ''F''), (''0SOSTF'', CHR ''F''),
    (''0SOSTN'', CHR ''F''), (''0SOSTS'', CHR ''F''), (''0SOSTT'', CHR ''F''),
    (''0SOSTV'', CHR ''F''), (''0SOSU'', CHR ''F''), (''0SOSU('', CHR ''F''),
    (''0SOSU1'', CHR ''F''), (''0SOSU;'', CHR ''F''), (''0SOSUC'', CHR ''F''),
    (''0SOSUE'', CHR ''F''), (''0SOSUF'', CHR ''F''), (''0SOSUK'', CHR ''F''),
    (''0SOSUO'', CHR ''F''), (''0SOSUS'', CHR ''F''), (''0SOSUT'', CHR ''F''),
    (''0SOSUV'', CHR ''F''), (''0SOSV('', CHR ''F''), (''0SOSVF'', CHR ''F''),
    (''0SOSVO'', CHR ''F''), (''0SOSVS'', CHR ''F''), (''0SOSVU'', CHR ''F''),
    (''0SOU(E'', CHR ''F''), (''0SOUEK'', CHR ''F''), (''0SOUEN'', CHR ''F''),
    (''0SOV'', CHR ''F''), (''0SOV&('', CHR ''F''), (''0SOV&1'', CHR ''F''),
    (''0SOV&E'', CHR ''F''), (''0SOV&F'', CHR ''F''), (''0SOV&K'', CHR ''F''),
    (''0SOV&N'', CHR ''F''), (''0SOV&S'', CHR ''F''), (''0SOV&U'', CHR ''F''),
    (''0SOV&V'', CHR ''F''), (''0SOV(E'', CHR ''F''), (''0SOV(U'', CHR ''F''),
    (''0SOV)&'', CHR ''F''), (''0SOV),'', CHR ''F''), (''0SOV);'', CHR ''F''),
    (''0SOV)B'', CHR ''F''), (''0SOV)C'', CHR ''F''), (''0SOV)E'', CHR ''F''),
    (''0SOV)F'', CHR ''F''), (''0SOV)K'', CHR ''F''), (''0SOV)O'', CHR ''F''),
    (''0SOV)U'', CHR ''F''), (''0SOV,('', CHR ''F''), (''0SOV,F'', CHR ''F''),
    (''0SOV;'', CHR ''F''), (''0SOV;C'', CHR ''F''), (''0SOV;E'', CHR ''F''),
    (''0SOV;N'', CHR ''F''), (''0SOV;T'', CHR ''F''), (''0SOVA('', CHR ''F''),
    (''0SOVAF'', CHR ''F''), (''0SOVAS'', CHR ''F''), (''0SOVAT'', CHR ''F''),
    (''0SOVAV'', CHR ''F''), (''0SOVB('', CHR ''F''), (''0SOVB1'', CHR ''F''),
    (''0SOVBE'', CHR ''F''), (''0SOVBF'', CHR ''F''), (''0SOVBN'', CHR ''F''),
    (''0SOVBS'', CHR ''F''), (''0SOVBV'', CHR ''F''), (''0SOVC'', CHR ''F''),
    (''0SOVE('', CHR ''F''), (''0SOVE1'', CHR ''F''), (''0SOVEF'', CHR ''F''),
    (''0SOVEK'', CHR ''F''), (''0SOVEN'', CHR ''F''), (''0SOVEO'', CHR ''F''),
    (''0SOVES'', CHR ''F''), (''0SOVEU'', CHR ''F''), (''0SOVEV'', CHR ''F'')]"

lemma sql_keywords_41_chain: "kw_chain ''0SONUK'' sql_keywords_41 ''0SOVEV''"
  by (simp add: sql_keywords_41_def)

lemma sql_keywords_41_words: "kw_words sql_keywords_41"
  by (simp add: sql_keywords_41_def kw_words_def kw_word_def)

lemma sql_keywords_41_length: "length sql_keywords_41 = 150"
  by (simp add: sql_keywords_41_def)

definition sql_keywords_42 :: "keyword_t list" where
  "sql_keywords_42 = [
    (''0SOVF('', CHR ''F''), (''0SOVK('', CHR ''F''), (''0SOVK)'', CHR ''F''),
    (''0SOVK1'', CHR ''F''), (''0SOVKB'', CHR ''F''), (''0SOVKF'', CHR ''F''),
    (''0SOVKN'', CHR ''F''), (''0SOVKS'', CHR ''F''), (''0SOVKU'', CHR ''F''),
    (''0SOVKV'', CHR ''F''), (''0SOVO('', CHR ''F''), (''0SOVOF'', CHR ''F''),
    (''0SOVOK'', CHR ''F''), (''0SOVOS'', CHR ''F''), (''0SOVOU'', CHR ''F''),
    (''0SOVS('', CHR ''F''), (''0SOVS1'', CHR ''F''), (''0SOVSF'', CHR ''F''),
    (''0SOVSO'', CHR ''F''), (''0SOVSU'', CHR ''F''), (''0SOVSV'', CHR ''F''),
    (''0SOVT('', CHR ''F''), (''0SOVT1'', CHR ''F''), (''0SOVTE'', CHR ''F''),
    (''0SOVTF'', CHR ''F''), (''0SOVTN'', CHR ''F''), (''0SOVTS'', CHR ''F''),
    (''0SOVTT'', CHR ''F''), (''0SOVTV'', CHR ''F''), (''0SOVU'', CHR ''F''),
    (''0SOVU('', CHR ''F''), (''0SOVU1'', CHR ''F''), (''0SOVU;'', CHR ''F''),
    (''0SOVUC'', CHR ''F''), (''0SOVUE'', CHR ''F''), (''0SOVUF'', CHR ''F''),
    (''0SOVUK'', CHR ''F''), (''0SOVUO'', CHR ''F''), (''0SOVUS'', CHR ''F''),
    (''0SOVUT'', CHR ''F''), (''0SOVUV'', CHR ''F''), (''0ST(1)'', CHR ''F''),
    (''0ST(1O'', CHR ''F''), (''0ST(F('', CHR ''F''), (''0ST(N)'', CHR ''F''),
    (''0ST(NO'', CHR ''F''), (''0ST(S)'', CHR ''F''), (''0ST(SO'', CHR ''F''),
    (''0ST(V)'', CHR ''F''), (''0ST(VO'', CHR ''F''), (''0ST1(F'', CHR ''F''),
    (''0ST1O('', CHR ''F''), (''0ST1OF'', CHR ''F''), (''0ST1OS'', CHR ''F''),
    (''0ST1OV'', CHR ''F''), (''0STE(1'', CHR ''F''), (''0STE(F'', CHR ''F''),
    (''0STE(N'', CHR ''F''), (''0STE(S'', CHR ''F''), (''0STE(V'', CHR ''F''),
    (''0STE1N'', CHR ''F''), (''0STE1O'', CHR ''F''), (''0STEF('', CHR ''F''),
    (''0STEK('', CHR ''F''), (''0STEK1'', CHR ''F''), (''0STEKF'', CHR ''F''),
    (''0STEKN'', CHR ''F''), (''0STEKS'', CHR ''F''), (''0STEKV'', CHR ''F''),
    (''0STENN'', CHR ''F''), (''0STENO'', CHR ''F''), (''0STESN'', CHR ''F''),
    (''0STESO'', CHR ''F''), (''0STEVN'', CHR ''F''), (''0STEVO'', CHR ''F''),
    (''0STF()'', CHR ''F''), (''0STF(1'', CHR ''F''), (''0STF(F'', CHR ''F''),
    (''0STF(N'', CHR ''F''), (''0STF(S'', CHR ''F''), (''0STF(V'', CHR ''F''),
    (''0STN(1'', CHR ''F''), (''0STN(F'', CHR ''F''), (''0STN(S'', CHR ''F''),
    (''0STN(V'', CHR ''F''), (''0STN1C'', CHR ''F''), (''0STN1O'', CHR ''F''),
    (''0STN;E'', CHR ''F''), (''0STN;N'', CHR ''F''), (''0STN;T'', CHR ''F''),
    (''0STNE('', CHR ''F''), (''0STNE1'', CHR ''F''), (''0STNEF'', CHR ''F''),
    (''0STNEN'', CHR ''F''), (''0STNES'', CHR ''F''), (''0STNEV'', CHR ''F''),
    (''0STNF('', CHR ''F''), (''0STNKN'', CHR ''F''), (''0STNN:'', CHR ''F''),
    (''0STNNC'', CHR ''F''), (''0STNNO'', CHR ''F''), (''0STNO('', CHR ''F''),
    (''0STNOF'', CHR ''F''), (''0STNOS'', CHR ''F''), (''0STNOV'', CHR ''F''),
    (''0STNSC'', CHR ''F''), (''0STNSO'', CHR ''F''), (''0STNT('', CHR ''F''),
    (''0STNT1'', CHR ''F''), (''0STNTF'', CHR ''F''), (''0STNTN'', CHR ''F''),
    (''0STNTS'', CHR ''F''), (''0STNTV'', CHR ''F''), (''0STNVC'', CHR ''F''),
    (''0STNVO'', CHR ''F''), (''0STS(F'', CHR ''F''), (''0STSO('', CHR ''F''),
    (''0STSO1'', CHR ''F''), (''0STSOF'', CHR ''F''), (''0STSON'', CHR ''F''),
    (''0STSOS'', CHR ''F''), (''0STSOV'', CHR ''F''), (''0STTNE'', CHR ''F''),
    (''0STTNK'', CHR ''F''), (''0STTNN'', CHR ''F''), (''0STTNT'', CHR ''F''),
    (''0STV(1'', CHR ''F''), (''0STV(F'', CHR ''F''), (''0STVO('', CHR ''F''),
    (''0STVOF'', CHR ''F''), (''0STVOS'', CHR ''F''), (''0SU(1)'', CHR ''F''),
    (''0SU(1O'', CHR ''F''), (''0SU(E('', CHR ''F''), (''0SU(E1'', CHR ''F''),
    (''0SU(EF'', CHR ''F''), (''0SU(EK'', CHR ''F''), (''0SU(EN'', CHR ''F''),
    (''0SU(ES'', CHR ''F''), (''0SU(EV'', CHR ''F''), (''0SU(F('', CHR ''F''),
    (''0SU(N)'', CHR ''F''), (''0SU(NO'', CHR ''F''), (''0SU(S)'', CHR ''F''),
    (''0SU(SO'', CHR ''F''), (''0SU(V)'', CHR ''F''), (''0SU(VO'', CHR ''F''),
    (''0SU1,('', CHR ''F''), (''0SU1,F'', CHR ''F''), (''0SU1C'', CHR ''F'')]"

lemma sql_keywords_42_chain: "kw_chain ''0SOVEV'' sql_keywords_42 ''0SU1C''"
  by (simp add: sql_keywords_42_def)

lemma sql_keywords_42_words: "kw_words sql_keywords_42"
  by (simp add: sql_keywords_42_def kw_words_def kw_word_def)

lemma sql_keywords_42_length: "length sql_keywords_42 = 150"
  by (simp add: sql_keywords_42_def)

definition sql_keywords_43 :: "keyword_t list" where
  "sql_keywords_43 = [
    (''0SU1O('', CHR ''F''), (''0SU1OF'', CHR ''F''), (''0SU1OS'', CHR ''F''),
    (''0SU1OV'', CHR ''F''), (''0SU;'', CHR ''F''), (''0SU;C'', CHR ''F''), (''0SUC'', CHR ''F''),
    (''0SUE'', CHR ''F''), (''0SUE(1'', CHR ''F''), (''0SUE(E'', CHR ''F''),
    (''0SUE(F'', CHR ''F''), (''0SUE(N'', CHR ''F''), (''0SUE(O'', CHR ''F''),
    (''0SUE(S'', CHR ''F''), (''0SUE(V'', CHR ''F''), (''0SUE1'', CHR ''F''),
    (''0SUE1&'', CHR ''F''), (''0SUE1('', CHR ''F''), (''0SUE1)'', CHR ''F''),
    (''0SUE1,'', CHR ''F''), (''0SUE1;'', CHR ''F''), (''0SUE1B'', CHR ''F''),
    (''0SUE1C'', CHR ''F''), (''0SUE1F'', CHR ''F''), (''0SUE1K'', CHR ''F''),
    (''0SUE1N'', CHR ''F''), (''0SUE1O'', CHR ''F''), (''0SUE1S'', CHR ''F''),
    (''0SUE1U'', CHR ''F''), (''0SUE1V'', CHR ''F''), (''0SUE;'', CHR ''F''),
    (''0SUE;C'', CHR ''F''), (''0SUEC'', CHR ''F''), (''0SUEF'', CHR ''F''),
    (''0SUEF('', CHR ''F''), (''0SUEF,'', CHR ''F''), (''0SUEF;'', CHR ''F''),
    (''0SUEFC'', CHR ''F''), (''0SUEK'', CHR ''F''), (''0SUEK('', CHR ''F''),
    (''0SUEK1'', CHR ''F''), (''0SUEK;'', CHR ''F''), (''0SUEKC'', CHR ''F''),
    (''0SUEKF'', CHR ''F''), (''0SUEKN'', CHR ''F''), (''0SUEKO'', CHR ''F''),
    (''0SUEKS'', CHR ''F''), (''0SUEKV'', CHR ''F''), (''0SUEN'', CHR ''F''),
    (''0SUEN&'', CHR ''F''), (''0SUEN('', CHR ''F''), (''0SUEN)'', CHR ''F''),
    (''0SUEN,'', CHR ''F''), (''0SUEN1'', CHR ''F''), (''0SUEN;'', CHR ''F''),
    (''0SUENB'', CHR ''F''), (''0SUENC'', CHR ''F''), (''0SUENF'', CHR ''F''),
    (''0SUENK'', CHR ''F''), (''0SUENO'', CHR ''F''), (''0SUENS'', CHR ''F''),
    (''0SUENU'', CHR ''F''), (''0SUEOK'', CHR ''F''), (''0SUEON'', CHR ''F''),
    (''0SUES'', CHR ''F''), (''0SUES&'', CHR ''F''), (''0SUES('', CHR ''F''),
    (''0SUES)'', CHR ''F''), (''0SUES,'', CHR ''F''), (''0SUES1'', CHR ''F''),
    (''0SUES;'', CHR ''F''), (''0SUESB'', CHR ''F''), (''0SUESC'', CHR ''F''),
    (''0SUESF'', CHR ''F''), (''0SUESK'', CHR ''F''), (''0SUESO'', CHR ''F''),
    (''0SUESU'', CHR ''F''), (''0SUESV'', CHR ''F''), (''0SUEV'', CHR ''F''),
    (''0SUEV&'', CHR ''F''), (''0SUEV('', CHR ''F''), (''0SUEV)'', CHR ''F''),
    (''0SUEV,'', CHR ''F''), (''0SUEV;'', CHR ''F''), (''0SUEVB'', CHR ''F''),
    (''0SUEVC'', CHR ''F''), (''0SUEVF'', CHR ''F''), (''0SUEVK'', CHR ''F''),
    (''0SUEVN'', CHR ''F''), (''0SUEVO'', CHR ''F''), (''0SUEVS'', CHR ''F''),
    (''0SUEVU'', CHR ''F''), (''0SUF()'', CHR ''F''), (''0SUF(1'', CHR ''F''),
    (''0SUF(F'', CHR ''F''), (''0SUF(N'', CHR ''F''), (''0SUF(S'', CHR ''F''),
    (''0SUF(V'', CHR ''F''), (''0SUK(E'', CHR ''F''), (''0SUO(E'', CHR ''F''),
    (''0SUON('', CHR ''F''), (''0SUON1'', CHR ''F''), (''0SUONF'', CHR ''F''),
    (''0SUONS'', CHR ''F''), (''0SUS,('', CHR ''F''), (''0SUS,F'', CHR ''F''),
    (''0SUSC'', CHR ''F''), (''0SUSO('', CHR ''F''), (''0SUSO1'', CHR ''F''),
    (''0SUSOF'', CHR ''F''), (''0SUSON'', CHR ''F''), (''0SUSOS'', CHR ''F''),
    (''0SUSOV'', CHR ''F''), (''0SUTN('', CHR ''F''), (''0SUTN1'', CHR ''F''),
    (''0SUTNF'', CHR ''F''), (''0SUTNN'', CHR ''F''), (''0SUTNS'', CHR ''F''),
    (''0SUTNV'', CHR ''F''), (''0SUV,('', CHR ''F''), (''0SUV,F'', CHR ''F''),
    (''0SUVC'', CHR ''F''), (''0SUVO('', CHR ''F''), (''0SUVOF'', CHR ''F''),
    (''0SUVOS'', CHR ''F''), (''0SVF()'', CHR ''F''), (''0SVF(1'', CHR ''F''),
    (''0SVF(F'', CHR ''F''), (''0SVF(N'', CHR ''F''), (''0SVF(S'', CHR ''F''),
    (''0SVF(V'', CHR ''F''), (''0SVO(1'', CHR ''F''), (''0SVO(F'', CHR ''F''),
    (''0SVO(N'', CHR ''F''), (''0SVO(S'', CHR ''F''), (''0SVO(V'', CHR ''F''),
    (''0SVOF('', CHR ''F''), (''0SVOS('', CHR ''F''), (''0SVOS1'', CHR ''F''),
    (''0SVOSF'', CHR ''F''), (''0SVOSU'', CHR ''F''), (''0SVOSV'', CHR ''F''),
    (''0SVS;'', CHR ''F''), (''0SVS;C'', CHR ''F''), (''0SVSC'', CHR ''F''),
    (''0SVSO('', CHR ''F''), (''0SVSO1'', CHR ''F''), (''0SVSOF'', CHR ''F''),
    (''0SVSON'', CHR ''F''), (''0SVSOS'', CHR ''F'')]"

lemma sql_keywords_43_chain: "kw_chain ''0SU1C'' sql_keywords_43 ''0SVSOS''"
  by (simp add: sql_keywords_43_def)

lemma sql_keywords_43_words: "kw_words sql_keywords_43"
  by (simp add: sql_keywords_43_def kw_words_def kw_word_def)

lemma sql_keywords_43_length: "length sql_keywords_43 = 150"
  by (simp add: sql_keywords_43_def)

definition sql_keywords_44 :: "keyword_t list" where
  "sql_keywords_44 = [
    (''0SVSOV'', CHR ''F''), (''0SVUE'', CHR ''F''), (''0SVUE;'', CHR ''F''),
    (''0SVUEC'', CHR ''F''), (''0SVUEK'', CHR ''F''), (''0T(1)F'', CHR ''F''),
    (''0T(1)O'', CHR ''F''), (''0T(1F('', CHR ''F''), (''0T(1N)'', CHR ''F''),
    (''0T(1O('', CHR ''F''), (''0T(1OF'', CHR ''F''), (''0T(1OS'', CHR ''F''),
    (''0T(1OV'', CHR ''F''), (''0T(1S)'', CHR ''F''), (''0T(1V)'', CHR ''F''),
    (''0T(1VO'', CHR ''F''), (''0T(F()'', CHR ''F''), (''0T(F(1'', CHR ''F''),
    (''0T(F(F'', CHR ''F''), (''0T(F(N'', CHR ''F''), (''0T(F(S'', CHR ''F''),
    (''0T(F(V'', CHR ''F''), (''0T(N(1'', CHR ''F''), (''0T(N(F'', CHR ''F''),
    (''0T(N(S'', CHR ''F''), (''0T(N(V'', CHR ''F''), (''0T(N)F'', CHR ''F''),
    (''0T(N)O'', CHR ''F''), (''0T(N1)'', CHR ''F''), (''0T(N1O'', CHR ''F''),
    (''0T(NF('', CHR ''F''), (''0T(NN)'', CHR ''F''), (''0T(NNO'', CHR ''F''),
    (''0T(NO('', CHR ''F''), (''0T(NOF'', CHR ''F''), (''0T(NOS'', CHR ''F''),
    (''0T(NOV'', CHR ''F''), (''0T(NS)'', CHR ''F''), (''0T(NSO'', CHR ''F''),
    (''0T(NV)'', CHR ''F''), (''0T(NVO'', CHR ''F''), (''0T(S)F'', CHR ''F''),
    (''0T(S)O'', CHR ''F''), (''0T(S1)'', CHR ''F''), (''0T(SF('', CHR ''F''),
    (''0T(SN)'', CHR ''F''), (''0T(SNO'', CHR ''F''), (''0T(SO('', CHR ''F''),
    (''0T(SO1'', CHR ''F''), (''0T(SOF'', CHR ''F''), (''0T(SON'', CHR ''F''),
    (''0T(SOS'', CHR ''F''), (''0T(SOV'', CHR ''F''), (''0T(SV)'', CHR ''F''),
    (''0T(SVO'', CHR ''F''), (''0T(V)F'', CHR ''F''), (''0T(V)O'', CHR ''F''),
    (''0T(VF('', CHR ''F''), (''0T(VO('', CHR ''F''), (''0T(VOF'', CHR ''F''),
    (''0T(VOS'', CHR ''F''), (''0T(VS)'', CHR ''F''), (''0T(VSO'', CHR ''F''),
    (''0T(VV)'', CHR ''F''), (''0T1F(1'', CHR ''F''), (''0T1F(F'', CHR ''F''),
    (''0T1F(N'', CHR ''F''), (''0T1F(S'', CHR ''F''), (''0T1F(V'', CHR ''F''),
    (''0T1O(1'', CHR ''F''), (''0T1O(F'', CHR ''F''), (''0T1O(N'', CHR ''F''),
    (''0T1O(S'', CHR ''F''), (''0T1O(V'', CHR ''F''), (''0T1OF('', CHR ''F''),
    (''0T1OSF'', CHR ''F''), (''0T1OVF'', CHR ''F''), (''0T1OVO'', CHR ''F''),
    (''0TF()F'', CHR ''F''), (''0TF()O'', CHR ''F''), (''0TF(1)'', CHR ''F''),
    (''0TF(1O'', CHR ''F''), (''0TF(F('', CHR ''F''), (''0TF(N)'', CHR ''F''),
    (''0TF(NO'', CHR ''F''), (''0TF(S)'', CHR ''F''), (''0TF(SO'', CHR ''F''),
    (''0TF(V)'', CHR ''F''), (''0TF(VO'', CHR ''F''), (''0TN(1)'', CHR ''F''),
    (''0TN(1O'', CHR ''F''), (''0TN(F('', CHR ''F''), (''0TN(S)'', CHR ''F''),
    (''0TN(SO'', CHR ''F''), (''0TN(V)'', CHR ''F''), (''0TN(VO'', CHR ''F''),
    (''0TN1;'', CHR ''F''), (''0TN1;C'', CHR ''F''), (''0TN1O('', CHR ''F''),
    (''0TN1OF'', CHR ''F''), (''0TN1OS'', CHR ''F''), (''0TN1OV'', CHR ''F''),
    (''0TNF()'', CHR ''F''), (''0TNF(1'', CHR ''F''), (''0TNF(F'', CHR ''F''),
    (''0TNF(N'', CHR ''F''), (''0TNF(S'', CHR ''F''), (''0TNF(V'', CHR ''F''),
    (''0TNN;'', CHR ''F''), (''0TNN;C'', CHR ''F''), (''0TNNO('', CHR ''F''),
    (''0TNNOF'', CHR ''F''), (''0TNNOS'', CHR ''F''), (''0TNNOV'', CHR ''F''),
    (''0TNO(1'', CHR ''F''), (''0TNO(F'', CHR ''F''), (''0TNO(N'', CHR ''F''),
    (''0TNO(S'', CHR ''F''), (''0TNO(V'', CHR ''F''), (''0TNOF('', CHR ''F''),
    (''0TNOSF'', CHR ''F''), (''0TNOVF'', CHR ''F''), (''0TNOVO'', CHR ''F''),
    (''0TNS;'', CHR ''F''), (''0TNS;C'', CHR ''F''), (''0TNSO('', CHR ''F''),
    (''0TNSO1'', CHR ''F''), (''0TNSOF'', CHR ''F''), (''0TNSON'', CHR ''F''),
    (''0TNSOS'', CHR ''F''), (''0TNSOV'', CHR ''F''), (''0TNV;'', CHR ''F''),
    (''0TNV;C'', CHR ''F''), (''0TNVO('', CHR ''F''), (''0TNVOF'', CHR ''F''),
    (''0TNVOS'', CHR ''F''), (''0TSF(1'', CHR ''F''), (''0TSF(F'', CHR ''F''),
    (''0TSF(N'', CHR ''F''), (''0TSF(S'', CHR ''F''), (''0TSF(V'', CHR ''F''),
    (''0TSO(1'', CHR ''F''), (''0TSO(F'', CHR ''F''), (''0TSO(N'', CHR ''F''),
    (''0TSO(S'', CHR ''F''), (''0TSO(V'', CHR ''F''), (''0TSO1F'', CHR ''F''),
    (''0TSOF('', CHR ''F''), (''0TSONF'', CHR ''F''), (''0TSOSF'', CHR ''F'')]"

lemma sql_keywords_44_chain: "kw_chain ''0SVSOS'' sql_keywords_44 ''0TSOSF''"
  by (simp add: sql_keywords_44_def)

lemma sql_keywords_44_words: "kw_words sql_keywords_44"
  by (simp add: sql_keywords_44_def kw_words_def kw_word_def)

lemma sql_keywords_44_length: "length sql_keywords_44 = 150"
  by (simp add: sql_keywords_44_def)

definition sql_keywords_45 :: "keyword_t list" where
  "sql_keywords_45 = [
    (''0TSOVF'', CHR ''F''), (''0TSOVO'', CHR ''F''), (''0TVF(1'', CHR ''F''),
    (''0TVF(F'', CHR ''F''), (''0TVF(N'', CHR ''F''), (''0TVF(S'', CHR ''F''),
    (''0TVF(V'', CHR ''F''), (''0TVO(1'', CHR ''F''), (''0TVO(F'', CHR ''F''),
    (''0TVO(N'', CHR ''F''), (''0TVO(S'', CHR ''F''), (''0TVO(V'', CHR ''F''),
    (''0TVOF('', CHR ''F''), (''0TVOSF'', CHR ''F''), (''0U(E(1'', CHR ''F''),
    (''0U(E(F'', CHR ''F''), (''0U(E(K'', CHR ''F''), (''0U(E(N'', CHR ''F''),
    (''0U(E(S'', CHR ''F''), (''0U(E(V'', CHR ''F''), (''0U(E1)'', CHR ''F''),
    (''0U(E1O'', CHR ''F''), (''0U(EF('', CHR ''F''), (''0U(EK('', CHR ''F''),
    (''0U(EK1'', CHR ''F''), (''0U(EKF'', CHR ''F''), (''0U(EKN'', CHR ''F''),
    (''0U(EKO'', CHR ''F''), (''0U(EKS'', CHR ''F''), (''0U(EKV'', CHR ''F''),
    (''0U(EN)'', CHR ''F''), (''0U(ENK'', CHR ''F''), (''0U(ENO'', CHR ''F''),
    (''0U(EOK'', CHR ''F''), (''0U(ES)'', CHR ''F''), (''0U(ESO'', CHR ''F''),
    (''0U(EV)'', CHR ''F''), (''0U(EVO'', CHR ''F''), (''0UE(1)'', CHR ''F''),
    (''0UE(1,'', CHR ''F''), (''0UE(1O'', CHR ''F''), (''0UE(F('', CHR ''F''),
    (''0UE(N)'', CHR ''F''), (''0UE(N,'', CHR ''F''), (''0UE(NO'', CHR ''F''),
    (''0UE(S)'', CHR ''F''), (''0UE(S,'', CHR ''F''), (''0UE(SO'', CHR ''F''),
    (''0UE(V)'', CHR ''F''), (''0UE(V,'', CHR ''F''), (''0UE(VO'', CHR ''F''),
    (''0UE1'', CHR ''F''), (''0UE1,('', CHR ''F''), (''0UE1,F'', CHR ''F''),
    (''0UE1;'', CHR ''F''), (''0UE1;C'', CHR ''F''), (''0UE1C'', CHR ''F''),
    (''0UE1K('', CHR ''F''), (''0UE1K1'', CHR ''F''), (''0UE1KF'', CHR ''F''),
    (''0UE1KN'', CHR ''F''), (''0UE1KS'', CHR ''F''), (''0UE1KV'', CHR ''F''),
    (''0UE1O('', CHR ''F''), (''0UE1OF'', CHR ''F''), (''0UE1OS'', CHR ''F''),
    (''0UE1OV'', CHR ''F''), (''0UEF()'', CHR ''F''), (''0UEF(1'', CHR ''F''),
    (''0UEF(F'', CHR ''F''), (''0UEF(N'', CHR ''F''), (''0UEF(S'', CHR ''F''),
    (''0UEF(V'', CHR ''F''), (''0UEK(1'', CHR ''F''), (''0UEK(F'', CHR ''F''),
    (''0UEK(N'', CHR ''F''), (''0UEK(S'', CHR ''F''), (''0UEK(V'', CHR ''F''),
    (''0UEK1'', CHR ''F''), (''0UEK1,'', CHR ''F''), (''0UEK1;'', CHR ''F''),
    (''0UEK1C'', CHR ''F''), (''0UEK1K'', CHR ''F''), (''0UEK1O'', CHR ''F''),
    (''0UEKF('', CHR ''F''), (''0UEKN'', CHR ''F''), (''0UEKN('', CHR ''F''),
    (''0UEKN,'', CHR ''F''), (''0UEKN;'', CHR ''F''), (''0UEKNC'', CHR ''F''),
    (''0UEKNK'', CHR ''F''), (''0UEKS'', CHR ''F''), (''0UEKS,'', CHR ''F''),
    (''0UEKS;'', CHR ''F''), (''0UEKSC'', CHR ''F''), (''0UEKSK'', CHR ''F''),
    (''0UEKSO'', CHR ''F''), (''0UEKV'', CHR ''F''), (''0UEKV,'', CHR ''F''),
    (''0UEKV;'', CHR ''F''), (''0UEKVC'', CHR ''F''), (''0UEKVK'', CHR ''F''),
    (''0UEKVO'', CHR ''F''), (''0UEN()'', CHR ''F''), (''0UEN,('', CHR ''F''),
    (''0UEN,F'', CHR ''F''), (''0UEN;'', CHR ''F''), (''0UEN;C'', CHR ''F''),
    (''0UENC'', CHR ''F''), (''0UENK('', CHR ''F''), (''0UENK1'', CHR ''F''),
    (''0UENKF'', CHR ''F''), (''0UENKN'', CHR ''F''), (''0UENKS'', CHR ''F''),
    (''0UENKV'', CHR ''F''), (''0UENO('', CHR ''F''), (''0UENOF'', CHR ''F''),
    (''0UENOS'', CHR ''F''), (''0UENOV'', CHR ''F''), (''0UES'', CHR ''F''),
    (''0UES,('', CHR ''F''), (''0UES,F'', CHR ''F''), (''0UES;'', CHR ''F''),
    (''0UES;C'', CHR ''F''), (''0UESC'', CHR ''F''), (''0UESK('', CHR ''F''),
    (''0UESK1'', CHR ''F''), (''0UESKF'', CHR ''F''), (''0UESKN'', CHR ''F''),
    (''0UESKS'', CHR ''F''), (''0UESKV'', CHR ''F''), (''0UESO('', CHR ''F''),
    (''0UESO1'', CHR ''F''), (''0UESOF'', CHR ''F''), (''0UESON'', CHR ''F''),
    (''0UESOS'', CHR ''F''), (''0UESOV'', CHR ''F''), (''0UEV'', CHR ''F''),
    (''0UEV,('', CHR ''F''), (''0UEV,F'', CHR ''F''), (''0UEV;'', CHR ''F''),
    (''0UEV;C'', CHR ''F''), (''0UEVC'', CHR ''F''), (''0UEVK('', CHR ''F''),
    (''0UEVK1'', CHR ''F''), (''0UEVKF'', CHR ''F''), (''0UEVKN'', CHR ''F''),
    (''0UEVKS'', CHR ''F''), (''0UEVKV'', CHR ''F''), (''0UEVO('', CHR ''F'')]"

lemma sql_keywords_45_chain: "kw_chain ''0TSOSF'' sql_keywords_45 ''0UEVO(''"
  by (simp add: sql_keywords_45_def)

lemma sql_keywords_45_words: "kw_words sql_keywords_45"
  by (simp add: sql_keywords_45_def kw_words_def kw_word_def)

lemma sql_keywords_45_length: "length sql_keywords_45 = 150"
  by (simp add: sql_keywords_45_def)

definition sql_keywords_46 :: "keyword_t list" where
  "sql_keywords_46 = [
    (''0UEVOF'', CHR ''F''), (''0UEVOS'', CHR ''F''), (''0UF(1O'', CHR ''F''),
    (''0UF(F('', CHR ''F''), (''0UF(NO'', CHR ''F''), (''0UF(SO'', CHR ''F''),
    (''0UF(VO'', CHR ''F''), (''0V&(1&'', CHR ''F''), (''0V&(1)'', CHR ''F''),
    (''0V&(1,'', CHR ''F''), (''0V&(1O'', CHR ''F''), (''0V&(E('', CHR ''F''),
    (''0V&(E1'', CHR ''F''), (''0V&(EF'', CHR ''F''), (''0V&(EK'', CHR ''F''),
    (''0V&(EN'', CHR ''F''), (''0V&(EO'', CHR ''F''), (''0V&(ES'', CHR ''F''),
    (''0V&(EV'', CHR ''F''), (''0V&(F('', CHR ''F''), (''0V&(N&'', CHR ''F''),
    (''0V&(N)'', CHR ''F''), (''0V&(N,'', CHR ''F''), (''0V&(NO'', CHR ''F''),
    (''0V&(S&'', CHR ''F''), (''0V&(S)'', CHR ''F''), (''0V&(S,'', CHR ''F''),
    (''0V&(SO'', CHR ''F''), (''0V&(V&'', CHR ''F''), (''0V&(V)'', CHR ''F''),
    (''0V&(V,'', CHR ''F''), (''0V&(VO'', CHR ''F''), (''0V&1'', CHR ''F''),
    (''0V&1&('', CHR ''F''), (''0V&1&1'', CHR ''F''), (''0V&1&F'', CHR ''F''),
    (''0V&1&N'', CHR ''F''), (''0V&1&S'', CHR ''F''), (''0V&1&V'', CHR ''F''),
    (''0V&1)&'', CHR ''F''), (''0V&1)C'', CHR ''F''), (''0V&1)O'', CHR ''F''),
    (''0V&1)U'', CHR ''F''), (''0V&1;'', CHR ''F''), (''0V&1;C'', CHR ''F''),
    (''0V&1;E'', CHR ''F''), (''0V&1;T'', CHR ''F''), (''0V&1B('', CHR ''F''),
    (''0V&1B1'', CHR ''F''), (''0V&1BF'', CHR ''F''), (''0V&1BN'', CHR ''F''),
    (''0V&1BS'', CHR ''F''), (''0V&1BV'', CHR ''F''), (''0V&1C'', CHR ''F''),
    (''0V&1EK'', CHR ''F''), (''0V&1EN'', CHR ''F''), (''0V&1F('', CHR ''F''),
    (''0V&1K('', CHR ''F''), (''0V&1K1'', CHR ''F''), (''0V&1KF'', CHR ''F''),
    (''0V&1KN'', CHR ''F''), (''0V&1KS'', CHR ''F''), (''0V&1KV'', CHR ''F''),
    (''0V&1O('', CHR ''F''), (''0V&1OF'', CHR ''F''), (''0V&1OS'', CHR ''F''),
    (''0V&1OV'', CHR ''F''), (''0V&1TN'', CHR ''F''), (''0V&1U'', CHR ''F''),
    (''0V&1U('', CHR ''F''), (''0V&1U;'', CHR ''F''), (''0V&1UC'', CHR ''F''),
    (''0V&1UE'', CHR ''F''), (''0V&E(1'', CHR ''F''), (''0V&E(F'', CHR ''F''),
    (''0V&E(N'', CHR ''F''), (''0V&E(O'', CHR ''F''), (''0V&E(S'', CHR ''F''),
    (''0V&E(V'', CHR ''F''), (''0V&E1'', CHR ''F''), (''0V&E1;'', CHR ''F''),
    (''0V&E1C'', CHR ''F''), (''0V&E1K'', CHR ''F''), (''0V&E1O'', CHR ''F''),
    (''0V&EF('', CHR ''F''), (''0V&EK('', CHR ''F''), (''0V&EK1'', CHR ''F''),
    (''0V&EKF'', CHR ''F''), (''0V&EKN'', CHR ''F''), (''0V&EKS'', CHR ''F''),
    (''0V&EKV'', CHR ''F''), (''0V&EN'', CHR ''F''), (''0V&EN;'', CHR ''F''),
    (''0V&ENC'', CHR ''F''), (''0V&ENK'', CHR ''F''), (''0V&ENO'', CHR ''F''),
    (''0V&ES'', CHR ''F''), (''0V&ES;'', CHR ''F''), (''0V&ESC'', CHR ''F''),
    (''0V&ESK'', CHR ''F''), (''0V&ESO'', CHR ''F''), (''0V&EV'', CHR ''F''),
    (''0V&EV;'', CHR ''F''), (''0V&EVC'', CHR ''F''), (''0V&EVK'', CHR ''F''),
    (''0V&EVO'', CHR ''F''), (''0V&F()'', CHR ''F''), (''0V&F(1'', CHR ''F''),
    (''0V&F(E'', CHR ''F''), (''0V&F(F'', CHR ''F''), (''0V&F(N'', CHR ''F''),
    (''0V&F(S'', CHR ''F''), (''0V&F(V'', CHR ''F''), (''0V&K&('', CHR ''F''),
    (''0V&K&1'', CHR ''F''), (''0V&K&F'', CHR ''F''), (''0V&K&N'', CHR ''F''),
    (''0V&K&S'', CHR ''F''), (''0V&K&V'', CHR ''F''), (''0V&K(1'', CHR ''F''),
    (''0V&K(F'', CHR ''F''), (''0V&K(N'', CHR ''F''), (''0V&K(S'', CHR ''F''),
    (''0V&K(V'', CHR ''F''), (''0V&K1O'', CHR ''F''), (''0V&KC'', CHR ''F''),
    (''0V&KF('', CHR ''F''), (''0V&KNK'', CHR ''F''), (''0V&KO('', CHR ''F''),
    (''0V&KO1'', CHR ''F''), (''0V&KOF'', CHR ''F''), (''0V&KOK'', CHR ''F''),
    (''0V&KON'', CHR ''F''), (''0V&KOS'', CHR ''F''), (''0V&KOV'', CHR ''F''),
    (''0V&KSO'', CHR ''F''), (''0V&KVO'', CHR ''F''), (''0V&N'', CHR ''F''),
    (''0V&N&('', CHR ''F''), (''0V&N&1'', CHR ''F''), (''0V&N&F'', CHR ''F''),
    (''0V&N&N'', CHR ''F''), (''0V&N&S'', CHR ''F''), (''0V&N&V'', CHR ''F''),
    (''0V&N)&'', CHR ''F''), (''0V&N)C'', CHR ''F''), (''0V&N)O'', CHR ''F''),
    (''0V&N)U'', CHR ''F''), (''0V&N;'', CHR ''F''), (''0V&N;C'', CHR ''F'')]"

lemma sql_keywords_46_chain: "kw_chain ''0UEVO('' sql_keywords_46 ''0V&N;C''"
  by (simp add: sql_keywords_46_def)

lemma sql_keywords_46_words: "kw_words sql_keywords_46"
  by (simp add: sql_keywords_46_def kw_words_def kw_word_def)

lemma sql_keywords_46_length: "length sql_keywords_46 = 150"
  by (simp add: sql_keywords_46_def)

definition sql_keywords_47 :: "keyword_t list" where
  "sql_keywords_47 = [
    (''0V&N;E'', CHR ''F''), (''0V&N;T'', CHR ''F''), (''0V&NB('', CHR ''F''),
    (''0V&NB1'', CHR ''F''), (''0V&NBF'', CHR ''F''), (''0V&NBN'', CHR ''F''),
    (''0V&NBS'', CHR ''F''), (''0V&NBV'', CHR ''F''), (''0V&NC'', CHR ''F''),
    (''0V&NEN'', CHR ''F''), (''0V&NF('', CHR ''F''), (''0V&NK('', CHR ''F''),
    (''0V&NK1'', CHR ''F''), (''0V&NKF'', CHR ''F''), (''0V&NKN'', CHR ''F''),
    (''0V&NKS'', CHR ''F''), (''0V&NKV'', CHR ''F''), (''0V&NO('', CHR ''F''),
    (''0V&NOF'', CHR ''F''), (''0V&NOS'', CHR ''F''), (''0V&NOV'', CHR ''F''),
    (''0V&NTN'', CHR ''F''), (''0V&NU'', CHR ''F''), (''0V&NU('', CHR ''F''),
    (''0V&NU;'', CHR ''F''), (''0V&NUC'', CHR ''F''), (''0V&NUE'', CHR ''F''),
    (''0V&S'', CHR ''F''), (''0V&S&('', CHR ''F''), (''0V&S&1'', CHR ''F''),
    (''0V&S&F'', CHR ''F''), (''0V&S&N'', CHR ''F''), (''0V&S&S'', CHR ''F''),
    (''0V&S&V'', CHR ''F''), (''0V&S)&'', CHR ''F''), (''0V&S)C'', CHR ''F''),
    (''0V&S)O'', CHR ''F''), (''0V&S)U'', CHR ''F''), (''0V&S1'', CHR ''F''),
    (''0V&S1;'', CHR ''F''), (''0V&S1C'', CHR ''F''), (''0V&S;'', CHR ''F''),
    (''0V&S;C'', CHR ''F''), (''0V&S;E'', CHR ''F''), (''0V&S;T'', CHR ''F''),
    (''0V&SB('', CHR ''F''), (''0V&SB1'', CHR ''F''), (''0V&SBF'', CHR ''F''),
    (''0V&SBN'', CHR ''F''), (''0V&SBS'', CHR ''F''), (''0V&SBV'', CHR ''F''),
    (''0V&SC'', CHR ''F''), (''0V&SEK'', CHR ''F''), (''0V&SEN'', CHR ''F''),
    (''0V&SF('', CHR ''F''), (''0V&SK('', CHR ''F''), (''0V&SK1'', CHR ''F''),
    (''0V&SKF'', CHR ''F''), (''0V&SKN'', CHR ''F''), (''0V&SKS'', CHR ''F''),
    (''0V&SKV'', CHR ''F''), (''0V&SO('', CHR ''F''), (''0V&SO1'', CHR ''F''),
    (''0V&SOF'', CHR ''F''), (''0V&SON'', CHR ''F''), (''0V&SOS'', CHR ''F''),
    (''0V&SOV'', CHR ''F''), (''0V&STN'', CHR ''F''), (''0V&SU'', CHR ''F''),
    (''0V&SU('', CHR ''F''), (''0V&SU;'', CHR ''F''), (''0V&SUC'', CHR ''F''),
    (''0V&SUE'', CHR ''F''), (''0V&SV'', CHR ''F''), (''0V&SV;'', CHR ''F''),
    (''0V&SVC'', CHR ''F''), (''0V&SVO'', CHR ''F''), (''0V&V'', CHR ''F''),
    (''0V&V&('', CHR ''F''), (''0V&V&1'', CHR ''F''), (''0V&V&F'', CHR ''F''),
    (''0V&V&N'', CHR ''F''), (''0V&V&S'', CHR ''F''), (''0V&V&V'', CHR ''F''),
    (''0V&V)&'', CHR ''F''), (''0V&V)C'', CHR ''F''), (''0V&V)O'', CHR ''F''),
    (''0V&V)U'', CHR ''F''), (''0V&V;'', CHR ''F''), (''0V&V;C'', CHR ''F''),
    (''0V&V;E'', CHR ''F''), (''0V&V;T'', CHR ''F''), (''0V&VB('', CHR ''F''),
    (''0V&VB1'', CHR ''F''), (''0V&VBF'', CHR ''F''), (''0V&VBN'', CHR ''F''),
    (''0V&VBS'', CHR ''F''), (''0V&VBV'', CHR ''F''), (''0V&VC'', CHR ''F''),
    (''0V&VEK'', CHR ''F''), (''0V&VEN'', CHR ''F''), (''0V&VF('', CHR ''F''),
    (''0V&VK('', CHR ''F''), (''0V&VK1'', CHR ''F''), (''0V&VKF'', CHR ''F''),
    (''0V&VKN'', CHR ''F''), (''0V&VKS'', CHR ''F''), (''0V&VKV'', CHR ''F''),
    (''0V&VO('', CHR ''F''), (''0V&VOF'', CHR ''F''), (''0V&VOS'', CHR ''F''),
    (''0V&VS'', CHR ''F''), (''0V&VS;'', CHR ''F''), (''0V&VSC'', CHR ''F''),
    (''0V&VSO'', CHR ''F''), (''0V&VTN'', CHR ''F''), (''0V&VU'', CHR ''F''),
    (''0V&VU('', CHR ''F''), (''0V&VU;'', CHR ''F''), (''0V&VUC'', CHR ''F''),
    (''0V&VUE'', CHR ''F''), (''0V(EF('', CHR ''F''), (''0V(EKF'', CHR ''F''),
    (''0V(EKN'', CHR ''F''), (''0V(ENK'', CHR ''F''), (''0V(U(E'', CHR ''F''),
    (''0V)&(1'', CHR ''F''), (''0V)&(E'', CHR ''F''), (''0V)&(F'', CHR ''F''),
    (''0V)&(N'', CHR ''F''), (''0V)&(S'', CHR ''F''), (''0V)&(V'', CHR ''F''),
    (''0V)&1'', CHR ''F''), (''0V)&1&'', CHR ''F''), (''0V)&1)'', CHR ''F''),
    (''0V)&1;'', CHR ''F''), (''0V)&1B'', CHR ''F''), (''0V)&1C'', CHR ''F''),
    (''0V)&1F'', CHR ''F''), (''0V)&1O'', CHR ''F''), (''0V)&1U'', CHR ''F''),
    (''0V)&F('', CHR ''F''), (''0V)&N'', CHR ''F''), (''0V)&N&'', CHR ''F''),
    (''0V)&N)'', CHR ''F''), (''0V)&N;'', CHR ''F''), (''0V)&NB'', CHR ''F''),
    (''0V)&NC'', CHR ''F''), (''0V)&NF'', CHR ''F''), (''0V)&NO'', CHR ''F'')]"

lemma sql_keywords_47_chain: "kw_chain ''0V&N;C'' sql_keywords_47 ''0V)&NO''"
  by (simp add: sql_keywords_47_def)

lemma sql_keywords_47_words: "kw_words sql_keywords_47"
  by (simp add: sql_keywords_47_def kw_words_def kw_word_def)

lemma sql_keywords_47_length: "length sql_keywords_47 = 150"
  by (simp add: sql_keywords_47_def)

end
