(* ===== verification/Sqli_Keywords_6.thy ===== *)
theory Sqli_Keywords_6
  imports Sqli_Word_Order
begin

text \<open>
  Part 6 of the table \<open>sql_keywords\<close> of \<open>src/src/headers/libinjection_sqli_data.h\<close>
  (lines 7498 to 8697), in slices of at most 150 entries in the order of the source. Each slice
  \<open>sql_keywords_n\<close> comes with the fact that it continues the strictly ascending chain
  of words from the last word of the slice before it to its own last word.
\<close>

definition sql_keywords_48 :: "keyword_t list" where
  "sql_keywords_48 = [
    (''0V)&NU'', CHR ''F''), (''0V)&S'', CHR ''F''), (''0V)&S&'', CHR ''F''),
    (''0V)&S)'', CHR ''F''), (''0V)&S;'', CHR ''F''), (''0V)&SB'', CHR ''F''),
    (''0V)&SC'', CHR ''F''), (''0V)&SF'', CHR ''F''), (''0V)&SO'', CHR ''F''),
    (''0V)&SU'', CHR ''F''), (''0V)&V'', CHR ''F''), (''0V)&V&'', CHR ''F''),
    (''0V)&V)'', CHR ''F''), (''0V)&V;'', CHR ''F''), (''0V)&VB'', CHR ''F''),
    (''0V)&VC'', CHR ''F''), (''0V)&VF'', CHR ''F''), (''0V)&VO'', CHR ''F''),
    (''0V)&VU'', CHR ''F''), (''0V),(1'', CHR ''F''), (''0V),(F'', CHR ''F''),
    (''0V),(N'', CHR ''F''), (''0V),(S'', CHR ''F''), (''0V),(V'', CHR ''F''),
    (''0V);E('', CHR ''F''), (''0V);E1'', CHR ''F''), (''0V);EF'', CHR ''F''),
    (''0V);EK'', CHR ''F''), (''0V);EN'', CHR ''F''), (''0V);EO'', CHR ''F''),
    (''0V);ES'', CHR ''F''), (''0V);EV'', CHR ''F''), (''0V);T('', CHR ''F''),
    (''0V);T1'', CHR ''F''), (''0V);TF'', CHR ''F''), (''0V);TK'', CHR ''F''),
    (''0V);TN'', CHR ''F''), (''0V);TO'', CHR ''F''), (''0V);TS'', CHR ''F''),
    (''0V);TV'', CHR ''F''), (''0V)B(1'', CHR ''F''), (''0V)B(F'', CHR ''F''),
    (''0V)B(N'', CHR ''F''), (''0V)B(S'', CHR ''F''), (''0V)B(V'', CHR ''F''),
    (''0V)B1'', CHR ''F''), (''0V)B1&'', CHR ''F''), (''0V)B1;'', CHR ''F''),
    (''0V)B1C'', CHR ''F''), (''0V)B1K'', CHR ''F''), (''0V)B1N'', CHR ''F''),
    (''0V)B1O'', CHR ''F''), (''0V)B1U'', CHR ''F''), (''0V)BF('', CHR ''F''),
    (''0V)BN'', CHR ''F''), (''0V)BN&'', CHR ''F''), (''0V)BN;'', CHR ''F''),
    (''0V)BNC'', CHR ''F''), (''0V)BNK'', CHR ''F''), (''0V)BNO'', CHR ''F''),
    (''0V)BNU'', CHR ''F''), (''0V)BS'', CHR ''F''), (''0V)BS&'', CHR ''F''),
    (''0V)BS;'', CHR ''F''), (''0V)BSC'', CHR ''F''), (''0V)BSK'', CHR ''F''),
    (''0V)BSO'', CHR ''F''), (''0V)BSU'', CHR ''F''), (''0V)BV'', CHR ''F''),
    (''0V)BV&'', CHR ''F''), (''0V)BV;'', CHR ''F''), (''0V)BVC'', CHR ''F''),
    (''0V)BVK'', CHR ''F''), (''0V)BVO'', CHR ''F''), (''0V)BVU'', CHR ''F''),
    (''0V)C'', CHR ''F''), (''0V)E(1'', CHR ''F''), (''0V)E(F'', CHR ''F''),
    (''0V)E(N'', CHR ''F''), (''0V)E(S'', CHR ''F''), (''0V)E(V'', CHR ''F''),
    (''0V)E1C'', CHR ''F''), (''0V)E1O'', CHR ''F''), (''0V)EF('', CHR ''F''),
    (''0V)EK('', CHR ''F''), (''0V)EK1'', CHR ''F''), (''0V)EKF'', CHR ''F''),
    (''0V)EKN'', CHR ''F''), (''0V)EKS'', CHR ''F''), (''0V)EKV'', CHR ''F''),
    (''0V)ENC'', CHR ''F''), (''0V)ENO'', CHR ''F''), (''0V)ESC'', CHR ''F''),
    (''0V)ESO'', CHR ''F''), (''0V)EVC'', CHR ''F''), (''0V)EVO'', CHR ''F''),
    (''0V)F(F'', CHR ''F''), (''0V)K(1'', CHR ''F''), (''0V)K(F'', CHR ''F''),
    (''0V)K(N'', CHR ''F''), (''0V)K(S'', CHR ''F''), (''0V)K(V'', CHR ''F''),
    (''0V)K1&'', CHR ''F''), (''0V)K1;'', CHR ''F''), (''0V)K1B'', CHR ''F''),
    (''0V)K1E'', CHR ''F''), (''0V)K1O'', CHR ''F''), (''0V)K1U'', CHR ''F''),
    (''0V)KB('', CHR ''F''), (''0V)KB1'', CHR ''F''), (''0V)KBF'', CHR ''F''),
    (''0V)KBN'', CHR ''F''), (''0V)KBS'', CHR ''F''), (''0V)KBV'', CHR ''F''),
    (''0V)KF('', CHR ''F''), (''0V)KN&'', CHR ''F''), (''0V)KN;'', CHR ''F''),
    (''0V)KNB'', CHR ''F''), (''0V)KNC'', CHR ''F''), (''0V)KNE'', CHR ''F''),
    (''0V)KNK'', CHR ''F''), (''0V)KNU'', CHR ''F''), (''0V)KS&'', CHR ''F''),
    (''0V)KS;'', CHR ''F''), (''0V)KSB'', CHR ''F''), (''0V)KSE'', CHR ''F''),
    (''0V)KSO'', CHR ''F''), (''0V)KSU'', CHR ''F''), (''0V)KUE'', CHR ''F''),
    (''0V)KV&'', CHR ''F''), (''0V)KV;'', CHR ''F''), (''0V)KVB'', CHR ''F''),
    (''0V)KVE'', CHR ''F''), (''0V)KVO'', CHR ''F''), (''0V)KVU'', CHR ''F''),
    (''0V)O(1'', CHR ''F''), (''0V)O(E'', CHR ''F''), (''0V)O(F'', CHR ''F''),
    (''0V)O(N'', CHR ''F''), (''0V)O(S'', CHR ''F''), (''0V)O(V'', CHR ''F''),
    (''0V)O1'', CHR ''F''), (''0V)O1&'', CHR ''F''), (''0V)O1)'', CHR ''F''),
    (''0V)O1;'', CHR ''F''), (''0V)O1B'', CHR ''F''), (''0V)O1C'', CHR ''F''),
    (''0V)O1K'', CHR ''F''), (''0V)O1U'', CHR ''F''), (''0V)OF('', CHR ''F'')]"

lemma sql_keywords_48_chain: "kw_chain ''0V)&NO'' sql_keywords_48 ''0V)OF(''"
  by (simp add: sql_keywords_48_def)

lemma sql_keywords_48_words: "kw_words sql_keywords_48"
  by (simp add: sql_keywords_48_def kw_words_def kw_word_def)

lemma sql_keywords_48_length: "length sql_keywords_48 = 150"
  by (simp add: sql_keywords_48_def)

definition sql_keywords_49 :: "keyword_t list" where
  "sql_keywords_49 = [
    (''0V)ON'', CHR ''F''), (''0V)ON&'', CHR ''F''), (''0V)ON)'', CHR ''F''),
    (''0V)ON;'', CHR ''F''), (''0V)ONB'', CHR ''F''), (''0V)ONC'', CHR ''F''),
    (''0V)ONK'', CHR ''F''), (''0V)ONU'', CHR ''F''), (''0V)OS'', CHR ''F''),
    (''0V)OS&'', CHR ''F''), (''0V)OS)'', CHR ''F''), (''0V)OS;'', CHR ''F''),
    (''0V)OSB'', CHR ''F''), (''0V)OSC'', CHR ''F''), (''0V)OSK'', CHR ''F''),
    (''0V)OSU'', CHR ''F''), (''0V)OV'', CHR ''F''), (''0V)OV&'', CHR ''F''),
    (''0V)OV)'', CHR ''F''), (''0V)OV;'', CHR ''F''), (''0V)OVB'', CHR ''F''),
    (''0V)OVC'', CHR ''F''), (''0V)OVK'', CHR ''F''), (''0V)OVO'', CHR ''F''),
    (''0V)OVU'', CHR ''F''), (''0V)U(E'', CHR ''F''), (''0V)UE('', CHR ''F''),
    (''0V)UE1'', CHR ''F''), (''0V)UEF'', CHR ''F''), (''0V)UEK'', CHR ''F''),
    (''0V)UEN'', CHR ''F''), (''0V)UES'', CHR ''F''), (''0V)UEV'', CHR ''F''),
    (''0V,(1)'', CHR ''F''), (''0V,(1O'', CHR ''F''), (''0V,(E('', CHR ''F''),
    (''0V,(E1'', CHR ''F''), (''0V,(EF'', CHR ''F''), (''0V,(EK'', CHR ''F''),
    (''0V,(EN'', CHR ''F''), (''0V,(ES'', CHR ''F''), (''0V,(EV'', CHR ''F''),
    (''0V,(F('', CHR ''F''), (''0V,(N)'', CHR ''F''), (''0V,(NO'', CHR ''F''),
    (''0V,(S)'', CHR ''F''), (''0V,(SO'', CHR ''F''), (''0V,(V)'', CHR ''F''),
    (''0V,(VO'', CHR ''F''), (''0V,F()'', CHR ''F''), (''0V,F(1'', CHR ''F''),
    (''0V,F(F'', CHR ''F''), (''0V,F(N'', CHR ''F''), (''0V,F(S'', CHR ''F''),
    (''0V,F(V'', CHR ''F''), (''0V;E(1'', CHR ''F''), (''0V;E(E'', CHR ''F''),
    (''0V;E(F'', CHR ''F''), (''0V;E(N'', CHR ''F''), (''0V;E(S'', CHR ''F''),
    (''0V;E(V'', CHR ''F''), (''0V;E1,'', CHR ''F''), (''0V;E1;'', CHR ''F''),
    (''0V;E1C'', CHR ''F''), (''0V;E1K'', CHR ''F''), (''0V;E1O'', CHR ''F''),
    (''0V;E1T'', CHR ''F''), (''0V;EF('', CHR ''F''), (''0V;EK('', CHR ''F''),
    (''0V;EK1'', CHR ''F''), (''0V;EKF'', CHR ''F''), (''0V;EKN'', CHR ''F''),
    (''0V;EKO'', CHR ''F''), (''0V;EKS'', CHR ''F''), (''0V;EKV'', CHR ''F''),
    (''0V;EN,'', CHR ''F''), (''0V;EN;'', CHR ''F''), (''0V;ENC'', CHR ''F''),
    (''0V;ENE'', CHR ''F''), (''0V;ENK'', CHR ''F''), (''0V;ENO'', CHR ''F''),
    (''0V;ENT'', CHR ''F''), (''0V;ES,'', CHR ''F''), (''0V;ES;'', CHR ''F''),
    (''0V;ESC'', CHR ''F''), (''0V;ESK'', CHR ''F''), (''0V;ESO'', CHR ''F''),
    (''0V;EST'', CHR ''F''), (''0V;EV,'', CHR ''F''), (''0V;EV;'', CHR ''F''),
    (''0V;EVC'', CHR ''F''), (''0V;EVK'', CHR ''F''), (''0V;EVO'', CHR ''F''),
    (''0V;EVT'', CHR ''F''), (''0V;N:T'', CHR ''F''), (''0V;T(1'', CHR ''F''),
    (''0V;T(C'', CHR ''F''), (''0V;T(E'', CHR ''F''), (''0V;T(F'', CHR ''F''),
    (''0V;T(N'', CHR ''F''), (''0V;T(S'', CHR ''F''), (''0V;T(V'', CHR ''F''),
    (''0V;T1('', CHR ''F''), (''0V;T1,'', CHR ''F''), (''0V;T1;'', CHR ''F''),
    (''0V;T1C'', CHR ''F''), (''0V;T1F'', CHR ''F''), (''0V;T1K'', CHR ''F''),
    (''0V;T1O'', CHR ''F''), (''0V;T1T'', CHR ''F''), (''0V;T;'', CHR ''F''),
    (''0V;T;C'', CHR ''F''), (''0V;TF('', CHR ''F''), (''0V;TK('', CHR ''F''),
    (''0V;TK1'', CHR ''F''), (''0V;TKF'', CHR ''F''), (''0V;TKK'', CHR ''F''),
    (''0V;TKN'', CHR ''F''), (''0V;TKO'', CHR ''F''), (''0V;TKS'', CHR ''F''),
    (''0V;TKV'', CHR ''F''), (''0V;TN('', CHR ''F''), (''0V;TN,'', CHR ''F''),
    (''0V;TN1'', CHR ''F''), (''0V;TN;'', CHR ''F''), (''0V;TNC'', CHR ''F''),
    (''0V;TNE'', CHR ''F''), (''0V;TNF'', CHR ''F''), (''0V;TNK'', CHR ''F''),
    (''0V;TNN'', CHR ''F''), (''0V;TNO'', CHR ''F''), (''0V;TNS'', CHR ''F''),
    (''0V;TNT'', CHR ''F''), (''0V;TNV'', CHR ''F''), (''0V;TO('', CHR ''F''),
    (''0V;TS('', CHR ''F''), (''0V;TS,'', CHR ''F''), (''0V;TS;'', CHR ''F''),
    (''0V;TSC'', CHR ''F''), (''0V;TSF'', CHR ''F''), (''0V;TSK'', CHR ''F''),
    (''0V;TSO'', CHR ''F''), (''0V;TST'', CHR ''F''), (''0V;TTN'', CHR ''F''),
    (''0V;TV('', CHR ''F''), (''0V;TV,'', CHR ''F''), (''0V;TV;'', CHR ''F''),
    (''0V;TVC'', CHR ''F''), (''0V;TVF'', CHR ''F''), (''0V;TVK'', CHR ''F'')]"

lemma sql_keywords_49_chain: "kw_chain ''0V)OF('' sql_keywords_49 ''0V;TVK''"
  by (simp add: sql_keywords_49_def)

lemma sql_keywords_49_words: "kw_words sql_keywords_49"
  by (simp add: sql_keywords_49_def kw_words_def kw_word_def)

lemma sql_keywords_49_length: "length sql_keywords_49 = 150"
  by (simp add: sql_keywords_49_def)

definition sql_keywords_50 :: "keyword_t list" where
  "sql_keywords_50 = [
    (''0V;TVO'', CHR ''F''), (''0V;TVT'', CHR ''F''), (''0VA(F('', CHR ''F''),
    (''0VA(N)'', CHR ''F''), (''0VA(NO'', CHR ''F''), (''0VA(S)'', CHR ''F''),
    (''0VA(SO'', CHR ''F''), (''0VA(V)'', CHR ''F''), (''0VA(VO'', CHR ''F''),
    (''0VAF()'', CHR ''F''), (''0VAF(1'', CHR ''F''), (''0VAF(F'', CHR ''F''),
    (''0VAF(N'', CHR ''F''), (''0VAF(S'', CHR ''F''), (''0VAF(V'', CHR ''F''),
    (''0VASO('', CHR ''F''), (''0VASO1'', CHR ''F''), (''0VASOF'', CHR ''F''),
    (''0VASON'', CHR ''F''), (''0VASOS'', CHR ''F''), (''0VASOV'', CHR ''F''),
    (''0VASUE'', CHR ''F''), (''0VATO('', CHR ''F''), (''0VATO1'', CHR ''F''),
    (''0VATOF'', CHR ''F''), (''0VATON'', CHR ''F''), (''0VATOS'', CHR ''F''),
    (''0VATOV'', CHR ''F''), (''0VATUE'', CHR ''F''), (''0VAVO('', CHR ''F''),
    (''0VAVOF'', CHR ''F''), (''0VAVOS'', CHR ''F''), (''0VAVUE'', CHR ''F''),
    (''0VB(1)'', CHR ''F''), (''0VB(1O'', CHR ''F''), (''0VB(F('', CHR ''F''),
    (''0VB(NO'', CHR ''F''), (''0VB(S)'', CHR ''F''), (''0VB(SO'', CHR ''F''),
    (''0VB(V)'', CHR ''F''), (''0VB(VO'', CHR ''F''), (''0VB1'', CHR ''F''),
    (''0VB1&('', CHR ''F''), (''0VB1&1'', CHR ''F''), (''0VB1&F'', CHR ''F''),
    (''0VB1&N'', CHR ''F''), (''0VB1&S'', CHR ''F''), (''0VB1&V'', CHR ''F''),
    (''0VB1,('', CHR ''F''), (''0VB1,F'', CHR ''F''), (''0VB1;'', CHR ''F''),
    (''0VB1;C'', CHR ''F''), (''0VB1B('', CHR ''F''), (''0VB1B1'', CHR ''F''),
    (''0VB1BF'', CHR ''F''), (''0VB1BN'', CHR ''F''), (''0VB1BS'', CHR ''F''),
    (''0VB1BV'', CHR ''F''), (''0VB1C'', CHR ''F''), (''0VB1K('', CHR ''F''),
    (''0VB1K1'', CHR ''F''), (''0VB1KF'', CHR ''F''), (''0VB1KN'', CHR ''F''),
    (''0VB1KS'', CHR ''F''), (''0VB1KV'', CHR ''F''), (''0VB1O('', CHR ''F''),
    (''0VB1OF'', CHR ''F''), (''0VB1OS'', CHR ''F''), (''0VB1OV'', CHR ''F''),
    (''0VB1U('', CHR ''F''), (''0VB1UE'', CHR ''F''), (''0VBE(1'', CHR ''F''),
    (''0VBE(F'', CHR ''F''), (''0VBE(N'', CHR ''F''), (''0VBE(S'', CHR ''F''),
    (''0VBE(V'', CHR ''F''), (''0VBEK('', CHR ''F''), (''0VBF()'', CHR ''F''),
    (''0VBF(1'', CHR ''F''), (''0VBF(F'', CHR ''F''), (''0VBF(N'', CHR ''F''),
    (''0VBF(S'', CHR ''F''), (''0VBF(V'', CHR ''F''), (''0VBN'', CHR ''F''),
    (''0VBN&('', CHR ''F''), (''0VBN&1'', CHR ''F''), (''0VBN&F'', CHR ''F''),
    (''0VBN&N'', CHR ''F''), (''0VBN&S'', CHR ''F''), (''0VBN&V'', CHR ''F''),
    (''0VBN,('', CHR ''F''), (''0VBN,F'', CHR ''F''), (''0VBN;'', CHR ''F''),
    (''0VBN;C'', CHR ''F''), (''0VBNB('', CHR ''F''), (''0VBNB1'', CHR ''F''),
    (''0VBNBF'', CHR ''F''), (''0VBNBN'', CHR ''F''), (''0VBNBS'', CHR ''F''),
    (''0VBNBV'', CHR ''F''), (''0VBNC'', CHR ''F''), (''0VBNK('', CHR ''F''),
    (''0VBNK1'', CHR ''F''), (''0VBNKF'', CHR ''F''), (''0VBNKN'', CHR ''F''),
    (''0VBNKS'', CHR ''F''), (''0VBNKV'', CHR ''F''), (''0VBNO('', CHR ''F''),
    (''0VBNOF'', CHR ''F''), (''0VBNOS'', CHR ''F''), (''0VBNOV'', CHR ''F''),
    (''0VBNU('', CHR ''F''), (''0VBNUE'', CHR ''F''), (''0VBS'', CHR ''F''),
    (''0VBS&('', CHR ''F''), (''0VBS&1'', CHR ''F''), (''0VBS&F'', CHR ''F''),
    (''0VBS&N'', CHR ''F''), (''0VBS&S'', CHR ''F''), (''0VBS&V'', CHR ''F''),
    (''0VBS,('', CHR ''F''), (''0VBS,F'', CHR ''F''), (''0VBS;'', CHR ''F''),
    (''0VBS;C'', CHR ''F''), (''0VBSB('', CHR ''F''), (''0VBSB1'', CHR ''F''),
    (''0VBSBF'', CHR ''F''), (''0VBSBN'', CHR ''F''), (''0VBSBS'', CHR ''F''),
    (''0VBSBV'', CHR ''F''), (''0VBSC'', CHR ''F''), (''0VBSK('', CHR ''F''),
    (''0VBSK1'', CHR ''F''), (''0VBSKF'', CHR ''F''), (''0VBSKN'', CHR ''F''),
    (''0VBSKS'', CHR ''F''), (''0VBSKV'', CHR ''F''), (''0VBSO('', CHR ''F''),
    (''0VBSO1'', CHR ''F''), (''0VBSOF'', CHR ''F''), (''0VBSON'', CHR ''F''),
    (''0VBSOS'', CHR ''F''), (''0VBSOV'', CHR ''F''), (''0VBSU('', CHR ''F''),
    (''0VBSUE'', CHR ''F''), (''0VBV'', CHR ''F''), (''0VBV&('', CHR ''F''),
    (''0VBV&1'', CHR ''F''), (''0VBV&F'', CHR ''F''), (''0VBV&N'', CHR ''F'')]"

lemma sql_keywords_50_chain: "kw_chain ''0V;TVK'' sql_keywords_50 ''0VBV&N''"
  by (simp add: sql_keywords_50_def)

lemma sql_keywords_50_words: "kw_words sql_keywords_50"
  by (simp add: sql_keywords_50_def kw_words_def kw_word_def)

lemma sql_keywords_50_length: "length sql_keywords_50 = 150"
  by (simp add: sql_keywords_50_def)

definition sql_keywords_51 :: "keyword_t list" where
  "sql_keywords_51 = [
    (''0VBV&S'', CHR ''F''), (''0VBV&V'', CHR ''F''), (''0VBV,('', CHR ''F''),
    (''0VBV,F'', CHR ''F''), (''0VBV;'', CHR ''F''), (''0VBV;C'', CHR ''F''),
    (''0VBVB('', CHR ''F''), (''0VBVB1'', CHR ''F''), (''0VBVBF'', CHR ''F''),
    (''0VBVBN'', CHR ''F''), (''0VBVBS'', CHR ''F''), (''0VBVBV'', CHR ''F''),
    (''0VBVC'', CHR ''F''), (''0VBVK('', CHR ''F''), (''0VBVK1'', CHR ''F''),
    (''0VBVKF'', CHR ''F''), (''0VBVKN'', CHR ''F''), (''0VBVKS'', CHR ''F''),
    (''0VBVKV'', CHR ''F''), (''0VBVO('', CHR ''F''), (''0VBVOF'', CHR ''F''),
    (''0VBVOS'', CHR ''F''), (''0VBVU('', CHR ''F''), (''0VBVUE'', CHR ''F''),
    (''0VC'', CHR ''F''), (''0VE(1)'', CHR ''F''), (''0VE(1O'', CHR ''F''),
    (''0VE(F('', CHR ''F''), (''0VE(N)'', CHR ''F''), (''0VE(NO'', CHR ''F''),
    (''0VE(S)'', CHR ''F''), (''0VE(SO'', CHR ''F''), (''0VE(V)'', CHR ''F''),
    (''0VE(VO'', CHR ''F''), (''0VE1;T'', CHR ''F''), (''0VE1C'', CHR ''F''),
    (''0VE1O('', CHR ''F''), (''0VE1OF'', CHR ''F''), (''0VE1OS'', CHR ''F''),
    (''0VE1OV'', CHR ''F''), (''0VE1T('', CHR ''F''), (''0VE1T1'', CHR ''F''),
    (''0VE1TF'', CHR ''F''), (''0VE1TN'', CHR ''F''), (''0VE1TS'', CHR ''F''),
    (''0VE1TV'', CHR ''F''), (''0VE1UE'', CHR ''F''), (''0VEF()'', CHR ''F''),
    (''0VEF(1'', CHR ''F''), (''0VEF(F'', CHR ''F''), (''0VEF(N'', CHR ''F''),
    (''0VEF(S'', CHR ''F''), (''0VEF(V'', CHR ''F''), (''0VEK(1'', CHR ''F''),
    (''0VEK(E'', CHR ''F''), (''0VEK(F'', CHR ''F''), (''0VEK(N'', CHR ''F''),
    (''0VEK(S'', CHR ''F''), (''0VEK(V'', CHR ''F''), (''0VEK1;'', CHR ''F''),
    (''0VEK1C'', CHR ''F''), (''0VEK1O'', CHR ''F''), (''0VEK1T'', CHR ''F''),
    (''0VEK1U'', CHR ''F''), (''0VEKF('', CHR ''F''), (''0VEKN;'', CHR ''F''),
    (''0VEKNC'', CHR ''F''), (''0VEKNE'', CHR ''F''), (''0VEKNT'', CHR ''F''),
    (''0VEKNU'', CHR ''F''), (''0VEKOK'', CHR ''F''), (''0VEKS;'', CHR ''F''),
    (''0VEKSC'', CHR ''F''), (''0VEKSO'', CHR ''F''), (''0VEKST'', CHR ''F''),
    (''0VEKSU'', CHR ''F''), (''0VEKU('', CHR ''F''), (''0VEKU1'', CHR ''F''),
    (''0VEKUE'', CHR ''F''), (''0VEKUF'', CHR ''F''), (''0VEKUS'', CHR ''F''),
    (''0VEKUV'', CHR ''F''), (''0VEKV;'', CHR ''F''), (''0VEKVC'', CHR ''F''),
    (''0VEKVO'', CHR ''F''), (''0VEKVT'', CHR ''F''), (''0VEKVU'', CHR ''F''),
    (''0VEN;T'', CHR ''F''), (''0VENC'', CHR ''F''), (''0VENEN'', CHR ''F''),
    (''0VENO('', CHR ''F''), (''0VENOF'', CHR ''F''), (''0VENOS'', CHR ''F''),
    (''0VENOV'', CHR ''F''), (''0VENT('', CHR ''F''), (''0VENT1'', CHR ''F''),
    (''0VENTF'', CHR ''F''), (''0VENTN'', CHR ''F''), (''0VENTS'', CHR ''F''),
    (''0VENTV'', CHR ''F''), (''0VENUE'', CHR ''F''), (''0VEOKN'', CHR ''F''),
    (''0VES;T'', CHR ''F''), (''0VESC'', CHR ''F''), (''0VESO('', CHR ''F''),
    (''0VESO1'', CHR ''F''), (''0VESOF'', CHR ''F''), (''0VESON'', CHR ''F''),
    (''0VESOS'', CHR ''F''), (''0VESOV'', CHR ''F''), (''0VEST('', CHR ''F''),
    (''0VEST1'', CHR ''F''), (''0VESTF'', CHR ''F''), (''0VESTN'', CHR ''F''),
    (''0VESTS'', CHR ''F''), (''0VESTV'', CHR ''F''), (''0VESUE'', CHR ''F''),
    (''0VEU(1'', CHR ''F''), (''0VEU(F'', CHR ''F''), (''0VEU(N'', CHR ''F''),
    (''0VEU(S'', CHR ''F''), (''0VEU(V'', CHR ''F''), (''0VEU1,'', CHR ''F''),
    (''0VEU1C'', CHR ''F''), (''0VEU1O'', CHR ''F''), (''0VEUEF'', CHR ''F''),
    (''0VEUEK'', CHR ''F''), (''0VEUF('', CHR ''F''), (''0VEUS,'', CHR ''F''),
    (''0VEUSC'', CHR ''F''), (''0VEUSO'', CHR ''F''), (''0VEUV,'', CHR ''F''),
    (''0VEUVC'', CHR ''F''), (''0VEUVO'', CHR ''F''), (''0VEV;T'', CHR ''F''),
    (''0VEVC'', CHR ''F''), (''0VEVO('', CHR ''F''), (''0VEVOF'', CHR ''F''),
    (''0VEVOS'', CHR ''F''), (''0VEVT('', CHR ''F''), (''0VEVT1'', CHR ''F''),
    (''0VEVTF'', CHR ''F''), (''0VEVTN'', CHR ''F''), (''0VEVTS'', CHR ''F''),
    (''0VEVTV'', CHR ''F''), (''0VEVUE'', CHR ''F''), (''0VF()1'', CHR ''F''),
    (''0VF()F'', CHR ''F''), (''0VF()K'', CHR ''F''), (''0VF()N'', CHR ''F'')]"

lemma sql_keywords_51_chain: "kw_chain ''0VBV&N'' sql_keywords_51 ''0VF()N''"
  by (simp add: sql_keywords_51_def)

lemma sql_keywords_51_words: "kw_words sql_keywords_51"
  by (simp add: sql_keywords_51_def kw_words_def kw_word_def)

lemma sql_keywords_51_length: "length sql_keywords_51 = 150"
  by (simp add: sql_keywords_51_def)

definition sql_keywords_52 :: "keyword_t list" where
  "sql_keywords_52 = [
    (''0VF()O'', CHR ''F''), (''0VF()S'', CHR ''F''), (''0VF()U'', CHR ''F''),
    (''0VF()V'', CHR ''F''), (''0VF(1)'', CHR ''F''), (''0VF(1N'', CHR ''F''),
    (''0VF(1O'', CHR ''F''), (''0VF(E('', CHR ''F''), (''0VF(E1'', CHR ''F''),
    (''0VF(EF'', CHR ''F''), (''0VF(EK'', CHR ''F''), (''0VF(EN'', CHR ''F''),
    (''0VF(ES'', CHR ''F''), (''0VF(EV'', CHR ''F''), (''0VF(F('', CHR ''F''),
    (''0VF(N)'', CHR ''F''), (''0VF(N,'', CHR ''F''), (''0VF(NO'', CHR ''F''),
    (''0VF(S)'', CHR ''F''), (''0VF(SO'', CHR ''F''), (''0VF(V)'', CHR ''F''),
    (''0VF(VO'', CHR ''F''), (''0VK(1)'', CHR ''F''), (''0VK(1O'', CHR ''F''),
    (''0VK(F('', CHR ''F''), (''0VK(N)'', CHR ''F''), (''0VK(NO'', CHR ''F''),
    (''0VK(S)'', CHR ''F''), (''0VK(SO'', CHR ''F''), (''0VK(V)'', CHR ''F''),
    (''0VK(VO'', CHR ''F''), (''0VK)&('', CHR ''F''), (''0VK)&1'', CHR ''F''),
    (''0VK)&F'', CHR ''F''), (''0VK)&N'', CHR ''F''), (''0VK)&S'', CHR ''F''),
    (''0VK)&V'', CHR ''F''), (''0VK);E'', CHR ''F''), (''0VK);T'', CHR ''F''),
    (''0VK)B('', CHR ''F''), (''0VK)B1'', CHR ''F''), (''0VK)BF'', CHR ''F''),
    (''0VK)BN'', CHR ''F''), (''0VK)BS'', CHR ''F''), (''0VK)BV'', CHR ''F''),
    (''0VK)E('', CHR ''F''), (''0VK)E1'', CHR ''F''), (''0VK)EF'', CHR ''F''),
    (''0VK)EK'', CHR ''F''), (''0VK)EN'', CHR ''F''), (''0VK)ES'', CHR ''F''),
    (''0VK)EV'', CHR ''F''), (''0VK)F('', CHR ''F''), (''0VK)O('', CHR ''F''),
    (''0VK)OF'', CHR ''F''), (''0VK)UE'', CHR ''F''), (''0VK1'', CHR ''F''),
    (''0VK1&('', CHR ''F''), (''0VK1&1'', CHR ''F''), (''0VK1&F'', CHR ''F''),
    (''0VK1&N'', CHR ''F''), (''0VK1&S'', CHR ''F''), (''0VK1&V'', CHR ''F''),
    (''0VK1;'', CHR ''F''), (''0VK1;C'', CHR ''F''), (''0VK1;E'', CHR ''F''),
    (''0VK1;T'', CHR ''F''), (''0VK1B('', CHR ''F''), (''0VK1B1'', CHR ''F''),
    (''0VK1BF'', CHR ''F''), (''0VK1BN'', CHR ''F''), (''0VK1BS'', CHR ''F''),
    (''0VK1BV'', CHR ''F''), (''0VK1C'', CHR ''F''), (''0VK1E('', CHR ''F''),
    (''0VK1E1'', CHR ''F''), (''0VK1EF'', CHR ''F''), (''0VK1EK'', CHR ''F''),
    (''0VK1EN'', CHR ''F''), (''0VK1ES'', CHR ''F''), (''0VK1EV'', CHR ''F''),
    (''0VK1O('', CHR ''F''), (''0VK1OF'', CHR ''F''), (''0VK1OS'', CHR ''F''),
    (''0VK1OV'', CHR ''F''), (''0VK1U('', CHR ''F''), (''0VK1UE'', CHR ''F''),
    (''0VKF()'', CHR ''F''), (''0VKF(1'', CHR ''F''), (''0VKF(F'', CHR ''F''),
    (''0VKF(N'', CHR ''F''), (''0VKF(S'', CHR ''F''), (''0VKF(V'', CHR ''F''),
    (''0VKN'', CHR ''F''), (''0VKN&('', CHR ''F''), (''0VKN&1'', CHR ''F''),
    (''0VKN&F'', CHR ''F''), (''0VKN&N'', CHR ''F''), (''0VKN&S'', CHR ''F''),
    (''0VKN&V'', CHR ''F''), (''0VKN;'', CHR ''F''), (''0VKN;C'', CHR ''F''),
    (''0VKN;E'', CHR ''F''), (''0VKN;T'', CHR ''F''), (''0VKNB('', CHR ''F''),
    (''0VKNB1'', CHR ''F''), (''0VKNBF'', CHR ''F''), (''0VKNBN'', CHR ''F''),
    (''0VKNBS'', CHR ''F''), (''0VKNBV'', CHR ''F''), (''0VKNC'', CHR ''F''),
    (''0VKNE('', CHR ''F''), (''0VKNE1'', CHR ''F''), (''0VKNEF'', CHR ''F''),
    (''0VKNEN'', CHR ''F''), (''0VKNES'', CHR ''F''), (''0VKNEV'', CHR ''F''),
    (''0VKNU('', CHR ''F''), (''0VKNUE'', CHR ''F''), (''0VKS'', CHR ''F''),
    (''0VKS&('', CHR ''F''), (''0VKS&1'', CHR ''F''), (''0VKS&F'', CHR ''F''),
    (''0VKS&N'', CHR ''F''), (''0VKS&S'', CHR ''F''), (''0VKS&V'', CHR ''F''),
    (''0VKS;'', CHR ''F''), (''0VKS;C'', CHR ''F''), (''0VKS;E'', CHR ''F''),
    (''0VKS;T'', CHR ''F''), (''0VKSB('', CHR ''F''), (''0VKSB1'', CHR ''F''),
    (''0VKSBF'', CHR ''F''), (''0VKSBN'', CHR ''F''), (''0VKSBS'', CHR ''F''),
    (''0VKSBV'', CHR ''F''), (''0VKSC'', CHR ''F''), (''0VKSE('', CHR ''F''),
    (''0VKSE1'', CHR ''F''), (''0VKSEF'', CHR ''F''), (''0VKSEK'', CHR ''F''),
    (''0VKSEN'', CHR ''F''), (''0VKSES'', CHR ''F''), (''0VKSEV'', CHR ''F''),
    (''0VKSO('', CHR ''F''), (''0VKSO1'', CHR ''F''), (''0VKSOF'', CHR ''F''),
    (''0VKSON'', CHR ''F''), (''0VKSOS'', CHR ''F''), (''0VKSOV'', CHR ''F'')]"

lemma sql_keywords_52_chain: "kw_chain ''0VF()N'' sql_keywords_52 ''0VKSOV''"
  by (simp add: sql_keywords_52_def)

lemma sql_keywords_52_words: "kw_words sql_keywords_52"
  by (simp add: sql_keywords_52_def kw_words_def kw_word_def)

lemma sql_keywords_52_length: "length sql_keywords_52 = 150"
  by (simp add: sql_keywords_52_def)

definition sql_keywords_53 :: "keyword_t list" where
  "sql_keywords_53 = [
    (''0VKSU('', CHR ''F''), (''0VKSUE'', CHR ''F''), (''0VKUE('', CHR ''F''),
    (''0VKUE1'', CHR ''F''), (''0VKUEF'', CHR ''F''), (''0VKUEK'', CHR ''F''),
    (''0VKUEN'', CHR ''F''), (''0VKUES'', CHR ''F''), (''0VKUEV'', CHR ''F''),
    (''0VKV'', CHR ''F''), (''0VKV&('', CHR ''F''), (''0VKV&1'', CHR ''F''),
    (''0VKV&F'', CHR ''F''), (''0VKV&N'', CHR ''F''), (''0VKV&S'', CHR ''F''),
    (''0VKV&V'', CHR ''F''), (''0VKV;'', CHR ''F''), (''0VKV;C'', CHR ''F''),
    (''0VKV;E'', CHR ''F''), (''0VKV;T'', CHR ''F''), (''0VKVB('', CHR ''F''),
    (''0VKVB1'', CHR ''F''), (''0VKVBF'', CHR ''F''), (''0VKVBN'', CHR ''F''),
    (''0VKVBS'', CHR ''F''), (''0VKVBV'', CHR ''F''), (''0VKVC'', CHR ''F''),
    (''0VKVE('', CHR ''F''), (''0VKVE1'', CHR ''F''), (''0VKVEF'', CHR ''F''),
    (''0VKVEK'', CHR ''F''), (''0VKVEN'', CHR ''F''), (''0VKVES'', CHR ''F''),
    (''0VKVEV'', CHR ''F''), (''0VKVO('', CHR ''F''), (''0VKVOF'', CHR ''F''),
    (''0VKVOS'', CHR ''F''), (''0VKVU('', CHR ''F''), (''0VKVUE'', CHR ''F''),
    (''0VO(1&'', CHR ''F''), (''0VO(1)'', CHR ''F''), (''0VO(1,'', CHR ''F''),
    (''0VO(1O'', CHR ''F''), (''0VO(E('', CHR ''F''), (''0VO(E1'', CHR ''F''),
    (''0VO(EE'', CHR ''F''), (''0VO(EF'', CHR ''F''), (''0VO(EK'', CHR ''F''),
    (''0VO(EN'', CHR ''F''), (''0VO(EO'', CHR ''F''), (''0VO(ES'', CHR ''F''),
    (''0VO(EV'', CHR ''F''), (''0VO(F('', CHR ''F''), (''0VO(N&'', CHR ''F''),
    (''0VO(N)'', CHR ''F''), (''0VO(N,'', CHR ''F''), (''0VO(NO'', CHR ''F''),
    (''0VO(S&'', CHR ''F''), (''0VO(S)'', CHR ''F''), (''0VO(S,'', CHR ''F''),
    (''0VO(SO'', CHR ''F''), (''0VO(V&'', CHR ''F''), (''0VO(V)'', CHR ''F''),
    (''0VO(V,'', CHR ''F''), (''0VO(VO'', CHR ''F''), (''0VOF()'', CHR ''F''),
    (''0VOF(1'', CHR ''F''), (''0VOF(E'', CHR ''F''), (''0VOF(F'', CHR ''F''),
    (''0VOF(N'', CHR ''F''), (''0VOF(S'', CHR ''F''), (''0VOF(V'', CHR ''F''),
    (''0VOK&('', CHR ''F''), (''0VOK&1'', CHR ''F''), (''0VOK&F'', CHR ''F''),
    (''0VOK&N'', CHR ''F''), (''0VOK&S'', CHR ''F''), (''0VOK&V'', CHR ''F''),
    (''0VOK(1'', CHR ''F''), (''0VOK(F'', CHR ''F''), (''0VOK(N'', CHR ''F''),
    (''0VOK(S'', CHR ''F''), (''0VOK(V'', CHR ''F''), (''0VOK1C'', CHR ''F''),
    (''0VOK1O'', CHR ''F''), (''0VOKF('', CHR ''F''), (''0VOKNC'', CHR ''F''),
    (''0VOKO('', CHR ''F''), (''0VOKO1'', CHR ''F''), (''0VOKOF'', CHR ''F''),
    (''0VOKON'', CHR ''F''), (''0VOKOS'', CHR ''F''), (''0VOKOV'', CHR ''F''),
    (''0VOKSC'', CHR ''F''), (''0VOKSO'', CHR ''F''), (''0VOKVC'', CHR ''F''),
    (''0VOKVO'', CHR ''F''), (''0VOS'', CHR ''F''), (''0VOS&('', CHR ''F''),
    (''0VOS&1'', CHR ''F''), (''0VOS&E'', CHR ''F''), (''0VOS&F'', CHR ''F''),
    (''0VOS&K'', CHR ''F''), (''0VOS&N'', CHR ''F''), (''0VOS&S'', CHR ''F''),
    (''0VOS&U'', CHR ''F''), (''0VOS&V'', CHR ''F''), (''0VOS(E'', CHR ''F''),
    (''0VOS(U'', CHR ''F''), (''0VOS)&'', CHR ''F''), (''0VOS),'', CHR ''F''),
    (''0VOS);'', CHR ''F''), (''0VOS)B'', CHR ''F''), (''0VOS)C'', CHR ''F''),
    (''0VOS)E'', CHR ''F''), (''0VOS)F'', CHR ''F''), (''0VOS)K'', CHR ''F''),
    (''0VOS)O'', CHR ''F''), (''0VOS)U'', CHR ''F''), (''0VOS,('', CHR ''F''),
    (''0VOS,F'', CHR ''F''), (''0VOS1('', CHR ''F''), (''0VOS1F'', CHR ''F''),
    (''0VOS1N'', CHR ''F''), (''0VOS1S'', CHR ''F''), (''0VOS1U'', CHR ''F''),
    (''0VOS1V'', CHR ''F''), (''0VOS;'', CHR ''F''), (''0VOS;C'', CHR ''F''),
    (''0VOS;E'', CHR ''F''), (''0VOS;N'', CHR ''F''), (''0VOS;T'', CHR ''F''),
    (''0VOSA('', CHR ''F''), (''0VOSAF'', CHR ''F''), (''0VOSAS'', CHR ''F''),
    (''0VOSAT'', CHR ''F''), (''0VOSAV'', CHR ''F''), (''0VOSB('', CHR ''F''),
    (''0VOSB1'', CHR ''F''), (''0VOSBE'', CHR ''F''), (''0VOSBF'', CHR ''F''),
    (''0VOSBN'', CHR ''F''), (''0VOSBS'', CHR ''F''), (''0VOSBV'', CHR ''F''),
    (''0VOSC'', CHR ''F''), (''0VOSE('', CHR ''F''), (''0VOSE1'', CHR ''F''),
    (''0VOSEF'', CHR ''F''), (''0VOSEK'', CHR ''F''), (''0VOSEN'', CHR ''F'')]"

lemma sql_keywords_53_chain: "kw_chain ''0VKSOV'' sql_keywords_53 ''0VOSEN''"
  by (simp add: sql_keywords_53_def)

lemma sql_keywords_53_words: "kw_words sql_keywords_53"
  by (simp add: sql_keywords_53_def kw_words_def kw_word_def)

lemma sql_keywords_53_length: "length sql_keywords_53 = 150"
  by (simp add: sql_keywords_53_def)

definition sql_keywords_54 :: "keyword_t list" where
  "sql_keywords_54 = [
    (''0VOSEO'', CHR ''F''), (''0VOSES'', CHR ''F''), (''0VOSEU'', CHR ''F''),
    (''0VOSEV'', CHR ''F''), (''0VOSF('', CHR ''F''), (''0VOSK('', CHR ''F''),
    (''0VOSK)'', CHR ''F''), (''0VOSK1'', CHR ''F''), (''0VOSKB'', CHR ''F''),
    (''0VOSKF'', CHR ''F''), (''0VOSKN'', CHR ''F''), (''0VOSKS'', CHR ''F''),
    (''0VOSKU'', CHR ''F''), (''0VOSKV'', CHR ''F''), (''0VOST('', CHR ''F''),
    (''0VOST1'', CHR ''F''), (''0VOSTE'', CHR ''F''), (''0VOSTF'', CHR ''F''),
    (''0VOSTN'', CHR ''F''), (''0VOSTS'', CHR ''F''), (''0VOSTT'', CHR ''F''),
    (''0VOSTV'', CHR ''F''), (''0VOSU'', CHR ''F''), (''0VOSU('', CHR ''F''),
    (''0VOSU1'', CHR ''F''), (''0VOSU;'', CHR ''F''), (''0VOSUC'', CHR ''F''),
    (''0VOSUE'', CHR ''F''), (''0VOSUF'', CHR ''F''), (''0VOSUK'', CHR ''F''),
    (''0VOSUO'', CHR ''F''), (''0VOSUS'', CHR ''F''), (''0VOSUT'', CHR ''F''),
    (''0VOSUV'', CHR ''F''), (''0VOSV('', CHR ''F''), (''0VOSVF'', CHR ''F''),
    (''0VOSVO'', CHR ''F''), (''0VOSVS'', CHR ''F''), (''0VOSVU'', CHR ''F''),
    (''0VOU(E'', CHR ''F''), (''0VOUEK'', CHR ''F''), (''0VOUEN'', CHR ''F''),
    (''0VT(1)'', CHR ''F''), (''0VT(1O'', CHR ''F''), (''0VT(F('', CHR ''F''),
    (''0VT(N)'', CHR ''F''), (''0VT(NO'', CHR ''F''), (''0VT(S)'', CHR ''F''),
    (''0VT(SO'', CHR ''F''), (''0VT(V)'', CHR ''F''), (''0VT(VO'', CHR ''F''),
    (''0VT1(F'', CHR ''F''), (''0VT1O('', CHR ''F''), (''0VT1OF'', CHR ''F''),
    (''0VT1OS'', CHR ''F''), (''0VT1OV'', CHR ''F''), (''0VTE(1'', CHR ''F''),
    (''0VTE(F'', CHR ''F''), (''0VTE(N'', CHR ''F''), (''0VTE(S'', CHR ''F''),
    (''0VTE(V'', CHR ''F''), (''0VTE1N'', CHR ''F''), (''0VTE1O'', CHR ''F''),
    (''0VTEF('', CHR ''F''), (''0VTEK('', CHR ''F''), (''0VTEK1'', CHR ''F''),
    (''0VTEKF'', CHR ''F''), (''0VTEKN'', CHR ''F''), (''0VTEKS'', CHR ''F''),
    (''0VTEKV'', CHR ''F''), (''0VTENN'', CHR ''F''), (''0VTENO'', CHR ''F''),
    (''0VTESN'', CHR ''F''), (''0VTESO'', CHR ''F''), (''0VTEVN'', CHR ''F''),
    (''0VTEVO'', CHR ''F''), (''0VTF()'', CHR ''F''), (''0VTF(1'', CHR ''F''),
    (''0VTF(F'', CHR ''F''), (''0VTF(N'', CHR ''F''), (''0VTF(S'', CHR ''F''),
    (''0VTF(V'', CHR ''F''), (''0VTN(1'', CHR ''F''), (''0VTN(F'', CHR ''F''),
    (''0VTN(S'', CHR ''F''), (''0VTN(V'', CHR ''F''), (''0VTN1C'', CHR ''F''),
    (''0VTN1O'', CHR ''F''), (''0VTN;E'', CHR ''F''), (''0VTN;N'', CHR ''F''),
    (''0VTN;T'', CHR ''F''), (''0VTNE('', CHR ''F''), (''0VTNE1'', CHR ''F''),
    (''0VTNEF'', CHR ''F''), (''0VTNEN'', CHR ''F''), (''0VTNES'', CHR ''F''),
    (''0VTNEV'', CHR ''F''), (''0VTNF('', CHR ''F''), (''0VTNKN'', CHR ''F''),
    (''0VTNN:'', CHR ''F''), (''0VTNNC'', CHR ''F''), (''0VTNNO'', CHR ''F''),
    (''0VTNO('', CHR ''F''), (''0VTNOF'', CHR ''F''), (''0VTNOS'', CHR ''F''),
    (''0VTNOV'', CHR ''F''), (''0VTNSC'', CHR ''F''), (''0VTNSO'', CHR ''F''),
    (''0VTNT('', CHR ''F''), (''0VTNT1'', CHR ''F''), (''0VTNTF'', CHR ''F''),
    (''0VTNTN'', CHR ''F''), (''0VTNTS'', CHR ''F''), (''0VTNTV'', CHR ''F''),
    (''0VTNVC'', CHR ''F''), (''0VTNVO'', CHR ''F''), (''0VTS(F'', CHR ''F''),
    (''0VTSO('', CHR ''F''), (''0VTSO1'', CHR ''F''), (''0VTSOF'', CHR ''F''),
    (''0VTSON'', CHR ''F''), (''0VTSOS'', CHR ''F''), (''0VTSOV'', CHR ''F''),
    (''0VTTNE'', CHR ''F''), (''0VTTNK'', CHR ''F''), (''0VTTNN'', CHR ''F''),
    (''0VTTNT'', CHR ''F''), (''0VTV(1'', CHR ''F''), (''0VTV(F'', CHR ''F''),
    (''0VTVO('', CHR ''F''), (''0VTVOF'', CHR ''F''), (''0VTVOS'', CHR ''F''),
    (''0VU'', CHR ''F''), (''0VU(1)'', CHR ''F''), (''0VU(1O'', CHR ''F''),
    (''0VU(E('', CHR ''F''), (''0VU(E1'', CHR ''F''), (''0VU(EF'', CHR ''F''),
    (''0VU(EK'', CHR ''F''), (''0VU(EN'', CHR ''F''), (''0VU(ES'', CHR ''F''),
    (''0VU(EV'', CHR ''F''), (''0VU(F('', CHR ''F''), (''0VU(N)'', CHR ''F''),
    (''0VU(NO'', CHR ''F''), (''0VU(S)'', CHR ''F''), (''0VU(SO'', CHR ''F''),
    (''0VU(V)'', CHR ''F''), (''0VU(VO'', CHR ''F''), (''0VU1,('', CHR ''F'')]"

lemma sql_keywords_54_chain: "kw_chain ''0VOSEN'' sql_keywords_54 ''0VU1,(''"
  by (simp add: sql_keywords_54_def)

lemma sql_keywords_54_words: "kw_words sql_keywords_54"
  by (simp add: sql_keywords_54_def kw_words_def kw_word_def)

lemma sql_keywords_54_length: "length sql_keywords_54 = 150"
  by (simp add: sql_keywords_54_def)

definition sql_keywords_55 :: "keyword_t list" where
  "sql_keywords_55 = [
    (''0VU1,F'', CHR ''F''), (''0VU1C'', CHR ''F''), (''0VU1O('', CHR ''F''),
    (''0VU1OF'', CHR ''F''), (''0VU1OS'', CHR ''F''), (''0VU1OV'', CHR ''F''),
    (''0VU;'', CHR ''F''), (''0VU;C'', CHR ''F''), (''0VUC'', CHR ''F''), (''0VUE'', CHR ''F''),
    (''0VUE(1'', CHR ''F''), (''0VUE(E'', CHR ''F''), (''0VUE(F'', CHR ''F''),
    (''0VUE(N'', CHR ''F''), (''0VUE(O'', CHR ''F''), (''0VUE(S'', CHR ''F''),
    (''0VUE(V'', CHR ''F''), (''0VUE1'', CHR ''F''), (''0VUE1&'', CHR ''F''),
    (''0VUE1('', CHR ''F''), (''0VUE1)'', CHR ''F''), (''0VUE1,'', CHR ''F''),
    (''0VUE1;'', CHR ''F''), (''0VUE1B'', CHR ''F''), (''0VUE1C'', CHR ''F''),
    (''0VUE1F'', CHR ''F''), (''0VUE1K'', CHR ''F''), (''0VUE1N'', CHR ''F''),
    (''0VUE1O'', CHR ''F''), (''0VUE1S'', CHR ''F''), (''0VUE1U'', CHR ''F''),
    (''0VUE1V'', CHR ''F''), (''0VUE;'', CHR ''F''), (''0VUE;C'', CHR ''F''),
    (''0VUEC'', CHR ''F''), (''0VUEF'', CHR ''F''), (''0VUEF('', CHR ''F''),
    (''0VUEF,'', CHR ''F''), (''0VUEF;'', CHR ''F''), (''0VUEFC'', CHR ''F''),
    (''0VUEK'', CHR ''F''), (''0VUEK('', CHR ''F''), (''0VUEK1'', CHR ''F''),
    (''0VUEK;'', CHR ''F''), (''0VUEKC'', CHR ''F''), (''0VUEKF'', CHR ''F''),
    (''0VUEKN'', CHR ''F''), (''0VUEKO'', CHR ''F''), (''0VUEKS'', CHR ''F''),
    (''0VUEKV'', CHR ''F''), (''0VUEN'', CHR ''F''), (''0VUEN&'', CHR ''F''),
    (''0VUEN('', CHR ''F''), (''0VUEN)'', CHR ''F''), (''0VUEN,'', CHR ''F''),
    (''0VUEN1'', CHR ''F''), (''0VUEN;'', CHR ''F''), (''0VUENB'', CHR ''F''),
    (''0VUENC'', CHR ''F''), (''0VUENF'', CHR ''F''), (''0VUENK'', CHR ''F''),
    (''0VUENO'', CHR ''F''), (''0VUENS'', CHR ''F''), (''0VUENU'', CHR ''F''),
    (''0VUEOK'', CHR ''F''), (''0VUEON'', CHR ''F''), (''0VUES'', CHR ''F''),
    (''0VUES&'', CHR ''F''), (''0VUES('', CHR ''F''), (''0VUES)'', CHR ''F''),
    (''0VUES,'', CHR ''F''), (''0VUES1'', CHR ''F''), (''0VUES;'', CHR ''F''),
    (''0VUESB'', CHR ''F''), (''0VUESC'', CHR ''F''), (''0VUESF'', CHR ''F''),
    (''0VUESK'', CHR ''F''), (''0VUESO'', CHR ''F''), (''0VUESU'', CHR ''F''),
    (''0VUESV'', CHR ''F''), (''0VUEV'', CHR ''F''), (''0VUEV&'', CHR ''F''),
    (''0VUEV('', CHR ''F''), (''0VUEV)'', CHR ''F''), (''0VUEV,'', CHR ''F''),
    (''0VUEV;'', CHR ''F''), (''0VUEVB'', CHR ''F''), (''0VUEVC'', CHR ''F''),
    (''0VUEVF'', CHR ''F''), (''0VUEVK'', CHR ''F''), (''0VUEVN'', CHR ''F''),
    (''0VUEVO'', CHR ''F''), (''0VUEVS'', CHR ''F''), (''0VUEVU'', CHR ''F''),
    (''0VUF()'', CHR ''F''), (''0VUF(1'', CHR ''F''), (''0VUF(F'', CHR ''F''),
    (''0VUF(N'', CHR ''F''), (''0VUF(S'', CHR ''F''), (''0VUF(V'', CHR ''F''),
    (''0VUK(E'', CHR ''F''), (''0VUO(E'', CHR ''F''), (''0VUON('', CHR ''F''),
    (''0VUON1'', CHR ''F''), (''0VUONF'', CHR ''F''), (''0VUONS'', CHR ''F''),
    (''0VUS,('', CHR ''F''), (''0VUS,F'', CHR ''F''), (''0VUSC'', CHR ''F''),
    (''0VUSO('', CHR ''F''), (''0VUSO1'', CHR ''F''), (''0VUSOF'', CHR ''F''),
    (''0VUSON'', CHR ''F''), (''0VUSOS'', CHR ''F''), (''0VUSOV'', CHR ''F''),
    (''0VUTN('', CHR ''F''), (''0VUTN1'', CHR ''F''), (''0VUTNF'', CHR ''F''),
    (''0VUTNN'', CHR ''F''), (''0VUTNS'', CHR ''F''), (''0VUTNV'', CHR ''F''),
    (''0VUV,('', CHR ''F''), (''0VUV,F'', CHR ''F''), (''0VUVC'', CHR ''F''),
    (''0VUVO('', CHR ''F''), (''0VUVOF'', CHR ''F''), (''0VUVOS'', CHR ''F''), (''0X'', CHR ''F''),
    (''::'', CHR ''o''), ('':='', CHR ''o''), (''<<'', CHR ''o''), (''<='', CHR ''o''),
    (''<>'', CHR ''o''), (''<@'', CHR ''o''), (''>='', CHR ''o''), (''>>'', CHR ''o''),
    (''@>'', CHR ''o''), (''ABORT'', CHR ''k''), (''ABS'', CHR ''f''), (''ACCESSIBLE'', CHR ''k''),
    (''ACOS'', CHR ''f''), (''ADDDATE'', CHR ''f''), (''ADDTIME'', CHR ''f''),
    (''AES_DECRYPT'', CHR ''f''), (''AES_ENCRYPT'', CHR ''f''), (''AGAINST'', CHR ''k''),
    (''AGE'', CHR ''f''), (''ALL_USERS'', CHR ''k''), (''ALTER'', CHR ''k''),
    (''ALTER DOMAIN'', CHR ''k'')]"

lemma sql_keywords_55_chain: "kw_chain ''0VU1,('' sql_keywords_55 ''ALTER DOMAIN''"
  by (simp add: sql_keywords_55_def)

lemma sql_keywords_55_words: "kw_words sql_keywords_55"
  by (simp add: sql_keywords_55_def kw_words_def kw_word_def)

lemma sql_keywords_55_length: "length sql_keywords_55 = 150"
  by (simp add: sql_keywords_55_def)

end
