(* ===== verification/Sqli_Keywords_7.thy ===== *)
theory Sqli_Keywords_7
  imports Sqli_Word_Order
begin

text \<open>
  Part 7 of the table \<open>sql_keywords\<close> of \<open>src/src/headers/libinjection_sqli_data.h\<close>
  (lines 8698 to 9649), in slices of at most 150 entries in the order of the source. Each slice
  \<open>sql_keywords_n\<close> comes with the fact that it continues the strictly ascending chain
  of words from the last word of the slice before it to its own last word.
\<close>

definition sql_keywords_56 :: "keyword_t list" where
  "sql_keywords_56 = [
    (''ALTER TABLE'', CHR ''k''), (''ANALYZE'', CHR ''k''), (''AND'', CHR ''&''),
    (''ANY'', CHR ''f''), (''ANYARRAY'', CHR ''t''), (''ANYELEMENT'', CHR ''t''),
    (''ANYNONARRY'', CHR ''t''), (''APPLOCK_MODE'', CHR ''f''), (''APPLOCK_TEST'', CHR ''f''),
    (''APP_NAME'', CHR ''f''), (''ARRAY_AGG'', CHR ''f''), (''ARRAY_CAT'', CHR ''f''),
    (''ARRAY_DIM'', CHR ''f''), (''ARRAY_FILL'', CHR ''f''), (''ARRAY_LENGTH'', CHR ''f''),
    (''ARRAY_LOWER'', CHR ''f''), (''ARRAY_NDIMS'', CHR ''f''), (''ARRAY_PREPEND'', CHR ''f''),
    (''ARRAY_TO_JSON'', CHR ''f''), (''ARRAY_TO_STRING'', CHR ''f''), (''ARRAY_UPPER'', CHR ''f''),
    (''AS'', CHR ''k''), (''ASC'', CHR ''k''), (''ASCII'', CHR ''f''), (''ASENSITIVE'', CHR ''k''),
    (''ASIN'', CHR ''f''), (''ASSEMBLYPROPERTY'', CHR ''f''), (''ASYMKEY_ID'', CHR ''f''),
    (''AT TIME'', CHR ''n''), (''AT TIME ZONE'', CHR ''k''), (''ATAN'', CHR ''f''),
    (''ATAN2'', CHR ''f''), (''AUTOINCREMENT'', CHR ''k''), (''AVG'', CHR ''f''),
    (''BEFORE'', CHR ''k''), (''BEGIN'', CHR ''T''), (''BEGIN DECLARE'', CHR ''T''),
    (''BEGIN GOTO'', CHR ''T''), (''BEGIN TRY'', CHR ''T''), (''BEGIN TRY DECLARE'', CHR ''T''),
    (''BENCHMARK'', CHR ''f''), (''BETWEEN'', CHR ''o''), (''BIGINT'', CHR ''t''),
    (''BIGSERIAL'', CHR ''t''), (''BIN'', CHR ''f''), (''BINARY'', CHR ''t''),
    (''BINARY_DOUBLE_INFINITY'', CHR ''1''), (''BINARY_DOUBLE_NAN'', CHR ''1''),
    (''BINARY_FLOAT_INFINITY'', CHR ''1''), (''BINARY_FLOAT_NAN'', CHR ''1''),
    (''BINBINARY'', CHR ''f''), (''BIT_AND'', CHR ''f''), (''BIT_COUNT'', CHR ''f''),
    (''BIT_LENGTH'', CHR ''f''), (''BIT_OR'', CHR ''f''), (''BIT_XOR'', CHR ''f''),
    (''BLOB'', CHR ''k''), (''BOOLEAN'', CHR ''t''), (''BOOL_AND'', CHR ''f''),
    (''BOOL_OR'', CHR ''f''), (''BOTH'', CHR ''k''), (''BTRIM'', CHR ''f''), (''BY'', CHR ''n''),
    (''BYTEA'', CHR ''t''), (''CALL'', CHR ''T''), (''CASCADE'', CHR ''k''), (''CASE'', CHR ''E''),
    (''CAST'', CHR ''f''), (''CBOOL'', CHR ''f''), (''CBRT'', CHR ''f''), (''CBYTE'', CHR ''f''),
    (''CCUR'', CHR ''f''), (''CDATE'', CHR ''f''), (''CDBL'', CHR ''f''), (''CEIL'', CHR ''f''),
    (''CEILING'', CHR ''f''), (''CERTENCODED'', CHR ''f''), (''CERTPRIVATEKEY'', CHR ''f''),
    (''CERT_ID'', CHR ''f''), (''CERT_PROPERTY'', CHR ''f''), (''CHANGE'', CHR ''k''),
    (''CHANGES'', CHR ''f''), (''CHAR'', CHR ''f''), (''CHARACTER'', CHR ''t''),
    (''CHARACTER VARYING'', CHR ''t''), (''CHARACTER_LENGTH'', CHR ''f''),
    (''CHARINDEX'', CHR ''f''), (''CHARSET'', CHR ''f''), (''CHAR_LENGTH'', CHR ''f''),
    (''CHDIR'', CHR ''f''), (''CHDRIVE'', CHR ''f''), (''CHECK'', CHR ''n''),
    (''CHECKSUM_AGG'', CHR ''f''), (''CHOOSE'', CHR ''f''), (''CHR'', CHR ''f''),
    (''CINT'', CHR ''f''), (''CLNG'', CHR ''f''), (''CLOCK_TIMESTAMP'', CHR ''f''),
    (''COALESCE'', CHR ''f''), (''COERCIBILITY'', CHR ''f''), (''COLLATE'', CHR ''A''),
    (''COLLATION'', CHR ''f''), (''COLLATIONPROPERTY'', CHR ''f''), (''COLUMN'', CHR ''k''),
    (''COLUMNPROPERTY'', CHR ''f''), (''COLUMNS_UPDATED'', CHR ''f''), (''COL_LENGTH'', CHR ''f''),
    (''COL_NAME'', CHR ''f''), (''COMPRESS'', CHR ''f''), (''CONCAT'', CHR ''f''),
    (''CONCAT_WS'', CHR ''f''), (''CONDITION'', CHR ''k''), (''CONNECTION_ID'', CHR ''f''),
    (''CONSTRAINT'', CHR ''k''), (''CONTINUE'', CHR ''k''), (''CONV'', CHR ''f''),
    (''CONVERT'', CHR ''f''), (''CONVERT_FROM'', CHR ''f''), (''CONVERT_TO'', CHR ''f''),
    (''CONVERT_TZ'', CHR ''f''), (''COS'', CHR ''f''), (''COT'', CHR ''f''),
    (''COUNT'', CHR ''f''), (''COUNT_BIG'', CHR ''k''), (''CRC32'', CHR ''f''),
    (''CREATE'', CHR ''E''), (''CREATE OR'', CHR ''n''), (''CREATE OR REPLACE'', CHR ''T''),
    (''CROSS'', CHR ''n''), (''CROSS JOIN'', CHR ''k''), (''CSNG'', CHR ''f''),
    (''CSTRING'', CHR ''t''), (''CTXSYS.DRITHSX.SN'', CHR ''f''), (''CUME_DIST'', CHR ''f''),
    (''CURDATE'', CHR ''f''), (''CURDIR'', CHR ''f''), (''CURRENT DATE'', CHR ''v''),
    (''CURRENT DEGREE'', CHR ''v''), (''CURRENT FUNCTION'', CHR ''v''),
    (''CURRENT FUNCTION PATH'', CHR ''v''), (''CURRENT PATH'', CHR ''v''),
    (''CURRENT SCHEMA'', CHR ''v''), (''CURRENT SERVER'', CHR ''v''),
    (''CURRENT TIME'', CHR ''v''), (''CURRENT TIMEZONE'', CHR ''v''), (''CURRENTUSER'', CHR ''f''),
    (''CURRENT_DATABASE'', CHR ''f''), (''CURRENT_DATE'', CHR ''v''),
    (''CURRENT_PATH'', CHR ''v''), (''CURRENT_QUERY'', CHR ''f'')]"

lemma sql_keywords_56_chain: "kw_chain ''ALTER DOMAIN'' sql_keywords_56 ''CURRENT_QUERY''"
  by (simp add: sql_keywords_56_def)

lemma sql_keywords_56_words: "kw_words sql_keywords_56"
  by (simp add: sql_keywords_56_def kw_words_def kw_word_def)

lemma sql_keywords_56_length: "length sql_keywords_56 = 150"
  by (simp add: sql_keywords_56_def)

definition sql_keywords_57 :: "keyword_t list" where
  "sql_keywords_57 = [
    (''CURRENT_SCHEMA'', CHR ''f''), (''CURRENT_SCHEMAS'', CHR ''f''),
    (''CURRENT_SERVER'', CHR ''v''), (''CURRENT_SETTING'', CHR ''f''),
    (''CURRENT_TIME'', CHR ''v''), (''CURRENT_TIMESTAMP'', CHR ''v''),
    (''CURRENT_TIMEZONE'', CHR ''v''), (''CURRENT_USER'', CHR ''v''), (''CURRVAL'', CHR ''f''),
    (''CURSOR'', CHR ''k''), (''CURSOR_STATUS'', CHR ''f''), (''CURTIME'', CHR ''f''),
    (''CVAR'', CHR ''f''), (''DATABASE'', CHR ''n''), (''DATABASEPROPERTYEX'', CHR ''f''),
    (''DATABASES'', CHR ''k''), (''DATABASE_PRINCIPAL_ID'', CHR ''f''),
    (''DATALENGTH'', CHR ''f''), (''DATE'', CHR ''f''), (''DATEADD'', CHR ''f''),
    (''DATEDIFF'', CHR ''f''), (''DATEFROMPARTS'', CHR ''f''), (''DATENAME'', CHR ''f''),
    (''DATEPART'', CHR ''f''), (''DATESERIAL'', CHR ''f''), (''DATETIME2FROMPARTS'', CHR ''f''),
    (''DATETIMEFROMPARTS'', CHR ''f''), (''DATETIMEOFFSETFROMPARTS'', CHR ''f''),
    (''DATEVALUE'', CHR ''f''), (''DATE_ADD'', CHR ''f''), (''DATE_FORMAT'', CHR ''f''),
    (''DATE_PART'', CHR ''f''), (''DATE_SUB'', CHR ''f''), (''DATE_TRUNC'', CHR ''f''),
    (''DAVG'', CHR ''f''), (''DAY'', CHR ''f''), (''DAYNAME'', CHR ''f''),
    (''DAYOFMONTH'', CHR ''f''), (''DAYOFWEEK'', CHR ''f''), (''DAYOFYEAR'', CHR ''f''),
    (''DAY_HOUR'', CHR ''k''), (''DAY_MICROSECOND'', CHR ''k''), (''DAY_MINUTE'', CHR ''k''),
    (''DAY_SECOND'', CHR ''k''), (''DBMS_LOCK.SLEEP'', CHR ''f''),
    (''DBMS_PIPE.RECEIVE_MESSAGE'', CHR ''f''), (''DBMS_UTILITY.SQLID_TO_SQLHASH'', CHR ''f''),
    (''DB_ID'', CHR ''f''), (''DB_NAME'', CHR ''f''), (''DCOUNT'', CHR ''f''),
    (''DEC'', CHR ''k''), (''DECIMAL'', CHR ''t''), (''DECLARE'', CHR ''T''),
    (''DECODE'', CHR ''f''), (''DECRYPTBYASMKEY'', CHR ''f''), (''DECRYPTBYCERT'', CHR ''f''),
    (''DECRYPTBYKEY'', CHR ''f''), (''DECRYPTBYKEYAUTOCERT'', CHR ''f''),
    (''DECRYPTBYPASSPHRASE'', CHR ''f''), (''DEFAULT'', CHR ''k''), (''DEGREES'', CHR ''f''),
    (''DELAY'', CHR ''k''), (''DELAYED'', CHR ''k''), (''DELETE'', CHR ''T''),
    (''DENSE_RANK'', CHR ''f''), (''DESC'', CHR ''k''), (''DESCRIBE'', CHR ''k''),
    (''DES_DECRYPT'', CHR ''f''), (''DES_ENCRYPT'', CHR ''f''), (''DETERMINISTIC'', CHR ''k''),
    (''DFIRST'', CHR ''f''), (''DIFFERENCE'', CHR ''f''), (''DISTINCT'', CHR ''k''),
    (''DISTINCTROW'', CHR ''k''), (''DIV'', CHR ''o''), (''DLAST'', CHR ''f''),
    (''DLOOKUP'', CHR ''f''), (''DMAX'', CHR ''f''), (''DMIN'', CHR ''f''), (''DO'', CHR ''n''),
    (''DOUBLE'', CHR ''t''), (''DOUBLE PRECISION'', CHR ''t''), (''DROP'', CHR ''T''),
    (''DSUM'', CHR ''f''), (''DUAL'', CHR ''n''), (''EACH'', CHR ''k''), (''ELSE'', CHR ''k''),
    (''ELSEIF'', CHR ''k''), (''ELT'', CHR ''f''), (''ENCLOSED'', CHR ''k''),
    (''ENCODE'', CHR ''f''), (''ENCRYPT'', CHR ''f''), (''ENCRYPTBYASMKEY'', CHR ''f''),
    (''ENCRYPTBYCERT'', CHR ''f''), (''ENCRYPTBYKEY'', CHR ''f''),
    (''ENCRYPTBYPASSPHRASE'', CHR ''f''), (''ENUM_FIRST'', CHR ''f''), (''ENUM_LAST'', CHR ''f''),
    (''ENUM_RANGE'', CHR ''f''), (''EOMONTH'', CHR ''f''), (''EQV'', CHR ''o''),
    (''ESCAPED'', CHR ''k''), (''EVENTDATA'', CHR ''f''), (''EXCEPT'', CHR ''U''),
    (''EXEC'', CHR ''T''), (''EXECUTE'', CHR ''T''), (''EXECUTE AS'', CHR ''E''),
    (''EXECUTE AS LOGIN'', CHR ''E''), (''EXISTS'', CHR ''f''), (''EXIT'', CHR ''k''),
    (''EXP'', CHR ''f''), (''EXPLAIN'', CHR ''k''), (''EXPORT_SET'', CHR ''f''),
    (''EXTRACT'', CHR ''f''), (''EXTRACTVALUE'', CHR ''f''), (''EXTRACT_VALUE'', CHR ''f''),
    (''FALSE'', CHR ''1''), (''FETCH'', CHR ''k''), (''FIELD'', CHR ''f''),
    (''FILEDATETIME'', CHR ''f''), (''FILEGROUPPROPERTY'', CHR ''f''),
    (''FILEGROUP_ID'', CHR ''f''), (''FILEGROUP_NAME'', CHR ''f''), (''FILELEN'', CHR ''f''),
    (''FILEPROPERTY'', CHR ''f''), (''FILETOBLOB'', CHR ''f''), (''FILETOCLOB'', CHR ''f''),
    (''FILE_ID'', CHR ''f''), (''FILE_IDEX'', CHR ''f''), (''FILE_NAME'', CHR ''f''),
    (''FIND_IN_SET'', CHR ''f''), (''FIRST_VALUE'', CHR ''f''), (''FLOAT'', CHR ''t''),
    (''FLOAT4'', CHR ''t''), (''FLOAT8'', CHR ''t''), (''FLOOR'', CHR ''f''),
    (''FN_VIRTUALFILESTATS'', CHR ''f''), (''FOR'', CHR ''n''), (''FOR UPDATE'', CHR ''k''),
    (''FOR UPDATE NOWAIT'', CHR ''k''), (''FOR UPDATE OF'', CHR ''k''),
    (''FOR UPDATE SKIP'', CHR ''k''), (''FOR UPDATE SKIP LOCKED'', CHR ''k''),
    (''FOR UPDATE WAIT'', CHR ''k''), (''FORCE'', CHR ''k''), (''FOREIGN'', CHR ''k''),
    (''FORMAT'', CHR ''f''), (''FOUND_ROWS'', CHR ''f''), (''FROM'', CHR ''k''),
    (''FROM_BASE64'', CHR ''f'')]"

lemma sql_keywords_57_chain: "kw_chain ''CURRENT_QUERY'' sql_keywords_57 ''FROM_BASE64''"
  by (simp add: sql_keywords_57_def)

lemma sql_keywords_57_words: "kw_words sql_keywords_57"
  by (simp add: sql_keywords_57_def kw_words_def kw_word_def)

lemma sql_keywords_57_length: "length sql_keywords_57 = 150"
  by (simp add: sql_keywords_57_def)

definition sql_keywords_58 :: "keyword_t list" where
  "sql_keywords_58 = [
    (''FROM_DAYS'', CHR ''f''), (''FROM_UNIXTIME'', CHR ''f''), (''FULL JOIN'', CHR ''k''),
    (''FULL OUTER'', CHR ''k''), (''FULL OUTER JOIN'', CHR ''k''), (''FULLTEXT'', CHR ''k''),
    (''FULLTEXTCATALOGPROPERTY'', CHR ''f''), (''FULLTEXTSERVICEPROPERTY'', CHR ''f''),
    (''FUNCTION'', CHR ''k''), (''GENERATE_SERIES'', CHR ''f''),
    (''GENERATE_SUBSCRIPTS'', CHR ''f''), (''GETATTR'', CHR ''f''), (''GETDATE'', CHR ''f''),
    (''GETUTCDATE'', CHR ''f''), (''GET_BIT'', CHR ''f''), (''GET_BYTE'', CHR ''f''),
    (''GET_FORMAT'', CHR ''f''), (''GET_LOCK'', CHR ''f''), (''GO'', CHR ''T''),
    (''GOTO'', CHR ''T''), (''GRANT'', CHR ''k''), (''GREATEST'', CHR ''f''),
    (''GROUP'', CHR ''n''), (''GROUP BY'', CHR ''B''), (''GROUPING'', CHR ''f''),
    (''GROUPING_ID'', CHR ''f''), (''GROUP_CONCAT'', CHR ''f''), (''HANDLER'', CHR ''T''),
    (''HASHBYTES'', CHR ''f''), (''HAS_PERMS_BY_NAME'', CHR ''f''), (''HAVING'', CHR ''B''),
    (''HEX'', CHR ''f''), (''HIGH_PRIORITY'', CHR ''k''), (''HOST_NAME'', CHR ''f''),
    (''HOUR'', CHR ''f''), (''HOUR_MICROSECOND'', CHR ''k''), (''HOUR_MINUTE'', CHR ''k''),
    (''HOUR_SECOND'', CHR ''k''), (''IDENTIFY'', CHR ''f''), (''IDENT_CURRENT'', CHR ''f''),
    (''IDENT_INCR'', CHR ''f''), (''IDENT_SEED'', CHR ''f''), (''IF'', CHR ''f''),
    (''IF EXISTS'', CHR ''f''), (''IF NOT'', CHR ''f''), (''IF NOT EXISTS'', CHR ''f''),
    (''IFF'', CHR ''f''), (''IFNULL'', CHR ''f''), (''IGNORE'', CHR ''k''), (''IIF'', CHR ''f''),
    (''IN'', CHR ''k''), (''IN BOOLEAN'', CHR ''n''), (''IN BOOLEAN MODE'', CHR ''k''),
    (''INDEX'', CHR ''k''), (''INDEXKEY_PROPERTY'', CHR ''f''), (''INDEXPROPERTY'', CHR ''f''),
    (''INDEX_COL'', CHR ''f''), (''INET_ATON'', CHR ''f''), (''INET_NTOA'', CHR ''f''),
    (''INFILE'', CHR ''k''), (''INITCAP'', CHR ''f''), (''INNER'', CHR ''k''),
    (''INNER JOIN'', CHR ''k''), (''INOUT'', CHR ''k''), (''INSENSITIVE'', CHR ''k''),
    (''INSERT'', CHR ''E''), (''INSERT DELAYED'', CHR ''E''), (''INSERT DELAYED INTO'', CHR ''T''),
    (''INSERT HIGH_PRIORITY'', CHR ''E''), (''INSERT HIGH_PRIORITY INTO'', CHR ''T''),
    (''INSERT IGNORE'', CHR ''E''), (''INSERT IGNORE INTO'', CHR ''T''),
    (''INSERT INTO'', CHR ''T''), (''INSERT LOW_PRIORITY'', CHR ''E''),
    (''INSERT LOW_PRIORITY INTO'', CHR ''T''), (''INSTR'', CHR ''f''), (''INSTRREV'', CHR ''f''),
    (''INT'', CHR ''t''), (''INT1'', CHR ''t''), (''INT2'', CHR ''t''), (''INT3'', CHR ''t''),
    (''INT4'', CHR ''t''), (''INT8'', CHR ''t''), (''INTEGER'', CHR ''t''),
    (''INTERSECT'', CHR ''U''), (''INTERSECT ALL'', CHR ''U''), (''INTERVAL'', CHR ''k''),
    (''INTO'', CHR ''k''), (''INTO DUMPFILE'', CHR ''k''), (''INTO OUTFILE'', CHR ''k''),
    (''IS'', CHR ''o''), (''IS DISTINCT'', CHR ''n''), (''IS DISTINCT FROM'', CHR ''o''),
    (''IS NOT'', CHR ''o''), (''IS NOT DISTINCT'', CHR ''n''),
    (''IS NOT DISTINCT FROM'', CHR ''o''), (''ISDATE'', CHR ''f''), (''ISEMPTY'', CHR ''f''),
    (''ISFINITE'', CHR ''f''), (''ISNULL'', CHR ''f''), (''ISNUMERIC'', CHR ''f''),
    (''IS_FREE_LOCK'', CHR ''f''), (''IS_MEMBER'', CHR ''f''), (''IS_OBJECTSIGNED'', CHR ''f''),
    (''IS_ROLEMEMBER'', CHR ''f''), (''IS_SRVROLEMEMBER'', CHR ''f''),
    (''IS_USED_LOCK'', CHR ''f''), (''ITERATE'', CHR ''k''), (''JOIN'', CHR ''k''),
    (''JSON_KEYS'', CHR ''f''), (''JULIANDAY'', CHR ''f''), (''JUSTIFY_DAYS'', CHR ''f''),
    (''JUSTIFY_HOURS'', CHR ''f''), (''JUSTIFY_INTERVAL'', CHR ''f''), (''KEYS'', CHR ''k''),
    (''KEY_GUID'', CHR ''f''), (''KEY_ID'', CHR ''f''), (''KILL'', CHR ''k''),
    (''LAG'', CHR ''f''), (''LASTVAL'', CHR ''f''), (''LAST_INSERT_ID'', CHR ''f''),
    (''LAST_INSERT_ROWID'', CHR ''f''), (''LAST_VALUE'', CHR ''f''), (''LCASE'', CHR ''f''),
    (''LEAD'', CHR ''f''), (''LEADING'', CHR ''k''), (''LEAST'', CHR ''f''),
    (''LEAVE'', CHR ''k''), (''LEFT'', CHR ''f''), (''LEFT JOIN'', CHR ''k''),
    (''LEFT OUTER'', CHR ''k''), (''LEFT OUTER JOIN'', CHR ''k''), (''LENGTH'', CHR ''f''),
    (''LIKE'', CHR ''o''), (''LIMIT'', CHR ''B''), (''LINEAR'', CHR ''k''), (''LINES'', CHR ''k''),
    (''LN'', CHR ''f''), (''LOAD'', CHR ''k''), (''LOAD DATA'', CHR ''T''),
    (''LOAD XML'', CHR ''T''), (''LOAD_EXTENSION'', CHR ''f''), (''LOAD_FILE'', CHR ''f''),
    (''LOCALTIME'', CHR ''v''), (''LOCALTIMESTAMP'', CHR ''v''), (''LOCATE'', CHR ''f''),
    (''LOCK'', CHR ''n''), (''LOCK IN'', CHR ''n''), (''LOCK IN SHARE'', CHR ''n''),
    (''LOCK IN SHARE MODE'', CHR ''k'')]"

lemma sql_keywords_58_chain: "kw_chain ''FROM_BASE64'' sql_keywords_58 ''LOCK IN SHARE MODE''"
  by (simp add: sql_keywords_58_def)

lemma sql_keywords_58_words: "kw_words sql_keywords_58"
  by (simp add: sql_keywords_58_def kw_words_def kw_word_def)

lemma sql_keywords_58_length: "length sql_keywords_58 = 150"
  by (simp add: sql_keywords_58_def)

definition sql_keywords_59 :: "keyword_t list" where
  "sql_keywords_59 = [
    (''LOCK TABLE'', CHR ''k''), (''LOCK TABLES'', CHR ''k''), (''LOG'', CHR ''f''),
    (''LOG10'', CHR ''f''), (''LOG2'', CHR ''f''), (''LONGBLOB'', CHR ''k''),
    (''LONGTEXT'', CHR ''k''), (''LOOP'', CHR ''k''), (''LOWER'', CHR ''f''),
    (''LOWER_INC'', CHR ''f''), (''LOWER_INF'', CHR ''f''), (''LOW_PRIORITY'', CHR ''k''),
    (''LPAD'', CHR ''f''), (''LTRIM'', CHR ''f''), (''MAKEDATE'', CHR ''f''),
    (''MAKE_SET'', CHR ''f''), (''MASKLEN'', CHR ''f''), (''MASTER_BIND'', CHR ''k''),
    (''MASTER_POS_WAIT'', CHR ''f''), (''MASTER_SSL_VERIFY_SERVER_CERT'', CHR ''k''),
    (''MATCH'', CHR ''k''), (''MAX'', CHR ''f''), (''MAXVALUE'', CHR ''k''), (''MD5'', CHR ''f''),
    (''MEDIUMBLOB'', CHR ''k''), (''MEDIUMINT'', CHR ''k''), (''MEDIUMTEXT'', CHR ''k''),
    (''MERGE'', CHR ''k''), (''MICROSECOND'', CHR ''f''), (''MID'', CHR ''f''),
    (''MIDDLEINT'', CHR ''k''), (''MIN'', CHR ''f''), (''MINUTE'', CHR ''f''),
    (''MINUTE_MICROSECOND'', CHR ''k''), (''MINUTE_SECOND'', CHR ''k''), (''MKDIR'', CHR ''f''),
    (''MOD'', CHR ''o''), (''MODE'', CHR ''n''), (''MODIFIES'', CHR ''k''), (''MONEY'', CHR ''t''),
    (''MONTH'', CHR ''f''), (''MONTHNAME'', CHR ''f''), (''NAME_CONST'', CHR ''f''),
    (''NATURAL'', CHR ''n''), (''NATURAL FULL'', CHR ''k''),
    (''NATURAL FULL OUTER JOIN'', CHR ''k''), (''NATURAL INNER'', CHR ''k''),
    (''NATURAL JOIN'', CHR ''k''), (''NATURAL LEFT'', CHR ''k''),
    (''NATURAL LEFT OUTER'', CHR ''k''), (''NATURAL LEFT OUTER JOIN'', CHR ''k''),
    (''NATURAL OUTER'', CHR ''k''), (''NATURAL RIGHT'', CHR ''k''),
    (''NATURAL RIGHT OUTER JOIN'', CHR ''k''), (''NETMASK'', CHR ''f''),
    (''NEXT VALUE'', CHR ''n''), (''NEXT VALUE FOR'', CHR ''k''), (''NEXTVAL'', CHR ''f''),
    (''NOT'', CHR ''o''), (''NOT BETWEEN'', CHR ''o''), (''NOT IN'', CHR ''k''),
    (''NOT LIKE'', CHR ''o''), (''NOT REGEXP'', CHR ''o''), (''NOT RLIKE'', CHR ''o''),
    (''NOT SIMILAR'', CHR ''o''), (''NOT SIMILAR TO'', CHR ''o''), (''NOTNULL'', CHR ''k''),
    (''NOW'', CHR ''f''), (''NOWAIT'', CHR ''k''), (''NO_WRITE_TO_BINLOG'', CHR ''k''),
    (''NTH_VALUE'', CHR ''f''), (''NTILE'', CHR ''f''), (''NULL'', CHR ''v''),
    (''NULLIF'', CHR ''f''), (''NUMERIC'', CHR ''t''), (''NZ'', CHR ''f''),
    (''OBJECTPROPERTY'', CHR ''f''), (''OBJECTPROPERTYEX'', CHR ''f''),
    (''OBJECT_DEFINITION'', CHR ''f''), (''OBJECT_ID'', CHR ''f''), (''OBJECT_NAME'', CHR ''f''),
    (''OBJECT_SCHEMA_NAME'', CHR ''f''), (''OCT'', CHR ''f''), (''OCTET_LENGTH'', CHR ''f''),
    (''OFFSET'', CHR ''k''), (''OID'', CHR ''t''), (''OLD_PASSWORD'', CHR ''f''),
    (''ONE_SHOT'', CHR ''k''), (''OPEN'', CHR ''k''), (''OPENDATASOURCE'', CHR ''f''),
    (''OPENQUERY'', CHR ''f''), (''OPENROWSET'', CHR ''f''), (''OPENXML'', CHR ''f''),
    (''OPTIMIZE'', CHR ''k''), (''OPTION'', CHR ''k''), (''OPTIONALLY'', CHR ''k''),
    (''OR'', CHR ''&''), (''ORD'', CHR ''f''), (''ORDER'', CHR ''n''), (''ORDER BY'', CHR ''B''),
    (''ORIGINAL_DB_NAME'', CHR ''f''), (''ORIGINAL_LOGIN'', CHR ''f''), (''OUT'', CHR ''n''),
    (''OUTER'', CHR ''n''), (''OUTFILE'', CHR ''k''), (''OVERLAPS'', CHR ''f''),
    (''OVERLAY'', CHR ''f''), (''OWN3D'', CHR ''k''), (''OWN3D BY'', CHR ''B''),
    (''PARSENAME'', CHR ''f''), (''PARTITION'', CHR ''k''), (''PARTITION BY'', CHR ''B''),
    (''PASSWORD'', CHR ''n''), (''PATHINDEX'', CHR ''f''), (''PATINDEX'', CHR ''f''),
    (''PERCENTILE_COUNT'', CHR ''f''), (''PERCENTILE_DISC'', CHR ''f''),
    (''PERCENTILE_RANK'', CHR ''f''), (''PERCENT_RANK'', CHR ''f''), (''PERIOD_ADD'', CHR ''f''),
    (''PERIOD_DIFF'', CHR ''f''), (''PERMISSIONS'', CHR ''f''), (''PG_ADVISORY_LOCK'', CHR ''f''),
    (''PG_BACKEND_PID'', CHR ''f''), (''PG_CANCEL_BACKEND'', CHR ''f''),
    (''PG_CLIENT_ENCODING'', CHR ''f''), (''PG_CONF_LOAD_TIME'', CHR ''f''),
    (''PG_CREATE_RESTORE_POINT'', CHR ''f''), (''PG_HAS_ROLE'', CHR ''f''),
    (''PG_IS_IN_RECOVERY'', CHR ''f''), (''PG_IS_OTHER_TEMP_SCHEMA'', CHR ''f''),
    (''PG_LISTENING_CHANNELS'', CHR ''f''), (''PG_LS_DIR'', CHR ''f''),
    (''PG_MY_TEMP_SCHEMA'', CHR ''f''), (''PG_POSTMASTER_START_TIME'', CHR ''f''),
    (''PG_READ_BINARY_FILE'', CHR ''f''), (''PG_READ_FILE'', CHR ''f''),
    (''PG_RELOAD_CONF'', CHR ''f''), (''PG_ROTATE_LOGFILE'', CHR ''f''), (''PG_SLEEP'', CHR ''f''),
    (''PG_START_BACKUP'', CHR ''f''), (''PG_STAT_FILE'', CHR ''f''),
    (''PG_STOP_BACKUP'', CHR ''f''), (''PG_SWITCH_XLOG'', CHR ''f''),
    (''PG_TERMINATE_BACKEND'', CHR ''f''), (''PG_TRIGGER_DEPTH'', CHR ''f''), (''PI'', CHR ''f''),
    (''POSITION'', CHR ''f''), (''POW'', CHR ''f''), (''POWER'', CHR ''f'')]"

lemma sql_keywords_59_chain: "kw_chain ''LOCK IN SHARE MODE'' sql_keywords_59 ''POWER''"
  by (simp add: sql_keywords_59_def)

lemma sql_keywords_59_words: "kw_words sql_keywords_59"
  by (simp add: sql_keywords_59_def kw_words_def kw_word_def)

lemma sql_keywords_59_length: "length sql_keywords_59 = 150"
  by (simp add: sql_keywords_59_def)

definition sql_keywords_60 :: "keyword_t list" where
  "sql_keywords_60 = [
    (''PRECISION'', CHR ''k''), (''PREVIOUS VALUE'', CHR ''n''),
    (''PREVIOUS VALUE FOR'', CHR ''k''), (''PRIMARY'', CHR ''k''), (''PRINT'', CHR ''T''),
    (''PROCEDURE'', CHR ''k''), (''PROCEDURE ANALYSE'', CHR ''f''),
    (''PUBLISHINGSERVERNAME'', CHR ''f''), (''PURGE'', CHR ''k''), (''PWDCOMPARE'', CHR ''f''),
    (''PWDENCRYPT'', CHR ''f''), (''QUARTER'', CHR ''f''), (''QUOTE'', CHR ''f''),
    (''QUOTENAME'', CHR ''f''), (''QUOTE_IDENT'', CHR ''f''), (''QUOTE_LITERAL'', CHR ''f''),
    (''QUOTE_NULLABLE'', CHR ''f''), (''RADIANS'', CHR ''f''), (''RAISEERROR'', CHR ''E''),
    (''RAND'', CHR ''f''), (''RANDOM'', CHR ''f''), (''RANDOMBLOB'', CHR ''f''),
    (''RANGE'', CHR ''k''), (''RANK'', CHR ''f''), (''READ'', CHR ''k''),
    (''READ WRITE'', CHR ''k''), (''READS'', CHR ''k''), (''READ_WRITE'', CHR ''k''),
    (''REAL'', CHR ''t''), (''REFERENCES'', CHR ''k''), (''REGCLASS'', CHR ''t''),
    (''REGCONFIG'', CHR ''t''), (''REGDICTIONARY'', CHR ''t''), (''REGEXP'', CHR ''o''),
    (''REGEXP_INSTR'', CHR ''f''), (''REGEXP_MATCHES'', CHR ''f''),
    (''REGEXP_REPLACE'', CHR ''f''), (''REGEXP_SPLIT_TO_ARRAY'', CHR ''f''),
    (''REGEXP_SPLIT_TO_TABLE'', CHR ''f''), (''REGEXP_SUBSTR'', CHR ''f''),
    (''REGOPER'', CHR ''t''), (''REGOPERATOR'', CHR ''t''), (''REGPROC'', CHR ''t''),
    (''REGPROCEDURE'', CHR ''t''), (''REGTYPE'', CHR ''t''), (''RELEASE'', CHR ''k''),
    (''RELEASE_LOCK'', CHR ''f''), (''RENAME'', CHR ''k''), (''REPEAT'', CHR ''k''),
    (''REPLACE'', CHR ''k''), (''REPLICATE'', CHR ''f''), (''REQUIRE'', CHR ''k''),
    (''RESIGNAL'', CHR ''k''), (''RESTRICT'', CHR ''k''), (''RETURN'', CHR ''k''),
    (''REVERSE'', CHR ''f''), (''REVOKE'', CHR ''k''), (''RIGHT'', CHR ''n''),
    (''RIGHT JOIN'', CHR ''k''), (''RIGHT OUTER'', CHR ''k''), (''RIGHT OUTER JOIN'', CHR ''k''),
    (''RLIKE'', CHR ''o''), (''ROUND'', CHR ''f''), (''ROW'', CHR ''f''),
    (''ROW_COUNT'', CHR ''f''), (''ROW_NUMBER'', CHR ''f''), (''ROW_TO_JSON'', CHR ''f''),
    (''RPAD'', CHR ''f''), (''RTRIM'', CHR ''f''), (''SCHAMA_NAME'', CHR ''f''),
    (''SCHEMA'', CHR ''k''), (''SCHEMAS'', CHR ''k''), (''SCHEMA_ID'', CHR ''f''),
    (''SCOPE_IDENTITY'', CHR ''f''), (''SECOND_MICROSECOND'', CHR ''k''),
    (''SEC_TO_TIME'', CHR ''f''), (''SELECT'', CHR ''E''), (''SELECT ALL'', CHR ''E''),
    (''SELECT DISTINCT'', CHR ''E''), (''SENSITIVE'', CHR ''k''), (''SEPARATOR'', CHR ''k''),
    (''SERIAL'', CHR ''t''), (''SERIAL2'', CHR ''t''), (''SERIAL4'', CHR ''t''),
    (''SERIAL8'', CHR ''t''), (''SERVERPROPERTY'', CHR ''f''), (''SESSION_USER'', CHR ''f''),
    (''SET'', CHR ''E''), (''SETATTR'', CHR ''f''), (''SETSEED'', CHR ''f''),
    (''SETVAL'', CHR ''f''), (''SET_BIT'', CHR ''f''), (''SET_BYTE'', CHR ''f''),
    (''SET_CONFIG'', CHR ''f''), (''SET_MASKLEN'', CHR ''f''), (''SHA'', CHR ''f''),
    (''SHA1'', CHR ''f''), (''SHA2'', CHR ''f''), (''SHOW'', CHR ''n''), (''SHUTDOWN'', CHR ''T''),
    (''SIGN'', CHR ''f''), (''SIGNAL'', CHR ''k''), (''SIGNBYASMKEY'', CHR ''f''),
    (''SIGNBYCERT'', CHR ''f''), (''SIMILAR'', CHR ''k''), (''SIMILAR TO'', CHR ''o''),
    (''SIN'', CHR ''f''), (''SLEEP'', CHR ''f''), (''SMALLDATETIMEFROMPARTS'', CHR ''f''),
    (''SMALLINT'', CHR ''t''), (''SMALLSERIAL'', CHR ''t''), (''SOME'', CHR ''f''),
    (''SOUNDEX'', CHR ''f''), (''SOUNDS'', CHR ''o''), (''SOUNDS LIKE'', CHR ''o''),
    (''SPACE'', CHR ''f''), (''SPATIAL'', CHR ''k''), (''SPECIFIC'', CHR ''k''),
    (''SPLIT_PART'', CHR ''f''), (''SQL'', CHR ''k''), (''SQLEXCEPTION'', CHR ''k''),
    (''SQLITE_VERSION'', CHR ''f''), (''SQLSTATE'', CHR ''k''), (''SQLWARNING'', CHR ''k''),
    (''SQL_BIG_RESULT'', CHR ''k''), (''SQL_BUFFER_RESULT'', CHR ''k''),
    (''SQL_CACHE'', CHR ''k''), (''SQL_CALC_FOUND_ROWS'', CHR ''k''),
    (''SQL_NO_CACHE'', CHR ''k''), (''SQL_SMALL_RESULT'', CHR ''k''),
    (''SQL_VARIANT_PROPERTY'', CHR ''f''), (''SQRT'', CHR ''f''), (''SSL'', CHR ''k''),
    (''STARTING'', CHR ''k''), (''STATEMENT_TIMESTAMP'', CHR ''f''), (''STATS_DATE'', CHR ''f''),
    (''STDDEV'', CHR ''f''), (''STDDEV_POP'', CHR ''f''), (''STDDEV_SAMP'', CHR ''f''),
    (''STRAIGHT_JOIN'', CHR ''k''), (''STRCMP'', CHR ''f''), (''STRCOMP'', CHR ''f''),
    (''STRCONV'', CHR ''f''), (''STRING_AGG'', CHR ''f''), (''STRING_TO_ARRAY'', CHR ''f''),
    (''STRPOS'', CHR ''f''), (''STR_TO_DATE'', CHR ''f''), (''STUFF'', CHR ''f''),
    (''SUBDATE'', CHR ''f''), (''SUBSTR'', CHR ''f'')]"

lemma sql_keywords_60_chain: "kw_chain ''POWER'' sql_keywords_60 ''SUBSTR''"
  by (simp add: sql_keywords_60_def)

lemma sql_keywords_60_words: "kw_words sql_keywords_60"
  by (simp add: sql_keywords_60_def kw_words_def kw_word_def)

lemma sql_keywords_60_length: "length sql_keywords_60 = 150"
  by (simp add: sql_keywords_60_def)

definition sql_keywords_61 :: "keyword_t list" where
  "sql_keywords_61 = [
    (''SUBSTRING'', CHR ''f''), (''SUBSTRING_INDEX'', CHR ''f''), (''SUBTIME'', CHR ''f''),
    (''SUM'', CHR ''f''), (''SUSER_ID'', CHR ''f''), (''SUSER_NAME'', CHR ''f''),
    (''SUSER_SID'', CHR ''f''), (''SUSER_SNAME'', CHR ''f''), (''SWITCHOFFET'', CHR ''f''),
    (''SYS.DATABASE_NAME'', CHR ''n''), (''SYS.FN_BUILTIN_PERMISSIONS'', CHR ''f''),
    (''SYS.FN_GET_AUDIT_FILE'', CHR ''f''), (''SYS.FN_MY_PERMISSIONS'', CHR ''f''),
    (''SYS.STRAGG'', CHR ''f''), (''SYSCOLUMNS'', CHR ''k''), (''SYSDATE'', CHR ''f''),
    (''SYSDATETIME'', CHR ''f''), (''SYSDATETIMEOFFSET'', CHR ''f''), (''SYSOBJECTS'', CHR ''k''),
    (''SYSTEM_USER'', CHR ''f''), (''SYSUSERS'', CHR ''k''), (''SYSUTCDATETME'', CHR ''f''),
    (''TABLE'', CHR ''n''), (''TAN'', CHR ''f''), (''TERMINATED'', CHR ''k''),
    (''TERTIARY_WEIGHTS'', CHR ''f''), (''TEXT'', CHR ''t''), (''TEXTPOS'', CHR ''f''),
    (''TEXTPTR'', CHR ''f''), (''TEXTVALID'', CHR ''f''), (''THEN'', CHR ''k''),
    (''TIME'', CHR ''k''), (''TIMEDIFF'', CHR ''f''), (''TIMEFROMPARTS'', CHR ''f''),
    (''TIMEOFDAY'', CHR ''f''), (''TIMESERIAL'', CHR ''f''), (''TIMESTAMP'', CHR ''t''),
    (''TIMESTAMPADD'', CHR ''f''), (''TIMEVALUE'', CHR ''f''), (''TIME_FORMAT'', CHR ''f''),
    (''TIME_TO_SEC'', CHR ''f''), (''TINYBLOB'', CHR ''k''), (''TINYINT'', CHR ''k''),
    (''TINYTEXT'', CHR ''k''), (''TODATETIMEOFFSET'', CHR ''f''), (''TOP'', CHR ''k''),
    (''TOTAL'', CHR ''f''), (''TOTAL_CHANGES'', CHR ''f''), (''TO_ASCII'', CHR ''f''),
    (''TO_BASE64'', CHR ''f''), (''TO_CHAR'', CHR ''f''), (''TO_DATE'', CHR ''f''),
    (''TO_DAYS'', CHR ''f''), (''TO_HEX'', CHR ''f''), (''TO_NUMBER'', CHR ''f''),
    (''TO_SECONDS'', CHR ''f''), (''TO_TIMESTAMP'', CHR ''f''), (''TRAILING'', CHR ''n''),
    (''TRANSACTION_TIMESTAMP'', CHR ''f''), (''TRANSLATE'', CHR ''f''), (''TRIGGER'', CHR ''k''),
    (''TRIGGER_NESTLEVEL'', CHR ''f''), (''TRIM'', CHR ''f''), (''TRUE'', CHR ''1''),
    (''TRUNC'', CHR ''f''), (''TRUNCATE'', CHR ''f''), (''TRY'', CHR ''T''),
    (''TRY_CAST'', CHR ''f''), (''TRY_CONVERT'', CHR ''f''), (''TRY_PARSE'', CHR ''f''),
    (''TYPEOF'', CHR ''f''), (''TYPEPROPERTY'', CHR ''f''), (''TYPE_ID'', CHR ''f''),
    (''TYPE_NAME'', CHR ''f''), (''UCASE'', CHR ''f''), (''UESCAPE'', CHR ''o''),
    (''UNCOMPRESS'', CHR ''f''), (''UNCOMPRESS_LENGTH'', CHR ''f''), (''UNDO'', CHR ''k''),
    (''UNHEX'', CHR ''f''), (''UNICODE'', CHR ''f''), (''UNION'', CHR ''U''),
    (''UNION ALL'', CHR ''U''), (''UNION ALL DISTINCT'', CHR ''U''),
    (''UNION DISTINCT'', CHR ''U''), (''UNION DISTINCT ALL'', CHR ''U''), (''UNIQUE'', CHR ''n''),
    (''UNIX_TIMESTAMP'', CHR ''f''), (''UNI_ON'', CHR ''U''), (''UNKNOWN'', CHR ''v''),
    (''UNLOCK'', CHR ''k''), (''UNNEST'', CHR ''f''), (''UNSIGNED'', CHR ''k''),
    (''UPDATE'', CHR ''E''), (''UPDATEXML'', CHR ''f''), (''UPPER'', CHR ''f''),
    (''UPPER_INC'', CHR ''f''), (''UPPER_INF'', CHR ''f''), (''USAGE'', CHR ''k''),
    (''USE'', CHR ''T''), (''USER'', CHR ''n''), (''USER_ID'', CHR ''n''),
    (''USER_LOCK.SLEEP'', CHR ''f''), (''USER_NAME'', CHR ''n''), (''USING'', CHR ''f''),
    (''UTC_DATE'', CHR ''k''), (''UTC_TIME'', CHR ''k''), (''UTC_TIMESTAMP'', CHR ''k''),
    (''UTL_HTTP.REQUEST'', CHR ''f''), (''UTL_INADDR.GET_HOST_ADDRESS'', CHR ''f''),
    (''UTL_INADDR.GET_HOST_NAME'', CHR ''f''), (''UUID'', CHR ''f''), (''UUID_SHORT'', CHR ''f''),
    (''VALUES'', CHR ''k''), (''VAR'', CHR ''f''), (''VARBINARY'', CHR ''k''),
    (''VARCHAR'', CHR ''t''), (''VARCHARACTER'', CHR ''k''), (''VARIANCE'', CHR ''f''),
    (''VARP'', CHR ''f''), (''VARYING'', CHR ''k''), (''VAR_POP'', CHR ''f''),
    (''VAR_SAMP'', CHR ''f''), (''VERIFYSIGNEDBYASMKEY'', CHR ''f''),
    (''VERIFYSIGNEDBYCERT'', CHR ''f''), (''VERSION'', CHR ''f''), (''VOID'', CHR ''t''),
    (''WAIT'', CHR ''k''), (''WAITFOR'', CHR ''n''), (''WAITFOR DELAY'', CHR ''E''),
    (''WAITFOR RECEIVE'', CHR ''E''), (''WAITFOR TIME'', CHR ''E''), (''WEEK'', CHR ''f''),
    (''WEEKDAY'', CHR ''f''), (''WEEKDAYNAME'', CHR ''f''), (''WEEKOFYEAR'', CHR ''f''),
    (''WHEN'', CHR ''k''), (''WHERE'', CHR ''k''), (''WHILE'', CHR ''T''),
    (''WIDTH_BUCKET'', CHR ''f''), (''WITH'', CHR ''n''), (''WITH ROLLUP'', CHR ''k''),
    (''XMLAGG'', CHR ''f''), (''XMLCOMMENT'', CHR ''f''), (''XMLCONCAT'', CHR ''f''),
    (''XMLELEMENT'', CHR ''f''), (''XMLEXISTS'', CHR ''f''), (''XMLFOREST'', CHR ''f''),
    (''XMLFORMAT'', CHR ''f''), (''XMLPI'', CHR ''f'')]"

lemma sql_keywords_61_chain: "kw_chain ''SUBSTR'' sql_keywords_61 ''XMLPI''"
  by (simp add: sql_keywords_61_def)

lemma sql_keywords_61_words: "kw_words sql_keywords_61"
  by (simp add: sql_keywords_61_def kw_words_def kw_word_def)

lemma sql_keywords_61_length: "length sql_keywords_61 = 150"
  by (simp add: sql_keywords_61_def)

definition sql_keywords_62 :: "keyword_t list" where
  "sql_keywords_62 = [
    (''XMLROOT'', CHR ''f''), (''XMLTYPE'', CHR ''f''), (''XML_IS_WELL_FORMED'', CHR ''f''),
    (''XOR'', CHR ''&''), (''XPATH'', CHR ''f''), (''XPATH_EXISTS'', CHR ''f''),
    (''XP_EXECRESULTSET'', CHR ''k''), (''YEAR'', CHR ''f''), (''YEARWEEK'', CHR ''f''),
    (''YEAR_MONTH'', CHR ''k''), (''ZEROBLOB'', CHR ''f''), (''ZEROFILL'', CHR ''k''),
    (''^='', CHR ''o''), (''_ARMSCII8'', CHR ''t''), (''_ASCII'', CHR ''t''),
    (''_BIG5'', CHR ''t''), (''_BINARY'', CHR ''t''), (''_CP1250'', CHR ''t''),
    (''_CP1251'', CHR ''t''), (''_CP1257'', CHR ''t''), (''_CP850'', CHR ''t''),
    (''_CP852'', CHR ''t''), (''_CP866'', CHR ''t''), (''_CP932'', CHR ''t''),
    (''_DEC8'', CHR ''t''), (''_EUCJPMS'', CHR ''t''), (''_EUCKR'', CHR ''t''),
    (''_GB2312'', CHR ''t''), (''_GBK'', CHR ''t''), (''_GEOSTD8'', CHR ''t''),
    (''_GREEK'', CHR ''t''), (''_HEBREW'', CHR ''t''), (''_HP8'', CHR ''t''),
    (''_KEYBCS2'', CHR ''t''), (''_KOI8R'', CHR ''t''), (''_KOI8U'', CHR ''t''),
    (''_LATIN1'', CHR ''t''), (''_LATIN2'', CHR ''t''), (''_LATIN5'', CHR ''t''),
    (''_LATIN7'', CHR ''t''), (''_MACCE'', CHR ''t''), (''_MACROMAN'', CHR ''t''),
    (''_SJIS'', CHR ''t''), (''_SWE7'', CHR ''t''), (''_TIS620'', CHR ''t''),
    (''_UJIS'', CHR ''t''), (''_USC2'', CHR ''t''), (''_UTF8'', CHR ''t''), (''|/'', CHR ''o''),
    (''|='', CHR ''o''), (''||'', CHR ''&''), (''~*'', CHR ''o'')]"

lemma sql_keywords_62_chain: "kw_chain ''XMLPI'' sql_keywords_62 ''~*''"
  by (simp add: sql_keywords_62_def)

lemma sql_keywords_62_words: "kw_words sql_keywords_62"
  by (simp add: sql_keywords_62_def kw_words_def kw_word_def)

lemma sql_keywords_62_length: "length sql_keywords_62 = 52"
  by (simp add: sql_keywords_62_def)

end
