(* ===== verification/Sqli_Keyword_Table.thy ===== *)
theory Sqli_Keyword_Table
  imports Sqli_Lookup
    Sqli_Keywords_0
    Sqli_Keywords_1
    Sqli_Keywords_2
    Sqli_Keywords_3
    Sqli_Keywords_4
    Sqli_Keywords_5
    Sqli_Keywords_6
    Sqli_Keywords_7
begin

text \<open>
  The table \<open>sql_keywords\<close> as one list, put together from its slices; the proof that it meets
  the contract of the binary search; \<open>is_keyword\<close>; and a dispatch on the slices that makes
  single lookups cheap to evaluate.
\<close>

definition sql_keywords :: "keyword_t list" where
  "sql_keywords = concat [
     sql_keywords_0, sql_keywords_1, sql_keywords_2, sql_keywords_3, sql_keywords_4,
     sql_keywords_5, sql_keywords_6, sql_keywords_7, sql_keywords_8, sql_keywords_9,
     sql_keywords_10, sql_keywords_11, sql_keywords_12, sql_keywords_13, sql_keywords_14,
     sql_keywords_15, sql_keywords_16, sql_keywords_17, sql_keywords_18, sql_keywords_19,
     sql_keywords_20, sql_keywords_21, sql_keywords_22, sql_keywords_23, sql_keywords_24,
     sql_keywords_25, sql_keywords_26, sql_keywords_27, sql_keywords_28, sql_keywords_29,
     sql_keywords_30, sql_keywords_31, sql_keywords_32, sql_keywords_33, sql_keywords_34,
     sql_keywords_35, sql_keywords_36, sql_keywords_37, sql_keywords_38, sql_keywords_39,
     sql_keywords_40, sql_keywords_41, sql_keywords_42, sql_keywords_43, sql_keywords_44,
     sql_keywords_45, sql_keywords_46, sql_keywords_47, sql_keywords_48, sql_keywords_49,
     sql_keywords_50, sql_keywords_51, sql_keywords_52, sql_keywords_53, sql_keywords_54,
     sql_keywords_55, sql_keywords_56, sql_keywords_57, sql_keywords_58, sql_keywords_59,
     sql_keywords_60, sql_keywords_61, sql_keywords_62]"

definition sql_keywords_sz :: nat where
  "sql_keywords_sz = 9352"

lemmas sql_keywords_chains =
  sql_keywords_0_chain sql_keywords_1_chain sql_keywords_2_chain sql_keywords_3_chain
  sql_keywords_4_chain sql_keywords_5_chain sql_keywords_6_chain sql_keywords_7_chain
  sql_keywords_8_chain sql_keywords_9_chain sql_keywords_10_chain sql_keywords_11_chain
  sql_keywords_12_chain sql_keywords_13_chain sql_keywords_14_chain sql_keywords_15_chain
  sql_keywords_16_chain sql_keywords_17_chain sql_keywords_18_chain sql_keywords_19_chain
  sql_keywords_20_chain sql_keywords_21_chain sql_keywords_22_chain sql_keywords_23_chain
  sql_keywords_24_chain sql_keywords_25_chain sql_keywords_26_chain sql_keywords_27_chain
  sql_keywords_28_chain sql_keywords_29_chain sql_keywords_30_chain sql_keywords_31_chain
  sql_keywords_32_chain sql_keywords_33_chain sql_keywords_34_chain sql_keywords_35_chain
  sql_keywords_36_chain sql_keywords_37_chain sql_keywords_38_chain sql_keywords_39_chain
  sql_keywords_40_chain sql_keywords_41_chain sql_keywords_42_chain sql_keywords_43_chain
  sql_keywords_44_chain sql_keywords_45_chain sql_keywords_46_chain sql_keywords_47_chain
  sql_keywords_48_chain sql_keywords_49_chain sql_keywords_50_chain sql_keywords_51_chain
  sql_keywords_52_chain sql_keywords_53_chain sql_keywords_54_chain sql_keywords_55_chain
  sql_keywords_56_chain sql_keywords_57_chain sql_keywords_58_chain sql_keywords_59_chain
  sql_keywords_60_chain sql_keywords_61_chain sql_keywords_62_chain

lemmas sql_keywords_words =
  sql_keywords_0_words sql_keywords_1_words sql_keywords_2_words sql_keywords_3_words
  sql_keywords_4_words sql_keywords_5_words sql_keywords_6_words sql_keywords_7_words
  sql_keywords_8_words sql_keywords_9_words sql_keywords_10_words sql_keywords_11_words
  sql_keywords_12_words sql_keywords_13_words sql_keywords_14_words sql_keywords_15_words
  sql_keywords_16_words sql_keywords_17_words sql_keywords_18_words sql_keywords_19_words
  sql_keywords_20_words sql_keywords_21_words sql_keywords_22_words sql_keywords_23_words
  sql_keywords_24_words sql_keywords_25_words sql_keywords_26_words sql_keywords_27_words
  sql_keywords_28_words sql_keywords_29_words sql_keywords_30_words sql_keywords_31_words
  sql_keywords_32_words sql_keywords_33_words sql_keywords_34_words sql_keywords_35_words
  sql_keywords_36_words sql_keywords_37_words sql_keywords_38_words sql_keywords_39_words
  sql_keywords_40_words sql_keywords_41_words sql_keywords_42_words sql_keywords_43_words
  sql_keywords_44_words sql_keywords_45_words sql_keywords_46_words sql_keywords_47_words
  sql_keywords_48_words sql_keywords_49_words sql_keywords_50_words sql_keywords_51_words
  sql_keywords_52_words sql_keywords_53_words sql_keywords_54_words sql_keywords_55_words
  sql_keywords_56_words sql_keywords_57_words sql_keywords_58_words sql_keywords_59_words
  sql_keywords_60_words sql_keywords_61_words sql_keywords_62_words

lemmas sql_keywords_lengths =
  sql_keywords_0_length sql_keywords_1_length sql_keywords_2_length sql_keywords_3_length
  sql_keywords_4_length sql_keywords_5_length sql_keywords_6_length sql_keywords_7_length
  sql_keywords_8_length sql_keywords_9_length sql_keywords_10_length sql_keywords_11_length
  sql_keywords_12_length sql_keywords_13_length sql_keywords_14_length sql_keywords_15_length
  sql_keywords_16_length sql_keywords_17_length sql_keywords_18_length sql_keywords_19_length
  sql_keywords_20_length sql_keywords_21_length sql_keywords_22_length sql_keywords_23_length
  sql_keywords_24_length sql_keywords_25_length sql_keywords_26_length sql_keywords_27_length
  sql_keywords_28_length sql_keywords_29_length sql_keywords_30_length sql_keywords_31_length
  sql_keywords_32_length sql_keywords_33_length sql_keywords_34_length sql_keywords_35_length
  sql_keywords_36_length sql_keywords_37_length sql_keywords_38_length sql_keywords_39_length
  sql_keywords_40_length sql_keywords_41_length sql_keywords_42_length sql_keywords_43_length
  sql_keywords_44_length sql_keywords_45_length sql_keywords_46_length sql_keywords_47_length
  sql_keywords_48_length sql_keywords_49_length sql_keywords_50_length sql_keywords_51_length
  sql_keywords_52_length sql_keywords_53_length sql_keywords_54_length sql_keywords_55_length
  sql_keywords_56_length sql_keywords_57_length sql_keywords_58_length sql_keywords_59_length
  sql_keywords_60_length sql_keywords_61_length sql_keywords_62_length

lemma concat_chain: "kw_chain lo xs m \<Longrightarrow> kw_chain m (concat xss) hi \<Longrightarrow> kw_chain lo (concat (xs # xss)) hi"
  by (simp add: kw_chain_append)

lemma concat_chain_last: "kw_chain lo xs hi \<Longrightarrow> kw_chain lo (concat [xs]) hi"
  by simp

lemma sql_keywords_chain: "kw_chain [] sql_keywords ''~*''"
  unfolding sql_keywords_def
  by (rule sql_keywords_chains concat_chain_last | rule concat_chain)+

lemma sql_keywords_kw_words: "kw_words sql_keywords"
  by (simp only: sql_keywords_def concat.simps append_Nil2 kw_words_append sql_keywords_words)

lemma length_sql_keywords: "length sql_keywords = sql_keywords_sz"
  by (simp only: sql_keywords_def concat.simps append_Nil2 length_append sql_keywords_lengths)
     (simp add: sql_keywords_sz_def)

interpretation sqlkw: keyword_table sql_keywords "''~*''"
proof unfold_locales
  show "sql_keywords \<noteq> []"
    using length_sql_keywords by (auto simp: sql_keywords_sz_def)
qed (rule sql_keywords_chain sql_keywords_kw_words)+

section \<open>\<open>is_keyword\<close>\<close>

definition is_keyword :: "string \<Rightarrow> char" where
  "is_keyword key = bsearch_keyword_type key sql_keywords sql_keywords_sz"

definition sql_keyword_tree :: kw_tree where
  "sql_keyword_tree =
    Split (Split (Split (Split (Split (Slice sql_keywords_0) ''0&VUEV'' (Split (Slice
    sql_keywords_1) ''01&KON'' (Slice sql_keywords_2))) ''01)&1&'' (Split (Split (Slice
    sql_keywords_3) ''01)KVO'' (Slice sql_keywords_4)) ''01;TS('' (Split (Slice sql_keywords_5)
    ''01BSKS'' (Slice sql_keywords_6)))) ''01EVC'' (Split (Split (Split (Slice sql_keywords_7)
    ''01KSC'' (Slice sql_keywords_8)) ''01OS&K'' (Split (Slice sql_keywords_9) ''01OVKV''
    (Slice sql_keywords_10))) ''01U(N)'' (Split (Split (Slice sql_keywords_11) ''01VOSU''
    (Slice sql_keywords_12)) ''0E(V);'' (Split (Slice sql_keywords_13) ''0E1VC'' (Slice
    sql_keywords_14))))) ''0EKN(F'' (Split (Split (Split (Split (Slice sql_keywords_15)
    ''0EN)&('' (Slice sql_keywords_16)) ''0ES)UE'' (Split (Slice sql_keywords_17) ''0EV)O1''
    (Slice sql_keywords_18))) ''0F()K1'' (Split (Split (Slice sql_keywords_19) ''0F(NOF''
    (Slice sql_keywords_20)) ''0KF()A'' (Split (Slice sql_keywords_21) ''0N&(N&'' (Slice
    sql_keywords_22)))) ''0N&S&F'' (Split (Split (Split (Slice sql_keywords_23) ''0N);TK''
    (Slice sql_keywords_24)) ''0N,(EK'' (Split (Slice sql_keywords_25) ''0NAF(F'' (Slice
    sql_keywords_26))) ''0NBVBF'' (Split (Split (Slice sql_keywords_27) ''0NK)EF'' (Slice
    sql_keywords_28)) ''0NO(F('' (Split (Slice sql_keywords_29) ''0NOV)E'' (Slice
    sql_keywords_30)))))) ''0NTNT1'' (Split (Split (Split (Split (Split (Slice sql_keywords_31)
    ''0NUSO1'' (Slice sql_keywords_32)) ''0S&N&F'' (Split (Slice sql_keywords_33) ''0S)&1U''
    (Slice sql_keywords_34))) ''0S)O(V'' (Split (Split (Slice sql_keywords_35) ''0S;TKV''
    (Slice sql_keywords_36)) ''0SBS,('' (Split (Slice sql_keywords_37) ''0SEU(S'' (Slice
    sql_keywords_38)))) ''0SKS&('' (Split (Split (Split (Slice sql_keywords_39) ''0SO1KF''
    (Slice sql_keywords_40)) ''0SONUK'' (Split (Slice sql_keywords_41) ''0SOVEV'' (Slice
    sql_keywords_42))) ''0SU1C'' (Split (Split (Slice sql_keywords_43) ''0SVSOS'' (Slice
    sql_keywords_44)) ''0TSOSF'' (Split (Slice sql_keywords_45) ''0UEVO('' (Slice
    sql_keywords_46))))) ''0V&N;C'' (Split (Split (Split (Split (Slice sql_keywords_47)
    ''0V)&NO'' (Slice sql_keywords_48)) ''0V)OF('' (Split (Slice sql_keywords_49) ''0V;TVK''
    (Slice sql_keywords_50))) ''0VBV&N'' (Split (Split (Slice sql_keywords_51) ''0VF()N''
    (Slice sql_keywords_52)) ''0VKSOV'' (Split (Slice sql_keywords_53) ''0VOSEN'' (Slice
    sql_keywords_54)))) ''0VU1,('' (Split (Split (Split (Slice sql_keywords_55)
    ''ALTER DOMAIN'' (Slice sql_keywords_56)) ''CURRENT_QUERY'' (Split (Slice sql_keywords_57)
    ''FROM_BASE64'' (Slice sql_keywords_58))) ''LOCK IN SHARE MODE'' (Split (Split (Slice
    sql_keywords_59) ''POWER'' (Slice sql_keywords_60)) ''SUBSTR'' (Split (Slice
    sql_keywords_61) ''XMLPI'' (Slice sql_keywords_62))))))"

lemma sql_keyword_tree_ordered: "kw_ordered [] sql_keyword_tree ''~*''"
  by (simp only: sql_keyword_tree_def kw_ordered.simps sql_keywords_chains simp_thms)

lemma sql_keyword_tree_list: "kw_list sql_keyword_tree = sql_keywords"
  by (simp only: sql_keyword_tree_def sql_keywords_def kw_list.simps concat.simps append_assoc
      append_Nil2)

text \<open>The value of a lookup, for evaluation.\<close>

lemma is_keyword_lookup:
  "is_keyword key =
     (case kw_lookup sql_keyword_tree (map upcase key) of None \<Rightarrow> NUL | Some t \<Rightarrow> t)"
  by (simp add: is_keyword_def sqlkw.bsearch_correct kw_lookup_map_of [OF sql_keyword_tree_ordered]
      sql_keyword_tree_list flip: length_sql_keywords)

declare is_keyword_lookup [code]

section \<open>Properties\<close>

text \<open>C13. \<open>is_keyword\<close>, the binary search over the 9352 entries of \<open>sql_keywords\<close> with the
  case-folding comparison, gives for every C string exactly the type the table has for its
  upper-case form, and \<open>CHAR_NULL\<close> for a word the table does not have.\<close>

theorem is_keyword_is_map_of:
  "is_keyword key = (case map_of sql_keywords (map upcase key) of None \<Rightarrow> NUL | Some t \<Rightarrow> t)"
  by (simp add: is_keyword_def sqlkw.bsearch_correct flip: length_sql_keywords)

text \<open>C14. The table the search runs over is what the search needs: its words are strictly
  ascending in the order of \<open>cstrcasecmp\<close>, no word stands in it twice, no word has a lower-case
  letter or a terminator, and \<open>sql_keywords_sz\<close> is its length.\<close>

theorem sql_keywords_sorted:
  "sorted_wrt kw_less (map fst sql_keywords) \<and> distinct (map fst sql_keywords) \<and>
   kw_words sql_keywords \<and> length sql_keywords = sql_keywords_sz"
  using sqlkw.sorted sqlkw.distinct_words sql_keywords_kw_words length_sql_keywords by blast

end
