(* ===== verification/Sqli_Fingerprint.thy ===== *)
theory Sqli_Fingerprint
  imports Sqli_Fold_Local Sqli_Keyword_Table
begin

text \<open>
  The decision of \<open>libinjection_sqli.c\<close>: the fingerprint of an input in one parsing context, the
  table of known attacks (\<open>libinjection_sqli_blacklist\<close>), the exceptions
  (\<open>libinjection_sqli_not_whitelist\<close>), and the contexts \<open>libinjection_is_sqli\<close> tries. Results
  are options because the fold is: \<open>None\<close> would be a run that does not return.
\<close>

section \<open>Initial state\<close>

definition libinjection_sqli_init :: "cmem \<Rightarrow> nat \<Rightarrow> int \<Rightarrow> sqli_state" where
  "libinjection_sqli_init s len flags =
     (let flags = (if flags = 0 then FLAG_QUOTE_NONE OR FLAG_SQL_ANSI else flags) in
      \<lparr>sf_s = s, sf_slen = len, sf_flags = flags, sf_pos = 0,
       sf_tokenvec = replicate 8 zero_token, sf_current = 0, sf_fingerprint = replicate 8 NUL,
       sf_reason = 0, stats_comment_ddw = 0, stats_comment_ddx = 0, stats_comment_c = 0,
       stats_comment_hash = 0, stats_folds = 0, stats_tokens = 0\<rparr>)"

definition libinjection_sqli_reset :: "sqli_state \<Rightarrow> int \<Rightarrow> sqli_state" where
  "libinjection_sqli_reset sf flags =
     (let flags = (if flags = 0 then FLAG_QUOTE_NONE OR FLAG_SQL_ANSI else flags) in
      libinjection_sqli_init (sf_s sf) (sf_slen sf) flags)"

section \<open>The fingerprint\<close>

text \<open>The empty backtick word that PHP input ends with becomes a comment.\<close>

definition magic_backquote :: "nat \<Rightarrow> sqli_state \<Rightarrow> sqli_state" where
  "magic_backquote tlen sf =
     (let st = sf_tokenvec sf ! (tlen - 1) in
      if tlen > 2 \<and> tok_type st = TYPE_BAREWORD \<and> tok_str_open st = CHAR_TICK \<and>
         tok_len st = 0 \<and> tok_str_close st = NUL then
        sf\<lparr>sf_tokenvec := (sf_tokenvec sf)[tlen - 1 := st\<lparr>tok_type := TYPE_COMMENT\<rparr>]\<rparr>
      else sf)"

definition write_fingerprint :: "nat \<Rightarrow> sqli_state \<Rightarrow> sqli_state" where
  "write_fingerprint tlen sf =
     sf\<lparr>sf_fingerprint :=
          (map tok_type (take tlen (sf_tokenvec sf)) @ drop tlen (sf_fingerprint sf))[tlen := NUL]\<rparr>"

text \<open>A fingerprint with the type \<open>X\<close> in it is replaced as a whole.\<close>

definition clear_evil :: "sqli_state \<Rightarrow> sqli_state" where
  "clear_evil sf =
     (if c_strchr (sf_fingerprint sf) TYPE_EVIL then
        sf\<lparr>sf_fingerprint :=
             (replicate (MAX_TOKENS + 1) NUL @ drop (MAX_TOKENS + 1) (sf_fingerprint sf))[0 := TYPE_EVIL],
           sf_tokenvec := (sf_tokenvec sf)
             [0 := (sf_tokenvec sf ! 0)
                \<lparr>tok_type := TYPE_EVIL, tok_val := (replicate TOKEN_SIZE NUL)[0 := TYPE_EVIL]\<rparr>,
              1 := (sf_tokenvec sf ! 1)\<lparr>tok_type := NUL\<rparr>]\<rparr>
      else sf)"

definition libinjection_sqli_fingerprint :: "lookup_fn \<Rightarrow> sqli_state \<Rightarrow> int \<Rightarrow> sqli_state option" where
  "libinjection_sqli_fingerprint lk sf flags =
     (case libinjection_sqli_fold lk (libinjection_sqli_reset sf flags) of
        None \<Rightarrow> None
      | Some (tlen, sf1) \<Rightarrow>
          Some (clear_evil (write_fingerprint tlen (magic_backquote tlen sf1))))"

section \<open>Known attacks\<close>

text \<open>\<open>reason\<close> is set to the line of the source that decided.\<close>

definition libinjection_sqli_blacklist :: "sqli_state \<Rightarrow> bool \<times> sqli_state" where
  "libinjection_sqli_blacklist sf =
     (let fp = c_str (sf_fingerprint sf) in
      if length fp < 1 then (False, sf\<lparr>sf_reason := 1989\<rparr>)
      else
        let fp2 = CHR ''0'' # map upcase fp;
            patmatch = (is_keyword fp2 = TYPE_FINGERPRINT)
        in if \<not> patmatch then (False, sf\<lparr>sf_reason := 2019\<rparr>) else (True, sf))"

section \<open>Exceptions\<close>

abbreviation tok_at :: "sqli_state \<Rightarrow> nat \<Rightarrow> stoken_t" where
  "tok_at sf i \<equiv> sf_tokenvec sf ! i"

text \<open>
  The cases of the \<open>switch\<close> for fingerprints of length two and three; a \<open>break\<close> continues to
  the final \<open>return TRUE\<close>.
\<close>

definition whitelist_two :: "sqli_state \<Rightarrow> bool \<times> sqli_state" where
  "whitelist_two sf =
     (let fp = sf_fingerprint sf; t0 = tok_at sf 0; t1 = tok_at sf 1 in
      if fp ! 1 = TYPE_UNION then
        if stats_tokens sf = 2 then (False, sf\<lparr>sf_reason := 2071\<rparr>)
        else (True, sf\<lparr>sf_reason := 2074\<rparr>)
      else if tok_val t1 ! 0 = CHR ''#'' then (False, sf\<lparr>sf_reason := 2082\<rparr>)
      else if tok_type t0 = TYPE_BAREWORD \<and> tok_type t1 = TYPE_COMMENT \<and>
              tok_val t1 ! 0 \<noteq> CHR ''/'' then (False, sf\<lparr>sf_reason := 2093\<rparr>)
      else if tok_type t0 = TYPE_NUMBER \<and> tok_type t1 = TYPE_COMMENT \<and>
              tok_val t1 ! 0 = CHR ''/'' then (True, sf)
      else if tok_type t0 = TYPE_NUMBER \<and> tok_type t1 = TYPE_COMMENT then
        if stats_tokens sf > 2 then (True, sf\<lparr>sf_reason := 2122\<rparr>)
        else
          let ch = sf_s sf (tok_len t0) in
          if schar ch \<le> 32 then (True, sf)
          else if ch = CHR ''/'' \<and> sf_s sf (tok_len t0 + 1) = CHR ''*'' then (True, sf)
          else if ch = CHR ''-'' \<and> sf_s sf (tok_len t0 + 1) = CHR ''-'' then (True, sf)
          else (False, sf\<lparr>sf_reason := 2144\<rparr>)
      else if tok_len t1 > 2 \<and> tok_val t1 ! 0 = CHR ''-'' then (False, sf\<lparr>sf_reason := 2154\<rparr>)
      else (True, sf))"

definition whitelist_three :: "sqli_state \<Rightarrow> bool \<times> sqli_state" where
  "whitelist_three sf =
     (let fp = c_str (sf_fingerprint sf); t0 = tok_at sf 0; t1 = tok_at sf 1; t2 = tok_at sf 2 in
      if fp = ''sos'' \<or> fp = ''s&s'' then
        if tok_str_open t0 = NUL \<and> tok_str_close t2 = NUL \<and> tok_str_close t0 = tok_str_open t2 then
          (True, sf\<lparr>sf_reason := 2176\<rparr>)
        else if stats_tokens sf = 3 then (False, sf\<lparr>sf_reason := 2180\<rparr>)
        else (False, sf\<lparr>sf_reason := 2187\<rparr>)
      else if fp = ''s&n'' \<or> fp = ''n&1'' \<or> fp = ''1&1'' \<or> fp = ''1&v'' \<or> fp = ''1&s'' then
        if stats_tokens sf = 3 then (False, sf\<lparr>sf_reason := 2198\<rparr>) else (True, sf)
      else if tok_type t1 = TYPE_KEYWORD then
        if tok_len t1 < 5 \<or> cstrcasecmp ''INTO'' (take 4 (tok_val t1)) \<noteq> 0 then
          (False, sf\<lparr>sf_reason := 2207\<rparr>)
        else (True, sf)
      else (True, sf))"

definition libinjection_sqli_not_whitelist :: "sqli_state \<Rightarrow> bool \<times> sqli_state" where
  "libinjection_sqli_not_whitelist sf =
     (let fp = c_str (sf_fingerprint sf); tlen = length fp in
      if tlen > 1 \<and> fp ! (tlen - 1) = TYPE_COMMENT \<and>
         my_memmem (sf_s sf) 0 ''sp_password'' (sf_slen sf) \<noteq> None then
        (True, sf\<lparr>sf_reason := 2049\<rparr>)
      else if tlen = 2 then whitelist_two sf
      else if tlen = 3 then whitelist_three sf
      else (True, sf))"

definition libinjection_sqli_check_fingerprint :: "sqli_state \<Rightarrow> bool \<times> sqli_state" where
  "libinjection_sqli_check_fingerprint sf =
     (case libinjection_sqli_blacklist sf of
        (True, sf1) \<Rightarrow> libinjection_sqli_not_whitelist sf1
      | (False, sf1) \<Rightarrow> (False, sf1))"

section \<open>The default lookup\<close>

text \<open>\<open>libinjection_sqli_lookup_word\<close> for the types the parsers pass, and for all.\<close>

definition word_lookup :: lookup_fn where
  "word_lookup lookup_type str = bsearch_keyword_type str sql_keywords sql_keywords_sz"

definition libinjection_sqli_lookup_word ::
  "sqli_state \<Rightarrow> lookup_type \<Rightarrow> string \<Rightarrow> char \<times> sqli_state" where
  "libinjection_sqli_lookup_word sf lookup_type str =
     (if lookup_type = LOOKUP_FINGERPRINT then
        case libinjection_sqli_check_fingerprint sf of
          (r, sf1) \<Rightarrow> (if r then CHR ''X'' else NUL, sf1)
      else (word_lookup lookup_type str, sf))"

section \<open>The contexts\<close>

definition reparse_as_mysql :: "sqli_state \<Rightarrow> bool" where
  "reparse_as_mysql sf \<longleftrightarrow> stats_comment_ddx sf \<noteq> 0 \<or> stats_comment_hash sf \<noteq> 0"

definition libinjection_sqli_get_token :: "sqli_state \<Rightarrow> int \<Rightarrow> stoken_t option" where
  "libinjection_sqli_get_token sf i =
     (if i < 0 \<or> i > int MAX_TOKENS then None else Some (sf_tokenvec sf ! nat i))"

text \<open>One context: the fingerprint and its lookup.\<close>

definition sqli_in_context :: "int \<Rightarrow> sqli_state \<Rightarrow> (bool \<times> sqli_state) option" where
  "sqli_in_context flags sf =
     (case libinjection_sqli_fingerprint word_lookup sf flags of
        None \<Rightarrow> None
      | Some sf1 \<Rightarrow>
          (case libinjection_sqli_lookup_word sf1 LOOKUP_FINGERPRINT (c_str (sf_fingerprint sf1)) of
             (ch, sf2) \<Rightarrow> Some (ch \<noteq> NUL, sf2)))"

text \<open>A context in the ANSI dialect and, if its comments ask for it, in the one of MySQL.\<close>

definition sqli_or_mysql :: "int \<Rightarrow> sqli_state \<Rightarrow> (bool \<times> sqli_state) option" where
  "sqli_or_mysql quote sf =
     (case sqli_in_context (quote OR FLAG_SQL_ANSI) sf of
        None \<Rightarrow> None
      | Some (found, sf1) \<Rightarrow>
          if found then Some (True, sf1)
          else if reparse_as_mysql sf1 then sqli_in_context (quote OR FLAG_SQL_MYSQL) sf1
          else Some (False, sf1))"

definition libinjection_is_sqli :: "sqli_state \<Rightarrow> (bool \<times> sqli_state) option" where
  "libinjection_is_sqli sf =
     (let s = sf_s sf; slen = sf_slen sf in
      if slen = 0 then Some (False, sf)
      else
        case sqli_or_mysql FLAG_QUOTE_NONE sf of
          None \<Rightarrow> None
        | Some (found, sf1) \<Rightarrow>
            if found then Some (True, sf1)
            else
              case (if memchr s 0 CHAR_SINGLE slen \<noteq> None
                    then sqli_or_mysql FLAG_QUOTE_SINGLE sf1 else Some (False, sf1)) of
                None \<Rightarrow> None
              | Some (found, sf2) \<Rightarrow>
                  if found then Some (True, sf2)
                  else if memchr s 0 CHAR_DOUBLE slen \<noteq> None then
                    sqli_in_context (FLAG_QUOTE_DOUBLE OR FLAG_SQL_MYSQL) sf2
                  else Some (False, sf2))"

text \<open>The entry point; the second component is what is written to \<open>fingerprint[]\<close>.\<close>

definition libinjection_sqli :: "cmem \<Rightarrow> nat \<Rightarrow> (bool \<times> string) option" where
  "libinjection_sqli input slen =
     (case libinjection_is_sqli (libinjection_sqli_init input slen 0) of
        None \<Rightarrow> None
      | Some (issqli, st) \<Rightarrow> Some (issqli, if issqli then c_str (sf_fingerprint st) else []))"

section \<open>The fingerprint is a short C string\<close>

lemma sf_ok_init [simp]: "sf_ok (libinjection_sqli_init s len flags)"
  by (simp add: libinjection_sqli_init_def sf_ok_def Let_def list_all_length)

lemma init_sel [simp]:
  "sf_s (libinjection_sqli_init s len flags) = s"
  "sf_slen (libinjection_sqli_init s len flags) = len"
  "sf_fingerprint (libinjection_sqli_init s len flags) = replicate 8 NUL"
  by (simp_all add: libinjection_sqli_init_def Let_def)

lemma reset_sel [simp]:
  "sf_ok (libinjection_sqli_reset sf flags)"
  "sf_s (libinjection_sqli_reset sf flags) = sf_s sf"
  "sf_slen (libinjection_sqli_reset sf flags) = sf_slen sf"
  "sf_fingerprint (libinjection_sqli_reset sf flags) = replicate 8 NUL"
  by (simp_all add: libinjection_sqli_reset_def Let_def)

lemma magic_backquote_sel [simp]:
  "sf_s (magic_backquote n sf) = sf_s sf" "sf_slen (magic_backquote n sf) = sf_slen sf"
  "sf_fingerprint (magic_backquote n sf) = sf_fingerprint sf"
  "length (sf_tokenvec (magic_backquote n sf)) = length (sf_tokenvec sf)"
  by (simp_all add: magic_backquote_def Let_def)

lemma magic_backquote_type:
  assumes "\<forall>i < n. tok_type (sf_tokenvec sf ! i) \<noteq> NUL" "i < n" "n \<le> length (sf_tokenvec sf)"
  shows "tok_type (sf_tokenvec (magic_backquote n sf) ! i) \<noteq> NUL"
  using assms by (auto simp: magic_backquote_def Let_def nth_list_update)

lemma magic_backquote_evil:
  assumes "tok_type (sf_tokenvec sf ! i) = TYPE_EVIL"
  shows "tok_type (sf_tokenvec (magic_backquote n sf) ! i) = TYPE_EVIL"
  using assms by (cases "i = n - 1"; cases "i < length (sf_tokenvec sf)")
    (auto simp: magic_backquote_def Let_def nth_list_update list_update_beyond)

lemma c_str_write:
  assumes "\<forall>i < n. tok_type (sf_tokenvec sf ! i) \<noteq> NUL" "n < length (sf_fingerprint sf)"
    "n \<le> length (sf_tokenvec sf)"
  shows "c_str (sf_fingerprint (write_fingerprint n sf)) = map tok_type (take n (sf_tokenvec sf))"
proof -
  let ?ts = "map tok_type (take n (sf_tokenvec sf))"
  have "NUL \<notin> set ?ts"
    using assms(1,3) by (auto simp: in_set_conv_nth) metis
  moreover obtain x xs where "drop n (sf_fingerprint sf) = x # xs"
    using assms(2) by (cases "drop n (sf_fingerprint sf)") auto
  ultimately show ?thesis
    using assms(3) by (simp add: write_fingerprint_def list_update_append c_str_id)
qed

text \<open>What the fingerprint of a state looks like after the function.\<close>

definition fingerprint_ok :: "sqli_state \<Rightarrow> bool" where
  "fingerprint_ok sf \<longleftrightarrow> length (sf_fingerprint sf) = 8 \<and> length (c_str (sf_fingerprint sf)) \<le> 5 \<and>
     length (sf_tokenvec sf) = 8 \<and>
     (TYPE_EVIL \<in> set (c_str (sf_fingerprint sf)) \<longrightarrow> c_str (sf_fingerprint sf) = [TYPE_EVIL]) \<and>
     (\<forall>i < length (c_str (sf_fingerprint sf)).
        c_str (sf_fingerprint sf) ! i = tok_type (sf_tokenvec sf ! i))"

lemma clear_evil_ok:
  assumes "length (sf_fingerprint sf) = 8" "length (sf_tokenvec sf) = 8"
    and fp: "c_str (sf_fingerprint sf) = map tok_type (take n (sf_tokenvec sf))"
    and n: "n \<le> 5 \<or> TYPE_EVIL \<in> set (c_str (sf_fingerprint sf))"
  shows "fingerprint_ok (clear_evil sf)"
proof (cases "TYPE_EVIL \<in> set (c_str (sf_fingerprint sf))")
  case True
  have six: "replicate 6 NUL = [NUL, NUL, NUL, NUL, NUL, NUL]" by (simp add: numeral_nat)
  have tail: "length (drop 6 (sf_fingerprint sf)) = 2" using assms(1) by simp
  show ?thesis
    using True assms(1,2)
    by (simp add: clear_evil_def fingerprint_ok_def c_strchr_def MAX_TOKENS_def six c_str_def)
next
  case False
  then show ?thesis
    using assms by (auto simp: clear_evil_def fingerprint_ok_def c_strchr_def)
qed

lemma clear_evil_sel [simp]: "sf_s (clear_evil sf) = sf_s sf" "sf_slen (clear_evil sf) = sf_slen sf"
  by (simp_all add: clear_evil_def)

lemma write_fingerprint_sel [simp]:
  "sf_s (write_fingerprint n sf) = sf_s sf" "sf_slen (write_fingerprint n sf) = sf_slen sf"
  "sf_tokenvec (write_fingerprint n sf) = sf_tokenvec sf"
  by (simp_all add: write_fingerprint_def)

lemma fingerprint_returns:
  "\<exists>sf'. libinjection_sqli_fingerprint lk sf flags = Some sf' \<and> fingerprint_ok sf' \<and>
     sf_s sf' = sf_s sf \<and> sf_slen sf' = sf_slen sf"
proof -
  let ?sf0 = "libinjection_sqli_reset sf flags"
  obtain n sf1 where fold: "libinjection_sqli_fold lk ?sf0 = Some (n, sf1)"
    and ok: "sf_ok sf1" "input_of sf1 = input_of ?sf0" and n: "n \<le> 6"
    and types: "\<forall>i < n. tok_type (sf_tokenvec sf1 ! i) \<noteq> NUL"
    and evil: "n = 6 \<longrightarrow> tok_type (sf_tokenvec sf1 ! 5) = TYPE_EVIL"
    using fold_returns [of ?sf0 lk] by auto
  let ?sf2 = "magic_backquote n sf1"
  let ?sf3 = "write_fingerprint n ?sf2"
  have len: "length (sf_tokenvec ?sf2) = 8" "length (sf_fingerprint ?sf2) = 8"
    using ok by (auto simp: sf_ok_def input_of_def)
  have "\<forall>i < n. tok_type (sf_tokenvec ?sf2 ! i) \<noteq> NUL"
    using magic_backquote_type [OF types] n ok by (auto simp: sf_ok_def)
  then have fp: "c_str (sf_fingerprint ?sf3) = map tok_type (take n (sf_tokenvec ?sf3))"
    using n len by (subst c_str_write) auto
  have "tok_type (sf_tokenvec ?sf2 ! 5) = TYPE_EVIL" if "n = 6"
    using that evil magic_backquote_evil by blast
  then have x: "TYPE_EVIL \<in> set (c_str (sf_fingerprint ?sf3))" if "n = 6"
    using that len unfolding fp in_set_conv_nth by (intro exI [of _ 5]) simp
  have "fingerprint_ok (clear_evil ?sf3)"
  proof (intro clear_evil_ok [where n = n])
    show "length (sf_fingerprint ?sf3) = 8" "length (sf_tokenvec ?sf3) = 8"
      using n len by (simp_all add: write_fingerprint_def)
    show "n \<le> 5 \<or> TYPE_EVIL \<in> set (c_str (sf_fingerprint ?sf3))"
      using x n by linarith
  qed (rule fp)
  then show ?thesis
    using ok fold by (auto simp: libinjection_sqli_fingerprint_def input_of_def)
qed

end
