(* ===== verification/Sqli_Decision.thy ===== *)
theory Sqli_Decision
  imports Sqli_Fingerprint
begin

text \<open>
  What a verdict of \<open>libinjection_is_sqli\<close> means: it is always reached, and \<open>TRUE\<close> is given
  only with a fingerprint of the table of attacks.
\<close>

section \<open>The table of attacks\<close>

definition known_attack :: "string \<Rightarrow> bool" where
  "known_attack fp \<longleftrightarrow> map_of sql_keywords (CHR ''0'' # map upcase fp) = Some TYPE_FINGERPRINT"

lemma schar_to_char: "0 \<le> n \<Longrightarrow> n < 128 \<Longrightarrow> schar (to_char n) = n"
  by (simp add: schar_def to_char_def Let_def)

lemma upcase_idem [simp]: "upcase (upcase c) = upcase c"
proof (cases "schar (CHR ''a'') \<le> schar c \<and> schar c \<le> schar (CHR ''z'')")
  case True
  then have "97 \<le> schar c" "schar c \<le> 122" by (simp_all add: schar_def [of "CHR ''a''"] schar_def [of "CHR ''z''"] Let_def)
  then have "schar (upcase c) = schar c - 32" using True by (simp add: upcase_def schar_to_char)
  then have "schar (upcase c) < 97" using \<open>schar c \<le> 122\<close> by simp
  moreover have "schar (CHR ''a'') = 97" by (simp add: schar_def)
  ultimately show ?thesis by (simp add: upcase_def [of "upcase c"])
next
  case False
  then show ?thesis by (auto simp: upcase_def)
qed

lemma blacklist_known_attack:
  "fst (libinjection_sqli_blacklist sf) \<longleftrightarrow>
     c_str (sf_fingerprint sf) \<noteq> [] \<and> known_attack (c_str (sf_fingerprint sf))"
proof -
  have "upcase (CHR ''0'') = CHR ''0''" by (simp add: upcase_def schar_def)
  then have "is_keyword (CHR ''0'' # map upcase fp) = TYPE_FINGERPRINT \<longleftrightarrow> known_attack fp" for fp
    unfolding is_keyword_def known_attack_def length_sql_keywords [symmetric] sqlkw.bsearch_correct
    by (simp add: o_def split: option.split)
  then show ?thesis
    by (simp add: libinjection_sqli_blacklist_def Let_def less_Suc_eq_le)
qed

section \<open>Only \<open>reason\<close> is written\<close>

definition only_reason :: "sqli_state \<Rightarrow> sqli_state \<Rightarrow> bool" where
  "only_reason sf sf' \<longleftrightarrow> sf' = sf\<lparr>sf_reason := sf_reason sf'\<rparr>"

lemma only_reason_sel:
  assumes "only_reason sf sf'"
  shows "sf_s sf' = sf_s sf" "sf_slen sf' = sf_slen sf" "sf_fingerprint sf' = sf_fingerprint sf"
    "sf_tokenvec sf' = sf_tokenvec sf"
  by (subst assms [unfolded only_reason_def], simp)+

lemma only_reason_refl [simp]: "only_reason sf sf" "only_reason sf (sf\<lparr>sf_reason := n\<rparr>)"
  by (simp_all add: only_reason_def)

lemma only_reason_trans: "only_reason a b \<Longrightarrow> only_reason b c \<Longrightarrow> only_reason a c"
  unfolding only_reason_def by (cases a; cases b; cases c) auto

lemma blacklist_reason: "only_reason sf (snd (libinjection_sqli_blacklist sf))"
  by (simp add: libinjection_sqli_blacklist_def Let_def)

lemma not_whitelist_reason: "only_reason sf (snd (libinjection_sqli_not_whitelist sf))"
  by (simp add: libinjection_sqli_not_whitelist_def whitelist_two_def whitelist_three_def Let_def)

lemma check_fingerprint_reason: "only_reason sf (snd (libinjection_sqli_check_fingerprint sf))"
  using blacklist_reason [of sf] not_whitelist_reason
  by (auto simp: libinjection_sqli_check_fingerprint_def split: prod.split bool.split
      intro: only_reason_trans)

lemma check_fingerprint_attack:
  assumes "fst (libinjection_sqli_check_fingerprint sf)"
  shows "c_str (sf_fingerprint sf) \<noteq> [] \<and> known_attack (c_str (sf_fingerprint sf))"
  using assms blacklist_known_attack [of sf]
  by (auto simp: libinjection_sqli_check_fingerprint_def split: prod.splits bool.splits)

section \<open>A verdict is reached\<close>

definition verdict_ok :: "sqli_state \<Rightarrow> (bool \<times> sqli_state) option \<Rightarrow> bool" where
  "verdict_ok sf r \<longleftrightarrow> (\<exists>b sf'. r = Some (b, sf') \<and> sf_s sf' = sf_s sf \<and> sf_slen sf' = sf_slen sf \<and>
     (b \<longrightarrow> fingerprint_ok sf' \<and> c_str (sf_fingerprint sf') \<noteq> [] \<and>
            known_attack (c_str (sf_fingerprint sf'))))"

lemma verdict_no [simp]: "sf_s sf' = sf_s sf \<Longrightarrow> sf_slen sf' = sf_slen sf \<Longrightarrow> verdict_ok sf (Some (False, sf'))"
  by (auto simp: verdict_ok_def)

lemma verdict_context: "verdict_ok sf (sqli_in_context flags sf)"
proof -
  obtain sf1 where sf1: "libinjection_sqli_fingerprint word_lookup sf flags = Some sf1"
    "fingerprint_ok sf1" "sf_s sf1 = sf_s sf" "sf_slen sf1 = sf_slen sf"
    using fingerprint_returns by blast
  note r = only_reason_sel [OF check_fingerprint_reason [of sf1]]
  show ?thesis
    using sf1 r check_fingerprint_attack [of sf1]
    by (auto simp: sqli_in_context_def libinjection_sqli_lookup_word_def verdict_ok_def
        fingerprint_ok_def split_beta)
qed

lemma verdict_bind:
  assumes "verdict_ok sf r" and "\<And>sf'. sf_s sf' = sf_s sf \<Longrightarrow> sf_slen sf' = sf_slen sf \<Longrightarrow> verdict_ok sf' (f sf')"
  shows "verdict_ok sf (case r of None \<Rightarrow> None
    | Some (found, sf1) \<Rightarrow> if found then Some (True, sf1) else f sf1)"
proof -
  obtain b sf' where r: "r = Some (b, sf')" "sf_s sf' = sf_s sf" "sf_slen sf' = sf_slen sf"
    using assms(1) by (auto simp: verdict_ok_def)
  then show ?thesis using assms(1) assms(2) [OF r(2,3)] by (auto simp: verdict_ok_def)
qed

lemma verdict_or_mysql: "verdict_ok sf (sqli_or_mysql quote sf)"
  unfolding sqli_or_mysql_def by (rule verdict_bind) (simp_all add: verdict_context)

lemma verdict_is_sqli: "verdict_ok sf (libinjection_is_sqli sf)"
proof (cases "sf_slen sf = 0")
  case False
  then show ?thesis
    unfolding libinjection_is_sqli_def Let_def if_not_P [OF False]
    by (intro verdict_bind) (simp_all add: verdict_or_mysql verdict_context)
qed (simp add: libinjection_is_sqli_def)

section \<open>Bytes outside the input\<close>

lemma magic_backquote_local:
  "magic_backquote n (sf\<lparr>sf_s := m\<rparr>) = (magic_backquote n sf)\<lparr>sf_s := m\<rparr>"
  by (simp add: magic_backquote_def Let_def)

lemma reset_local: "libinjection_sqli_reset (sf\<lparr>sf_s := m\<rparr>) flags = (libinjection_sqli_reset sf flags)\<lparr>sf_s := m\<rparr>"
  by (simp add: libinjection_sqli_reset_def libinjection_sqli_init_def Let_def)

lemma fingerprint_local:
  assumes "agree (sf_slen sf) (sf_s sf) m"
  shows "libinjection_sqli_fingerprint lk (sf\<lparr>sf_s := m\<rparr>) flags =
    map_option (sf_s_update (\<lambda>_. m)) (libinjection_sqli_fingerprint lk sf flags)"
proof -
  have "libinjection_sqli_fold lk ((libinjection_sqli_reset sf flags)\<lparr>sf_s := m\<rparr>) =
    map_option (apsnd (sf_s_update (\<lambda>_. m))) (libinjection_sqli_fold lk (libinjection_sqli_reset sf flags))"
    using assms by (intro fold_local) auto
  then show ?thesis
    by (auto simp: libinjection_sqli_fingerprint_def reset_local magic_backquote_local
        write_fingerprint_def clear_evil_def split: option.split)
qed

section \<open>Properties\<close>

text \<open>C1. \<open>libinjection_sqli\<close> gives a verdict on every input, of any length and any bytes: it
  ends and no assertion fails. It is \<open>TRUE\<close> only with a fingerprint of one to five characters
  that is in the table of attacks, and \<open>FALSE\<close> comes with an empty fingerprint.\<close>

theorem libinjection_sqli_verdict:
  "libinjection_sqli input slen = Some (False, []) \<or>
   (\<exists>fp. libinjection_sqli input slen = Some (True, fp) \<and> known_attack fp \<and>
      1 \<le> length fp \<and> length fp \<le> 5)"
  using verdict_is_sqli [of "libinjection_sqli_init input slen 0"]
  by (auto simp: verdict_ok_def libinjection_sqli_def fingerprint_ok_def Suc_le_eq)

text \<open>C5. The fingerprint of any input in any context is a C string of at most five characters
  in its eight bytes, each the type of the token it stands for; \<open>X\<close> is in it only as the
  whole of it.\<close>

theorem fingerprint_is_token_types:
  "\<exists>sf' fp. libinjection_sqli_fingerprint lk sf flags = Some sf' \<and>
     fp = c_str (sf_fingerprint sf') \<and> length (sf_fingerprint sf') = 8 \<and> length fp \<le> 5 \<and>
     (fp = [TYPE_EVIL] \<or> filter (\<lambda>t. t = TYPE_EVIL) fp = []) \<and>
     fp = map tok_type (take (length fp) (sf_tokenvec sf'))"
proof -
  obtain sf' where sf': "libinjection_sqli_fingerprint lk sf flags = Some sf'" "fingerprint_ok sf'"
    using fingerprint_returns by blast
  have "c_str (sf_fingerprint sf') =
      map tok_type (take (length (c_str (sf_fingerprint sf'))) (sf_tokenvec sf'))"
    by (rule nth_equalityI) (use sf'(2) in \<open>auto simp: fingerprint_ok_def\<close>)
  then show ?thesis using sf' by (auto simp: fingerprint_ok_def filter_empty_conv)
qed

text \<open>C6. The blacklist test, which builds the word \<open>0\<close> and the upper-case fingerprint and
  searches it, is membership of the fingerprint in the table of attacks; the empty fingerprint
  is never on it.\<close>

theorem blacklist_is_membership:
  "fst (libinjection_sqli_blacklist sf) \<longleftrightarrow>
     c_str (sf_fingerprint sf) \<noteq> [] \<and>
     (CHR ''0'' # map upcase (c_str (sf_fingerprint sf)), TYPE_FINGERPRINT) \<in> set sql_keywords"
  unfolding blacklist_known_attack known_attack_def
  using map_of_is_SomeI [OF sqlkw.distinct_words] map_of_SomeD by metis

text \<open>The white list looks at the byte behind the first token and, when that byte is no terminator, at the
  next. So for an input that is a C string, as every caller's is, it reads no byte behind the
  terminator: what it says depends on the bytes up to it.\<close>

lemma whitelist_reads_c_string:
  assumes "tok_len (tok_at sf 0) \<le> n" "sf_s sf n = NUL" "\<And>i. i \<le> n \<Longrightarrow> sf_s sf i = m i"
  shows "whitelist_two (sf\<lparr>sf_s := m\<rparr>) = apsnd (sf_s_update (\<lambda>_. m)) (whitelist_two sf)"
proof -
  define k where "k = tok_len (tok_at sf 0)"
  have ch: "m k = sf_s sf k" using assms(1,3) by (simp add: k_def)
  have next_ch: "(if sf_s sf k = c \<and> m (k + 1) = d then t else e) =
      (if sf_s sf k = c \<and> sf_s sf (k + 1) = d then t else e)" if "c \<noteq> NUL" for c d and t e :: "bool \<times> sqli_state"
  proof (cases "sf_s sf k = c")
    case True
    then have "k < n" using assms(1,2) that by (cases "k = n") (simp_all add: k_def)
    then show ?thesis using assms(3) by simp
  qed simp
  have update: "(sf\<lparr>sf_s := m\<rparr>)\<lparr>sf_reason := r\<rparr> = sf_s_update (\<lambda>_. m) (sf\<lparr>sf_reason := r\<rparr>)" for r by simp
  have fields: "sf_fingerprint (sf\<lparr>sf_s := m\<rparr>) = sf_fingerprint sf" "stats_tokens (sf\<lparr>sf_s := m\<rparr>) = stats_tokens sf"
    "sf_tokenvec (sf\<lparr>sf_s := m\<rparr>) = sf_tokenvec sf" "sf_s (sf\<lparr>sf_s := m\<rparr>) = m" by simp_all
  have chars: "CHR ''/'' \<noteq> NUL" "CHR ''-'' \<noteq> NUL" by simp_all
  show ?thesis
    unfolding whitelist_two_def Let_def if_distrib [of "apsnd (sf_s_update (\<lambda>_. m))"] apsnd_conv
      fields k_def [symmetric] ch next_ch [OF chars(1)] next_ch [OF chars(2)] update
    by (rule refl)
qed

text \<open>C17. The fingerprint depends on the bytes of the input only.\<close>

theorem fingerprint_reads_input_only:
  assumes "\<And>i. i < sf_slen sf \<Longrightarrow> sf_s sf i = m i"
  shows "libinjection_sqli_fingerprint lk (sf\<lparr>sf_s := m\<rparr>) flags =
    map_option (sf_s_update (\<lambda>_. m)) (libinjection_sqli_fingerprint lk sf flags)"
  by (rule fingerprint_local) (simp add: agree_def assms)

theorem fingerprint_reads_input_only_witness:
  "libinjection_sqli_fingerprint (\<lambda>_ _. NUL) (start_state\<lparr>sf_s := mem_of ''12''\<rparr>) 9 =
    map_option (sf_s_update (\<lambda>_. mem_of ''12''))
      (libinjection_sqli_fingerprint (\<lambda>_ _. NUL) start_state 9)"
  by (rule fingerprint_reads_input_only) (simp add: mem_of_def)

end
