(* ===== verification/Sqli_Quiet.thy ===== *)
theory Sqli_Quiet
  imports Sqli_Decision
begin

text \<open>
  Where the fingerprint \<open>X\<close> can come from. A token of type \<open>TYPE_EVIL\<close> is made in two places: by
  \<open>parse_slash\<close>, for a comment, and by the fold, for a brace with an empty name. An input
  without \<open>/*\<close> and without an opening brace never has one.
\<close>

section \<open>Quiet types\<close>

definition quiet :: "char \<Rightarrow> bool" where
  "quiet t \<longleftrightarrow> t \<noteq> TYPE_EVIL \<and> t \<noteq> TYPE_LEFTBRACE"

definition quiet_lookup :: "lookup_fn \<Rightarrow> bool" where
  "quiet_lookup lk \<longleftrightarrow> (\<forall>k w. quiet (lk k w))"

lemma quiet_lookupD [simp]: "quiet_lookup lk \<Longrightarrow> quiet (lk k w)"
  by (simp add: quiet_lookup_def)

lemma quiet_types [simp]:
  "quiet NUL" "quiet TYPE_KEYWORD" "quiet TYPE_SQLTYPE" "quiet TYPE_FUNCTION" "quiet TYPE_BAREWORD"
  "quiet TYPE_NUMBER" "quiet TYPE_VARIABLE" "quiet TYPE_STRING" "quiet TYPE_OPERATOR" "quiet TYPE_COMMENT"
  "quiet TYPE_LEFTPARENS" "quiet TYPE_RIGHTPARENS" "quiet TYPE_RIGHTBRACE" "quiet TYPE_DOT" "quiet TYPE_COMMA"
  "quiet TYPE_COLON" "quiet TYPE_SEMICOLON" "quiet TYPE_TSQL" "quiet TYPE_UNKNOWN" "quiet TYPE_BACKSLASH"
  by (simp_all add: quiet_def)

text \<open>An input without the start of a comment and without an opening brace.\<close>

definition plain_input :: "cmem \<Rightarrow> nat \<Rightarrow> bool" where
  "plain_input cs slen \<longleftrightarrow> (\<forall>i < slen. cs i \<noteq> CHR ''{'') \<and>
     (\<forall>i. i + 1 < slen \<longrightarrow> cs i = CHR ''/'' \<longrightarrow> cs (i + 1) \<noteq> CHR ''*'')"

definition calm :: "sqli_state \<Rightarrow> bool" where
  "calm sf \<longleftrightarrow> plain_input (sf_s sf) (sf_slen sf) \<and> sf_current sf < length (sf_tokenvec sf)"

abbreviation cur_quiet :: "sqli_state \<Rightarrow> bool" where
  "cur_quiet sf \<equiv> quiet (tok_type (cur sf))"

section \<open>The parsers\<close>

lemma assign_types [simp]:
  "tok_type (st_assign st t p n m) = t" "tok_type (st_assign_char st t p n c) = t"
  by (simp_all add: st_assign_def st_assign_char_def Let_def)

lemma calm_current [simp]: "calm sf \<Longrightarrow> sf_current sf < length (sf_tokenvec sf)"
  by (simp add: calm_def)

lemma calm_pos [simp]: "calm (sf\<lparr>sf_pos := p\<rparr>) = calm sf"
  by (simp add: calm_def)

text \<open>A parser on a character gives a quiet token.\<close>

definition mute :: "parser \<Rightarrow> char \<Rightarrow> bool" where
  "mute p c \<longleftrightarrow> (\<forall>lk sf. quiet_lookup lk \<and> calm sf \<and> cur_quiet sf \<and> sf_pos sf < sf_slen sf \<and>
     sf_s sf (sf_pos sf) = c \<longrightarrow> cur_quiet (snd (p lk sf)))"

lemma word_scan_quiet: "word_scan lk val i n = Some (ch, j) \<Longrightarrow> quiet_lookup lk \<Longrightarrow> quiet ch"
  by (induction lk val i n rule: word_scan.induct) (auto simp: Let_def split: if_splits)

lemma parse_word_quiet: "quiet_lookup lk \<Longrightarrow> calm sf \<Longrightarrow> cur_quiet (snd (parse_word lk sf))"
  by (auto simp: parse_word_def Let_def dest: word_scan_quiet split: option.splits)

lemma operator1_quiet: "calm sf \<Longrightarrow> cur_quiet (snd (parse_operator1 lk sf))"
  by (simp add: parse_operator1_def Let_def)

lemma string_core_quiet: "calm sf \<Longrightarrow> cur_quiet (snd (string_core_cur sf d o'))"
  by (auto simp: string_core_cur_def parse_string_core_def Let_def split: option.splits prod.splits)

lemma eol_comment_quiet: "calm sf \<Longrightarrow> cur_quiet (snd (parse_eol_comment lk sf))"
  by (auto simp: parse_eol_comment_def Let_def split: option.splits)

lemma estring_quiet: "quiet_lookup lk \<Longrightarrow> calm sf \<Longrightarrow> cur_quiet (snd (parse_estring lk sf))"
  by (simp add: parse_estring_def Let_def parse_word_quiet string_core_quiet)

lemma qstring_core_quiet: "quiet_lookup lk \<Longrightarrow> calm sf \<Longrightarrow> cur_quiet (snd (parse_qstring_core lk sf n))"
  by (auto simp: parse_qstring_core_def Let_def parse_word_quiet split: option.splits)

lemma digit_string_quiet: "quiet_lookup lk \<Longrightarrow> calm sf \<Longrightarrow> cur_quiet (snd (parse_digit_string ds lk sf))"
  by (auto simp: parse_digit_string_def Let_def parse_word_quiet)

lemma string_calm: "calm sf \<Longrightarrow> calm (snd (string_core_cur sf d n))"
  by (auto simp: string_core_cur_def calm_def split: prod.splits)

lemma ustring_quiet: "quiet_lookup lk \<Longrightarrow> calm sf \<Longrightarrow> cur_quiet (snd (parse_ustring lk sf))"
  using string_core_quiet [of "sf\<lparr>sf_pos := sf_pos sf + 2\<rparr>"] string_calm [of "sf\<lparr>sf_pos := sf_pos sf + 2\<rparr>"]
  by (auto simp: parse_ustring_def parse_string_def Let_def parse_word_quiet split_beta)

lemma tick_quiet: "calm sf \<Longrightarrow> cur_quiet (snd (parse_tick lk sf))"
  using string_calm [of sf] by (auto simp: parse_tick_def Let_def split_beta)

lemma tick_calm: "calm sf \<Longrightarrow> calm (snd (parse_tick lk sf))"
  using string_calm [of sf] by (auto simp: parse_tick_def Let_def split_beta calm_def)

lemma var_name_quiet: "calm sf \<Longrightarrow> cur_quiet (snd (parse_var_name p lk sf))"
  using string_calm [of "sf\<lparr>sf_pos := p\<rparr>"] tick_calm [of "sf\<lparr>sf_pos := p\<rparr>"]
  by (auto simp: parse_var_name_def parse_string_def Let_def split_beta)

lemma var_quiet: "calm sf \<Longrightarrow> cur_quiet (snd (parse_var lk sf))"
  unfolding parse_var_def Let_def by (rule var_name_quiet) (simp add: calm_def)

lemma money_quiet: "quiet_lookup lk \<Longrightarrow> calm sf \<Longrightarrow> cur_quiet (snd (parse_money lk sf))"
  by (auto simp: parse_money_def parse_dollar_dollar_def parse_dollar_tag_def Let_def parse_word_quiet
      split: option.splits)

lemma number_quiet: "calm sf \<Longrightarrow> cur_quiet (snd (parse_number lk sf))"
  by (auto simp: parse_number_def Let_def split_beta split: option.splits)

lemma dash_quiet: "calm sf \<Longrightarrow> cur_quiet (snd (parse_dash lk sf))"
  by (auto simp: parse_dash_def Let_def calm_def intro!: eol_comment_quiet)

lemma hash_quiet: "calm sf \<Longrightarrow> cur_quiet (snd (parse_hash lk sf))"
  by (auto simp: parse_hash_def Let_def calm_def intro!: eol_comment_quiet)

lemma slash_quiet:
  "calm sf \<Longrightarrow> sf_pos sf < sf_slen sf \<Longrightarrow> sf_s sf (sf_pos sf) = CHR ''/'' \<Longrightarrow> cur_quiet (snd (parse_slash lk sf))"
  by (auto simp: parse_slash_def Let_def operator1_quiet, auto simp: calm_def plain_input_def)

lemma operator2_quiet: "quiet_lookup lk \<Longrightarrow> calm sf \<Longrightarrow> cur_quiet (snd (parse_operator2 lk sf))"
  by (auto simp: parse_operator2_def Let_def operator1_quiet)

lemma mute_any [simp]:
  "mute parse_white c" "mute parse_operator1 c" "mute parse_operator2 c" "mute parse_other c" "mute parse_backslash c"
  "mute parse_string c" "mute parse_bword c" "mute parse_tick c" "mute parse_var c" "mute parse_word c"
  "mute parse_estring c" "mute parse_bstring c" "mute parse_xstring c" "mute parse_ustring c" "mute parse_qstring c"
  "mute parse_nqstring c" "mute parse_number c" "mute parse_hash c" "mute parse_dash c" "mute parse_money c"
  by (auto simp: mute_def parse_white_def parse_other_def parse_backslash_def parse_string_def parse_bword_def
      parse_bstring_def parse_xstring_def parse_qstring_def parse_nqstring_def Let_def
      operator1_quiet operator2_quiet string_core_quiet tick_quiet var_quiet parse_word_quiet estring_quiet
      digit_string_quiet ustring_quiet qstring_core_quiet number_quiet hash_quiet dash_quiet money_quiet
      split: option.splits)

lemma mute_slash [simp]: "mute parse_slash CHR ''/''"
  by (auto simp: mute_def slash_quiet)

lemma mute_char [simp]: "quiet c \<Longrightarrow> mute parse_char c" "mute p CHR ''{''"
  by (auto simp: mute_def parse_char_def Let_def, auto simp: calm_def plain_input_def)

text \<open>Every entry of the table.\<close>

lemma mute_low: "list_all2 mute char_parse_map_low (map char_of [0..<128::nat])"
  unfolding chars_low char_parse_map_low_def by simp

lemma mute_high: "list_all2 mute char_parse_map_high (map char_of [128..<256::nat])"
  unfolding chars_high char_parse_map_high_def by simp

lemmas mute_parser_for = parser_for_all [OF mute_low mute_high]

section \<open>The tokenizer\<close>

lemma calm_frame: "tokenize_frame sf sf' \<Longrightarrow> calm sf' = calm sf"
  using tokenize_frame_sel [of sf sf'] by (simp add: calm_def)

lemma step_quiet:
  assumes "quiet_lookup lk" "calm sf" "cur_quiet sf" "sf_pos sf < sf_slen sf"
  shows "cur_quiet (tokenize_step lk sf)"
  using mute_parser_for [of "sf_s sf (sf_pos sf)"] assms
  by (auto simp: mute_def tokenize_step_def split_beta)

lemma loop_quiet: "quiet_lookup lk \<Longrightarrow> calm sf \<Longrightarrow> cur_quiet sf \<Longrightarrow> cur_quiet (snd (tokenize_loop lk sf))"
proof (induction lk sf rule: tokenize_loop_induct)
  case (again sf sf2)
  then show ?case using step_quiet [of lk sf] calm_frame [OF tokenize_step_frame [of sf lk]] by simp
qed (use step_quiet in \<open>simp_all add: cur_def\<close>)

lemma tokenize_quiet:
  assumes "quiet_lookup lk" "calm sf" "cur_quiet sf"
  shows "cur_quiet (snd (libinjection_sqli_tokenize lk sf))"
proof -
  have "calm (set_cur zero_token sf)" "cur_quiet (set_cur zero_token sf)"
    using assms(2) by (simp_all add: calm_def zero_token_def)
  then show ?thesis
    using assms loop_quiet [OF assms(1)] string_core_quiet [of "set_cur zero_token sf"]
    by (auto simp: libinjection_sqli_tokenize_def Let_def st_clear_def split_beta)
qed

section \<open>The fold\<close>

definition all_quiet :: "sqli_state \<Rightarrow> bool" where
  "all_quiet sf \<longleftrightarrow> plain_input (sf_s sf) (sf_slen sf) \<and> length (sf_tokenvec sf) = 8 \<and>
     (\<forall>i < 8. quiet (tok_type (sf_tokenvec sf ! i)))"

lemma update_all_quiet:
  "all_quiet sf \<Longrightarrow> quiet (tok_type tok) \<Longrightarrow> all_quiet (sf\<lparr>sf_tokenvec := (sf_tokenvec sf)[i := tok]\<rparr>)"
  by (cases "i < 8") (auto simp: all_quiet_def nth_list_update)

lemma tokenize_all_quiet:
  assumes "quiet_lookup lk" "all_quiet sf" "sf_current sf < 8"
  shows "all_quiet (snd (libinjection_sqli_tokenize lk sf))"
proof -
  have "cur_quiet (snd (libinjection_sqli_tokenize lk sf))"
    using assms by (intro tokenize_quiet) (simp_all add: all_quiet_def calm_def cur_def)
  then show ?thesis
    using assms tokenize_sel [of lk sf] by (auto simp: all_quiet_def nth_list_update)
qed

lemma skip_all_quiet:
  "quiet_lookup lk \<Longrightarrow> all_quiet sf \<Longrightarrow> sf_current sf < 8 \<Longrightarrow> all_quiet (snd (fold_skip lk sf))"
proof (induction lk sf rule: fold_skip.induct)
  case (1 lk sf)
  have "all_quiet (snd (libinjection_sqli_tokenize lk sf))" using "1.prems" by (rule tokenize_all_quiet)
  then show ?case
    using "1.IH" [OF prod.collapse] "1.prems"
      tokenize_sel(4) [of lk sf]
    by (subst fold_skip.simps) (auto simp: split_beta)
qed

definition fold_quiet :: "fold_state \<Rightarrow> bool" where
  "fold_quiet st \<longleftrightarrow> all_quiet (fd_sf st) \<and> quiet (tok_type (fd_comment st)) \<and> fd_pos st \<le> 6"

lemma fold_quiet_ty: "fold_quiet st \<Longrightarrow> i < 8 \<Longrightarrow> quiet (ty st i)"
  by (simp add: fold_quiet_def all_quiet_def tv_def)

lemma fold_quiet_updates [simp]:
  "fold_quiet (st\<lparr>fd_left := l\<rparr>) = fold_quiet st" "fold_quiet (add_folds k st) = fold_quiet st"
  by (simp_all add: fold_quiet_def add_folds_def all_quiet_def)

lemma fold_quiet_drop [simp]:
  "fold_quiet st \<Longrightarrow> fold_quiet (drop_tokens n l st)"
  "fold_quiet st \<Longrightarrow> p \<le> 6 \<Longrightarrow> fold_quiet (st\<lparr>fd_pos := p\<rparr>)"
  by (auto simp: fold_quiet_def drop_tokens_def)

lemma fold_quiet_set [simp]:
  assumes "fold_quiet st"
  shows "quiet (tok_type tok) \<Longrightarrow> fold_quiet (set_tv i tok st)" "quiet t \<Longrightarrow> fold_quiet (set_type i t st)"
proof -
  show *: "fold_quiet (set_tv i tok st)" if "quiet (tok_type tok)" for tok
    using assms that by (simp add: fold_quiet_def set_tv_def update_all_quiet)
  show "quiet t \<Longrightarrow> fold_quiet (set_type i t st)" unfolding set_type_def by (rule *) simp
qed

definition out_quiet :: "fold_out \<Rightarrow> bool" where
  "out_quiet r = (case r of Again st \<Rightarrow> fold_quiet st | Proceed st \<Rightarrow> fold_quiet st
     | Leave n st \<Rightarrow> fold_quiet st | Abort \<Rightarrow> True)"

lemma out_quiet_simps [simp]:
  "out_quiet (Again st) = fold_quiet st" "out_quiet (Proceed st) = fold_quiet st"
  "out_quiet (Leave n st) = fold_quiet st" "out_quiet Abort"
  by (simp_all add: out_quiet_def)

lemma merge_quiet: "quiet_lookup lk \<Longrightarrow> syntax_merge_words lk a b = Some c \<Longrightarrow> quiet (tok_type c)"
  by (auto simp: syntax_merge_words_def Let_def split: if_splits)

lemma two_quiet:
  assumes "quiet_lookup lk" "fold_quiet st" "fd_left st + 2 \<le> 8"
  shows "out_quiet (fold_two lk st)"
proof -
  have ab: "quiet (ty st (fd_left st))" "quiet (ty st (fd_left st + 1))"
    using assms by (auto intro: fold_quiet_ty)
  have "out_quiet r" if "fold_two_merge lk st = Some r" for r
    using that assms merge_quiet [OF assms(1)] by (auto simp: fold_two_merge_def Let_def split: if_splits option.splits)
  moreover have "out_quiet r" if "fold_two_names st = Some r" for r
    using that assms by (auto simp: fold_two_names_def Let_def split: if_splits)
  moreover have "ty st (fd_left st) \<noteq> TYPE_LEFTBRACE" using ab by (simp add: quiet_def)
  then have "out_quiet r" if "fold_two_drop st = Some r" for r
    using that assms ab by (auto simp: fold_two_drop_def st_copy_def Let_def split: if_splits)
  ultimately show ?thesis using assms(2) by (auto simp: fold_two_def split: option.splits)
qed

lemma three_quiet:
  assumes "fold_quiet st" "fd_left st + 3 \<le> 8"
  shows "out_quiet (fold_three st)"
proof -
  have c: "quiet (ty st (fd_left st + 2))" using assms by (auto intro: fold_quiet_ty)
  have "out_quiet r" if "fold_three_ops st = Some r" for r
    using that assms by (auto simp: fold_three_ops_def Let_def split: if_splits)
  moreover have "out_quiet r" if "fold_three_unary st = Some r" for r
    using that assms c by (auto simp: fold_three_unary_def st_copy_def Let_def split: if_splits)
  ultimately show ?thesis using assms(1) by (auto simp: fold_three_def split: option.splits)
qed

lemma read_quiet:
  assumes "quiet_lookup lk" "fold_quiet st" "fd_pos st \<le> MAX_TOKENS"
  shows "fold_quiet (fold_read lk st)"
proof -
  let ?sf = "(fd_sf st)\<lparr>sf_current := fd_pos st\<rparr>"
  have "all_quiet (snd (libinjection_sqli_tokenize lk ?sf))"
    using assms by (intro tokenize_all_quiet) (auto simp: fold_quiet_def all_quiet_def MAX_TOKENS_def)
  moreover have "cur_quiet (snd (libinjection_sqli_tokenize lk ?sf))"
    using calculation tokenize_sel(4) [of lk ?sf] assms(3) by (simp add: all_quiet_def cur_def MAX_TOKENS_def)
  ultimately show ?thesis
    using assms(2,3) by (auto simp: fold_read_def Let_def split_beta fold_quiet_def MAX_TOKENS_def)
qed

lemma get_quiet: "quiet_lookup lk \<Longrightarrow> fold_quiet st \<Longrightarrow> fold_quiet (fold_get lk n st)"
proof (induction lk n st rule: fold_get.induct)
  case (1 lk n st)
  then show ?case using read_quiet [OF "1.prems"] by (subst fold_get.simps) simp
qed

lemma five_quiet: "fold_quiet st \<Longrightarrow> fold_quiet (fold_five st)"
  using fold_quiet_ty [of st MAX_TOKENS] by (auto simp: fold_five_def st_copy_def MAX_TOKENS_def)

lemma round_quiet:
  assumes "quiet_lookup lk" "fold_quiet st"
  shows "out_quiet (fold_round lk st)"
proof -
  have pos: "fd_pos s \<le> 6" if "fold_quiet s" for s using that by (simp add: fold_quiet_def)
  let ?st = "fold_get lk 2 (fold_five st)"
  have st: "fold_quiet (fold_five st)" "fold_quiet ?st" using assms by (simp_all add: get_quiet five_quiet)
  have two: "out_quiet (fold_two lk ?st)" if "\<not> fd_pos ?st - fd_left ?st < 2"
    using that pos [OF st(2)] by (intro two_quiet assms(1) st(2)) simp
  show ?thesis
  proof (cases "fold_two lk ?st")
    case (Proceed s)
    let ?s = "fold_get lk 3 s"
    have s: "fold_quiet ?s" if "\<not> fd_pos ?st - fd_left ?st < 2" using two [OF that] assms(1) Proceed by (simp add: get_quiet)
    have "out_quiet (fold_three ?s)" if "\<not> fd_pos ?st - fd_left ?st < 2" "\<not> fd_pos ?s - fd_left ?s < 3"
      using that pos [OF s [OF that(1)]] by (intro three_quiet s) simp_all
    then show ?thesis
      using st s Proceed by (cases "fold_three ?s") (auto simp: fold_round_def Let_def)
  qed (use st two in \<open>auto simp: fold_round_def Let_def\<close>)
qed

lemma fold_loop_quiet:
  assumes "fold_loop lk st = Some (e, st')" "quiet_lookup lk" "fold_quiet st"
  shows "fold_quiet st'"
proof -
  have "quiet_lookup lk \<longrightarrow> fold_quiet st \<longrightarrow> fold_quiet (snd (e, st'))"
  proof (rule fold_loop.raw_induct [where P = "\<lambda>lk st r. quiet_lookup lk \<longrightarrow> fold_quiet st \<longrightarrow> fold_quiet (snd r)",
        OF _ assms(1)], intro impI)
    fix loop lk st r
    assume IH: "\<And>lk st r. loop lk st = Some r \<Longrightarrow> quiet_lookup lk \<longrightarrow> fold_quiet st \<longrightarrow> fold_quiet (snd r)"
      and body: "(case fold_round lk st of Again st' \<Rightarrow> loop lk st' | Proceed st' \<Rightarrow> Some (None, st')
         | Leave n st' \<Rightarrow> Some (Some n, st') | Abort \<Rightarrow> None) = Some r"
      and st: "quiet_lookup lk" "fold_quiet st"
    have "out_quiet (fold_round lk st)" by (rule round_quiet [OF st])
    then show "fold_quiet (snd r)"
      using IH body st(1) by (cases "fold_round lk st") auto
  qed
  then show ?thesis using assms by simp
qed

lemma finish_quiet: "fold_quiet st \<Longrightarrow> all_quiet (snd (fold_finish st))"
proof -
  assume st: "fold_quiet st"
  then have "fold_quiet (set_tv (fd_left st) (fd_comment st) st)"
    by (rule fold_quiet_set(1)) (use st in \<open>simp add: fold_quiet_def\<close>)
  then show "all_quiet (snd (fold_finish st))"
    using st by (simp add: fold_finish_def Let_def st_copy_def fold_quiet_def)
qed

lemma libinjection_fold_quiet:
  assumes "quiet_lookup lk" "all_quiet sf" "libinjection_sqli_fold lk sf = Some (n, sf')"
  shows "all_quiet sf'"
proof -
  obtain got sf1 where skip: "fold_skip lk (sf\<lparr>sf_current := 0\<rparr>) = (got, sf1)" by force
  have "all_quiet (sf\<lparr>sf_current := 0\<rparr>)" using assms(2) by (simp add: all_quiet_def)
  then have sf1: "all_quiet sf1" using skip_all_quiet [OF assms(1), of "sf\<lparr>sf_current := 0\<rparr>"] by (simp add: skip)
  let ?st = "\<lparr>fd_sf = sf1, fd_comment = zero_token, fd_pos = 1, fd_left = 0, fd_more = True\<rparr>"
  have "fold_quiet ?st" using sf1 by (simp add: fold_quiet_def zero_token_def)
  then have "fold_quiet st'" if "fold_loop lk ?st = Some (e, st')" for e st'
    using fold_loop_quiet [OF that assms(1)] by simp
  moreover have "all_quiet (fd_sf st')" if "fold_quiet st'" for st' using that by (simp add: fold_quiet_def)
  ultimately show ?thesis
    using assms(3) skip sf1 finish_quiet
    by (auto simp: libinjection_sqli_fold_def split: if_splits option.splits prod.splits) (metis snd_conv)+
qed

section \<open>The table\<close>

definition kw_quiet :: "(string \<times> char) list \<Rightarrow> bool" where
  "kw_quiet kws \<longleftrightarrow> list_all (\<lambda>kw. quiet (snd kw)) kws"

lemma kw_quiet_simps: "kw_quiet []" "kw_quiet ((w, t) # kws) \<longleftrightarrow> quiet t \<and> kw_quiet kws" "kw_quiet (a @ b) \<longleftrightarrow> kw_quiet a \<and> kw_quiet b"
  by (simp_all add: kw_quiet_def)

lemma quiet_table_types:
  "quiet TYPE_UNION" "quiet TYPE_GROUP" "quiet TYPE_EXPRESSION" "quiet TYPE_COLLATE" "quiet TYPE_FINGERPRINT" "quiet TYPE_LOGIC_OPERATOR"
  by (simp_all add: quiet_def)

lemma sql_keywords_quiet: "kw_quiet sql_keywords"
  unfolding sql_keywords_def concat.simps kw_quiet_simps sql_keywords_0_def sql_keywords_1_def
    sql_keywords_2_def sql_keywords_3_def sql_keywords_4_def sql_keywords_5_def sql_keywords_6_def
    sql_keywords_7_def sql_keywords_8_def sql_keywords_9_def sql_keywords_10_def sql_keywords_11_def
    sql_keywords_12_def sql_keywords_13_def sql_keywords_14_def sql_keywords_15_def
    sql_keywords_16_def sql_keywords_17_def sql_keywords_18_def sql_keywords_19_def
    sql_keywords_20_def sql_keywords_21_def sql_keywords_22_def sql_keywords_23_def
    sql_keywords_24_def sql_keywords_25_def sql_keywords_26_def sql_keywords_27_def
    sql_keywords_28_def sql_keywords_29_def sql_keywords_30_def sql_keywords_31_def
    sql_keywords_32_def sql_keywords_33_def sql_keywords_34_def sql_keywords_35_def
    sql_keywords_36_def sql_keywords_37_def sql_keywords_38_def sql_keywords_39_def
    sql_keywords_40_def sql_keywords_41_def sql_keywords_42_def sql_keywords_43_def
    sql_keywords_44_def sql_keywords_45_def sql_keywords_46_def sql_keywords_47_def
    sql_keywords_48_def sql_keywords_49_def sql_keywords_50_def sql_keywords_51_def
    sql_keywords_52_def sql_keywords_53_def sql_keywords_54_def sql_keywords_55_def
    sql_keywords_56_def sql_keywords_57_def sql_keywords_58_def sql_keywords_59_def
    sql_keywords_60_def sql_keywords_61_def sql_keywords_62_def
  by (simp only: kw_quiet_simps quiet_types quiet_table_types simp_thms)

lemma word_lookup_quiet: "quiet_lookup word_lookup"
proof -
  have "quiet t" if "(w, t) \<in> set sql_keywords" for w t
    using sql_keywords_quiet that by (auto simp: kw_quiet_def list_all_iff)
  then show ?thesis
    by (auto simp: quiet_lookup_def word_lookup_def sqlkw.bsearch_correct simp flip: length_sql_keywords
        split: option.split dest!: map_of_SomeD)
qed

section \<open>The fingerprint\<close>

lemma magic_backquote_quiet: "all_quiet sf \<Longrightarrow> all_quiet (magic_backquote n sf)"
  by (simp add: magic_backquote_def Let_def update_all_quiet)

lemma fingerprint_quiet:
  assumes "plain_input (sf_s sf) (sf_slen sf)" "libinjection_sqli_fingerprint word_lookup sf flags = Some sf'"
  shows "TYPE_EVIL \<notin> set (c_str (sf_fingerprint sf'))"
proof -
  let ?sf0 = "libinjection_sqli_reset sf flags"
  have sf0: "all_quiet ?sf0"
    using assms(1) by (auto simp: all_quiet_def libinjection_sqli_reset_def libinjection_sqli_init_def Let_def zero_token_def)
  obtain n sf1 where fold: "libinjection_sqli_fold word_lookup ?sf0 = Some (n, sf1)"
    and ok: "sf_ok sf1" "input_of sf1 = input_of ?sf0" and n: "n \<le> 6"
    and types: "\<forall>i < n. tok_type (sf_tokenvec sf1 ! i) \<noteq> NUL"
    using fold_returns [of ?sf0 word_lookup] by auto
  let ?sf2 = "magic_backquote n sf1"
  let ?sf3 = "write_fingerprint n ?sf2"
  have len: "length (sf_tokenvec ?sf2) = 8" "length (sf_fingerprint ?sf2) = 8"
    using ok by (auto simp: sf_ok_def input_of_def)
  have q: "all_quiet ?sf2" by (intro magic_backquote_quiet libinjection_fold_quiet [OF word_lookup_quiet sf0 fold])
  have "\<forall>i < n. tok_type (sf_tokenvec ?sf2 ! i) \<noteq> NUL"
    using magic_backquote_type [OF types] n ok by (auto simp: sf_ok_def)
  then have fp: "c_str (sf_fingerprint ?sf3) = map tok_type (take n (sf_tokenvec ?sf2))"
    using n len by (subst c_str_write) auto
  have "tok_type tok \<noteq> TYPE_EVIL" if "tok \<in> set (sf_tokenvec ?sf2)" for tok
    using q that unfolding all_quiet_def in_set_conv_nth quiet_def by metis
  then have "TYPE_EVIL \<notin> set (c_str (sf_fingerprint ?sf3))" unfolding fp using in_set_takeD by fastforce
  moreover from this have "clear_evil ?sf3 = ?sf3" by (simp add: clear_evil_def c_strchr_def)
  ultimately show ?thesis using assms(2) fold by (simp add: libinjection_sqli_fingerprint_def)
qed

end
