(* ===== verification/Sqli_Blind.thy ===== *)
theory Sqli_Blind
  imports Sqli_Quiet
begin

text \<open>
  What \<open>libinjection_sqli\<close> sees of a request line. The proxy gives it whole lines, and the question
  mark before the parameters becomes a token of its own (\<open>parse_other\<close>) that no rule of the fold
  removes and no known fingerprint has. The tokens of a line \<open>GET /a/b?...\<close> are followed through
  the tokenizer and the fold: the path folds into the method, and from the question mark on
  the first two tokens never change.
\<close>

section \<open>Tokens at a known place\<close>











subsection \<open>The tokens of a request line\<close>



definition slash_token :: "nat \<Rightarrow> stoken_t" where
  "slash_token p = st_assign_char zero_token TYPE_OPERATOR p 1 CHR ''/''"

definition question_token :: "nat \<Rightarrow> stoken_t" where
  "question_token p = st_assign_char zero_token TYPE_UNKNOWN p 1 CHR ''?''"











definition word_token :: "nat \<Rightarrow> string \<Rightarrow> stoken_t" where
  "word_token p w = st_assign zero_token TYPE_BAREWORD p (length w) (mem_of w)"



section \<open>Reading in the fold\<close>


section \<open>Two tokens that stay\<close>

text \<open>A bare word and an unknown character at the start of the token vector.\<close>

definition pinned :: "stoken_t \<Rightarrow> stoken_t \<Rightarrow> fold_state \<Rightarrow> bool" where
  "pinned a b st \<longleftrightarrow> 2 \<le> fd_pos st \<and> tv st 0 = a \<and> tv st (Suc 0) = b"

definition out_pinned :: "stoken_t \<Rightarrow> stoken_t \<Rightarrow> fold_out \<Rightarrow> bool" where
  "out_pinned a b r = (case r of Again st \<Rightarrow> pinned a b st | Proceed st \<Rightarrow> pinned a b st
     | Leave n st \<Rightarrow> 2 \<le> n \<and> pinned a b st | Abort \<Rightarrow> True)"

lemma out_pinned_simps [simp]:
  "out_pinned a b (Again st) = pinned a b st" "out_pinned a b (Proceed st) = pinned a b st"
  "out_pinned a b (Leave n st) \<longleftrightarrow> 2 \<le> n \<and> pinned a b st" "out_pinned a b Abort"
  by (simp_all add: out_pinned_def)

lemma tv_set_other [simp]: "i \<noteq> j \<Longrightarrow> tv (set_tv j tok st) i = tv st i" "i \<noteq> j \<Longrightarrow> tv (set_type j t st) i = tv st i"
  by (simp_all add: tv_def set_tv_def set_type_def)

lemma pinned_updates [simp]:
  "pinned a b (add_folds k st) = pinned a b st" "pinned a b (st\<lparr>fd_left := l\<rparr>) = pinned a b st"
  "1 < i \<Longrightarrow> pinned a b (set_tv i tok st) = pinned a b st" "1 < i \<Longrightarrow> pinned a b (set_type i t st) = pinned a b st"
  "pinned a b (drop_tokens n l st) \<longleftrightarrow> n + 2 \<le> fd_pos st \<and> tv st 0 = a \<and> tv st (Suc 0) = b"
  by (auto simp: pinned_def)












section \<open>The path folds into the method\<close>




definition path_of :: "string list \<Rightarrow> string" where
  "path_of ws = concat (map (\<lambda>w. CHR ''/'' # w) ws)"

lemma path_of_simps [simp]: "path_of [] = []" "path_of (w # ws) = CHR ''/'' # w @ path_of ws"
  by (simp_all add: path_of_def)



lemma word_token_type [simp]: "tok_type (word_token p w) = TYPE_BAREWORD"
  by (simp add: word_token_def)

lemma token_types [simp]: "tok_type (slash_token p) = TYPE_OPERATOR" "tok_type (question_token p) = TYPE_UNKNOWN"
  by (simp_all add: slash_token_def question_token_def)




section \<open>The fingerprint of a request line\<close>






section \<open>No known attack starts like this\<close>





section \<open>The verdict\<close>













section \<open>Properties\<close>






end
