(* ===== verification/Match_Algorithms.thy ===== *)
theory Match_Algorithms
  imports Octopus_Prelude
begin

text \<open>
  The substring searches of \<open>match_algorithms.c\<close>: the automaton (\<open>NextMachineState\<close>,
  \<open>write_tf\<close>, \<open>DFA_Search\<close>), \<open>horspool_search\<close> and \<open>Rabin_Karp_search\<close>, and the interface
  \<open>substring_search\<close> they share: on the inputs a search is defined for, it says whether the
  pattern is a sublist of the text.

  The tables are indexed with a signed \<open>char\<close>, so a byte above 127 gives a subscript below zero. An
  access outside the object of a table is \<open>None\<close>, and so is the overflow of an \<open>int\<close>.
\<close>

section \<open>The interface of a search\<close>

text \<open>\<open>ok pat input\<close> is the domain of the search, \<open>search pat input\<close> its run on two C strings.\<close>

locale substring_search =
  fixes search :: "string \<Rightarrow> string \<Rightarrow> bool option" and ok :: "string \<Rightarrow> string \<Rightarrow> bool"
  assumes search_correct: "ok pat input \<Longrightarrow> search pat input = Some (sublist pat input)"
begin

text \<open>Searching for the patterns of a list in turn, up to the first that is found.\<close>

fun search_any :: "string list \<Rightarrow> string \<Rightarrow> bool option" where
  "search_any [] input = Some False"
| "search_any (p # ps) input =
     (case search p input of None \<Rightarrow> None
      | Some found \<Rightarrow> if found then Some True else search_any ps input)"

lemma search_any_correct:
  "\<forall>p \<in> set ps. ok p input \<Longrightarrow> search_any ps input = Some (\<exists>p \<in> set ps. sublist p input)"
  by (induction ps) (auto simp: search_correct)

end

section \<open>The automaton\<close>

text \<open>
  The loop \<open>for (i = 0; i < fix-1; i++)\<close>, from \<open>i\<close> with \<open>n\<close> rounds left: the \<open>i\<close> at which it
  stops.
\<close>

fun agree_len :: "string \<Rightarrow> nat \<Rightarrow> nat \<Rightarrow> nat \<Rightarrow> nat" where
  "agree_len pat off i 0 = i"
| "agree_len pat off i (Suc n) =
     (if pat ! i \<noteq> pat ! (off + i) then i else agree_len pat off (Suc i) n)"

text \<open>The loop \<open>while (fix > 0)\<close>.\<close>

fun next_state_fix :: "string \<Rightarrow> nat \<Rightarrow> int \<Rightarrow> nat \<Rightarrow> nat" where
  "next_state_fix pat state x 0 = 0"
| "next_state_fix pat state x (Suc f) =
     (let fix = Suc f in
      if schar (pat ! (fix - 1)) = x \<and> agree_len pat (state - fix + 1) 0 (fix - 1) = fix - 1
      then fix
      else next_state_fix pat state x f)"

definition NextMachineState :: "string \<Rightarrow> nat \<Rightarrow> nat \<Rightarrow> int \<Rightarrow> nat" where
  "NextMachineState pat M state x =
     (if state < M \<and> x = schar (pat ! state) then state + 1
      else next_state_fix pat state x state)"

definition write_tf :: "string \<Rightarrow> nat \<Rightarrow> nat list list" where
  "write_tf pat M =
     map (\<lambda>state. map (\<lambda>x. NextMachineState pat M state (int x)) [0..<256]) [0..<M + 1]"

text \<open>
  \<open>TF\<close> is one object, its rows of 256 one after the other. A subscript \<open>(int)txt[i]\<close> below zero stands
  for an element of the row before; in the first row it is outside the object. (ISO C leaves both
  undefined.)
\<close>

definition tf_at :: "nat list list \<Rightarrow> int \<Rightarrow> nat option" where
  "tf_at TF i =
     (if 0 \<le> i \<and> nat i div 256 < length TF then Some (TF ! (nat i div 256) ! (nat i mod 256)) else None)"

fun dfa_scan :: "nat list list \<Rightarrow> nat \<Rightarrow> string \<Rightarrow> nat \<Rightarrow> bool option" where
  "dfa_scan TF patsize [] state = Some False"
| "dfa_scan TF patsize (c # input) state =
     (case tf_at TF (256 * int state + schar c) of
        None \<Rightarrow> None
      | Some state \<Rightarrow> if state = patsize then Some True else dfa_scan TF patsize input state)"

definition DFA_Search :: "string \<Rightarrow> nat \<Rightarrow> string \<Rightarrow> nat \<Rightarrow> bool option" where
  "DFA_Search pat patsize input txtsize = dfa_scan (write_tf pat patsize) patsize (take txtsize input) 0"

subsection \<open>The state is the longest prefix of the pattern that ends the text\<close>

definition ends :: "string \<Rightarrow> string \<Rightarrow> nat \<Rightarrow> bool" where
  "ends pat input k \<longleftrightarrow> k \<le> length pat \<and> suffix (take k pat) input"

definition longest_end :: "string \<Rightarrow> string \<Rightarrow> nat \<Rightarrow> bool" where
  "longest_end pat input s \<longleftrightarrow> ends pat input s \<and> (\<forall>k. ends pat input k \<longrightarrow> k \<le> s)"

lemma ends_0 [simp]: "ends pat input 0"
  by (simp add: ends_def)

lemma ends_Suc_snoc:
  "ends pat (input @ [c]) (Suc k) \<longleftrightarrow> k < length pat \<and> pat ! k = c \<and> ends pat input k"
  by (auto simp: ends_def take_Suc_conv_app_nth)

lemma ends_in_state:
  assumes "longest_end pat input s" "k \<le> s"
  shows "ends pat input k \<longleftrightarrow> suffix (take k pat) (take s pat)"
proof -
  have s: "suffix (take s pat) input" "s \<le> length pat"
    using assms(1) by (auto simp: longest_end_def ends_def)
  then have "k \<le> length pat" "length (take k pat) \<le> length (take s pat)" using assms(2) by auto
  then show ?thesis
    using suffix_length_suffix [OF _ s(1), of "take k pat"] suffix_order.trans [OF _ s(1)]
    unfolding ends_def by blast
qed

lemma agree_len_le: "agree_len pat off i n \<le> i + n"
proof (induction n arbitrary: i)
  case (Suc n)
  then show ?case using Suc.IH [of "Suc i"] by simp
qed simp

lemma agree_len_all: "agree_len pat off i n = i + n \<longleftrightarrow> (\<forall>k. i \<le> k \<and> k < i + n \<longrightarrow> pat ! k = pat ! (off + k))"
proof (induction n arbitrary: i)
  case (Suc n)
  have "(\<forall>k. i \<le> k \<and> k < i + Suc n \<longrightarrow> pat ! k = pat ! (off + k)) \<longleftrightarrow>
    pat ! i = pat ! (off + i) \<and> (\<forall>k. Suc i \<le> k \<and> k < Suc i + n \<longrightarrow> pat ! k = pat ! (off + k))"
    by (auto simp: Suc_le_eq) (metis le_neq_implies_less)
  then show ?case using Suc.IH [of "Suc i"] by auto
qed auto

lemma suffix_take_iff:
  assumes "f \<le> s" "s \<le> length pat"
  shows "suffix (take f pat) (take s pat) \<longleftrightarrow> (\<forall>i < f. pat ! i = pat ! (s - f + i))"
proof -
  have "suffix (take f pat) (take s pat) \<longleftrightarrow> take f pat = drop (s - f) (take s pat)"
  proof
    assume "suffix (take f pat) (take s pat)"
    then obtain zs where zs: "take s pat = zs @ take f pat" by (auto simp: suffix_def)
    then have "length (take s pat) = length zs + length (take f pat)" by simp
    then have "s = length zs + f" using assms by (simp add: min_absorb2)
    then show "take f pat = drop (s - f) (take s pat)" unfolding zs by simp
  next
    assume "take f pat = drop (s - f) (take s pat)"
    then show "suffix (take f pat) (take s pat)" by (metis suffix_drop)
  qed
  then show ?thesis using assms by (auto simp: list_eq_iff_nth_eq)
qed

lemma next_state_fix_longest:
  assumes best: "longest_end pat input s" and c: "\<And>i. x = schar (pat ! i) \<longleftrightarrow> pat ! i = c"
    and "f \<le> s" and above: "\<forall>k. ends pat (input @ [c]) k \<longrightarrow> k \<le> f"
  shows "longest_end pat (input @ [c]) (next_state_fix pat s x f)"
  using assms(3,4)
proof (induction f)
  case 0
  then show ?case by (auto simp: longest_end_def)
next
  case (Suc f)
  have s: "s \<le> length pat" using best by (simp add: longest_end_def ends_def)
  have "agree_len pat (s - Suc f + 1) 0 f = f \<longleftrightarrow> suffix (take f pat) (take s pat)"
    using agree_len_all [of pat "s - Suc f + 1" 0 f] suffix_take_iff [of f s pat] s Suc.prems(1)
    by (simp add: Suc_diff_Suc)
  then have "ends pat (input @ [c]) (Suc f) \<longleftrightarrow>
      schar (pat ! f) = x \<and> agree_len pat (s - Suc f + 1) 0 f = f"
    using ends_Suc_snoc [of pat input c f] ends_in_state [OF best, of f] c [of f] s Suc.prems(1) by auto
  then show ?case
    using Suc.IH Suc.prems by (auto simp: Let_def longest_end_def le_Suc_eq)
qed

lemma NextMachineState_longest:
  assumes best: "longest_end pat input s" and c: "is_ascii c"
  shows "longest_end pat (input @ [c]) (NextMachineState pat (length pat) s (schar c))"
proof -
  have below: "k \<le> Suc s" if "ends pat (input @ [c]) k" for k
    using that best by (cases k) (auto simp: ends_Suc_snoc longest_end_def)
  show ?thesis
  proof (cases "s < length pat \<and> pat ! s = c")
    case True
    then have "ends pat (input @ [c]) (Suc s)"
      using best by (simp add: ends_Suc_snoc longest_end_def)
    then show ?thesis using True below by (simp add: NextMachineState_def longest_end_def)
  next
    case False
    then have "\<not> ends pat (input @ [c]) (Suc s)" by (auto simp: ends_Suc_snoc)
    then have "\<forall>k. ends pat (input @ [c]) k \<longrightarrow> k \<le> s" using below le_Suc_eq by blast
    then show ?thesis
      using False next_state_fix_longest [OF best, of "schar c" c s]
      by (auto simp: NextMachineState_def)
  qed
qed

text \<open>The element of the table that a character leads to.\<close>

lemma write_tf_at:
  assumes "s \<le> M" "0 \<le> x" "x < 256"
  shows "tf_at (write_tf pat M) (256 * int s + x) = Some (NextMachineState pat M s x)"
proof -
  define n where "n = nat x"
  have x: "x = int n" "n < 256" using assms(2,3) by (simp_all add: n_def)
  then have i: "256 * int s + x = int (256 * s + n)" by simp
  have "(256 * s + n) div 256 = s" "(256 * s + n) mod 256 = n" using x(2) by simp_all
  then show ?thesis
    using assms(1) x unfolding i tf_at_def nat_int by (simp add: write_tf_def nth_append del: upt_Suc)
qed

lemma tf_at_ascii:
  assumes "s \<le> M" "is_ascii c"
  shows "tf_at (write_tf pat M) (256 * int s + schar c) = Some (NextMachineState pat M s (schar c))"
  using schar_nonneg_iff [of c] schar_range [of c] assms by (intro write_tf_at) auto

text \<open>No column above 127 is reached by a character of the pattern.\<close>

lemma next_state_fix_high: "127 < x \<Longrightarrow> next_state_fix pat s x f = 0"
  using schar_range by (induction f) (auto simp: Let_def, metis not_less)

lemma NextMachineState_high: "127 < x \<Longrightarrow> NextMachineState pat M s x = 0"
  using schar_range [of "pat ! s"] by (simp add: NextMachineState_def next_state_fix_high)

lemma tf_at_non_ascii:
  assumes "s \<le> M" "\<not> is_ascii c"
  shows "tf_at (write_tf pat M) (256 * int s + schar c) = (if s = 0 then None else Some 0)"
proof (cases s)
  case 0
  then show ?thesis using assms(2) schar_nonneg_iff [of c] by (simp add: tf_at_def)
next
  case (Suc t)
  have "tf_at (write_tf pat M) (256 * int t + (256 + schar c)) = Some (NextMachineState pat M t (256 + schar c))"
    using assms schar_nonneg_iff [of c] schar_range [of c] Suc by (intro write_tf_at) auto
  moreover have "256 * int t + (256 + schar c) = 256 * int s + schar c" using Suc by simp
  ultimately show ?thesis using Suc NextMachineState_high [of "256 + schar c"] schar_range [of c] by simp
qed

lemma dfa_scan_correct:
  assumes "longest_end pat input s" "s < length pat" "\<not> sublist pat input" "\<forall>c \<in> set cs. is_ascii c"
  shows "dfa_scan (write_tf pat (length pat)) (length pat) cs s = Some (sublist pat (input @ cs))"
  using assms
proof (induction cs arbitrary: input s)
  case Nil
  then show ?case by simp
next
  case (Cons c cs)
  let ?s = "NextMachineState pat (length pat) s (schar c)"
  have c: "is_ascii c" using Cons.prems(4) by simp
  have best: "longest_end pat (input @ [c]) ?s"
    by (rule NextMachineState_longest [OF Cons.prems(1) c])
  have tf: "tf_at (write_tf pat (length pat)) (256 * int s + schar c) = Some ?s"
    by (rule tf_at_ascii) (use Cons.prems c in auto)
  show ?case
  proof (cases "?s = length pat")
    case True
    then have "suffix pat (input @ [c])" using best by (simp add: longest_end_def ends_def)
    then have "sublist pat ((input @ [c]) @ cs)" unfolding suffix_def sublist_def by (metis append.assoc)
    then show ?thesis using True c tf by (simp add: Let_def)
  next
    case False
    have "\<not> suffix pat (input @ [c])"
    proof
      assume "suffix pat (input @ [c])"
      then have "length pat \<le> ?s" using best by (simp add: longest_end_def ends_def)
      then show False using best False by (simp add: longest_end_def ends_def)
    qed
    then have "\<not> sublist pat (input @ [c])" using Cons.prems(3) by (simp add: sublist_snoc)
    moreover have "?s < length pat" using best False by (simp add: longest_end_def ends_def)
    ultimately have "dfa_scan (write_tf pat (length pat)) (length pat) cs ?s =
        Some (sublist pat ((input @ [c]) @ cs))"
      using Cons.IH [OF best] Cons.prems(4) by simp
    then show ?thesis using False c tf by (simp add: Let_def)
  qed
qed

definition dfa_run :: "string \<Rightarrow> string \<Rightarrow> bool option" where
  "dfa_run pat input = DFA_Search pat (length pat) input (length input)"

lemma dfa_run_correct:
  assumes "pat \<noteq> []" "\<forall>c \<in> set input. is_ascii c"
  shows "dfa_run pat input = Some (sublist pat input)"
proof -
  have "longest_end pat [] 0" by (auto simp: longest_end_def ends_def)
  then show ?thesis
    using dfa_scan_correct [of pat "[]" 0 input] assms by (auto simp: dfa_run_def DFA_Search_def)
qed

interpretation dfa: substring_search dfa_run "\<lambda>pat input. pat \<noteq> [] \<and> (\<forall>c \<in> set input. is_ascii c)"
  by unfold_locales (simp add: dfa_run_correct)

section \<open>Horspool\<close>

text \<open>\<open>for (i = 0; i < matchLen; i++) badCharHtable[(int)match[i]] = i\<close>, from \<open>i\<close> on.\<close>

fun bad_char_fill :: "string \<Rightarrow> nat \<Rightarrow> int list \<Rightarrow> int list option" where
  "bad_char_fill [] i table = Some table"
| "bad_char_fill (c # cs) i table =
     (if schar c < 0 then None
      else bad_char_fill cs (i + 1) (table[nat (schar c) := int i]))"

text \<open>
  \<open>while (nInd >= 0 && match[nInd] == txt[shift + nInd]) nInd--\<close>: the last \<open>nInd\<close>, for the
  indices below \<open>n\<close>.
\<close>

fun match_back :: "string \<Rightarrow> string \<Rightarrow> nat \<Rightarrow> nat \<Rightarrow> int" where
  "match_back match input shift 0 = -1"
| "match_back match input shift (Suc n) =
     (if match ! n = input ! (shift + n) then match_back match input shift n else int n)"

definition max_horspool :: "int \<Rightarrow> int \<Rightarrow> int" where
  "max_horspool a b = (if a > b then a else b)"

function horspool_loop :: "string \<Rightarrow> nat \<Rightarrow> string \<Rightarrow> nat \<Rightarrow> int list \<Rightarrow> nat \<Rightarrow> bool option" where
  "horspool_loop input txtLen match matchLen table shift =
     (if int shift \<le> int txtLen - int matchLen then
        let nInd = match_back match input shift matchLen in
        if nInd < 0 then Some True
        else
          let c = schar (input ! (shift + nat nInd)) in
          if c < 0 then None
          else horspool_loop input txtLen match matchLen table
                 (shift + nat (max_horspool 1 (nInd - table ! nat c)))
      else Some False)"
  by pat_completeness auto

termination
  by (relation "measure (\<lambda>(input, txtLen, match, matchLen, table, shift). Suc txtLen - shift)")
    (auto simp: max_horspool_def)

declare horspool_loop.simps [simp del]

definition horspool_search :: "string \<Rightarrow> nat \<Rightarrow> string \<Rightarrow> nat \<Rightarrow> bool option" where
  "horspool_search input txtLen match matchLen =
     (case bad_char_fill (take matchLen match) 0 (replicate 256 (-1)) of
        None \<Rightarrow> None
      | Some table \<Rightarrow> horspool_loop input txtLen match matchLen table 0)"

text \<open>The entry of a character is at least the last position at which the pattern has it.\<close>

lemma nat_schar_inject: "0 \<le> schar a \<Longrightarrow> 0 \<le> schar b \<Longrightarrow> nat (schar a) = nat (schar b) \<longleftrightarrow> a = b"
  by (metis nat_eq_iff2 nat_0_le schar_inject)

lemma nat_schar_less: "nat (schar c) < 256"
  using schar_range [of c] by linarith

lemma bad_char_fill_bound:
  assumes "\<forall>c \<in> set cs. is_ascii c" "length table = 256" "\<forall>v \<in> set table. v < int i"
  shows "\<exists>table'. bad_char_fill cs i table = Some table' \<and> length table' = 256 \<and>
    (\<forall>k < 256. table ! k \<le> table' ! k) \<and>
    (\<forall>k < length cs. int (i + k) \<le> table' ! nat (schar (cs ! k)))"
  using assms
proof (induction cs arbitrary: i table)
  case (Cons c cs)
  let ?table = "table[nat (schar c) := int i]"
  have c: "\<not> schar c < 0" using Cons.prems(1) schar_nonneg_iff [of c] by simp
  have less: "\<forall>v \<in> set ?table. v < int (i + 1)"
    using Cons.prems(3) by (auto dest!: set_update_subset_insert [THEN subsetD])
  obtain t where t: "bad_char_fill cs (i + 1) ?table = Some t" "length t = 256"
    "\<forall>k < 256. ?table ! k \<le> t ! k" "\<forall>k < length cs. int (i + 1 + k) \<le> t ! nat (schar (cs ! k))"
    using Cons.IH [of ?table "i + 1"] Cons.prems(1,2) less by auto
  have "int i \<le> t ! nat (schar c)"
    using t(3) nat_schar_less [of c] Cons.prems(2) by (metis nth_list_update_eq)
  moreover have "table ! k \<le> t ! k" if "k < 256" for k
  proof -
    have "table ! k < int i" using that Cons.prems(2,3) by simp
    then have "table ! k \<le> ?table ! k" using that Cons.prems(2) by (cases "k = nat (schar c)") auto
    then show ?thesis using t(3) that by (meson order_trans)
  qed
  ultimately show ?case
    using c t by (auto simp: nth_Cons split: nat.split)
qed auto

lemma match_back_spec:
  "match_back match input shift n < 0 \<longleftrightarrow> (\<forall>k < n. match ! k = input ! (shift + k))"
  "0 \<le> match_back match input shift n \<Longrightarrow> nat (match_back match input shift n) < n \<and>
     match ! nat (match_back match input shift n) \<noteq> input ! (shift + nat (match_back match input shift n))"
  by (induction n) (auto simp: less_Suc_eq)

lemma horspool_loop_correct:
  assumes "\<forall>c \<in> set input. is_ascii c"
    and table: "\<forall>k < length match. int k \<le> table ! nat (schar (match ! k))"
    and low: "\<forall>k < 256. -1 \<le> table ! k"
  shows "horspool_loop input (length input) match (length match) table shift =
    Some (\<exists>i \<ge> shift. occurs_at match input i)"
proof (induction "Suc (length input) - shift" arbitrary: shift rule: less_induct)
  case less
  show ?case
  proof (cases "shift + length match \<le> length input")
    case False
    then have "\<not> (\<exists>i \<ge> shift. occurs_at match input i)" by (auto simp: occurs_at_def)
    then show ?thesis using False by (subst horspool_loop.simps) auto
  next
    case in_range: True
    define nInd where "nInd = match_back match input shift (length match)"
    show ?thesis
    proof (cases "nInd < 0")
      case True
      then have "occurs_at match input shift"
        using in_range match_back_spec(1) [of match input shift "length match"]
        by (auto simp: occurs_at_nth nInd_def)
      then have "\<exists>i \<ge> shift. occurs_at match input i" by blast
      then show ?thesis
        using in_range True by (subst horspool_loop.simps) (simp add: Let_def flip: nInd_def)
    next
      case False
      define n where "n = nat nInd"
      have n: "nInd = int n" "n < length match" "match ! n \<noteq> input ! (shift + n)"
        using match_back_spec(2) [of match input shift "length match"] False
        by (auto simp: n_def nInd_def)
      define c where "c = input ! (shift + n)"
      define d where "d = nat (max_horspool 1 (nInd - table ! nat (schar c)))"
      have c: "0 \<le> schar c"
        using assms(1) n(2) in_range schar_nonneg_iff by (simp add: c_def)
      have d: "0 < d" by (auto simp: d_def max_horspool_def)
      have skip: "\<not> occurs_at match input i" if "shift \<le> i" "i < shift + d" for i
      proof
        assume occ: "occurs_at match input i"
        define e where "e = i - shift"
        have "i \<noteq> shift" using occ n(2,3) by (auto simp: occurs_at_nth)
        then have e: "0 < e" "i = shift + e" "e < d" using that by (auto simp: e_def)
        then have ed: "int e < int n - table ! nat (schar c)"
          using n(1) by (auto simp: d_def max_horspool_def split: if_splits)
        show False
        proof (cases "e \<le> n")
          case True
          have "n - e < length match" using n(2) by simp
          then have "input ! (i + (n - e)) = match ! (n - e)"
            using occ unfolding occurs_at_nth by blast
          then have "match ! (n - e) = c" using True e(2) by (simp add: c_def)
          then have "int (n - e) \<le> table ! nat (schar c)" using table n(2) by (metis less_imp_diff_less)
          then show False using ed True by simp
        next
          case False
          have "-1 \<le> table ! nat (schar c)" using low nat_schar_less by blast
          then show False using False ed by linarith
        qed
      qed
      then have "(\<exists>i \<ge> shift. occurs_at match input i) \<longleftrightarrow> (\<exists>i \<ge> shift + d. occurs_at match input i)"
        by (meson add_leE not_le)
      moreover have "horspool_loop input (length input) match (length match) table shift =
          horspool_loop input (length input) match (length match) table (shift + d)"
        using in_range False c n(1)
        by (subst horspool_loop.simps) (simp add: Let_def d_def c_def flip: nInd_def)
      ultimately show ?thesis using less.hyps [of "shift + d"] d in_range by simp
    qed
  qed
qed

definition horspool_run :: "string \<Rightarrow> string \<Rightarrow> bool option" where
  "horspool_run pat input = horspool_search input (length input) pat (length pat)"

lemma horspool_run_correct:
  assumes "\<forall>c \<in> set pat. is_ascii c" "\<forall>c \<in> set input. is_ascii c"
  shows "horspool_run pat input = Some (sublist pat input)"
proof -
  obtain table where t: "bad_char_fill pat 0 (replicate 256 (-1)) = Some table" "length table = 256"
    "\<forall>k < 256. replicate 256 (-1) ! k \<le> table ! k"
    "\<forall>k < length pat. int (0 + k) \<le> table ! nat (schar (pat ! k))"
    using bad_char_fill_bound [OF assms(1), of "replicate 256 (-1)" 0] by auto
  have "horspool_loop input (length input) pat (length pat) table 0 =
      Some (\<exists>i \<ge> 0. occurs_at pat input i)"
    by (rule horspool_loop_correct [OF assms(2)]) (use t in auto)
  then show ?thesis using t(1) by (simp add: horspool_run_def horspool_search_def sublist_iff_occurs_at)
qed

interpretation horspool: substring_search horspool_run
  "\<lambda>pat input. (\<forall>c \<in> set pat. is_ascii c) \<and> (\<forall>c \<in> set input. is_ascii c)"
  by unfold_locales (simp add: horspool_run_correct)

section \<open>Rabin and Karp\<close>

text \<open>
  Arithmetic on \<open>int\<close>: addition, subtraction and multiplication trap on overflow, a left
  shift wraps.
\<close>

definition int32 :: "int \<Rightarrow> bool" where
  "int32 x \<longleftrightarrow> - (2 ^ 31) \<le> x \<and> x < 2 ^ 31"

definition trap :: "int \<Rightarrow> int option" where
  "trap x = (if int32 x then Some x else None)"

definition shl1 :: "int \<Rightarrow> int" where
  "shl1 x = (2 * x + 2 ^ 31) mod 2 ^ 32 - 2 ^ 31"

text \<open>\<open>z\<close> after the first loop, which runs \<open>match_len - 1\<close> times.\<close>

fun rk_power :: "nat \<Rightarrow> int \<Rightarrow> int" where
  "rk_power 0 z = z"
| "rk_power (Suc n) z = rk_power n (shl1 z)"

text \<open>
  The second loop from \<open>i\<close> with \<open>n\<close> rounds left; \<open>input\<close> is the object the pointer leads
  to, of which \<open>input[i]\<close> must be an element.
\<close>

fun rk_hashes :: "string \<Rightarrow> string \<Rightarrow> nat \<Rightarrow> nat \<Rightarrow> int \<Rightarrow> int \<Rightarrow> (int \<times> int) option" where
  "rk_hashes match input i 0 var1 var2 = Some (var1, var2)"
| "rk_hashes match input i (Suc n) var1 var2 =
     (if i < length match \<and> i < length input then
        do {
          var1 \<leftarrow> trap (shl1 var1 + schar (match ! i));
          var2 \<leftarrow> trap (shl1 var2 + schar (input ! i));
          rk_hashes match input (i + 1) n var1 var2
        }
      else None)"

text \<open>\<open>while (j <= sub)\<close>, with \<open>n\<close> rounds left.\<close>

fun rk_loop :: "string \<Rightarrow> string \<Rightarrow> nat \<Rightarrow> int \<Rightarrow> int \<Rightarrow> nat \<Rightarrow> nat \<Rightarrow> int \<Rightarrow> bool option" where
  "rk_loop match input match_len z var1 j 0 var2 = Some False"
| "rk_loop match input match_len z var1 j (Suc n) var2 =
     (if var1 = var2 \<and> take match_len (drop j input) = take match_len match then Some True
      else if j + match_len < length input then
        do {
          p \<leftarrow> trap (schar (input ! j) * z);
          d \<leftarrow> trap (var2 - p);
          var2 \<leftarrow> trap (shl1 d + schar (input ! (j + match_len)));
          rk_loop match input match_len z var1 (j + 1) n var2
        }
      else None)"

definition Rabin_Karp_search :: "string \<Rightarrow> nat \<Rightarrow> string \<Rightarrow> nat \<Rightarrow> bool option" where
  "Rabin_Karp_search input input_len match match_len =
     (let z = rk_power (match_len - 1) 1 in
      do {
        (var1, var2) \<leftarrow> rk_hashes match input 0 match_len 0 0;
        let sub = int input_len - int match_len;
        rk_loop match input match_len z var1 0 (nat (sub + 1)) var2
      })"

subsection \<open>The hash without wrap-around\<close>

definition rk_hash :: "string \<Rightarrow> int" where
  "rk_hash w = foldl (\<lambda>v c. 2 * v + schar c) 0 w"

lemma rk_hash_snoc: "rk_hash (w @ [c]) = 2 * rk_hash w + schar c"
  by (simp add: rk_hash_def)

lemma rk_hash_Nil [simp]: "rk_hash [] = 0"
  by (simp add: rk_hash_def)

lemma rk_hash_Cons: "rk_hash (c # w) = schar c * 2 ^ length w + rk_hash w"
proof (induction w rule: rev_induct)
  case (snoc d w)
  have "rk_hash (c # w @ [d]) = 2 * rk_hash (c # w) + schar d"
    using rk_hash_snoc [of "c # w" d] by simp
  then show ?case using snoc by (simp add: rk_hash_snoc algebra_simps)
qed (simp add: rk_hash_def)

lemma rk_hash_bound: "- 128 * (2 ^ length w - 1) \<le> rk_hash w \<and> rk_hash w \<le> 128 * (2 ^ length w - 1)"
proof (induction w rule: rev_induct)
  case (snoc d w)
  then show ?case using schar_range [of d] by (simp add: rk_hash_snoc algebra_simps)
qed simp

lemma power_mono_int: "m \<le> n \<Longrightarrow> (2::int) ^ m \<le> 2 ^ n"
  by (simp add: power_increasing)

lemma rk_hash_small:
  assumes "length w \<le> 23"
  shows "- (2 ^ 30) + 128 \<le> rk_hash w \<and> rk_hash w \<le> 2 ^ 30 - 128"
  using rk_hash_bound [of w] power_mono_int [OF assms] by simp

lemma shl1_small: "- (2 ^ 30) \<le> x \<Longrightarrow> x < 2 ^ 30 \<Longrightarrow> shl1 x = 2 * x"
  by (simp add: shl1_def)

lemma trap_step:
  assumes "length w \<le> 23"
  shows "trap (shl1 (rk_hash w) + schar c) = Some (rk_hash (w @ [c]))"
proof -
  have "shl1 (rk_hash w) = 2 * rk_hash w" using rk_hash_small [OF assms] by (intro shl1_small) auto
  then show ?thesis
    using rk_hash_small [OF assms] schar_range [of c] by (simp add: trap_def int32_def rk_hash_snoc)
qed

lemma rk_power_small: "n + k \<le> 30 \<Longrightarrow> rk_power n (2 ^ k) = 2 ^ (n + k)"
proof (induction n arbitrary: k)
  case (Suc n)
  have "(2::int) ^ k \<le> 2 ^ 29" using Suc.prems by (intro power_mono_int) simp
  then have "shl1 (2 ^ k) = 2 ^ Suc k"
    using zero_le_power [of "2::int" k] by (subst shl1_small) (simp_all del: zero_le_power)
  then show ?case using Suc.IH [of "Suc k"] Suc.prems by simp
qed simp

lemma rk_hashes_correct:
  assumes "i + n \<le> 24" "i + n \<le> length match" "i + n \<le> length input"
  shows "rk_hashes match input i n (rk_hash (take i match)) (rk_hash (take i input)) =
    Some (rk_hash (take (i + n) match), rk_hash (take (i + n) input))"
  using assms
proof (induction n arbitrary: i)
  case (Suc n)
  have "trap (shl1 (rk_hash (take i xs)) + schar (xs ! i)) = Some (rk_hash (take (Suc i) xs))"
    if "i < length xs" for xs
    using that Suc.prems by (subst trap_step) (simp_all add: take_Suc_conv_app_nth)
  then show ?case using Suc.IH [of "Suc i"] Suc.prems by simp
qed simp

lemma rk_loop_correct:
  assumes "length match \<le> 24" "j + n + length match \<le> length obj"
  shows "rk_loop match obj (length match) (2 ^ (length match - 1)) (rk_hash match) j n
      (rk_hash (take (length match) (drop j obj))) =
    Some (\<exists>i. j \<le> i \<and> i < j + n \<and> take (length match) (drop i obj) = match)"
  using assms(2)
proof (induction n arbitrary: j)
  case (Suc n)
  let ?m = "length match"
  let ?w = "take ?m (drop j obj)"
  show ?case
  proof (cases "?w = match")
    case True
    then show ?thesis by auto
  next
    case False
    then have m: "0 < ?m" by auto
    have j: "j + ?m < length obj" using Suc.prems by simp
    define w where "w = take (?m - 1) (drop (Suc j) obj)"
    have w: "?w = obj ! j # w" "length w = ?m - 1"
      using m j by (simp_all add: w_def take_Cons' Cons_nth_drop_Suc [symmetric])
    have next_w: "take ?m (drop (Suc j) obj) = w @ [obj ! (j + ?m)]"
    proof -
      have "Suc j + (?m - 1) = j + ?m" using m by simp
      then have "drop (Suc j) obj ! (?m - 1) = obj ! (j + ?m)" using j by (simp only: nth_drop)
      moreover have "take (Suc (?m - 1)) (drop (Suc j) obj) = w @ [drop (Suc j) obj ! (?m - 1)]"
        unfolding w_def using m j by (intro take_Suc_conv_app_nth, unfold length_drop) linarith
      ultimately show ?thesis using m by simp
    qed
    have len: "length w \<le> 23" using w(2) assms(1) by simp
    have "(2::int) ^ (?m - 1) \<le> 2 ^ 23" using assms(1) by (intro power_mono_int) simp
    then have "\<bar>schar (obj ! j) * 2 ^ (?m - 1)\<bar> \<le> 128 * 2 ^ 23"
      using schar_range [of "obj ! j"] unfolding abs_mult by (intro mult_mono) auto
    then have p: "trap (schar (obj ! j) * 2 ^ (?m - 1)) = Some (schar (obj ! j) * 2 ^ (?m - 1))"
      by (auto simp: trap_def int32_def)
    have hash: "rk_hash ?w - schar (obj ! j) * 2 ^ (?m - 1) = rk_hash w"
      using w by (simp add: rk_hash_Cons)
    then have d: "trap (rk_hash ?w - schar (obj ! j) * 2 ^ (?m - 1)) = Some (rk_hash w)"
      using rk_hash_small [OF len] by (simp add: trap_def int32_def)
    have "rk_loop match obj ?m (2 ^ (?m - 1)) (rk_hash match) j (Suc n) (rk_hash ?w) =
        rk_loop match obj ?m (2 ^ (?m - 1)) (rk_hash match) (Suc j) n (rk_hash (take ?m (drop (Suc j) obj)))"
      using False j p d trap_step [OF len, of "obj ! (j + ?m)"] by (simp add: next_w)
    also have "\<dots> = Some (\<exists>i. Suc j \<le> i \<and> i < Suc j + n \<and> take ?m (drop i obj) = match)"
      by (rule Suc.IH) (use Suc.prems in simp)
    also have "(\<exists>i. Suc j \<le> i \<and> i < Suc j + n \<and> take ?m (drop i obj) = match) \<longleftrightarrow>
        (\<exists>i. j \<le> i \<and> i < j + Suc n \<and> take ?m (drop i obj) = match)"
      using False by (metis Suc_leD Suc_leI add_Suc_right add_Suc le_neq_implies_less)
    finally show ?thesis .
  qed
qed auto

text \<open>The text is a C string: its terminator is the last byte of the object.\<close>

definition rk_run :: "string \<Rightarrow> string \<Rightarrow> bool option" where
  "rk_run pat input = Rabin_Karp_search (input @ [NUL]) (length input) pat (length pat)"

lemma rk_run_correct:
  assumes "length pat \<le> 24" "length pat \<le> Suc (length input)"
  shows "rk_run pat input = Some (sublist pat input)"
proof -
  let ?m = "length pat" and ?obj = "input @ [NUL]"
  have z: "rk_power (?m - 1) 1 = 2 ^ (?m - 1)" using rk_power_small [of "?m - 1" 0] assms(1) by simp
  have h: "rk_hashes pat ?obj 0 ?m 0 0 = Some (rk_hash pat, rk_hash (take ?m ?obj))"
    using rk_hashes_correct [of 0 ?m pat ?obj] assms by simp
  define n where "n = nat (int (length input) - int ?m + 1)"
  have run: "rk_run pat input = rk_loop pat ?obj ?m (2 ^ (?m - 1)) (rk_hash pat) 0 n (rk_hash (take ?m ?obj))"
    unfolding rk_run_def Rabin_Karp_search_def Let_def z h n_def by simp
  show ?thesis
  proof (cases "?m \<le> length input")
    case False
    then have "n = 0" "\<not> sublist pat input" by (auto simp: n_def dest: sublist_length_le)
    then show ?thesis by (simp add: run)
  next
    case True
    then have n: "n + ?m = Suc (length input)" by (simp add: n_def)
    have "rk_run pat input = Some (\<exists>i < n. take ?m (drop i ?obj) = pat)"
      using rk_loop_correct [OF assms(1), of 0 n ?obj] n by (simp add: run)
    also have "(\<exists>i < n. take ?m (drop i ?obj) = pat) \<longleftrightarrow> (\<exists>i. occurs_at pat input i)"
    proof -
      have "i < n \<and> take ?m (drop i ?obj) = pat \<longleftrightarrow> occurs_at pat input i" for i
        using n by (auto simp: occurs_at_def)
      then show ?thesis by blast
    qed
    finally show ?thesis by (simp add: sublist_iff_occurs_at)
  qed
qed

interpretation rk: substring_search rk_run "\<lambda>pat input. length pat \<le> 24 \<and> length pat \<le> Suc (length input)"
  by unfold_locales (simp add: rk_run_correct)

section \<open>Outside the domains\<close>

lemma dfa_scan_before:
  assumes "longest_end pat input s" "s < length pat" "\<not> sublist pat (input @ cs)" "\<forall>c \<in> set cs. is_ascii c"
  shows "\<exists>s'. s' < length pat \<and> longest_end pat (input @ cs) s' \<and>
    dfa_scan (write_tf pat (length pat)) (length pat) (cs @ rest) s = dfa_scan (write_tf pat (length pat)) (length pat) rest s'"
  using assms
proof (induction cs arbitrary: input s)
  case Nil
  then show ?case by auto
next
  case (Cons c cs)
  let ?s = "NextMachineState pat (length pat) s (schar c)"
  have c: "is_ascii c" using Cons.prems(4) by simp
  have best: "longest_end pat (input @ [c]) ?s"
    by (rule NextMachineState_longest [OF Cons.prems(1) c])
  have tf: "tf_at (write_tf pat (length pat)) (256 * int s + schar c) = Some ?s"
    by (rule tf_at_ascii) (use Cons.prems c in auto)
  have "\<not> sublist pat ((input @ [c]) @ cs)" using Cons.prems(3) by simp
  then have "\<not> suffix pat (input @ [c])" unfolding suffix_def sublist_def by (metis append.assoc)
  then have s: "?s < length pat" using best by (auto simp: longest_end_def ends_def le_less)
  show ?case using Cons.IH [OF best s] Cons.prems(3,4) s tf by simp
qed

lemma dfa_search_non_ascii:
  assumes "pat \<noteq> []" "\<forall>c \<in> set cs. is_ascii c" "\<not> sublist pat cs" "\<not> is_ascii d"
  shows "DFA_Search pat (length pat) (cs @ d # rest) (length (cs @ d # rest)) =
    (if \<exists>k > 0. ends pat cs k then DFA_Search pat (length pat) rest (length rest) else None)"
proof -
  have start: "longest_end pat [] 0" "\<not> sublist pat ([] @ cs)" using assms(3) by (auto simp: longest_end_def ends_def)
  obtain s where s: "s < length pat" "longest_end pat cs s"
    "dfa_scan (write_tf pat (length pat)) (length pat) (cs @ d # rest) 0 =
     dfa_scan (write_tf pat (length pat)) (length pat) (d # rest) s"
    using dfa_scan_before [OF start(1) _ start(2) assms(2), of "d # rest"] assms(1) by auto
  have "s = 0 \<longleftrightarrow> \<not> (\<exists>k > 0. ends pat cs k)" using s(2) by (auto simp: longest_end_def)
  then have "(\<exists>k > 0. ends pat cs k) = (s \<noteq> 0)" by blast
  then show ?thesis
    using s(1,3) tf_at_non_ascii [of s "length pat" d pat] assms(1,4) by (simp add: DFA_Search_def)
qed

lemma bad_char_fill_None: "(\<exists>c \<in> set cs. \<not> is_ascii c) \<Longrightarrow> bad_char_fill cs i table = None"
  by (induction cs arbitrary: i table) (auto simp: schar_nonneg_iff [symmetric])

lemma rk_hashes_None:
  "i + n > length input \<Longrightarrow> 0 < n \<Longrightarrow> rk_hashes match input i n v w = None"
proof (induction n arbitrary: i v w)
  case (Suc n)
  then show ?case using Suc.IH [of "Suc i"] by (cases "n = 0") (auto split: bind_split)
qed simp

section \<open>Properties\<close>

text \<open>C24. \<open>DFA_Search\<close>, called as \<open>matchlist\<close> calls it, says of every text of ASCII bytes
  whether the pattern, which is not empty, stands in it.\<close>

theorem DFA_Search_correct:
  assumes "pat \<noteq> []" "\<forall>c \<in> set input. is_ascii c"
  shows "DFA_Search pat (length pat) input (length input) = Some (sublist pat input)"
  using dfa.search_correct [of pat input] assms by (simp add: dfa_run_def)

theorem DFA_Search_correct_witness:
  "DFA_Search ''ab'' 2 ''caab'' 4 = Some (sublist ''ab'' ''caab'')"
  using DFA_Search_correct [of "''ab''" "''caab''"] by (simp add: is_ascii_def numeral_nat)

text \<open>C25. \<open>horspool_search\<close> says of every pattern and text of ASCII bytes whether the pattern
  stands in the text; the skips by the table miss no occurrence.\<close>

theorem horspool_search_correct:
  assumes "\<forall>c \<in> set pat. is_ascii c" "\<forall>c \<in> set input. is_ascii c"
  shows "horspool_search input (length input) pat (length pat) = Some (sublist pat input)"
  using horspool.search_correct [of pat input] assms by (simp add: horspool_run_def)

theorem horspool_search_correct_witness:
  "horspool_search ''caab'' 4 ''ab'' 2 = Some (sublist ''ab'' ''caab'')"
  using horspool_search_correct [of "''ab''" "''caab''"] by (simp add: is_ascii_def numeral_nat)

text \<open>C26. \<open>Rabin_Karp_search\<close> says of every pattern of at most 24 bytes that is not longer than
  the text's object whether it stands in the text: in these bounds no \<open>int\<close> overflows, and a
  hash that is equal by chance is caught by \<open>memcmp\<close>.\<close>

theorem Rabin_Karp_search_correct:
  assumes "length pat \<le> 24" "length pat \<le> Suc (length input)"
  shows "Rabin_Karp_search (input @ [NUL]) (length input) pat (length pat) = Some (sublist pat input)"
  using rk.search_correct [of pat input] assms by (simp add: rk_run_def)

theorem Rabin_Karp_search_correct_witness:
  "Rabin_Karp_search (''caab'' @ [NUL]) 4 ''ab'' 2 = Some (sublist ''ab'' ''caab'')"
  using Rabin_Karp_search_correct [of "''ab''" "''caab''"] by (simp add: numeral_nat)

text \<open>Where the three searches are all defined they are one function, so the algorithm that is
  chosen with \<open>-m\<close> changes no verdict.\<close>

theorem searches_agree:
  assumes "pat \<noteq> []" "length pat \<le> 24" "length pat \<le> Suc (length input)"
    "\<forall>c \<in> set pat. is_ascii c" "\<forall>c \<in> set input. is_ascii c"
  shows "horspool_search input (length input) pat (length pat) =
      DFA_Search pat (length pat) input (length input) \<and>
    Rabin_Karp_search (input @ [NUL]) (length input) pat (length pat) =
      DFA_Search pat (length pat) input (length input)"
  using dfa_run_correct [OF assms(1,5)] horspool_run_correct [OF assms(4,5)] rk_run_correct [OF assms(2,3)]
  by (simp_all add: dfa_run_def horspool_run_def rk_run_def)

theorem searches_agree_witness:
  "horspool_search ''caab'' 4 ''ab'' 2 = DFA_Search ''ab'' 2 ''caab'' 4"
  using searches_agree [of "''ab''" "''caab''"] by (simp add: is_ascii_def numeral_nat)

text \<open>C27. What the first byte above 127 does to the table searches, when the pattern is not empty and
  does not stand before this byte. In the automaton the access is outside the whole table if no
  beginning of the pattern ends right before the byte; if one does, the subscript is outside its row
  but the access is inside the table, to the row before, and the search goes on behind the byte as
  from the start. So two such bytes in a row, which is what UTF-8 makes of a letter, end
  outside the table in either case. Horspool's search writes below its table for every pattern that
  has such a byte, whatever the text.\<close>

theorem table_searches_non_ascii:
  assumes "pat \<noteq> []" "\<forall>c \<in> set cs. is_ascii c" "\<not> sublist pat cs" "\<not> is_ascii d" "\<not> is_ascii d'"
  shows "DFA_Search pat (length pat) (cs @ d # rest) (length (cs @ d # rest)) =
      (if \<exists>k > 0. k \<le> length pat \<and> suffix (take k pat) cs then DFA_Search pat (length pat) rest (length rest) else None) \<and>
    DFA_Search pat (length pat) (cs @ d # d' # rest) (length (cs @ d # d' # rest)) = None \<and>
    horspool_search input txtLen (cs @ d # rest) (length (cs @ d # rest)) = None"
proof (intro conjI)
  show "DFA_Search pat (length pat) (cs @ d # rest) (length (cs @ d # rest)) =
      (if \<exists>k > 0. k \<le> length pat \<and> suffix (take k pat) cs then DFA_Search pat (length pat) rest (length rest) else None)"
    using dfa_search_non_ascii [OF assms(1-4)] by (simp add: ends_def)
  have "\<not> (\<exists>k > 0. ends pat [] k)" using assms(1) by (auto simp: ends_def)
  then have "DFA_Search pat (length pat) (d' # rest) (length (d' # rest)) = None"
    using dfa_search_non_ascii [of pat "[]" d' rest] assms(1,5) by (simp only: append_Nil if_False) simp
  then show "DFA_Search pat (length pat) (cs @ d # d' # rest) (length (cs @ d # d' # rest)) = None"
    using dfa_search_non_ascii [OF assms(1-4), of "d' # rest"] by simp
  have "bad_char_fill (cs @ d # rest) 0 (replicate 256 (-1)) = None"
    using assms(4) by (intro bad_char_fill_None) simp
  then show "horspool_search input txtLen (cs @ d # rest) (length (cs @ d # rest)) = None"
    by (simp add: horspool_search_def)
qed

theorem table_searches_non_ascii_witness:
  "DFA_Search ''ab'' 2 [CHR ''a'', CHR 0xE9, CHR ''a'', CHR ''b''] 4 = Some True \<and>
   DFA_Search ''ab'' 2 [CHR ''x'', CHR 0xE9, CHR ''a'', CHR ''b''] 4 = None \<and>
   DFA_Search ''ab'' 2 [CHR ''a'', CHR 0xC3, CHR 0xA9] 3 = None"
proof -
  have ab: "DFA_Search ''ab'' 2 ''ab'' 2 = Some True"
    using dfa_run_correct [of "''ab''" "''ab''"] by (simp add: dfa_run_def is_ascii_def numeral_nat)
  have k: "\<exists>k > 0. k \<le> length ''ab'' \<and> suffix (take k ''ab'') ''a''" by (rule exI [of _ 1]) (simp add: suffix_def)
  have no: "\<not> (\<exists>k > 0. k \<le> length ''ab'' \<and> suffix (take k ''ab'') ''x'')"
  proof
    assume "\<exists>k > 0. k \<le> length ''ab'' \<and> suffix (take k ''ab'') ''x''"
    then obtain k where "0 < k" "k \<le> 2" "suffix (take k ''ab'') ''x''" by auto
    then have "k = Suc 0 \<or> k = Suc (Suc 0)" by linarith
    then show False using \<open>suffix (take k ''ab'') ''x''\<close> by (auto simp: suffix_def Cons_eq_append_conv)
  qed
  have a: "\<forall>c \<in> set ''a''. is_ascii c" "\<forall>c \<in> set ''x''. is_ascii c" "\<not> is_ascii (CHR 0xE9)" "\<not> is_ascii (CHR 0xC3)"
    "\<not> is_ascii (CHR 0xA9)" "\<not> sublist ''ab'' ''a''" "\<not> sublist ''ab'' ''x''" "''ab'' \<noteq> []"
    by (simp_all add: is_ascii_def sublist_code)
  note first = table_searches_non_ascii [OF a(8,1,6,3,3), of "''ab''", THEN conjunct1, unfolded if_P [OF k]]
  note second = table_searches_non_ascii [OF a(8,2,7,3,3), of "''ab''", THEN conjunct1, unfolded if_not_P [OF no]]
  note third = table_searches_non_ascii [OF a(8,1,6,4,5), of "[]", THEN conjunct2, THEN conjunct1]
  show ?thesis using first second third ab by (simp add: numeral_nat)
qed

text \<open>For a pattern longer than the object the text stands in, \<open>Rabin_Karp_search\<close> reads
  behind that object before it compares anything.\<close>

theorem Rabin_Karp_reads_past_short_text:
  assumes "Suc (length input) < length pat"
  shows "Rabin_Karp_search (input @ [NUL]) (length input) pat (length pat) = None"
  using rk_hashes_None [of "input @ [NUL]" 0 "length pat" pat 0 0] assms length_greater_0_conv [of pat]
  by (simp add: Rabin_Karp_search_def Let_def del: length_greater_0_conv)

theorem Rabin_Karp_reads_past_short_text_witness:
  "Rabin_Karp_search [CHR ''a'', NUL] 1 ''union'' 5 = None"
  using Rabin_Karp_reads_past_short_text [of "''a''" "''union''"] by (simp add: numeral_nat)

end
