(* ===== verification/Str_Sec.thy ===== *)
theory Str_Sec
  imports Octopus_Prelude
begin

text \<open>
  The string functions of \<open>strsec.c\<close>: \<open>strlcpy\<close>, \<open>strlcat\<close>, \<open>strnstr\<close> and \<open>xstrndup\<close>.
  An object is the list of its bytes; a source string is the object it stands in, which holds a
  terminator. \<open>None\<close> is an access outside an object.
\<close>

section \<open>\<open>strlcpy\<close>\<close>

text \<open>
  \<open>while (--n != 0) if ((*d++ = *s++) == 0) break;\<close> with \<open>n\<close> rounds left and both pointers
  \<open>k\<close> bytes from their starts: the destination, the offset and whether \<open>n\<close> reached zero.
\<close>

fun strlcpy_copy :: "string \<Rightarrow> string \<Rightarrow> nat \<Rightarrow> nat \<Rightarrow> (string \<times> nat \<times> bool) option" where
  "strlcpy_copy dst src k 0 = Some (dst, k, True)"
| "strlcpy_copy dst src k (Suc n) =
     (if k < length dst \<and> k < length src then
        if src ! k = NUL then Some (dst[k := NUL], k + 1, False)
        else strlcpy_copy (dst[k := src ! k]) src (k + 1) n
      else None)"

definition strlcpy :: "string \<Rightarrow> string \<Rightarrow> nat \<Rightarrow> (string \<times> nat) option" where
  "strlcpy dst src siz =
     do {
       (dst, k, full) \<leftarrow> (if siz \<noteq> 0 then strlcpy_copy dst src 0 (siz - 1) else Some (dst, 0, True));
       if full then
         do {
           dst \<leftarrow> (if siz \<noteq> 0 then if k < length dst then Some (dst[k := NUL]) else None
                  else Some dst);
           rest \<leftarrow> c_strlen (drop k src);
           Some (dst, k + rest)
         }
       else Some (dst, k - 1)
     }"

lemma c_str_Cons: "c_str (c # s) = (if c = NUL then [] else c # c_str s)"
  by (simp add: c_str_def)

lemma c_str_split: "NUL \<in> set src \<Longrightarrow> \<exists>rest. src = c_str src @ NUL # rest"
proof (induction src)
  case (Cons c src)
  then show ?case by (cases "c = NUL") (auto simp: c_str_Cons)
qed simp

lemma strlcpy_copy_spec:
  assumes "src = t @ NUL # rest" "NUL \<notin> set t" "k \<le> length t" "k + n \<le> length dst"
    "take k dst = take k t"
  shows "strlcpy_copy dst src k n =
    (if length t < k + n then Some (t @ NUL # drop (Suc (length t)) dst, Suc (length t), False)
     else Some (take (k + n) t @ drop (k + n) dst, k + n, True))"
  using assms(3-5)
proof (induction n arbitrary: k dst)
  case 0
  then show ?case by (metis add_0_right append_take_drop_id not_le strlcpy_copy.simps(1))
next
  case (Suc n)
  show ?case
  proof (cases "k = length t")
    case True
    then have "dst[k := NUL] = t @ NUL # drop (Suc k) dst"
      using Suc.prems by (simp add: upd_conv_take_nth_drop)
    then show ?thesis using True Suc.prems assms(1) by simp
  next
    case False
    then have k: "k < length t" "src ! k = t ! k" "k < length src"
      using Suc.prems(1) assms(1,2) by (auto simp: nth_append)
    have nz: "t ! k \<noteq> NUL" using assms(2) nth_mem [OF k(1)] by metis
    have "take (Suc k) (dst[k := t ! k]) = take (Suc k) t"
      using k(1) Suc.prems by (simp add: take_Suc_conv_app_nth)
    moreover have "drop (Suc (length t)) (dst[k := t ! k]) = drop (Suc (length t)) dst"
      "drop (Suc (k + n)) (dst[k := t ! k]) = drop (Suc (k + n)) dst"
      using k(1) by simp_all
    ultimately show ?thesis
      using Suc.IH [of "Suc k" "dst[k := t ! k]"] Suc.prems k nz by simp
  qed
qed

lemma strlcpy_spec:
  assumes "NUL \<in> set src" "siz \<le> length dst"
  defines "m \<equiv> min (siz - 1) (length (c_str src))"
  shows "strlcpy dst src siz =
    Some (if siz = 0 then dst else take m (c_str src) @ NUL # drop (Suc m) dst, length (c_str src))"
proof -
  let ?t = "c_str src"
  obtain rest where src: "src = ?t @ NUL # rest" using c_str_split [OF assms(1)] by blast
  have len: "c_strlen (drop k src) = Some (length ?t - k)" if "k \<le> length ?t" for k
  proof -
    have "drop k src = drop k ?t @ NUL # rest" using that by (subst src) simp
    moreover have "NUL \<notin> set (drop k ?t)" using set_drop_subset c_str_no_NUL by fastforce
    ultimately show ?thesis by (simp add: c_strlen_terminated)
  qed
  show ?thesis
  proof (cases siz)
    case 0
    then show ?thesis using len [of 0] by (simp add: strlcpy_def)
  next
    case (Suc n)
    have copy: "strlcpy_copy dst src 0 n =
      (if length ?t < n then Some (?t @ NUL # drop (Suc (length ?t)) dst, Suc (length ?t), False)
       else Some (take n ?t @ drop n dst, n, True))"
      using strlcpy_copy_spec [OF src, of 0 n dst] assms(2) Suc by simp
    show ?thesis
    proof (cases "length ?t < n")
      case True
      then show ?thesis using Suc copy by (simp add: strlcpy_def m_def)
    next
      case False
      have "(take n ?t @ drop n dst)[n := NUL] = take n ?t @ NUL # drop (Suc n) dst"
        using False assms(2) Suc by (simp add: list_update_append upd_conv_take_nth_drop)
      then show ?thesis
        using False Suc copy len [of n] assms(2) by (simp add: strlcpy_def m_def min_absorb1)
    qed
  qed
qed

section \<open>\<open>strlcat\<close>\<close>

text \<open>\<open>while (n-- != 0 && *d != 0) d++;\<close> from the offset \<open>d\<close>.\<close>

fun strlcat_end :: "string \<Rightarrow> nat \<Rightarrow> nat \<Rightarrow> nat option" where
  "strlcat_end dst d 0 = Some d"
| "strlcat_end dst d (Suc n) =
     (if d < length dst then if dst ! d \<noteq> NUL then strlcat_end dst (d + 1) n else Some d else None)"

text \<open>The loop over the source with \<open>n\<close> bytes of the destination left.\<close>

fun strlcat_copy :: "string \<Rightarrow> string \<Rightarrow> nat \<Rightarrow> nat \<Rightarrow> (string \<times> nat) option" where
  "strlcat_copy dst [] d n = None"
| "strlcat_copy dst (c # src) d n =
     (if c = NUL then Some (dst, d)
      else if n \<noteq> 1 then
        if d < length dst then strlcat_copy (dst[d := c]) src (d + 1) (n - 1) else None
      else strlcat_copy dst src d n)"

definition strlcat :: "string \<Rightarrow> string \<Rightarrow> nat \<Rightarrow> (string \<times> nat) option" where
  "strlcat dst src siz =
     do {
       dlen \<leftarrow> strlcat_end dst 0 siz;
       slen \<leftarrow> c_strlen src;
       if siz - dlen = 0 then Some (dst, dlen + slen)
       else
         do {
           (dst, d) \<leftarrow> strlcat_copy dst src dlen (siz - dlen);
           if d < length dst then Some (dst[d := NUL], dlen + slen) else None
         }
     }"

lemma strlcat_end_spec:
  assumes "d + n \<le> length dst"
  shows "strlcat_end dst d n = Some (d + length (takeWhile (\<lambda>c. c \<noteq> NUL) (take n (drop d dst))))"
  using assms
proof (induction n arbitrary: d)
  case (Suc n)
  then have "drop d dst = dst ! d # drop (Suc d) dst" by (simp add: Cons_nth_drop_Suc)
  then show ?case using Suc by simp
qed simp

lemma strlcat_copy_spec:
  assumes "NUL \<notin> set t" "0 < n" "d + n \<le> length dst"
  shows "strlcat_copy dst (t @ NUL # rest) d n =
    Some (take d dst @ take (n - 1) t @ drop (d + min (n - 1) (length t)) dst, d + min (n - 1) (length t))"
  using assms
proof (induction t arbitrary: dst d n)
  case (Cons c t)
  show ?case
  proof (cases "n = 1")
    case True
    then show ?thesis using Cons by simp
  next
    case False
    then obtain k where n: "n = Suc (Suc k)" using Cons.prems(2) by (metis One_nat_def not0_implies_Suc not_gr0)
    have "take (Suc d) (dst[d := c]) = take d dst @ [c]"
      using Cons.prems n by (simp add: take_Suc_conv_app_nth)
    then show ?thesis using Cons.IH [of "Suc k" "Suc d" "dst[d := c]"] Cons.prems n by auto
  qed
qed simp

lemma strlcat_spec:
  assumes "NUL \<in> set src" "siz \<le> length dst" "length (c_str dst) < siz"
  defines "joined \<equiv> take (siz - 1) (c_str dst @ c_str src)"
  shows "strlcat dst src siz =
    Some (joined @ NUL # drop (Suc (length joined)) dst, length (c_str dst) + length (c_str src))"
proof -
  let ?d = "c_str dst" and ?t = "c_str src"
  obtain rest where src: "src = ?t @ NUL # rest" using c_str_split [OF assms(1)] by blast
  have d: "take (length ?d) dst = ?d" by (metis c_str_def takeWhile_eq_take)
  have "takeWhile P (take n xs) = takeWhile P xs" if "length (takeWhile P xs) < n" for P n and xs :: string
    using that by (induction xs arbitrary: n) (auto simp: take_Cons' split: if_splits)
  then have "takeWhile (\<lambda>c. c \<noteq> NUL) (take siz dst) = ?d" using assms(3) by (simp add: c_str_def)
  then have stop: "strlcat_end dst 0 siz = Some (length ?d)"
    using strlcat_end_spec [of 0 siz dst] assms(2) by simp
  have len: "c_strlen src = Some (length ?t)" using assms(1) by (simp add: c_strlen_def)
  define n where "n = siz - length ?d"
  have n: "0 < n" "length ?d + n = siz" using assms(3) by (auto simp: n_def)
  define k where "k = min (n - 1) (length ?t)"
  have copy: "strlcat_copy dst src (length ?d) n =
      Some (?d @ take (n - 1) ?t @ drop (length ?d + k) dst, length ?d + k)"
    using strlcat_copy_spec [of ?t n "length ?d" dst rest] n assms(2) d unfolding src [symmetric] k_def by simp
  have joined: "joined = ?d @ take (n - 1) ?t" "length joined = length ?d + k"
    using n by (auto simp: joined_def k_def n_def)
  have "length ?d + k < length dst" using n assms(2) by (auto simp: k_def)
  then have "(?d @ take (n - 1) ?t @ drop (length ?d + k) dst)[length ?d + k := NUL] =
      joined @ NUL # drop (Suc (length joined)) dst"
    using joined by (simp add: list_update_append k_def upd_conv_take_nth_drop min_def)
  then show ?thesis
    using stop len copy n \<open>length ?d + k < length dst\<close> joined assms(2)
    by (simp add: strlcat_def n_def [symmetric] k_def)
qed

section \<open>\<open>strnstr\<close>\<close>

text \<open>
  On C strings given by their characters; the result is the offset of the pointer returned.
  The loop at offset \<open>i\<close> with \<open>slen\<close> bytes left looks for the first character \<open>c\<close>, then
  compares the rest (\<open>strncmp\<close>; the string's terminator is a difference, as the rest has none).
\<close>

fun strnstr_scan :: "char \<Rightarrow> string \<Rightarrow> string \<Rightarrow> nat \<Rightarrow> nat \<Rightarrow> nat option" where
  "strnstr_scan c what [] i slen = None"
| "strnstr_scan c what (sc # s) i slen =
     (if slen < 1 then None
      else if sc \<noteq> c then strnstr_scan c what s (i + 1) (slen - 1)
      else if length what > slen - 1 then None
      else if take (length what) s \<noteq> what then strnstr_scan c what s (i + 1) (slen - 1)
      else Some i)"

definition strnstr :: "string \<Rightarrow> string \<Rightarrow> nat \<Rightarrow> nat option" where
  "strnstr s what slen =
     (case what of [] \<Rightarrow> Some 0 | c # what \<Rightarrow> strnstr_scan c what s 0 slen)"

lemma occurs_at_Cons:
  "occurs_at pat (c # s) 0 \<longleftrightarrow> pat = [] \<or> c = hd pat \<and> occurs_at (tl pat) s 0"
  "occurs_at pat (c # s) (Suc i) \<longleftrightarrow> occurs_at pat s i"
  by (cases pat) (auto simp: occurs_at_def)

lemma occurs_at_start: "occurs_at w (take n s) 0 \<longleftrightarrow> length w \<le> n \<and> take (length w) s = w"
proof
  assume "length w \<le> n \<and> take (length w) s = w"
  moreover from this have "length w \<le> length s" by (metis length_take min.cobounded1)
  ultimately show "occurs_at w (take n s) 0" by (simp add: occurs_at_def min_absorb1)
qed (auto simp: occurs_at_def min_absorb1)

lemma strnstr_scan_Some:
  "strnstr_scan c what s i slen = Some j \<longleftrightarrow>
     i \<le> j \<and> occurs_at (c # what) (take slen s) (j - i) \<and>
     (\<forall>k < j - i. \<not> occurs_at (c # what) (take slen s) k)"
proof (induction c what s i slen rule: strnstr_scan.induct)
  case (1 c what i slen)
  then show ?case by (simp add: occurs_at_def)
next
  case (2 c what sc s i slen)
  show ?case
  proof (cases slen)
    case 0
    then show ?thesis by (simp add: occurs_at_def)
  next
    case (Suc n)
    have here: "occurs_at (c # what) (sc # take n s) 0 \<longleftrightarrow>
        sc = c \<and> length what \<le> n \<and> take (length what) s = what"
      using occurs_at_Cons(1) [of "c # what" sc "take n s"] occurs_at_start [of what n s] by auto
    have step: "(i \<le> j \<and> occurs_at (c # what) (sc # take n s) (j - i) \<and>
          (\<forall>k < j - i. \<not> occurs_at (c # what) (sc # take n s) k)) \<longleftrightarrow>
        (Suc i \<le> j \<and> occurs_at (c # what) (take n s) (j - Suc i) \<and>
          (\<forall>k < j - Suc i. \<not> occurs_at (c # what) (take n s) k))"
      if "\<not> occurs_at (c # what) (sc # take n s) 0"
    proof (cases "i < j")
      case True
      then have "j - i = Suc (j - Suc i)" by simp
      then show ?thesis using that True by (simp add: occurs_at_Cons(2) All_less_Suc2)
    next
      case False
      then show ?thesis using that by (cases "i = j") auto
    qed
    show ?thesis
    proof (cases "occurs_at (c # what) (sc # take n s) 0")
      case True
      then show ?thesis
        using here Suc by (cases "i = j") (auto intro!: exI [of _ 0])
    next
      case False
      have none: "\<not> occurs_at (c # what) (take n s) k" if "length what > n" for k
        using that by (simp add: occurs_at_def)
      show ?thesis
        using "2.IH" False here step [OF False] none Suc by auto
    qed
  qed
qed

lemma strnstr_Some:
  "strnstr s what slen = Some j \<longleftrightarrow>
     occurs_at what (take slen s) j \<and> (\<forall>k < j. \<not> occurs_at what (take slen s) k)"
proof (cases what)
  case Nil
  then show ?thesis by (auto simp: strnstr_def occurs_at_def)
next
  case (Cons c rest)
  then show ?thesis using strnstr_scan_Some [of c rest s 0 slen j] by (simp add: strnstr_def)
qed

lemma strnstr_found: "strnstr s what slen \<noteq> None \<longleftrightarrow> sublist what (take slen s)"
proof
  assume "strnstr s what slen \<noteq> None"
  then show "sublist what (take slen s)"
    using strnstr_Some by (auto simp: sublist_iff_occurs_at)
next
  assume "sublist what (take slen s)"
  then obtain i where i: "occurs_at what (take slen s) i" by (auto simp: sublist_iff_occurs_at)
  define j where "j = (LEAST i. occurs_at what (take slen s) i)"
  have "strnstr s what slen = Some j"
    unfolding strnstr_Some j_def using LeastI [of "occurs_at what (take slen s)" i, OF i] not_less_Least by blast
  then show "strnstr s what slen \<noteq> None" by simp
qed

section \<open>\<open>xstrndup\<close>\<close>

text \<open>The new object: \<open>strncpy\<close> fills up with zeros, then the terminator is stored.\<close>

definition xstrndup :: "string \<Rightarrow> nat \<Rightarrow> string" where
  "xstrndup s n =
     (let new = take n (c_str s) @ replicate (n - length (c_str s)) NUL @ [NUL] in new[n := NUL])"

lemma c_str_replicate: "NUL \<notin> set s \<Longrightarrow> c_str (s @ replicate k NUL @ [NUL]) = s"
  by (cases k) (simp_all add: c_str_id)

lemma xstrndup_spec: "length (xstrndup s n) = n + 1" "c_str (xstrndup s n) = take n (c_str s)"
proof -
  have "NUL \<notin> set (take n (c_str s))" using set_take_subset c_str_no_NUL by fastforce
  moreover have "(take n (c_str s) @ replicate (n - length (c_str s)) NUL @ [NUL])[n := NUL] =
      take n (c_str s) @ replicate (n - length (c_str s)) NUL @ [NUL]"
    by (rule list_update_same_conv [THEN iffD2]) (auto simp: nth_append)
  ultimately show "c_str (xstrndup s n) = take n (c_str s)"
    unfolding xstrndup_def Let_def by (simp only: c_str_replicate not_False_eq_True)
qed (simp add: xstrndup_def)

section \<open>Properties\<close>

text \<open>An object that a terminated text has been written to.\<close>

lemma written_text:
  assumes "NUL \<notin> set t" "length t < siz" "siz \<le> length dst"
  shows "length (t @ NUL # drop (Suc (length t)) dst) = length dst \<and>
    c_str (t @ NUL # drop (Suc (length t)) dst) = t \<and>
    drop siz (t @ NUL # drop (Suc (length t)) dst) = drop siz dst"
proof -
  obtain k where k: "siz = Suc (length t + k)" using less_imp_Suc_add [OF assms(2)] by blast
  then have "drop (siz - length t) (NUL # drop (Suc (length t)) dst) = drop siz dst"
    by (simp add: Suc_diff_le add.commute)
  then show ?thesis using assms by (simp add: c_str_id)
qed

text \<open>\<open>strlcpy\<close> into an object of at least \<open>siz\<close> bytes writes inside it: the longest
  prefix of the source that fits with a terminator, and the terminator; every other byte stays.
  It returns the source's length, so truncation shows as a result of at least \<open>siz\<close>.\<close>

theorem strlcpy_copies:
  assumes "NUL \<in> set src" "siz \<le> length dst" "0 < siz"
  shows "\<exists>dst'. strlcpy dst src siz = Some (dst', length (c_str src)) \<and>
    length dst' = length dst \<and> c_str dst' = take (siz - 1) (c_str src) \<and>
    drop siz dst' = drop siz dst"
proof -
  define t where "t = take (siz - 1) (c_str src)"
  have t: "min (siz - 1) (length (c_str src)) = length t" "take (length t) (c_str src) = t"
    by (simp_all add: t_def min_def)
  have "NUL \<notin> set t" unfolding t_def by (meson in_set_takeD c_str_no_NUL)
  moreover have "length t < siz" using assms(3) by (simp add: t_def)
  ultimately have "strlcpy dst src siz = Some (t @ NUL # drop (Suc (length t)) dst, length (c_str src))"
    using strlcpy_spec [OF assms(1,2)] assms(3) unfolding t by simp
  then show ?thesis
    using written_text [OF \<open>NUL \<notin> set t\<close> \<open>length t < siz\<close> assms(2)]
    unfolding t_def [symmetric] by blast
qed

theorem strlcpy_copies_witness:
  "\<exists>dst'. strlcpy (replicate 4 CR) (''abcdef'' @ [NUL]) 4 = Some (dst', 6) \<and> c_str dst' = ''abc''"
  using strlcpy_copies [of "''abcdef'' @ [NUL]" 4 "replicate 4 CR"] by (auto simp: c_str_id c_str_def)

text \<open>\<open>strlcat\<close> onto a terminated string inside its \<open>siz\<close> bytes gives the longest prefix
  of the concatenation that fits with a terminator, writes nothing behind \<open>siz\<close>, and returns
  the length the whole concatenation has.\<close>

theorem strlcat_appends:
  assumes "NUL \<in> set src" "siz \<le> length dst" "length (c_str dst) < siz"
  shows "\<exists>dst'. strlcat dst src siz = Some (dst', length (c_str dst) + length (c_str src)) \<and>
    length dst' = length dst \<and> c_str dst' = take (siz - 1) (c_str dst @ c_str src) \<and>
    drop siz dst' = drop siz dst"
proof -
  let ?t = "take (siz - 1) (c_str dst @ c_str src)"
  have "NUL \<notin> set (c_str dst @ c_str src)" by simp
  then have "NUL \<notin> set ?t" by (meson in_set_takeD)
  then show ?thesis
    using strlcat_spec [OF assms] written_text [of ?t siz dst] assms(2,3)
    by (intro exI [of _ "?t @ NUL # drop (Suc (length ?t)) dst"]) (simp del: take_append)
qed

theorem strlcat_appends_witness:
  "\<exists>dst'. strlcat (''ab'' @ NUL # replicate 3 CR) (''cdef'' @ [NUL]) 5 = Some (dst', 6) \<and>
    c_str dst' = ''abcd''"
  using strlcat_appends [of "''cdef'' @ [NUL]" 5 "''ab'' @ NUL # replicate 3 CR"]
  by (auto simp: c_str_def)

text \<open>C39. \<open>strnstr\<close> finds the first occurrence of \<open>what\<close> that lies wholly in the first \<open>slen\<close>
  characters, and finds one exactly when there is one.\<close>

theorem strnstr_first:
  "(strnstr s what slen = Some j \<longleftrightarrow>
     occurs_at what (take slen s) j \<and> \<not> (\<exists>k < j. occurs_at what (take slen s) k)) \<and>
   (strnstr s what slen = None \<longleftrightarrow> \<not> sublist what (take slen s))"
  using strnstr_Some [of s what slen j] strnstr_found [of s what slen] by auto

text \<open>\<open>xstrndup\<close> allocates \<open>n + 1\<close> bytes and leaves in them, terminated, the first \<open>n\<close>
  characters of the string.\<close>

theorem xstrndup_duplicates: "length (xstrndup s n) = n + 1 \<and> c_str (xstrndup s n) = take n (c_str s)"
  by (simp add: xstrndup_spec)

end
