(* ===== verification/Mem_Ops.thy ===== *)
theory Mem_Ops
  imports Octopus_Prelude
begin

text \<open>
  \<open>mem_ops.c\<close>: the overflow guard of \<open>xmallocarray\<close> and \<open>xreallocarray\<close> on 64-bit sizes,
  and the byte loops \<open>burn_mem\<close>, \<open>burn_memcpy\<close> and \<open>burn_memmove\<close>. The allocator itself is
  not in the sources: whether it has a block of a given size is the argument \<open>avail\<close>.
\<close>

section \<open>Allocation of arrays\<close>

type_synonym size_t = "64 word"

definition SIZE_MAX :: size_t where "SIZE_MAX = - 1"
definition MUL_NO_OVERFLOW :: size_t where "MUL_NO_OVERFLOW = push_bit 32 1"

datatype alloc = Block size_t | Exit

definition mul_overflow :: "size_t \<Rightarrow> size_t \<Rightarrow> bool" where
  "mul_overflow nmemb sz \<longleftrightarrow>
     (nmemb \<ge> MUL_NO_OVERFLOW \<or> sz \<ge> MUL_NO_OVERFLOW) \<and> nmemb > 0 \<and> SIZE_MAX div nmemb < sz"

definition xmallocarray :: "(size_t \<Rightarrow> bool) \<Rightarrow> size_t \<Rightarrow> size_t \<Rightarrow> alloc" where
  "xmallocarray avail nmemb sz =
     (if mul_overflow nmemb sz then Exit
      else if \<not> avail (nmemb * sz) then Exit
      else Block (nmemb * sz))"

definition xreallocarray :: "(size_t \<Rightarrow> bool) \<Rightarrow> size_t \<Rightarrow> size_t \<Rightarrow> alloc" where
  "xreallocarray avail nmemb sz =
     (if mul_overflow nmemb sz then Exit
      else if \<not> avail (nmemb * sz) then Exit
      else Block (nmemb * sz))"

lemma unat_MUL_NO_OVERFLOW: "unat MUL_NO_OVERFLOW = 2 ^ 32"
  by (simp add: MUL_NO_OVERFLOW_def push_bit_eq_mult)

lemma unat_SIZE_MAX: "unat SIZE_MAX = 2 ^ 64 - 1"
  by (simp add: SIZE_MAX_def unsigned_minus_1_eq_mask mask_eq_exp_minus_1)

lemma mul_overflow_iff: "mul_overflow nmemb sz \<longleftrightarrow> 2 ^ 64 \<le> unat nmemb * unat sz"
proof -
  let ?n = "unat nmemb" and ?s = "unat sz"
  have guard: "mul_overflow nmemb sz \<longleftrightarrow>
      (2 ^ 32 \<le> ?n \<or> 2 ^ 32 \<le> ?s) \<and> 0 < ?n \<and> (2 ^ 64 - 1) div ?n < ?s"
    by (simp add: mul_overflow_def word_le_nat_alt word_less_nat_alt unat_MUL_NO_OVERFLOW unat_div
        unat_SIZE_MAX)
  have div: "(2 ^ 64 - 1) div ?n < ?s \<longleftrightarrow> 2 ^ 64 \<le> ?n * ?s" if "0 < ?n"
  proof -
    have "(2 ^ 64 - 1) div ?n < ?s \<longleftrightarrow> 2 ^ 64 - 1 < ?s * ?n"
      using that by (simp add: div_less_iff_less_mult)
    then show ?thesis by (auto simp: mult.commute)
  qed
  have "?n * ?s < 2 ^ 64" if "?n < 2 ^ 32" "?s < 2 ^ 32"
  proof -
    have "?n * ?s \<le> (2 ^ 32 - 1) * (2 ^ 32 - 1)" using that by (intro mult_le_mono) auto
    then show ?thesis by simp
  qed
  then show ?thesis using guard div by (cases "?n = 0") force+
qed

lemma product_exact: "\<not> mul_overflow nmemb sz \<Longrightarrow> unat (nmemb * sz) = unat nmemb * unat sz"
  by (simp add: mul_overflow_iff unat_word_ariths)

section \<open>Filling and copying bytes\<close>

text \<open>\<open>for (; len; buf[--len] = c);\<close>\<close>

fun burn_mem :: "string \<Rightarrow> int \<Rightarrow> nat \<Rightarrow> string option" where
  "burn_mem dst c 0 = Some dst"
| "burn_mem dst c (Suc len) =
     (if len < length dst then burn_mem (dst[len := to_char c]) c len else None)"

text \<open>
  \<open>while (len--) cdst[len] = csrc[len]\<close> with both pointers into one object, \<open>d\<close> and \<open>s\<close>
  bytes from its start.
\<close>

fun copy_down :: "string \<Rightarrow> nat \<Rightarrow> nat \<Rightarrow> nat \<Rightarrow> string option" where
  "copy_down mem d s 0 = Some mem"
| "copy_down mem d s (Suc len) =
     (if d + len < length mem \<and> s + len < length mem
      then copy_down (mem[d + len := mem ! (s + len)]) d s len else None)"

text \<open>\<open>while (i < len) { cdst[i] = csrc[i]; i++; }\<close> with \<open>n\<close> rounds left.\<close>

fun copy_up :: "string \<Rightarrow> nat \<Rightarrow> nat \<Rightarrow> nat \<Rightarrow> nat \<Rightarrow> string option" where
  "copy_up mem d s i 0 = Some mem"
| "copy_up mem d s i (Suc n) =
     (if d + i < length mem \<and> s + i < length mem
      then copy_up (mem[d + i := mem ! (s + i)]) d s (i + 1) n else None)"

definition burn_memcpy :: "string \<Rightarrow> nat \<Rightarrow> nat \<Rightarrow> nat \<Rightarrow> string option" where
  "burn_memcpy mem dst src len = copy_down mem dst src len"

definition burn_memmove :: "string \<Rightarrow> nat \<Rightarrow> nat \<Rightarrow> nat \<Rightarrow> string option" where
  "burn_memmove mem dst src len =
     (if src > dst \<and> src < dst + len then copy_up mem dst src 0 len else copy_down mem dst src len)"

text \<open>What copying \<open>len\<close> bytes from \<open>s\<close> to \<open>d\<close> means.\<close>

definition moved :: "string \<Rightarrow> nat \<Rightarrow> nat \<Rightarrow> nat \<Rightarrow> string" where
  "moved mem d s len = take d mem @ take len (drop s mem) @ drop (d + len) mem"

lemma burn_mem_spec:
  "len \<le> length dst \<Longrightarrow> burn_mem dst c len = Some (replicate len (to_char c) @ drop len dst)"
proof (induction len arbitrary: dst)
  case (Suc len)
  have "drop len (dst[len := to_char c]) = to_char c # drop (Suc len) dst"
    using Suc.prems by (simp add: drop_update_swap Cons_nth_drop_Suc [symmetric])
  then show ?case
    using Suc by (simp add: replicate_append_same [symmetric] del: replicate_append_same) 
qed simp

lemma length_moved: "s + len \<le> length mem \<Longrightarrow> d + len \<le> length mem \<Longrightarrow> length (moved mem d s len) = length mem"
  by (simp add: moved_def)

lemma nth_moved:
  assumes "s + len \<le> length mem" "d + len \<le> length mem" "i < length mem"
  shows "moved mem d s len ! i = (if d \<le> i \<and> i < d + len then mem ! (s + (i - d)) else mem ! i)"
proof -
  have "length (take len (drop s mem)) = len" "length (take d mem) = d" using assms by auto
  then show ?thesis using assms unfolding moved_def nth_append by auto
qed

lemma copy_down_spec:
  assumes "d + len \<le> length mem" "s + len \<le> length mem" "s \<le> d \<or> d + len \<le> s"
  shows "copy_down mem d s len = Some (moved mem d s len)"
  using assms
proof (induction len arbitrary: mem)
  case 0
  then show ?case by (simp add: moved_def)
next
  case (Suc len)
  let ?mem = "mem[d + len := mem ! (s + len)]"
  have "moved ?mem d s len = moved mem d s (Suc len)"
    by (rule nth_equalityI) (use Suc.prems in \<open>auto simp: length_moved nth_moved nth_list_update\<close>)
  then show ?case using Suc.IH [of ?mem] Suc.prems by (simp add: disj_forward Suc_leD)
qed

lemma copy_up_step:
  assumes "d + i + n \<le> length mem" "s + i + n \<le> length mem" "d < s"
  shows "copy_up mem d s i n = Some (moved mem (d + i) (s + i) n)"
  using assms
proof (induction n arbitrary: i mem)
  case 0
  then show ?case by (simp add: moved_def)
next
  case (Suc n)
  let ?mem = "mem[d + i := mem ! (s + i)]"
  have "moved ?mem (d + Suc i) (s + Suc i) n = moved mem (d + i) (s + i) (Suc n)"
  proof (rule nth_equalityI)
    fix k
    assume "k < length (moved ?mem (d + Suc i) (s + Suc i) n)"
    then have k: "k < length mem" using Suc.prems by (simp add: length_moved)
    have "s + Suc i + (k - (d + Suc i)) = s + i + (k - (d + i))" if "d + Suc i \<le> k" using that by simp
    then show "moved ?mem (d + Suc i) (s + Suc i) n ! k = moved mem (d + i) (s + i) (Suc n) ! k"
      using Suc.prems k by (auto simp: nth_moved nth_list_update)
  qed (use Suc.prems in \<open>simp add: length_moved\<close>)
  then show ?case using Suc.IH [of "Suc i" ?mem] Suc.prems by simp
qed

lemma burn_memmove_spec:
  assumes "dst + len \<le> length mem" "src + len \<le> length mem"
  shows "burn_memmove mem dst src len = Some (moved mem dst src len)"
  using assms copy_up_step [of dst 0 len mem src] copy_down_spec [of dst len mem src]
  by (auto simp: burn_memmove_def)

section \<open>Properties\<close>

text \<open>\<open>xmallocarray\<close> and \<open>xreallocarray\<close> give a block only of the exact product of the two
  sizes: on 64-bit sizes the guard with the division stops the program exactly when the product
  wraps around, and never otherwise.\<close>

theorem array_allocation_exact:
  "xmallocarray avail nmemb sz =
     (if unat nmemb * unat sz < 2 ^ 64 \<and> avail (nmemb * sz) then Block (nmemb * sz) else Exit) \<and>
   xreallocarray avail nmemb sz = xmallocarray avail nmemb sz \<and>
   (2 ^ 64 \<le> unat nmemb * unat sz \<or> unat (nmemb * sz) = unat nmemb * unat sz)"
  using product_exact [of nmemb sz]
  by (auto simp: xmallocarray_def xreallocarray_def mul_overflow_iff not_less)

text \<open>C38. \<open>burn_memmove\<close> inside one object moves the bytes of the source range as they were to
  the destination range, however the ranges overlap, and leaves every other byte.\<close>

theorem burn_memmove_moves:
  assumes "dst + len \<le> length mem" "src + len \<le> length mem"
  shows "\<exists>mem'. burn_memmove mem dst src len = Some mem' \<and> length mem' = length mem \<and>
    take len (drop dst mem') = take len (drop src mem) \<and>
    take dst mem' = take dst mem \<and> drop (dst + len) mem' = drop (dst + len) mem"
proof -
  have "length (take len (drop src mem)) = len" "length (take dst mem) = dst" using assms by auto
  then show ?thesis
    using burn_memmove_spec [OF assms] assms by (simp add: moved_def length_moved)
qed

theorem burn_memmove_moves_witness:
  "\<exists>mem'. burn_memmove ''abcdef'' 1 0 4 = Some mem' \<and> take 4 (drop 1 mem') = ''abcd''"
  using burn_memmove_moves [of 1 4 "''abcdef''" 0] by (auto simp: numeral_nat)

text \<open>\<open>burn_mem\<close> writes the byte to exactly the \<open>len\<close> bytes it is given.\<close>

theorem burn_mem_fills:
  assumes "len \<le> length dst"
  shows "burn_mem dst c len = Some (replicate len (to_char c) @ drop len dst)"
  by (rule burn_mem_spec [OF assms])

theorem burn_mem_fills_witness: "burn_mem ''abc'' 0 2 = Some (replicate 2 (to_char 0) @ ''c'')"
  using burn_mem_fills [of 2 "''abc''" 0] by (simp add: numeral_nat)

end
