(* ===== verification/Line_Loop.thy ===== *)
theory Line_Loop
  imports Octopus_Prelude
begin

text \<open>
  The loop \<open>line = strtok(text, "\n"); while (line != NULL && !found) { found = ...;
  line = strtok(NULL, "\n"); }\<close> that \<open>blocklist_ip\<close>, \<open>matchlist\<close> and \<open>split_and_check\<close> share.
  \<open>strtok\<close> overwrites the line feeds it stops at, so the loop gives the changed object too. The
  locale \<open>line_test\<close> is the interface of the test that is applied to the lines.

  A run that has no result stops: \<open>Fault\<close> is an access outside an object, \<open>Die\<close> is \<open>exit\<close>.
\<close>

section \<open>Runs that stop\<close>

datatype stop = Fault | Die

definition of_option :: "'a option \<Rightarrow> stop + 'a" where
  "of_option r = (case r of None \<Rightarrow> Inl Fault | Some x \<Rightarrow> Inr x)"

lemma of_option_simps [simp]: "of_option None = Inl Fault" "of_option (Some x) = Inr x"
  by (simp_all add: of_option_def)

text \<open>What follows a run that has a result.\<close>

definition bind_run :: "stop + 'a \<Rightarrow> ('a \<Rightarrow> stop + 'b) \<Rightarrow> stop + 'b" where
  "bind_run r f = (case r of Inl e \<Rightarrow> Inl e | Inr x \<Rightarrow> f x)"

lemma bind_run_simps [simp]: "bind_run (Inl e) f = Inl e" "bind_run (Inr x) f = f x"
  by (simp_all add: bind_run_def)

section \<open>\<open>strtok\<close>\<close>

text \<open>
  One call on the object \<open>buf\<close> from the saved offset \<open>off\<close>: the offset of the token, the object
  after the call, and the new saved offset.
\<close>

definition strtok_from :: "string \<Rightarrow> nat \<Rightarrow> (nat option \<times> string \<times> nat) option" where
  "strtok_from buf off =
     (let p = off + length (takeWhile (\<lambda>c. c = LF) (drop off buf)) in
      if p \<ge> length buf then None
      else if buf ! p = NUL then Some (None, buf, p)
      else
        let e = p + length (takeWhile (\<lambda>c. c \<noteq> LF \<and> c \<noteq> NUL) (drop p buf)) in
        if e \<ge> length buf then None
        else if buf ! e = NUL then Some (Some p, buf, e)
        else Some (Some p, buf[e := NUL], e + 1))"

text \<open>What the calls give of a string: its lines that are not empty.\<close>

function lines_of :: "string \<Rightarrow> string list" where
  "lines_of [] = []"
| "lines_of (c # s) =
     (if c = LF then lines_of s
      else (c # takeWhile (\<lambda>c. c \<noteq> LF) s) # lines_of (dropWhile (\<lambda>c. c \<noteq> LF) s))"
  by pat_completeness auto

termination
  by (relation "measure length") (auto simp: le_imp_less_Suc length_dropWhile_le)

lemma lines_of_skip: "lines_of (dropWhile (\<lambda>c. c = LF) s) = lines_of s"
  by (induction s) auto

lemma lines_of_line:
  "s \<noteq> [] \<Longrightarrow> hd s \<noteq> LF \<Longrightarrow>
   lines_of s = takeWhile (\<lambda>c. c \<noteq> LF) s # lines_of (dropWhile (\<lambda>c. c \<noteq> LF) s)"
  by (cases s) auto

lemma lines_of_Nil_iff: "lines_of s = [] \<longleftrightarrow> dropWhile (\<lambda>c. c = LF) s = []"
  by (induction s) auto

lemma strtok_decreases:
  assumes "strtok_from buf off = Some (Some p, buf', save)"
  shows "off < save" "save \<le> length buf" "length buf' = length buf" "off \<le> p" "p < save"
proof -
  have "takeWhile P (drop k xs) \<noteq> []" if "k < length xs" "P (xs ! k)" for P k and xs :: string
    using that by (simp add: takeWhile_eq_Nil_iff hd_drop_conv_nth)
  moreover obtain e where "e = p + length (takeWhile (\<lambda>c. c \<noteq> LF \<and> c \<noteq> NUL) (drop p buf))" by simp
  moreover have "buf ! p \<noteq> LF" if "p = off + length (takeWhile (\<lambda>c. c = LF) (drop off buf))" "p < length buf"
    using nth_length_takeWhile [of "\<lambda>c. c = LF" "drop off buf"] that by simp
  ultimately show "off < save" "save \<le> length buf" "length buf' = length buf" "off \<le> p" "p < save"
    using assms by (auto simp: strtok_from_def Let_def split: if_splits)
qed

subsection \<open>The calls on an object taken apart\<close>

definition feeds :: "string \<Rightarrow> bool" where
  "feeds lfs \<longleftrightarrow> list_all (\<lambda>c. c = LF) lfs"

definition plain :: "string \<Rightarrow> bool" where
  "plain line \<longleftrightarrow> line \<noteq> [] \<and> (\<forall>c \<in> set line. c \<noteq> LF \<and> c \<noteq> NUL)"

lemma feeds_simps [simp]: "feeds []" "feeds (c # lfs) \<longleftrightarrow> c = LF \<and> feeds lfs"
  by (simp_all add: feeds_def)

lemma feeds_takeWhile [simp]: "feeds (takeWhile (\<lambda>c. c = LF) t)"
  by (induction t) simp_all

lemma feeds_NUL: "feeds lfs \<Longrightarrow> NUL \<notin> set lfs"
  by (induction lfs) auto

lemma takeWhile_feeds: "feeds lfs \<Longrightarrow> takeWhile (\<lambda>c. c = LF) (lfs @ t) = lfs @ takeWhile (\<lambda>c. c = LF) t"
  by (induction lfs) auto

lemma strtok_end:
  "feeds lfs \<Longrightarrow> strtok_from (pre @ lfs @ NUL # rest) (length pre) =
     Some (None, pre @ lfs @ NUL # rest, length pre + length lfs)"
  by (simp add: strtok_from_def takeWhile_feeds nth_append)

lemma strtok_token:
  assumes "feeds lfs" "plain line" "d = LF \<or> d = NUL"
  shows "strtok_from (pre @ lfs @ line @ d # rest) (length pre) =
    Some (Some (length pre + length lfs), pre @ lfs @ line @ NUL # rest,
      length pre + length lfs + length line + (if d = LF then 1 else 0))"
proof -
  define buf where "buf = pre @ lfs @ line @ d # rest"
  define p where "p = length pre + length lfs"
  obtain c l where line: "line = c # l" "c \<noteq> LF" "c \<noteq> NUL" using assms(2) by (cases line) (auto simp: plain_def)
  have "takeWhile (\<lambda>c. c = LF) (drop (length pre) buf) = lfs"
    using assms(1) by (simp add: buf_def takeWhile_feeds line)
  then have p: "length pre + length (takeWhile (\<lambda>c. c = LF) (drop (length pre) buf)) = p" by (simp add: p_def)
  have "takeWhile (\<lambda>c. c \<noteq> LF \<and> c \<noteq> NUL) (line @ d # rest) = line"
    using assms(2,3) by (subst takeWhile_append2) (auto simp: plain_def)
  then have e: "p + length (takeWhile (\<lambda>c. c \<noteq> LF \<and> c \<noteq> NUL) (drop p buf)) = p + length line"
    by (simp add: buf_def p_def)
  have at: "p < length buf" "buf ! p \<noteq> NUL" "p + length line < length buf" "buf ! (p + length line) = d"
    using line by (simp_all add: buf_def p_def nth_append)
  have new: "buf[p + length line := NUL] = pre @ lfs @ line @ NUL # rest"
    by (simp add: buf_def p_def list_update_append)
  have "strtok_from buf (length pre) =
      (if d = NUL then Some (Some p, buf, p + length line)
       else Some (Some p, buf[p + length line := NUL], p + length line + 1))"
    using at by (simp add: strtok_from_def Let_def p e)
  then show ?thesis using assms(3) new by (auto simp: buf_def p_def)
qed

lemma terminated_cases:
  assumes "NUL \<in> set t"
  obtains (finish) lfs rest where "t = lfs @ NUL # rest" "feeds lfs"
    | (token) lfs line d rest where "t = lfs @ line @ d # rest" "feeds lfs" "plain line" "d = LF \<or> d = NUL"
        "d = LF \<longrightarrow> NUL \<in> set rest"
proof -
  define lfs where "lfs = takeWhile (\<lambda>c. c = LF) t"
  define u where "u = dropWhile (\<lambda>c. c = LF) t"
  have t: "t = lfs @ u" by (simp add: lfs_def u_def)
  have f: "feeds lfs" by (simp add: lfs_def)
  have "NUL \<in> set u" using assms feeds_NUL [OF f] unfolding t by simp
  then obtain c u' where u: "u = c # u'" by (cases u) auto
  have "c \<noteq> LF" using hd_dropWhile [of "\<lambda>c. c = LF" t] u [unfolded u_def] by simp
  define line where "line = takeWhile (\<lambda>c. c \<noteq> LF \<and> c \<noteq> NUL) u"
  define v where "v = dropWhile (\<lambda>c. c \<noteq> LF \<and> c \<noteq> NUL) u"
  have split: "u = line @ v" by (simp add: line_def v_def)
  have pl: "\<forall>c \<in> set line. c \<noteq> LF \<and> c \<noteq> NUL" by (auto simp: line_def dest: set_takeWhileD)
  have "NUL \<in> set v" using \<open>NUL \<in> set u\<close> split pl by auto
  then obtain d rest where v: "v = d # rest" by (cases v) auto
  have d: "d = LF \<or> d = NUL" using hd_dropWhile [of "\<lambda>c. c \<noteq> LF \<and> c \<noteq> NUL" u] v [unfolded v_def] by auto
  show thesis
  proof (cases "line = []")
    case True
    then have "c = NUL" using \<open>c \<noteq> LF\<close> u split v d by auto
    then show thesis using finish [of lfs u'] t f u by simp
  next
    case False
    then show thesis
      using token [of lfs line d rest] t f split pl v d \<open>NUL \<in> set v\<close> by (auto simp: plain_def)
  qed
qed

lemma c_str_feeds: "feeds lfs \<Longrightarrow> c_str (lfs @ t) = lfs @ c_str t"
  by (induction lfs) (auto simp: c_str_def)

lemma c_str_plain: "plain line \<Longrightarrow> c_str (line @ t) = line @ c_str t"
  unfolding c_str_def by (rule takeWhile_append2) (auto simp: plain_def)

lemma c_str_marks [simp]: "c_str (LF # t) = LF # c_str t" "c_str (NUL # t) = []"
  by (simp_all add: c_str_def)

lemma lines_of_feeds: "feeds lfs \<Longrightarrow> lines_of (lfs @ t) = lines_of t"
  by (induction lfs) auto

lemma lines_of_plain:
  assumes "plain line"
  shows "lines_of (line @ LF # t) = line # lines_of t" "lines_of line = [line]"
proof -
  obtain c l where line: "line = c # l" "c \<noteq> LF" using assms by (cases line) (auto simp: plain_def)
  have all: "\<forall>c \<in> set line. c \<noteq> LF" using assms by (simp add: plain_def)
  then have "takeWhile (\<lambda>c. c \<noteq> LF) (line @ LF # t) = line"
    "dropWhile (\<lambda>c. c \<noteq> LF) (line @ LF # t) = LF # t"
    by (simp_all add: takeWhile_append2 dropWhile_append2)
  then show "lines_of (line @ LF # t) = line # lines_of t"
    using lines_of_line [of "line @ LF # t"] line by simp
  have "takeWhile (\<lambda>c. c \<noteq> LF) line = line" "dropWhile (\<lambda>c. c \<noteq> LF) line = []"
    using all by (simp_all add: takeWhile_eq_all_conv dropWhile_eq_Nil_conv)
  then show "lines_of line = [line]" using lines_of_line [of line] line by (metis list.distinct(1) list.sel(1) lines_of.simps(1))
qed

lemma lines_of_token:
  assumes "feeds lfs" "plain line"
  shows "lines_of (c_str (lfs @ line @ LF # rest)) = line # lines_of (c_str rest)"
    "lines_of (c_str (lfs @ line @ NUL # rest)) = [line]"
  using assms by (simp_all add: c_str_feeds c_str_plain lines_of_feeds lines_of_plain)

lemma lines_of_end: "feeds lfs \<Longrightarrow> lines_of (c_str (lfs @ NUL # rest)) = []"
  using lines_of_feeds [of lfs "[]"] by (simp add: c_str_feeds)

section \<open>The loop\<close>

lemma strtok_next:
  assumes "Some (line', buf', save') = strtok_from buf save"
  shows "(case line' of None \<Rightarrow> 0 | Some q \<Rightarrow> Suc (length buf' - save')) < Suc (length buf - save)"
  using strtok_decreases [of buf save _ buf' save'] assms [symmetric] by (cases line') fastforce+

text \<open>The loop from the values of \<open>line\<close> and \<open>found\<close> at its head.\<close>

function line_loop :: "(string \<Rightarrow> stop + bool) \<Rightarrow> string \<Rightarrow> nat option \<Rightarrow> nat \<Rightarrow> bool \<Rightarrow> stop + (bool \<times> string)" where
  "line_loop test buf line save found =
     (case line of
        None \<Rightarrow> Inr (found, buf)
      | Some p \<Rightarrow>
          if found then Inr (found, buf)
          else
            case test (c_str (drop p buf)) of
              Inl e \<Rightarrow> Inl e
            | Inr found' \<Rightarrow>
                (case strtok_from buf save of
                   None \<Rightarrow> Inl Fault
                 | Some (line', buf', save') \<Rightarrow> line_loop test buf' line' save' found'))"
  by pat_completeness auto

termination
  by (relation "measure (\<lambda>(test, buf, line, save, found). case line of None \<Rightarrow> 0 | Some q \<Rightarrow> Suc (length buf - save))")
    (auto simp: strtok_next)

declare line_loop.simps [simp del]

definition line_next :: "(string \<Rightarrow> stop + bool) \<Rightarrow> string \<Rightarrow> nat \<Rightarrow> bool \<Rightarrow> stop + (bool \<times> string)" where
  "line_next test buf save found =
     (case strtok_from buf save of
        None \<Rightarrow> Inl Fault
      | Some (line, buf, save) \<Rightarrow> line_loop test buf line save found)"

definition each_line :: "(string \<Rightarrow> stop + bool) \<Rightarrow> string \<Rightarrow> stop + (bool \<times> string)" where
  "each_line test buf = line_next test buf 0 False"

lemma line_loop_simps:
  "line_loop test buf None save found = Inr (found, buf)"
  "line_loop test buf line save True = Inr (True, buf)"
  "line_loop test buf (Some p) save False =
     (case test (c_str (drop p buf)) of Inl e \<Rightarrow> Inl e | Inr found \<Rightarrow> line_next test buf save found)"
  by (simp_all add: line_loop.simps [of test buf] line_next_def split: option.split sum.split)

text \<open>A test that stops at the first line stops the loop.\<close>

lemma each_line_stops:
  assumes "NUL \<in> set buf" "lines_of (c_str buf) = l # ls" "test l = Inl e"
  shows "each_line test buf = Inl e"
  using assms(1)
proof (cases buf rule: terminated_cases)
  case (finish lfs rest)
  then show ?thesis using assms(2) by (simp add: lines_of_end)
next
  case (token lfs line d rest)
  have "line = l" using lines_of_token [OF token(2,3), of rest] token(1,4) assms(2) by auto
  moreover have "c_str (line @ NUL # rest) = line" using c_str_plain [OF token(3), of "NUL # rest"] by simp
  ultimately show ?thesis
    using strtok_token [OF token(2-4), of "[]" rest] assms(3) token(1)
    by (simp add: each_line_def line_next_def line_loop_simps)
qed

section \<open>The interface of a test\<close>

text \<open>
  On the lines of the set \<open>ok\<close> the test returns and decides \<open>P\<close>. Then the loop says whether a
  line has the property; and it leaves of the text the first line only, because the line feed
  behind that line is overwritten.
\<close>

locale line_test =
  fixes test :: "string \<Rightarrow> stop + bool" and P :: "string \<Rightarrow> bool" and ok :: "string \<Rightarrow> bool"
  assumes test_decides: "ok line \<Longrightarrow> test line = Inr (P line)"
begin

lemma next_decides:
  assumes "NUL \<in> set t" "\<forall>l \<in> set (lines_of (c_str t)). ok l"
  shows "\<exists>t'. line_next test (pre @ t) (length pre) False = Inr (\<exists>l \<in> set (lines_of (c_str t)). P l, pre @ t') \<and>
    length t' = length t \<and> NUL \<in> set t' \<and> lines_of (c_str t') = take 1 (lines_of (c_str t))"
  using assms
proof (induction "length t" arbitrary: t pre rule: less_induct)
  case less
  from less.prems(1) show ?case
  proof (cases t rule: terminated_cases)
    case (finish lfs rest)
    then show ?thesis
      using less.prems(1) by (simp add: line_next_def strtok_end line_loop_simps lines_of_end)
  next
    case (token lfs line d rest)
    let ?pre = "pre @ lfs @ line" and ?p = "length pre + length lfs"
    note lines = lines_of_token [OF token(2,3), of rest]
    have cs: "c_str (drop ?p (pre @ lfs @ line @ NUL # rest)) = line"
      using c_str_plain [OF token(3), of "NUL # rest"] by simp
    have ok: "ok line" using less.prems(2) token(1,4) lines by auto
    have first: "line_next test (pre @ t) (length pre) False =
        line_next test (?pre @ NUL # rest) (length ?pre + (if d = LF then 1 else 0)) (P line)"
      unfolding token(1) line_next_def [of test "pre @ lfs @ line @ d # rest"]
        strtok_token [OF token(2-4), of pre rest]
      using test_decides [OF ok] cs by (simp add: line_loop_simps add.assoc)
    show ?thesis
    proof (cases "d = LF")
      case False
      then have d: "d = NUL" using token(4) by simp
      have "line_next test (?pre @ NUL # rest) (length ?pre) found = Inr (found, ?pre @ NUL # rest)" for found
        using strtok_end [of "[]" ?pre rest] by (simp add: line_next_def line_loop_simps)
      then show ?thesis using first token(1) d lines by simp
    next
      case True
      have rest: "NUL \<in> set rest" "length rest < length t" "\<forall>l \<in> set (lines_of (c_str rest)). ok l"
        using less.prems(2) token(1,5) lines True by auto
      then obtain rest' where r: "line_next test ((?pre @ [NUL]) @ rest) (length (?pre @ [NUL])) False =
          Inr (\<exists>l \<in> set (lines_of (c_str rest)). P l, (?pre @ [NUL]) @ rest')" "length rest' = length rest"
        using less.hyps [of rest "?pre @ [NUL]"] by blast
      have hit: "\<exists>rest'. line_next test ((?pre @ [NUL]) @ rest) (length (?pre @ [NUL])) True =
          Inr (True, (?pre @ [NUL]) @ rest') \<and> length rest' = length rest"
        using rest(1)
      proof (cases rest rule: terminated_cases)
        case (finish lfs' rest')
        then show ?thesis
          using strtok_end [OF finish(2), of "?pre @ [NUL]" rest'] by (simp add: line_next_def line_loop_simps)
      next
        case (token lfs' line' d' rest')
        then show ?thesis
          using strtok_token [OF token(2-4), of "?pre @ [NUL]" rest']
          by (simp add: line_next_def line_loop_simps)
      qed
      have "\<exists>rest'. line_next test (pre @ t) (length pre) False =
          Inr (P line \<or> (\<exists>l \<in> set (lines_of (c_str rest)). P l), pre @ lfs @ line @ NUL # rest') \<and>
          length rest' = length rest"
        using first r hit True by (cases "P line") (auto simp: add.assoc)
      then show ?thesis
        using lines lines_of_token(2) [OF token(2,3)] token(1) True by auto
    qed
  qed
qed

lemma each_line_decides:
  assumes "NUL \<in> set buf" "\<forall>l \<in> set (lines_of (c_str buf)). ok l"
  shows "\<exists>buf'. each_line test buf = Inr (\<exists>l \<in> set (lines_of (c_str buf)). P l, buf') \<and>
    length buf' = length buf \<and> NUL \<in> set buf' \<and> lines_of (c_str buf') = take 1 (lines_of (c_str buf))"
  using next_decides [OF assms, of "[]"] by (simp add: each_line_def)

end

end
