(* ===== verification/Allocation.thy ===== *)
theory Allocation
  imports Mem_Ops Line_Loop
begin

text \<open>
  The wrappers of the allocator in \<open>mem_ops.c\<close>: \<open>xmalloc\<close>, \<open>xcalloc\<close>, \<open>xrealloc\<close>, \<open>xfree\<close> and
  \<open>xmalloc_fatal\<close>, over the blocks that are allocated. Which free address a new block gets, what is
  in it before it is written, and whether there is one at all, is the choice of the C library and
  an argument (\<open>pick\<close>). A pointer is an address or \<open>NULL\<close> (\<open>None\<close>).
\<close>

section \<open>The blocks of the C library\<close>

type_synonym address = nat
type_synonym blocks = "address \<rightharpoonup> string"
type_synonym picker = "blocks \<Rightarrow> size_t \<Rightarrow> (address \<times> string) option"

text \<open>What the C library promises: a new block is not one that is in use, and has the size asked for.\<close>

definition picker_ok :: "picker \<Rightarrow> bool" where
  "picker_ok pick \<longleftrightarrow> (\<forall>m n p old. pick m n = Some (p, old) \<longrightarrow> m p = None \<and> length old = unat n)"

definition c_malloc :: "picker \<Rightarrow> size_t \<Rightarrow> blocks \<Rightarrow> address option \<times> blocks" where
  "c_malloc pick n m =
     (case pick m n of
        None \<Rightarrow> (None, m)
      | Some (p, old) \<Rightarrow> (Some p, m(p \<mapsto> old)))"

text \<open>\<open>calloc\<close> fails if the product of the sizes does not fit, and fills the block with zeros.\<close>

definition c_calloc :: "picker \<Rightarrow> size_t \<Rightarrow> size_t \<Rightarrow> blocks \<Rightarrow> address option \<times> blocks" where
  "c_calloc pick k n m =
     (if 2 ^ 64 \<le> unat k * unat n then (None, m)
      else
        case pick m (k * n) of
          None \<Rightarrow> (None, m)
        | Some (p, old) \<Rightarrow> (Some p, m(p \<mapsto> replicate (unat (k * n)) NUL)))"

text \<open>\<open>free\<close> of what is not the start of a block in use is undefined.\<close>

definition c_free :: "address option \<Rightarrow> blocks \<Rightarrow> blocks option" where
  "c_free v m =
     (case v of
        None \<Rightarrow> Some m
      | Some p \<Rightarrow> if m p = None then None else Some (m(p := None)))"

text \<open>\<open>realloc\<close> may keep the block where it is; a size of 0 frees it and gives \<open>NULL\<close> (glibc).\<close>

definition c_realloc :: "picker \<Rightarrow> address option \<Rightarrow> size_t \<Rightarrow> blocks \<Rightarrow> (address option \<times> blocks) option" where
  "c_realloc pick v n m =
     (case v of
        None \<Rightarrow> Some (c_malloc pick n m)
      | Some p \<Rightarrow>
          (case m p of
             None \<Rightarrow> None
           | Some content \<Rightarrow>
               if n = 0 then Some (None, m(p := None))
               else
                 case pick (m(p := None)) n of
                   None \<Rightarrow> Some (None, m)
                 | Some (q, old) \<Rightarrow>
                     Some (Some q, (m(p := None))(q \<mapsto> take (unat n) content @ drop (length content) old))))"

section \<open>The wrappers\<close>

text \<open>\<open>DIE\<close> writes a message and ends the program.\<close>

definition xmalloc_fatal :: "size_t \<Rightarrow> stop + (address \<times> blocks)" where
  "xmalloc_fatal n = Inl Die"

definition xmalloc :: "picker \<Rightarrow> size_t \<Rightarrow> blocks \<Rightarrow> stop + (address \<times> blocks)" where
  "xmalloc pick n m =
     (case c_malloc pick n m of
        (None, m) \<Rightarrow> xmalloc_fatal n
      | (Some p, m) \<Rightarrow> Inr (p, m))"

definition xcalloc :: "picker \<Rightarrow> size_t \<Rightarrow> size_t \<Rightarrow> blocks \<Rightarrow> stop + (address \<times> blocks)" where
  "xcalloc pick k n m =
     (case c_calloc pick k n m of
        (None, m) \<Rightarrow> xmalloc_fatal (k * n)
      | (Some p, m) \<Rightarrow> Inr (p, m))"

definition xrealloc :: "picker \<Rightarrow> address option \<Rightarrow> size_t \<Rightarrow> blocks \<Rightarrow> stop + (address \<times> blocks)" where
  "xrealloc pick v n m =
     bind_run (of_option (c_realloc pick v n m)) (\<lambda>(p, m).
     case p of
       None \<Rightarrow> xmalloc_fatal n
     | Some p \<Rightarrow> Inr (p, m))"

text \<open>
  The argument of \<open>xfree\<close> is the address of a pointer: \<open>None\<close> for \<open>NULL\<close>, which the \<open>assert\<close>
  refuses, and the pointer that stands there otherwise. The result has the new pointer.
\<close>

definition xfree :: "address option option \<Rightarrow> blocks \<Rightarrow> stop + (address option \<times> blocks)" where
  "xfree v m =
     (case v of
        None \<Rightarrow> Inl Fault
      | Some p \<Rightarrow> bind_run (of_option (c_free p m)) (\<lambda>m. Inr (None, m)))"

section \<open>What the wrappers do\<close>

lemma xmalloc_spec:
  assumes "picker_ok pick" "xmalloc pick n m = Inr (p, m')"
  shows "m p = None" "\<exists>old. m' = m(p \<mapsto> old) \<and> length old = unat n"
  using assms by (auto simp: xmalloc_def c_malloc_def xmalloc_fatal_def picker_ok_def split: option.splits)

lemma xcalloc_spec:
  assumes "picker_ok pick" "xcalloc pick k n m = Inr (p, m')"
  shows "m p = None" "m' = m(p \<mapsto> replicate (unat k * unat n) NUL)"
  using assms
  by (auto simp: xcalloc_def c_calloc_def xmalloc_fatal_def picker_ok_def unat_word_ariths split: option.splits if_splits)

lemma xrealloc_spec:
  assumes "picker_ok pick" "xrealloc pick (Some p) n m = Inr (q, m')"
  shows "\<exists>content new. m p = Some content \<and> m' = (m(p := None))(q \<mapsto> new) \<and> length new = unat n \<and>
    take (length content) new = take (unat n) content \<and> (q = p \<or> m q = None)"
proof -
  obtain content q' old where c: "m p = Some content" "pick (m(p := None)) n = Some (q', old)" "q' = q"
    "m' = (m(p := None))(q \<mapsto> take (unat n) content @ drop (length content) old)"
    using assms(2) by (auto simp: xrealloc_def c_realloc_def xmalloc_fatal_def of_option_def bind_run_def
        split: option.splits if_splits)
  have old: "length old = unat n" "(m(p := None)) q = None"
    using assms(1) c(2,3) unfolding picker_ok_def by blast+
  then have "q = p \<or> m q = None" by (metis fun_upd_apply)
  show ?thesis using c old(1) \<open>q = p \<or> m q = None\<close>
    by (intro exI [of _ content] exI [of _ "take (unat n) content @ drop (length content) old"]) (auto simp: min_def)
qed

text \<open>A wrapper that cannot get a block ends the program; none stops in another way.\<close>

theorem allocation_fails_by_exit:
  "(\<exists>p m'. xmalloc pick n m = Inr (p, m')) \<or> xmalloc pick n m = Inl Die"
  by (auto simp: xmalloc_def xmalloc_fatal_def split: option.splits prod.splits)

text \<open>A pointer that \<open>xmalloc\<close> gave can be freed twice: the first \<open>xfree\<close> takes exactly its block away
  and makes the pointer \<open>NULL\<close>, so the second one does nothing. (With \<open>free\<close> alone, which leaves the
  pointer, the second call would be undefined.)\<close>

theorem xfree_twice:
  assumes "picker_ok pick" "xmalloc pick n m = Inr (p, m')"
  shows "xfree (Some (Some p)) m' = Inr (None, m) \<and> xfree (Some None) m = Inr (None, m) \<and>
    bind_run (of_option (c_free (Some p) m')) (\<lambda>m. of_option (c_free (Some p) m)) = Inl Fault"
proof -
  obtain old where "m' = m(p \<mapsto> old)" "m p = None" using xmalloc_spec [OF assms] by auto
  then show ?thesis by (auto simp: xfree_def c_free_def of_option_def fun_upd_idem)
qed

text \<open>A picker for examples: the next address, a block of the byte \<open>x\<close>.\<close>

definition sample_picker :: picker where
  "sample_picker m n = (if m 1 = None then Some (1, replicate (unat n) CHR ''x'') else None)"

lemma sample_picker_ok: "picker_ok sample_picker"
  by (simp add: picker_ok_def sample_picker_def)

theorem xfree_twice_witness:
  "\<exists>m'. xmalloc sample_picker 3 Map.empty = Inr (1, m') \<and> xfree (Some (Some 1)) m' = Inr (None, Map.empty)"
proof -
  have "\<exists>m'. xmalloc sample_picker 3 Map.empty = Inr (1, m')"
    by (simp add: xmalloc_def c_malloc_def sample_picker_def)
  then show ?thesis using xfree_twice [OF sample_picker_ok] by blast
qed

text \<open>\<open>xcalloc\<close> and \<open>xrealloc\<close>: the block is new, of the exact size, zeroed or with the bytes it had.\<close>

theorem xcalloc_zeroed:
  assumes "picker_ok pick" "xcalloc pick k n m = Inr (p, m')"
  shows "m p = None \<and> m' = m(p \<mapsto> replicate (unat k * unat n) NUL)"
  using xcalloc_spec [OF assms] by blast

theorem xcalloc_zeroed_witness:
  "\<exists>m'. xcalloc sample_picker 2 3 Map.empty = Inr (1, m') \<and> m' 1 = Some (replicate 6 NUL)"
proof -
  have x: "\<exists>m'. xcalloc sample_picker 2 3 Map.empty = Inr (1, m')"
    by (simp add: xcalloc_def c_calloc_def sample_picker_def)
  then obtain m' where "xcalloc sample_picker 2 3 Map.empty = Inr (1, m')" by blast
  then show ?thesis using xcalloc_zeroed [OF sample_picker_ok, of 2 3 Map.empty 1] by auto
qed

theorem xrealloc_keeps:
  assumes "picker_ok pick" "xrealloc pick (Some p) n m = Inr (q, m')"
  shows "\<exists>content new. m p = Some content \<and> m' q = Some new \<and> length new = unat n \<and>
    take (length content) new = take (unat n) content \<and> (\<forall>r. r = p \<or> r = q \<or> m' r = m r)"
  using xrealloc_spec [OF assms] by fastforce

theorem xrealloc_keeps_witness:
  "\<exists>m' new. xrealloc sample_picker (Some 1) 4 [1 \<mapsto> ''ab''] = Inr (1, m') \<and> m' 1 = Some new \<and> take 2 new = ''ab''"
proof -
  have "\<exists>m'. xrealloc sample_picker (Some 1) 4 [1 \<mapsto> ''ab''] = Inr (1, m')"
    by (simp add: xrealloc_def c_realloc_def sample_picker_def of_option_def)
  then obtain m' where m: "xrealloc sample_picker (Some 1) 4 [1 \<mapsto> ''ab''] = Inr (1, m')" by blast
  obtain new where "m' 1 = Some new" "take (length ''ab'') new = take (unat (4 :: size_t)) ''ab''"
    using xrealloc_keeps [OF sample_picker_ok m] by auto
  moreover have "unat (4 :: size_t) = 4" "length ''ab'' = 2" "take 4 ''ab'' = ''ab''" by simp_all
  ultimately show ?thesis using m by metis
qed

end
