(* ===== verification/Utils.thy ===== *)
theory Utils
  imports Octopus_Prelude Mem_Ops
begin

text \<open>
  The string functions of \<open>utils.c\<close>: \<open>chomp\<close>, \<open>from_hex\<close>, \<open>urldecode\<close>, \<open>deadspace\<close>,
  \<open>test_letter\<close> and \<open>all2lowcase\<close>. Functions that change a string in place take and give the
  object it stands in; \<open>urldecode\<close> reads a C string given by its characters. Bytes of a fresh
  object that are not written are the argument \<open>junk\<close>.
\<close>

section \<open>\<open>chomp\<close>\<close>

fun chomp_loop :: "string \<Rightarrow> nat \<Rightarrow> nat \<Rightarrow> string option" where
  "chomp_loop buf i 0 = None"
| "chomp_loop buf i (Suc n) =
     (if buf ! i = NUL then Some buf
      else if buf ! i = LF \<or> buf ! i = CR then Some (buf[i := NUL])
      else chomp_loop buf (i + 1) n)"

definition chomp :: "string \<Rightarrow> string option" where
  "chomp buf = chomp_loop buf 0 (length buf)"

definition line_char :: "char \<Rightarrow> bool" where
  "line_char c \<longleftrightarrow> c \<noteq> LF \<and> c \<noteq> CR"

lemma chomp_loop_spec:
  assumes "NUL \<in> set rest"
  shows "\<exists>buf'. chomp_loop (pre @ rest) (length pre) (length rest) = Some (pre @ buf') \<and>
    length buf' = length rest \<and> c_str buf' = takeWhile line_char (c_str rest)"
  using assms
proof (induction rest arbitrary: pre)
  case (Cons c rest)
  show ?case
  proof (cases "c = NUL \<or> c = LF \<or> c = CR")
    case True
    then show ?thesis
      by (auto simp: nth_append list_update_append c_str_def line_char_def)
  next
    case False
    then obtain buf' where "chomp_loop ((pre @ [c]) @ rest) (length (pre @ [c])) (length rest) =
        Some ((pre @ [c]) @ buf')" "length buf' = length rest"
        "c_str buf' = takeWhile line_char (c_str rest)"
      using Cons.IH [of "pre @ [c]"] Cons.prems by auto
    moreover have "line_char c" using False by (simp add: line_char_def)
    ultimately show ?thesis
      using False by (intro exI [of _ "c # buf'"]) (auto simp: nth_append c_str_def)
  qed
qed simp

section \<open>Percent decoding\<close>

text \<open>\<open>isdigit\<close> and \<open>tolower\<close> in the C locale.\<close>

definition isdigit :: "int \<Rightarrow> bool" where
  "isdigit c \<longleftrightarrow> schar (CHR ''0'') \<le> c \<and> c \<le> schar (CHR ''9'')"

definition tolower :: "int \<Rightarrow> int" where
  "tolower c = (if schar (CHR ''A'') \<le> c \<and> c \<le> schar (CHR ''Z'') then c + 32 else c)"

definition from_hex :: "char \<Rightarrow> char" where
  "from_hex ch = to_char
     (if isdigit (schar ch) then schar ch - schar (CHR ''0'')
      else tolower (schar ch) - schar (CHR ''a'') + 10)"

text \<open>\<open>*pbuf++ = c\<close> into an object of \<open>cap\<close> bytes, of which \<open>out\<close> has been written.\<close>

definition put :: "nat \<Rightarrow> string \<Rightarrow> char \<Rightarrow> string option" where
  "put cap out c = (if length out < cap then Some (out @ [c]) else None)"

fun urldecode_loop :: "nat \<Rightarrow> string \<Rightarrow> string \<Rightarrow> string option" where
  "urldecode_loop cap [] out = put cap out NUL"
| "urldecode_loop cap (c # str) out =
     (if c = CHR ''%'' then
        (case str of
           a # b # str' \<Rightarrow>
             do {
               out \<leftarrow> put cap out (to_char (push_bit 4 (schar (from_hex a)) OR schar (from_hex b)));
               urldecode_loop cap str' out
             }
         | _ \<Rightarrow> urldecode_loop cap str out)
      else if c = CHR ''+'' then
        do { out \<leftarrow> put cap out (CHR '' ''); urldecode_loop cap str out }
      else
        do { out \<leftarrow> put cap out c; urldecode_loop cap str out })"

definition urldecode :: "string \<Rightarrow> nat \<Rightarrow> string option" where
  "urldecode str sz = urldecode_loop (sz + 1) str []"

text \<open>The decoded text, without a buffer.\<close>

fun decoded :: "string \<Rightarrow> string" where
  "decoded [] = []"
| "decoded (c # str) =
     (if c = CHR ''%'' then
        (case str of
           a # b # str' \<Rightarrow>
             to_char (push_bit 4 (schar (from_hex a)) OR schar (from_hex b)) # decoded str'
         | _ \<Rightarrow> decoded str)
      else if c = CHR ''+'' then CHR '' '' # decoded str
      else c # decoded str)"

lemma length_decoded: "length (decoded str) \<le> length str"
proof (induction "length str" arbitrary: str rule: less_induct)
  case less
  consider "str = []" | "str = [CHR ''%'']" | a where "str = [CHR ''%'', a]"
    | a b s where "str = CHR ''%'' # a # b # s" | c s where "str = c # s" "c \<noteq> CHR ''%''"
    by (metis neq_Nil_conv)
  then show ?case
  proof cases
    case (4 a b s)
    then show ?thesis using less [of s] by simp
  next
    case (5 c s)
    then show ?thesis using less [of s] by simp
  qed simp_all
qed

lemma urldecode_loop_spec:
  assumes "length out \<le> cap"
  shows "urldecode_loop cap str out =
    (if length out + length (decoded str) < cap then Some (out @ decoded str @ [NUL]) else None)"
  using assms
proof (induction cap str out rule: urldecode_loop.induct)
  case (2 cap c str out)
  show ?case
  proof (cases "c = CHR ''%''")
    case True
    show ?thesis
    proof (cases "\<exists>a b str'. str = a # b # str'")
      case True
      then show ?thesis using 2 \<open>c = CHR ''%''\<close> by (auto simp: put_def)
    next
      case False
      then consider "str = []" | a where "str = [a]" by (metis neq_Nil_conv)
      then show ?thesis using 2 \<open>c = CHR ''%''\<close> by cases auto
    qed
  next
    case False
    then show ?thesis using 2 by (auto simp: put_def)
  qed
qed (auto simp: put_def)

lemma urldecode_spec:
  "urldecode str sz = (if length (decoded str) \<le> sz then Some (decoded str @ [NUL]) else None)"
  using urldecode_loop_spec [of "[]" "sz + 1" str] by (simp add: urldecode_def)

text \<open>Encoding every byte and decoding again.\<close>

definition hex_digit :: "nat \<Rightarrow> char" where
  "hex_digit n = (if n < 10 then char_of (48 + n) else char_of (55 + n))"

definition percent :: "char \<Rightarrow> string" where
  "percent c = [CHR ''%'', hex_digit (of_char c div 16), hex_digit (of_char c mod 16)]"

lemma from_hex_digit:
  assumes "n < 16"
  shows "schar (from_hex (hex_digit n)) = int n"
proof -
  have "n \<in> {0,1,2,3,4,5,6,7,8,9,10,11,12,13,14,15}"
    using assms by (simp only: insert_iff empty_iff) presburger
  then show ?thesis
    by (elim insertE) (simp_all, code_simp+)
qed

lemma nibbles:
  assumes "a < 16" "b < (16 :: nat)"
  shows "push_bit 4 (int a) OR int b = int (16 * a + b)"
proof -
  have "push_bit 4 (int a) OR int b = push_bit 4 (int a) + int b"
  proof (rule disjunctive_add [symmetric])
    fix n
    show "\<not> bit (push_bit 4 (int a)) n \<or> \<not> bit (int b) n"
    proof (cases "n < 4")
      case False
      then have "(2::int) ^ 4 \<le> 2 ^ n" by (intro power_increasing) auto
      moreover have "int b < 2 ^ 4" using assms(2) by simp
      ultimately have "int b < 2 ^ n" by linarith
      then show ?thesis by (simp add: bit_iff_odd)
    qed (simp add: bit_push_bit_iff)
  qed
  then show ?thesis by (simp add: push_bit_eq_mult)
qed

lemma decoded_percent: "decoded (percent c @ rest) = c # decoded rest"
proof -
  let ?n = "of_char c :: nat"
  have n: "?n < 256" by simp
  then have "?n div 16 < 16" "?n mod 16 < 16" by (auto simp: less_mult_imp_div_less)
  then have "push_bit 4 (schar (from_hex (hex_digit (?n div 16)))) OR
      schar (from_hex (hex_digit (?n mod 16))) = int (16 * (?n div 16) + ?n mod 16)"
    by (simp only: from_hex_digit nibbles)
  also have "\<dots> = int ?n" by simp
  finally show ?thesis using n by (simp add: percent_def to_char_def)
qed

section \<open>Blanks and letters\<close>

text \<open>\<open>for (; *str; ++str) if (*str != ' ') *put++ = *str;\<close> with \<open>n\<close> bytes of the object left.\<close>

fun deadspace_loop :: "string \<Rightarrow> nat \<Rightarrow> nat \<Rightarrow> nat \<Rightarrow> string option" where
  "deadspace_loop buf i dst 0 = None"
| "deadspace_loop buf i dst (Suc n) =
     (if buf ! i = NUL then Some (buf[dst := NUL])
      else if buf ! i \<noteq> CHR '' '' then deadspace_loop (buf[dst := buf ! i]) (i + 1) (dst + 1) n
      else deadspace_loop buf (i + 1) dst n)"

definition deadspace :: "string \<Rightarrow> string option" where
  "deadspace buf = deadspace_loop buf 0 0 (length buf)"

definition test_letter :: "char \<Rightarrow> int" where
  "test_letter p =
     (if p \<in> set ''ABCDEFGHIJKLMNOPQRSTUVWXYZ'' \<or> p \<in> set ''abcdefghijklmnopqrstuvwxyz''
      then 0 else 1)"

text \<open>The loop of \<open>all2lowcase\<close> stores into the new object, the terminator is not stored.\<close>

fun lowcase_loop :: "string \<Rightarrow> string \<Rightarrow> nat \<Rightarrow> string option" where
  "lowcase_loop [] new i = Some new"
| "lowcase_loop (c # str) new i =
     (if i < length new then
        lowcase_loop str
          (new[i := if test_letter c = 0 then to_char (schar c OR 0x20) else c]) (i + 1)
      else None)"

definition all2lowcase :: "char \<Rightarrow> string \<Rightarrow> string option" where
  "all2lowcase junk str = lowcase_loop str (replicate (length str + 1) junk) 0"

lemma deadspace_loop_spec:
  assumes "NUL \<in> set rest" "dst \<le> length pre" "NUL \<notin> set (take dst pre)"
  shows "\<exists>buf'. deadspace_loop (pre @ rest) (length pre) dst (length rest) = Some buf' \<and>
    length buf' = length (pre @ rest) \<and>
    c_str buf' = take dst pre @ filter (\<lambda>c. c \<noteq> CHR '' '') (c_str rest)"
  using assms
proof (induction rest arbitrary: pre dst)
  case (Cons c rest)
  consider (nul) "c = NUL" | (blank) "c = CHR '' ''" | (other) "c \<noteq> NUL" "c \<noteq> CHR '' ''" by blast
  then show ?case
  proof cases
    case nul
    have "c_str ((pre @ NUL # rest)[dst := NUL]) = take dst pre"
      using Cons.prems(2,3) by (simp add: upd_conv_take_nth_drop c_str_id)
    then show ?thesis using nul by (simp add: nth_append c_str_def)
  next
    case blank
    then show ?thesis
      using Cons.IH [of dst "pre @ [c]"] Cons.prems by (auto simp: nth_append c_str_def)
  next
    case other
    let ?pre = "(pre @ [c])[dst := c]"
    have eq: "(pre @ c # rest)[dst := c] = ?pre @ rest"
      using Cons.prems(2) by (auto simp: list_update_append split: nat.split)
    have tk: "take (Suc dst) ?pre = take dst pre @ [c]"
      using Cons.prems(2) by (simp add: take_Suc_conv_app_nth)
    then have "NUL \<notin> set (take (Suc dst) ?pre)" using Cons.prems(3) other by auto
    then obtain buf' where "deadspace_loop (?pre @ rest) (length ?pre) (Suc dst) (length rest) = Some buf'"
      "length buf' = length (?pre @ rest)"
      "c_str buf' = take (Suc dst) ?pre @ filter (\<lambda>c. c \<noteq> CHR '' '') (c_str rest)"
      using Cons.IH [of "Suc dst" ?pre] Cons.prems other by auto
    then show ?thesis
      using other by (auto simp: nth_append eq tk c_str_def)
  qed
qed simp

definition lowcase :: "char \<Rightarrow> char" where
  "lowcase c = (if test_letter c = 0 then to_char (schar c OR 0x20) else c)"

lemma lowcase_loop_spec:
  "i + length str \<le> length new \<Longrightarrow>
   lowcase_loop str new i = Some (take i new @ map lowcase str @ drop (i + length str) new)"
proof (induction str arbitrary: new i)
  case (Cons c str)
  then have "take (Suc i) (new[i := lowcase c]) = take i new @ [lowcase c]"
    by (simp add: take_Suc_conv_app_nth)
  then show ?case using Cons.IH [of "Suc i" "new[i := lowcase c]"] Cons.prems by (simp add: lowcase_def)
qed simp

lemma all2lowcase_spec: "all2lowcase junk str = Some (map lowcase str @ [junk])"
  using lowcase_loop_spec [of 0 str "replicate (length str + 1) junk"]
  by (simp add: all2lowcase_def replicate_append_same [symmetric] del: replicate_append_same)

section \<open>Properties\<close>

text \<open>C36. \<open>urldecode\<close> into its buffer of \<open>sz + 1\<close> bytes stays inside the buffer exactly when the
  decoded text is at most \<open>sz\<close> characters long; then the result is that text and its
  terminator. A longer text is written over the end of the block.\<close>

theorem urldecode_in_bounds:
  "urldecode str sz = (if length (decoded str) \<le> sz then Some (decoded str @ [NUL]) else None)"
  by (rule urldecode_spec)

text \<open>C37. Decoding takes percent encoding back: any bytes, each written as a percent sign and
  its two hexadecimal digits, come out of \<open>urldecode\<close> as they were, in a buffer of their
  number and one.\<close>

theorem urldecode_percent:
  "urldecode (concat (map percent bs)) (length bs) = Some (bs @ [NUL])"
proof -
  have "decoded (concat (map percent bs)) = bs"
    by (induction bs) (simp_all add: decoded_percent)
  then show ?thesis by (simp add: urldecode_spec)
qed

text \<open>\<open>chomp\<close> cuts a string at its first line feed or carriage return, in place.\<close>

theorem chomp_cuts:
  assumes "NUL \<in> set buf"
  shows "\<exists>buf'. chomp buf = Some buf' \<and> length buf' = length buf \<and>
    c_str buf' = takeWhile line_char (c_str buf)"
  using chomp_loop_spec [of buf "[]"] assms by (simp add: chomp_def)

theorem chomp_cuts_witness:
  "\<exists>buf'. chomp [CHR ''a'', CR, LF, NUL] = Some buf' \<and> c_str buf' = ''a''"
  using chomp_cuts [of "[CHR ''a'', CR, LF, NUL]"] by (auto simp: c_str_def line_char_def)

text \<open>\<open>deadspace\<close> removes all blanks from a string, in place and inside its object.\<close>

theorem deadspace_removes_blanks:
  assumes "NUL \<in> set buf"
  shows "\<exists>buf'. deadspace buf = Some buf' \<and> length buf' = length buf \<and>
    c_str buf' = filter (\<lambda>c. c \<noteq> CHR '' '') (c_str buf)"
  using deadspace_loop_spec [of buf 0 "[]"] assms by (simp add: deadspace_def)

theorem deadspace_removes_blanks_witness:
  "\<exists>buf'. deadspace [CHR ''a'', CHR '' '', CHR ''b'', NUL] = Some buf' \<and> c_str buf' = ''ab''"
  using deadspace_removes_blanks [of "[CHR ''a'', CHR '' '', CHR ''b'', NUL]"] by (auto simp: c_str_def)

text \<open>\<open>all2lowcase\<close> fills its new block of \<open>strlen(str) + 1\<close> bytes with the letters of the
  string in lower case, and leaves the last byte, where the terminator belongs, as the
  allocator gave it.\<close>

theorem all2lowcase_unterminated: "all2lowcase junk str = Some (map lowcase str @ [junk])"
  by (rule all2lowcase_spec)

end
