(* ===== verification/Validate.thy ===== *)
theory Validate
  imports Octopus_Prelude
begin

text \<open>
  \<open>validate.c\<close>: \<open>is_request\<close>, on the object a request stands in. \<open>None\<close> is a read outside
  that object.
\<close>

text \<open>\<open>memcmp(ptr, word, n) == 0\<close>\<close>

definition starts_with :: "string \<Rightarrow> string \<Rightarrow> bool option" where
  "starts_with buf word =
     (if length word \<le> length buf then Some (take (length word) buf = word) else None)"

definition is_request :: "string \<Rightarrow> bool option" where
  "is_request buf =
     (if buf = [] then None
      else if buf ! 0 = CHR '' '' then Some False
      else if length buf < 2 then None
      else if buf ! 1 = CHR '' '' then Some False
      else do {
        n \<leftarrow> c_strnlen buf 12;
        if n < 10 then Some False
        else do {
          get \<leftarrow> starts_with buf ''GET'';
          if get then Some True
          else do {
            post \<leftarrow> starts_with buf ''POST'';
            if post then Some True
            else do {
              put \<leftarrow> starts_with buf ''PUT'';
              if put then Some True
              else do {
                delete \<leftarrow> starts_with buf ''DELETE'';
                Some delete
              }
            }
          }
        }
      })"

definition request_method :: "string \<Rightarrow> bool" where
  "request_method s \<longleftrightarrow> prefix ''GET'' s \<or> prefix ''POST'' s \<or> prefix ''PUT'' s \<or> prefix ''DELETE'' s"

lemma prefix_take: "prefix w s \<longleftrightarrow> take (length w) s = w"
  by (metis append_eq_conv_conj prefix_def prefixE take_is_prefix)

lemma is_request_string:
  assumes "NUL \<notin> set s" "s \<noteq> []"
  shows "is_request (s @ [NUL]) = Some (10 \<le> length s \<and> s ! 1 \<noteq> CHR '' '' \<and> request_method s)"
proof -
  obtain c s' where s: "s = c # s'" using assms(2) by (cases s) auto
  have n: "c_strnlen (s @ [NUL]) 12 = Some (min 12 (length s))"
    using assms(1) by (simp add: c_strnlen_terminated)
  have blank: "\<not> request_method s" if "c = CHR '' ''"
    using that by (simp add: request_method_def s)
  have starts: "starts_with (s @ [NUL]) w = Some (prefix w s)" if "length w \<le> 6" "10 \<le> length s" for w
    using that by (simp add: starts_with_def prefix_take)
  show ?thesis
  proof (cases "c = CHR '' ''")
    case True
    then show ?thesis using blank by (simp add: is_request_def s)
  next
    case False
    have nth: "(s @ [NUL]) ! 0 = c" "(s @ [NUL]) ! 1 = (if length s < 2 then NUL else s ! 1)"
      by (auto simp: s nth_append)
    show ?thesis
    proof (cases "length s < 10")
      case True
      then show ?thesis using False nth n assms(2) by (auto simp: is_request_def s)
    next
      case ge: False
      then have "\<not> length s < 2" "\<not> min 12 (length s) < 10" by simp_all
      then show ?thesis
        using False ge nth n starts assms(2)
        by (simp add: is_request_def request_method_def)
    qed
  qed
qed

section \<open>Properties\<close>

text \<open>\<open>is_request\<close> on a C string that is not empty reads inside its object, and accepts
  exactly the strings of at least ten characters, with no blank in second place, that start
  with \<open>GET\<close>, \<open>POST\<close>, \<open>PUT\<close> or \<open>DELETE\<close>.\<close>

theorem is_request_methods:
  assumes "NUL \<notin> set s" "s \<noteq> []"
  shows "is_request (s @ [NUL]) = Some (10 \<le> length s \<and> s ! 1 \<noteq> CHR '' '' \<and> request_method s)"
  by (rule is_request_string [OF assms])

theorem is_request_methods_witness: "is_request (''GET /index'' @ [NUL]) = Some True"
  using is_request_methods [of "''GET /index''"] by (simp add: request_method_def)

end
