(* ===== verification/Rule_Lists.thy ===== *)
theory Rule_Lists
  imports Line_Loop Match_Algorithms Str_Sec
begin

text \<open>
  The options (\<open>struct choice param\<close> of \<open>opt_extract.h\<close>), the files they name
  (\<open>read_lines\<close>, \<open>load_all_rules\<close>), the list of blocked addresses (\<open>blocklist_ip\<close>) and the lists
  of rules (\<open>matchlist\<close>, \<open>pcre_regex_search\<close>). The file system and the PCRE library are arguments.
\<close>

section \<open>Options and files\<close>

record choice =
  prm_hostarg :: "string option"
  prm_redirectarg :: "string option"
  prm_logfile :: "string option"
  prm_block_addr_list :: string
  prm_regex_rules :: string
  prm_match_rules :: string
  prm_debug :: bool
  prm_libinjection_sqli :: bool
  prm_libinjection_xss :: bool
  prm_pcre :: bool
  prm_option_algorithm :: int

text \<open>\<open>fs\<close> gives the bytes of a file that can be opened. An empty file ends the program.\<close>

definition read_lines :: "(string \<Rightarrow> string option) \<Rightarrow> string \<Rightarrow> stop + string" where
  "read_lines fs name =
     (case fs name of
        None \<Rightarrow> Inl Die
      | Some text \<Rightarrow> if text = [] then Inl Die else Inr (text @ [NUL]))"

definition load_all_rules :: "(string \<Rightarrow> string option) \<Rightarrow> choice \<Rightarrow> stop + choice" where
  "load_all_rules fs param =
     bind_run (read_lines fs ''config/regex_rules.txt'') (\<lambda>regex.
     bind_run (read_lines fs ''config/match_list_request.txt'') (\<lambda>rules.
     bind_run (read_lines fs ''config/blocklist_ip.txt'') (\<lambda>block.
     Inr (param\<lparr>prm_regex_rules := regex, prm_match_rules := rules, prm_block_addr_list := block\<rparr>))))"

text \<open>The lists are C strings.\<close>

definition lists_ok :: "choice \<Rightarrow> bool" where
  "lists_ok param \<longleftrightarrow> NUL \<in> set (prm_block_addr_list param) \<and> NUL \<in> set (prm_regex_rules param) \<and>
     NUL \<in> set (prm_match_rules param)"

lemma load_all_rules_ok: "load_all_rules fs param = Inr param' \<Longrightarrow> lists_ok param'"
  by (auto simp: load_all_rules_def read_lines_def bind_run_def lists_ok_def
      split: option.splits if_splits)

section \<open>Blocked addresses\<close>

text \<open>The address is a pointer that may be \<open>NULL\<close>, here \<open>None\<close>; \<open>strnstr\<close> reads it for every line.\<close>

definition blocklist_test :: "string option \<Rightarrow> string \<Rightarrow> stop + bool" where
  "blocklist_test addr line =
     (case addr of None \<Rightarrow> Inl Fault | Some a \<Rightarrow> Inr (strnstr line a 128 \<noteq> None))"

text \<open>\<open>strtok\<close> works on \<open>param.block_addr_list\<close> itself.\<close>

definition blocklist_ip :: "string option \<Rightarrow> choice \<Rightarrow> stop + (bool \<times> choice)" where
  "blocklist_ip addr param =
     bind_run (each_line (blocklist_test addr) (prm_block_addr_list param)) (\<lambda>(at_list, buf).
     Inr (at_list, param\<lparr>prm_block_addr_list := buf\<rparr>))"

definition names_addr :: "string \<Rightarrow> string \<Rightarrow> bool" where
  "names_addr addr line \<longleftrightarrow> sublist addr (take 128 line)"

interpretation blocked: line_test "blocklist_test (Some addr)" "names_addr addr" "\<lambda>_. True" for addr
  by unfold_locales (simp only: blocklist_test_def option.case strnstr_found names_addr_def)

lemma blocklist_ip_lines:
  assumes "NUL \<in> set (prm_block_addr_list param)"
  shows "\<exists>buf. blocklist_ip (Some addr) param =
      Inr (\<exists>l \<in> set (lines_of (c_str (prm_block_addr_list param))). names_addr addr l,
           param\<lparr>prm_block_addr_list := buf\<rparr>) \<and>
    NUL \<in> set buf \<and> lines_of (c_str buf) = take 1 (lines_of (c_str (prm_block_addr_list param)))"
  using blocked.each_line_decides [OF assms, of addr] by (auto simp: blocklist_ip_def)

interpretation no_addr: line_test "blocklist_test None" "\<lambda>_. False" "\<lambda>_. False"
  by unfold_locales simp

text \<open>Without an address the first line is the last access.\<close>

lemma blocklist_ip_null:
  assumes "NUL \<in> set (prm_block_addr_list param)" "lines_of (c_str (prm_block_addr_list param)) \<noteq> []"
  shows "blocklist_ip None param = Inl Fault"
proof -
  obtain l ls where "lines_of (c_str (prm_block_addr_list param)) = l # ls" using assms(2) by (cases "lines_of (c_str (prm_block_addr_list param))") auto
  from each_line_stops [OF assms(1) this, of "blocklist_test None" Fault] show ?thesis
    by (simp add: blocklist_ip_def blocklist_test_def)
qed

text \<open>Whatever the address, a call that returns leaves the first line.\<close>

lemma blocklist_ip_leaves:
  assumes "NUL \<in> set (prm_block_addr_list param)" "blocklist_ip addr param = Inr (found, param')"
  obtains buf where "param' = param\<lparr>prm_block_addr_list := buf\<rparr>" "NUL \<in> set buf"
    "lines_of (c_str buf) = take 1 (lines_of (c_str (prm_block_addr_list param)))"
proof (cases addr)
  case None
  then have "lines_of (c_str (prm_block_addr_list param)) = []" using blocklist_ip_null [OF assms(1)] assms(2) by fastforce
  then show thesis
    using no_addr.each_line_decides [OF assms(1)] assms(2) None that by (auto simp: blocklist_ip_def)
next
  case (Some a)
  then show thesis using blocklist_ip_lines [OF assms(1), of a] assms(2) that by auto
qed

section \<open>Rules\<close>

text \<open>The library: \<open>pcre_compile\<close> gives the compiled expression or none, \<open>pcre_exec\<close> its result on a text.\<close>

record 're pcre_lib =
  pcre_compile :: "string \<Rightarrow> 're option"
  pcre_exec :: "'re \<Rightarrow> string \<Rightarrow> int"

definition pcre_regex_search :: "'re pcre_lib \<Rightarrow> string \<Rightarrow> nat \<Rightarrow> string \<Rightarrow> stop + bool" where
  "pcre_regex_search lib str string_len expression =
     (case pcre_compile lib expression of
        None \<Rightarrow> Inl Die
      | Some re \<Rightarrow> Inr (pcre_exec lib re (take string_len str) > 0))"

text \<open>The body of the loop of \<open>matchlist\<close>; \<open>input\<close> is the object of the request.\<close>

definition rule_test :: "'re pcre_lib \<Rightarrow> string \<Rightarrow> nat \<Rightarrow> int \<Rightarrow> string \<Rightarrow> stop + bool" where
  "rule_test lib input input_len option_algorithm line =
     (let line_len = min 2048 (length line) in
      if line_len > 4 then
        if option_algorithm = 1 then of_option (DFA_Search line (line_len - 2) input input_len)
        else if option_algorithm = 2 then of_option (horspool_search input input_len line (line_len - 2))
        else if option_algorithm = 3 then of_option (Rabin_Karp_search input input_len line (line_len - 2))
        else if option_algorithm = 4 then pcre_regex_search lib input input_len line
        else Inr False
      else Inr False)"

definition matchlist :: "'re pcre_lib \<Rightarrow> choice \<Rightarrow> string \<Rightarrow> nat \<Rightarrow> int \<Rightarrow> stop + bool" where
  "matchlist lib param input input_len option_algorithm =
     (if NUL \<notin> set (prm_regex_rules param) \<or> NUL \<notin> set (prm_match_rules param) then Inl Fault
      else
        let config = (if option_algorithm = 4 then c_str (prm_regex_rules param)
                      else c_str (prm_match_rules param)) @ [NUL]
        in bind_run (each_line (rule_test lib input input_len option_algorithm) config)
             (\<lambda>(at_list, buf). Inr at_list))"

subsection \<open>The searches read the pattern and the msg they are given\<close>

lemma agree_len_take: "i + k \<le> n \<Longrightarrow> off + i + k \<le> n \<Longrightarrow> agree_len (take n pat) off i k = agree_len pat off i k"
  by (induction pat off i k rule: agree_len.induct) auto

lemma next_state_fix_take:
  "f \<le> state \<Longrightarrow> state \<le> n \<Longrightarrow> next_state_fix (take n pat) state x f = next_state_fix pat state x f"
  by (induction pat state x f rule: next_state_fix.induct) (auto simp: agree_len_take Let_def)

lemma write_tf_take: "write_tf (take n pat) n = write_tf pat n"
  by (auto simp: write_tf_def NextMachineState_def next_state_fix_take)

lemma DFA_Search_take: "DFA_Search (take n pat) n msg (length msg) = DFA_Search pat n (msg @ rest) (length msg)"
  by (simp add: DFA_Search_def write_tf_take)

lemma match_back_take:
  "m \<le> n \<Longrightarrow> shift + m \<le> length msg \<Longrightarrow> match_back (take n pat) msg shift m = match_back pat (msg @ rest) shift m"
  by (induction m) (auto simp: nth_append)

lemma match_back_range: "match_back pat msg shift m < int m"
  by (induction m) auto

lemma horspool_loop_take:
  "horspool_loop msg (length msg) (take n pat) n table shift = horspool_loop (msg @ rest) (length msg) pat n table shift"
proof (induction "Suc (length msg) - shift" arbitrary: shift rule: less_induct)
  case less
  show ?case
  proof (cases "int shift \<le> int (length msg) - int n")
    case True
    then have range: "shift + n \<le> length msg" by linarith
    note eq = match_back_take [OF le_refl range, of pat rest]
    define k where "k = match_back pat (msg @ rest) shift n"
    have "k < int n" unfolding k_def by (rule match_back_range)
    then have "nat k < n" if "\<not> k < 0" using that by linarith
    then have c: "(msg @ rest) ! (shift + nat k) = msg ! (shift + nat k)" if "\<not> k < 0"
      using that range by (metis add_less_cancel_left le_eq_less_or_eq less_trans nth_append)
    define s' where "s' = shift + nat (max_horspool 1 (k - table ! nat (schar (msg ! (shift + nat k)))))"
    have "shift < s'" by (simp add: s'_def max_horspool_def)
    then have "Suc (length msg) - s' < Suc (length msg) - shift" using range by linarith
    from less.hyps [OF this] show ?thesis
      using True eq c
      by (subst (1 2) horspool_loop.simps) (simp add: Let_def flip: k_def s'_def)
  next
    case False
    then show ?thesis by (subst (1 2) horspool_loop.simps) simp
  qed
qed

lemma horspool_search_take:
  "horspool_search msg (length msg) (take n pat) n = horspool_search (msg @ rest) (length msg) pat n"
  using horspool_loop_take [of msg n pat _ 0 rest] by (simp add: horspool_search_def split: option.split)

lemma rk_hashes_take:
  "i + k \<le> n \<Longrightarrow> i + k \<le> length msg \<Longrightarrow>
   rk_hashes (take n pat) msg i k v w = rk_hashes pat (msg @ rest) i k v w"
proof (induction k arbitrary: i v w)
  case (Suc k)
  then show ?case using Suc.IH [of "Suc i"] by (simp add: nth_append cong: bind_option_cong)
qed simp

lemma rk_loop_take:
  "j + k + n \<le> length msg \<Longrightarrow> rk_loop (take n pat) msg n z v j k w = rk_loop pat (msg @ rest) n z v j k w"
proof (induction k arbitrary: j w)
  case (Suc k)
  then have "take n (drop j (msg @ rest)) = take n (drop j msg)" by simp
  then show ?case using Suc.IH [of "Suc j"] Suc.prems by (simp add: nth_append cong: bind_option_cong)
qed simp

lemma Rabin_Karp_search_take:
  assumes "n \<le> Suc (length msg)"
  shows "Rabin_Karp_search (msg @ [NUL]) (length msg) (take n pat) n =
    Rabin_Karp_search (msg @ NUL # rest) (length msg) pat n"
proof -
  have h: "rk_hashes (take n pat) (msg @ [NUL]) 0 n 0 0 = rk_hashes pat ((msg @ [NUL]) @ rest) 0 n 0 0"
    by (rule rk_hashes_take) (use assms in auto)
  have "rk_loop (take n pat) (msg @ [NUL]) n z v 0 (nat (int (length msg) - int n + 1)) w =
      rk_loop pat ((msg @ [NUL]) @ rest) n z v 0 (nat (int (length msg) - int n + 1)) w" for z v w
  proof (cases "n \<le> length msg")
    case True
    then show ?thesis by (intro rk_loop_take) simp
  next
    case False
    then have "nat (int (length msg) - int n + 1) = 0" by simp
    then show ?thesis by (simp only: rk_loop.simps)
  qed
  then show ?thesis using h by (simp add: Rabin_Karp_search_def Let_def)
qed

subsection \<open>What a list of rules finds\<close>

text \<open>The pattern of a rule: the line without its last two characters.\<close>

definition rule_pattern :: "string \<Rightarrow> string" where
  "rule_pattern line = take (min 2048 (length line) - 2) line"

definition rule_hits :: "string \<Rightarrow> string \<Rightarrow> bool" where
  "rule_hits msg line \<longleftrightarrow> 4 < length line \<and> sublist (rule_pattern line) msg"

text \<open>The domain of the algorithms: bytes the tables have entries for, hashes that fit.\<close>

definition rule_ok :: "int \<Rightarrow> string \<Rightarrow> string \<Rightarrow> bool" where
  "rule_ok option_algorithm msg line \<longleftrightarrow>
     (if option_algorithm = 1 then \<forall>c \<in> set msg. is_ascii c
      else if option_algorithm = 2 then (\<forall>c \<in> set line. is_ascii c) \<and> (\<forall>c \<in> set msg. is_ascii c)
      else option_algorithm = 3 \<and> length line \<le> 26 \<and> length line \<le> length msg + 3)"

lemma rule_test_decides:
  assumes "rule_ok option_algorithm msg line"
  shows "rule_test lib (msg @ NUL # rest) (length msg) option_algorithm line = Inr (rule_hits msg line)"
proof (cases "4 < length line")
  case True
  let ?n = "min 2048 (length line) - 2"
  have n: "length (rule_pattern line) = ?n" "rule_pattern line \<noteq> []" using True by (auto simp: rule_pattern_def)
  have ascii: "\<forall>c \<in> set (rule_pattern line). is_ascii c" if "\<forall>c \<in> set line. is_ascii c"
    using that by (auto simp: rule_pattern_def dest: in_set_takeD)
  consider "option_algorithm = 1" | "option_algorithm = 2" | "option_algorithm = 3"
    using assms unfolding rule_ok_def by metis
  then show ?thesis
  proof cases
    case 1
    then have "DFA_Search (rule_pattern line) ?n msg (length msg) = Some (sublist (rule_pattern line) msg)"
      using dfa_run_correct [OF n(2), of msg] assms n(1) by (simp add: rule_ok_def dfa_run_def)
    then show ?thesis
      using 1 True by (simp add: rule_test_def rule_hits_def rule_pattern_def DFA_Search_take [of _ _ _ "NUL # rest"])
  next
    case 2
    then have "horspool_search msg (length msg) (rule_pattern line) ?n = Some (sublist (rule_pattern line) msg)"
      using horspool_run_correct [OF ascii, of msg] assms n(1) by (simp add: rule_ok_def horspool_run_def)
    then show ?thesis
      using 2 True by (simp add: rule_test_def rule_hits_def rule_pattern_def horspool_search_take [of _ _ _ "NUL # rest"])
  next
    case 3
    then have len: "?n \<le> Suc (length msg)" "?n \<le> 24" using assms by (auto simp: rule_ok_def)
    then have "Rabin_Karp_search (msg @ [NUL]) (length msg) (rule_pattern line) ?n = Some (sublist (rule_pattern line) msg)"
      using rk_run_correct [of "rule_pattern line" msg] n(1) by (simp add: rk_run_def)
    then show ?thesis
      using 3 True by (simp add: rule_test_def rule_hits_def rule_pattern_def Rabin_Karp_search_take [OF len(1), of _ rest])
  qed
qed (simp add: rule_test_def rule_hits_def)

interpretation rules: line_test "rule_test lib (msg @ NUL # rest) (length msg) option_algorithm"
  "rule_hits msg" "rule_ok option_algorithm msg" for lib msg rest option_algorithm
  by unfold_locales (rule rule_test_decides)

lemma c_str_terminated [simp]: "c_str (c_str buf @ [NUL]) = c_str buf"
  by (simp add: c_str_id)

lemma matchlist_decides:
  assumes "lists_ok param" "option_algorithm \<noteq> 4"
    "\<forall>l \<in> set (lines_of (c_str (prm_match_rules param))). rule_ok option_algorithm msg l"
  shows "matchlist lib param (msg @ NUL # rest) (length msg) option_algorithm =
    Inr (\<exists>l \<in> set (lines_of (c_str (prm_match_rules param))). rule_hits msg l)"
  using rules.each_line_decides [of "c_str (prm_match_rules param) @ [NUL]" option_algorithm msg lib rest] assms
  by (auto simp: matchlist_def lists_ok_def)

section \<open>Properties\<close>

text \<open>Options to apply the properties to: one blocked address, one rule, no algorithm.\<close>

definition sample_choice :: choice where
  "sample_choice = \<lparr>prm_hostarg = None, prm_redirectarg = None, prm_logfile = None,
     prm_block_addr_list = ''10.0.0.1'' @ LF # ''10.0.0.2'' @ [NUL], prm_regex_rules = ''eval'' @ [NUL],
     prm_match_rules = ''union--'' @ [NUL], prm_debug = False, prm_libinjection_sqli = False,
     prm_libinjection_xss = False, prm_pcre = False, prm_option_algorithm = 1\<rparr>"

definition no_pcre :: "unit pcre_lib" where
  "no_pcre = \<lparr>pcre_compile = (\<lambda>_. None), pcre_exec = (\<lambda>_ _. 0)\<rparr>"

lemma sample_lines:
  "lines_of (c_str (prm_block_addr_list sample_choice)) = [''10.0.0.1'', ''10.0.0.2'']"
  "lines_of (c_str (prm_match_rules sample_choice)) = [''union--'']"
  "lists_ok sample_choice" "prm_option_algorithm sample_choice = 1" "\<not> prm_pcre sample_choice"
  by (simp_all add: sample_choice_def c_str_def lists_ok_def)

text \<open>C23. \<open>blocklist_ip\<close> forgets its list: whatever address the first call looks for, after it
  the list is cut behind its first line, so every later call finds an address only in that
  line, and each call leaves the list in this state.\<close>

theorem blocklist_forgets:
  assumes "NUL \<in> set (prm_block_addr_list param)" "blocklist_ip (Some addr) param = Inr (found, param1)"
  shows "(found \<longleftrightarrow> (\<exists>l \<in> set (lines_of (c_str (prm_block_addr_list param))). sublist addr (take 128 l))) \<and>
    (\<exists>param2. blocklist_ip (Some addr') param1 =
       Inr (\<exists>l \<in> set (take 1 (lines_of (c_str (prm_block_addr_list param)))). sublist addr' (take 128 l), param2) \<and>
     lines_of (c_str (prm_block_addr_list param2)) = take 1 (lines_of (c_str (prm_block_addr_list param))))"
proof -
  let ?ls = "lines_of (c_str (prm_block_addr_list param))"
  obtain buf where b: "blocklist_ip (Some addr) param = Inr (\<exists>l \<in> set ?ls. names_addr addr l, param\<lparr>prm_block_addr_list := buf\<rparr>)"
    "NUL \<in> set buf" "lines_of (c_str buf) = take 1 ?ls"
    using blocklist_ip_lines [OF assms(1)] by blast
  moreover obtain buf' where "blocklist_ip (Some addr') (param\<lparr>prm_block_addr_list := buf\<rparr>) =
      Inr (\<exists>l \<in> set (take 1 ?ls). names_addr addr' l, param\<lparr>prm_block_addr_list := buf'\<rparr>)"
    "lines_of (c_str buf') = take 1 (take 1 ?ls)"
    using blocklist_ip_lines [of "param\<lparr>prm_block_addr_list := buf\<rparr>" addr'] b by auto
  ultimately show ?thesis using assms(2) by (auto simp: names_addr_def)
qed

theorem blocklist_forgets_witness:
  "\<exists>param1 param2. blocklist_ip (Some ''10.0.0.2'') sample_choice = Inr (True, param1) \<and>
     blocklist_ip (Some ''10.0.0.2'') param1 = Inr (False, param2)"
proof -
  have nul: "NUL \<in> set (prm_block_addr_list sample_choice)" by (simp add: sample_choice_def)
  obtain found param1 where "blocklist_ip (Some ''10.0.0.2'') sample_choice = Inr (found, param1)"
    using blocklist_ip_lines [OF nul, of "''10.0.0.2''"] by blast
  then show ?thesis
    using blocklist_forgets [OF nul, of "''10.0.0.2''" found param1 "''10.0.0.2''"]
    by (auto simp: sample_lines sublist_code)
qed

text \<open>C22. \<open>matchlist\<close> with one of the three searches says whether a line of the rule list that is
  longer than four characters stands, without its last two characters, in the request: for
  texts and rules inside the domain of the search, and whatever follows the terminator of the
  request. So the three algorithms agree on it.\<close>

theorem matchlist_finds_rules:
  assumes "lists_ok param" "option_algorithm \<noteq> 4"
    "list_all (rule_ok option_algorithm msg) (lines_of (c_str (prm_match_rules param)))"
  shows "matchlist lib param (msg @ NUL # rest) (length msg) option_algorithm =
    Inr (list_ex (\<lambda>l. 4 < length l \<and> sublist (rule_pattern l) msg) (lines_of (c_str (prm_match_rules param))))"
  using matchlist_decides [OF assms(1,2), of msg lib rest] assms(3)
  by (simp add: list_all_iff list_ex_iff rule_hits_def)

theorem matchlist_finds_rules_witness:
  "matchlist no_pcre sample_choice (''GET /?q=1 union'' @ [NUL]) 15 1 =
    Inr (sublist ''union'' ''GET /?q=1 union'')"
  using matchlist_finds_rules [of sample_choice 1 "''GET /?q=1 union''" no_pcre "[]"]
  by (simp add: sample_lines rule_ok_def is_ascii_def rule_pattern_def numeral_nat)

end
