(* ===== verification/Log.thy ===== *)
theory Log
  imports Line_Loop
begin

text \<open>
  The log (\<open>log_make\<close> and \<open>write_log\<close> of \<open>file_ops.c\<close>). The file system is a map from names to
  contents; \<open>can_open\<close> says which files \<open>open\<close> and \<open>fdopen\<close> succeed for.
\<close>

definition write_log :: "(string \<Rightarrow> bool) \<Rightarrow> string \<Rightarrow> string \<Rightarrow> (string \<rightharpoonup> string) \<Rightarrow> stop + (string \<rightharpoonup> string)" where
  "write_log can_open logfile str fs =
     (if can_open logfile
      then Inr (fs(logfile \<mapsto> (case fs logfile of None \<Rightarrow> [] | Some old \<Rightarrow> old) @ str @ [LF]))
      else Inl Die)"

text \<open>The format of \<open>snprintf\<close>, and \<open>len_log\<close>; \<open>%s\<close> prints the strings up to their terminators.\<close>

definition log_text :: "string \<Rightarrow> string \<Rightarrow> string \<Rightarrow> string" where
  "log_text mode addr_ip data =
     ''Mode: '' @ c_str mode @ [LF] @ ''IP addr: '' @ c_str addr_ip @ [LF] @ ''Data: '' @ c_str data @ [LF]"

definition len_log :: "string \<Rightarrow> string \<Rightarrow> nat \<Rightarrow> nat" where
  "len_log mode addr_ip len_data = len_data + length (c_str addr_ip) + (25 + length (c_str mode))"

text \<open>\<open>data\<close> is the block of the request and what stands behind it. \<open>snprintf\<close> writes at most
  \<open>len_log\<close> bytes, the terminator included.\<close>

definition log_make :: "(string \<Rightarrow> bool) \<Rightarrow> string \<Rightarrow> string \<Rightarrow> string \<Rightarrow> string \<Rightarrow> nat \<Rightarrow>
    (string \<rightharpoonup> string) \<Rightarrow> stop + (string \<rightharpoonup> string)" where
  "log_make can_open logfile mode addr_ip data len_data fs =
     (if NUL \<notin> set mode \<or> NUL \<notin> set addr_ip \<or> NUL \<notin> set data then Inl Fault
      else
        let log_in = take (len_log mode addr_ip len_data - 1) (log_text mode addr_ip data) in
        write_log can_open logfile log_in fs)"

lemma log_text_cut:
  "take (len_log mode addr_ip len_data - 1) (log_text mode addr_ip data) =
     ''Mode: '' @ c_str mode @ [LF] @ ''IP addr: '' @ c_str addr_ip @ [LF] @ ''Data: '' @
     take (len_data + 1) (c_str data @ [LF])"
proof -
  define pre where "pre = ''Mode: '' @ c_str mode @ [LF] @ ''IP addr: '' @ c_str addr_ip @ [LF] @ ''Data: ''"
  have "len_log mode addr_ip len_data - 1 = length pre + (len_data + 1)" by (simp add: pre_def len_log_def)
  moreover have "log_text mode addr_ip data = pre @ c_str data @ [LF]" by (simp add: pre_def log_text_def)
  ultimately have "take (len_log mode addr_ip len_data - 1) (log_text mode addr_ip data) =
      pre @ take (len_data + 1) (c_str data @ [LF])" by simp
  then show ?thesis by (simp add: pre_def)
qed

definition contents :: "(string \<rightharpoonup> string) \<Rightarrow> string \<Rightarrow> string" where
  "contents fs name = (case fs name of None \<Rightarrow> [] | Some old \<Rightarrow> old)"

text \<open>A text that carries the end of its own record and the start of another.\<close>

definition forged_data :: "string \<Rightarrow> string \<Rightarrow> string \<Rightarrow> string \<Rightarrow> string" where
  "forged_data d1 m2 a2 d2 = d1 @ [LF, LF] @ ''Mode: '' @ m2 @ [LF] @ ''IP addr: '' @ a2 @ [LF] @ ''Data: '' @ d2"

section \<open>Properties\<close>

text \<open>A record in the log: the mode, the address, and of the data the first \<open>len_data + 1\<close>
  characters of the text and its line feed. So a text of \<open>len_data\<close> characters is logged in full
  with not a byte of the buffer left over; of a longer one, which the bytes of a request that has
  no terminator make, one byte more than the request is logged.\<close>

theorem log_make_writes:
  assumes "NUL \<in> set mode" "NUL \<in> set addr_ip" "NUL \<in> set data" "can_open logfile"
  shows "log_make can_open logfile mode addr_ip data len_data fs =
    Inr (fs(logfile \<mapsto> contents fs logfile @
      ''Mode: '' @ c_str mode @ [LF] @ ''IP addr: '' @ c_str addr_ip @ [LF] @ ''Data: '' @
      take (len_data + 1) (c_str data @ [LF]) @ [LF]))"
  using assms log_text_cut [of mode addr_ip len_data data]
  by (simp add: log_make_def write_log_def contents_def)

theorem log_make_writes_witness:
  "log_make (\<lambda>_. True) ''log'' (''m'' @ [NUL]) (''a'' @ [NUL]) (''GET'' @ ''!!'' @ [NUL]) 3 Map.empty =
    Inr [''log'' \<mapsto> ''Mode: m'' @ [LF] @ ''IP addr: a'' @ [LF] @ ''Data: GET!'' @ [LF]]"
  using log_make_writes [of "''m'' @ [NUL]" "''a'' @ [NUL]" "''GET'' @ ''!!'' @ [NUL]" "\<lambda>_. True" "''log''" 3 Map.empty]
  by (simp add: c_str_def contents_def numeral_nat)

text \<open>C40. Records can be forged: line feeds of the request go to the log as they are, so one request
  can leave the bytes that two requests from two addresses would have left.\<close>

theorem log_can_be_forged:
  assumes "NUL \<notin> set m2" "NUL \<notin> set a2" "NUL \<notin> set d1" "NUL \<notin> set d2" "NUL \<in> set m1" "NUL \<in> set a1"
    "can_open logfile"
  shows "log_make can_open logfile m1 a1 (forged_data d1 m2 a2 d2 @ [NUL]) (length (forged_data d1 m2 a2 d2)) fs =
    bind_run (log_make can_open logfile m1 a1 (d1 @ [NUL]) (length d1) fs)
      (log_make can_open logfile (m2 @ [NUL]) (a2 @ [NUL]) (d2 @ [NUL]) (length d2))"
proof -
  have cut: "take (length d + 1) (c_str (d @ [NUL]) @ [LF]) = d @ [LF]" if "NUL \<notin> set d" for d
    using that by (simp add: c_str_id)
  have entry: "log_make can_open logfile m a (d @ [NUL]) (length d) fs =
      Inr (fs(logfile \<mapsto> contents fs logfile @
        ''Mode: '' @ c_str m @ [LF] @ ''IP addr: '' @ c_str a @ [LF] @ ''Data: '' @ d @ [LF] @ [LF]))"
    if "NUL \<in> set m" "NUL \<in> set a" "NUL \<notin> set d" for m a d and fs :: "string \<rightharpoonup> string"
    using that assms(7) log_text_cut [of m a "length d" "d @ [NUL]"] unfolding cut [OF that(3)]
    by (simp add: log_make_def write_log_def contents_def)
  have forged: "NUL \<notin> set (forged_data d1 m2 a2 d2)" using assms(1-4) by (simp add: forged_data_def)
  show ?thesis using assms(1-6) unfolding entry [OF assms(5,6) forged]
    by (simp add: entry contents_def c_str_id) (simp add: forged_data_def)
qed

theorem log_can_be_forged_witness:
  "log_make (\<lambda>_. True) ''log'' (''m'' @ [NUL]) (''1.1.1.1'' @ [NUL])
     (forged_data ''x'' ''m'' ''2.2.2.2'' ''y'' @ [NUL]) (length (forged_data ''x'' ''m'' ''2.2.2.2'' ''y'')) Map.empty =
   bind_run (log_make (\<lambda>_. True) ''log'' (''m'' @ [NUL]) (''1.1.1.1'' @ [NUL]) (''x'' @ [NUL]) (length ''x'') Map.empty)
     (log_make (\<lambda>_. True) ''log'' (''m'' @ [NUL]) (''2.2.2.2'' @ [NUL]) (''y'' @ [NUL]) (length ''y''))"
  by (rule log_can_be_forged) simp_all

end
