(* ===== verification/Request_Filter.thy ===== *)
theory Request_Filter
  imports Rule_Lists Sqli_Decision Utils Validate Log
begin

text \<open>
  The decision on a request: \<open>libinjection_test_sqli\<close> (\<open>match_algorithms.c\<close>),
  \<open>split_and_check\<close> and \<open>filter_check\<close> (\<open>proxy.c\<close>), with the log it writes. The messages of the
  debug mode are output only and left out.

  \<open>filter_check\<close> copies the request into a block of exactly its length and then reads the block
  as a C string. What the loops read is therefore the request and the bytes that stand behind
  the block; if no terminator is in them either, the run is a \<open>Fault\<close>. \<open>is_request\<close> reads the second
  byte of the decoded text, which for an empty text stands behind its block of one byte. The
  bytes behind the two blocks are an argument, \<open>heap\<close>, and so is what \<open>bufferevent_get_addr\<close> gives.
\<close>

section \<open>The tests\<close>

text \<open>\<open>None\<close>, a failed assertion, does not happen; see \<open>sqli_test_returns\<close>.\<close>

definition libinjection_test_sqli :: "string \<Rightarrow> stop + bool" where
  "libinjection_test_sqli str =
     (case libinjection_is_sqli (libinjection_sqli_init (mem_of str) (length str) FLAG_NONE) of
        None \<Rightarrow> Inl Die
      | Some (issqli, state) \<Rightarrow> Inr issqli)"

definition is_attack :: "string \<Rightarrow> bool" where
  "is_attack line \<longleftrightarrow> libinjection_test_sqli line = Inr True"

lemma sqli_test_returns: "libinjection_test_sqli line = Inr (is_attack line)"
  using verdict_is_sqli [of "libinjection_sqli_init (mem_of line) (length line) FLAG_NONE"]
  by (auto simp: libinjection_test_sqli_def is_attack_def verdict_ok_def)

interpretation sqli_lines: line_test libinjection_test_sqli is_attack "\<lambda>_. True"
  by unfold_locales (rule sqli_test_returns)

text \<open>\<open>strtok\<close> works on the decoded request itself.\<close>

definition split_and_check :: "string \<Rightarrow> (string \<Rightarrow> stop + bool) \<Rightarrow> stop + (bool \<times> string)" where
  "split_and_check input lambda = each_line lambda input"

section \<open>\<open>filter_check\<close>\<close>

text \<open>What \<open>filter_check\<close> reads and changes besides its input: the global options, and the files.\<close>

record globals =
  glob_param :: choice
  glob_fs :: "string \<rightharpoonup> string"
  glob_can_open :: "string \<Rightarrow> bool"

text \<open>\<open>if (param.logfile) log_make(...)\<close> after a test that says \<open>matched\<close>; it starts with \<open>strlen(addr_ip)\<close>.\<close>

definition log_if :: "bool \<Rightarrow> string \<Rightarrow> string option \<Rightarrow> string \<Rightarrow> nat \<Rightarrow> globals \<Rightarrow> stop + globals" where
  "log_if matched mode addr_ip data len g =
     (if \<not> matched then Inr g
      else
        case prm_logfile (glob_param g) of
          None \<Rightarrow> Inr g
        | Some logfile \<Rightarrow>
            (case addr_ip of
               None \<Rightarrow> Inl Fault
             | Some addr \<Rightarrow>
                 bind_run (log_make (glob_can_open g) (c_str logfile) (mode @ [NUL]) (addr @ [NUL]) data len (glob_fs g))
                   (\<lambda>fs. Inr (g\<lparr>glob_fs := fs\<rparr>))))"

text \<open>The tests on an accepted request, in the decoded text \<open>tmpbuf\<close>; \<open>data\<close> is the request and
  what stands behind it.\<close>

definition filter_tests :: "'re pcre_lib \<Rightarrow> string option \<Rightarrow> string \<Rightarrow> nat \<Rightarrow> string \<Rightarrow> nat \<Rightarrow> globals \<Rightarrow>
    stop + (bool \<times> globals)" where
  "filter_tests lib addr_ip data len tmpbuf len_tmp g =
     (let param = glob_param g in
     bind_run (blocklist_ip addr_ip param) (\<lambda>(blocked, param).
     bind_run (log_if blocked ''Block per address'' addr_ip ('' '' @ [NUL]) 1 (g\<lparr>glob_param := param\<rparr>)) (\<lambda>g.
     bind_run (if prm_option_algorithm param \<noteq> 0
               then matchlist lib param tmpbuf len_tmp (prm_option_algorithm param)
               else Inr False) (\<lambda>matched.
     bind_run (log_if matched ''Algorithm match'' addr_ip data len g) (\<lambda>g.
     bind_run (if prm_libinjection_sqli param then split_and_check tmpbuf libinjection_test_sqli
               else Inr (False, tmpbuf)) (\<lambda>(sqli, tmpbuf).
     bind_run (log_if sqli ''Libinejction SQLi match'' addr_ip data len g) (\<lambda>g.
     bind_run (if prm_pcre param then matchlist lib param tmpbuf len_tmp 4 else Inr False) (\<lambda>regex.
     bind_run (log_if regex ''Lib PCRE match per regex'' addr_ip data len g) (\<lambda>g.
     Inr (blocked \<or> matched \<or> sqli \<or> regex, g))))))))))"

text \<open>The bytes behind the block of the request, and behind the block of the decoded text.\<close>

type_synonym heap = "string \<times> string"

abbreviation zeros :: heap where
  "zeros \<equiv> ([NUL], [NUL])"

text \<open>The result of \<open>bufferevent_get_addr\<close>, see \<open>Peer_Address\<close>: it can fault, and it can be \<open>NULL\<close>.\<close>

type_synonym peer_addr = "stop + string option"

definition filter_check :: "'re pcre_lib \<Rightarrow> peer_addr \<Rightarrow> heap \<Rightarrow> string \<Rightarrow> globals \<Rightarrow> stop + (bool \<times> globals)" where
  "filter_check lib get_addr behind data g =
     bind_run get_addr (\<lambda>addr_ip.
      if NUL \<notin> set (data @ fst behind) then Inl Fault
      else
        let str = c_str (data @ fst behind) in
        bind_run (of_option (urldecode str (min 6128 (length str)))) (\<lambda>tmpbuf.
        let len_tmp = min 6128 (length (c_str tmpbuf)) in
        bind_run (of_option (is_request (tmpbuf @ snd behind))) (\<lambda>request.
        if request then filter_tests lib addr_ip (data @ fst behind) (length data) tmpbuf len_tmp g
        else Inr (False, g))))"

section \<open>What the filter lets through\<close>

text \<open>The text the tests see: decoded, up to the first terminator.\<close>

definition seen :: "string \<Rightarrow> string" where
  "seen data = c_str (decoded (c_str data) @ [NUL])"

lemma seen_object: "\<exists>rest. decoded (c_str data) @ [NUL] = seen data @ NUL # rest"
  using c_str_split [of "decoded (c_str data) @ [NUL]"] by (auto simp: seen_def)

lemma seen_no_NUL [simp]: "NUL \<notin> set (seen data)"
  by (simp add: seen_def)

text \<open>\<open>is_request\<close> on a string that is not empty depends on the string only.\<close>

lemma is_request_seen:
  assumes "NUL \<notin> set s" "s \<noteq> []"
  shows "is_request (s @ NUL # rest) = is_request (s @ [NUL])"
proof -
  obtain c s' where s: "s = c # s'" using assms(2) by (cases s) auto
  have n: "c_strnlen (s @ NUL # rest) 12 = Some (min 12 (length s))" for rest
    using assms(1) by (rule c_strnlen_terminated)
  have starts: "starts_with (s @ NUL # rest) w = Some (prefix w s)" if "length w \<le> 6" "10 \<le> length s" for w rest
    using that by (simp add: starts_with_def prefix_take)
  show ?thesis
  proof (cases "length s < 10")
    case True
    then show ?thesis using n [of rest] n [of "[]"] s by (simp add: is_request_def nth_Cons' nth_append)
  next
    case False
    then have "\<not> min 12 (length s) < 10" "length s \<noteq> 1" by auto
    then show ?thesis
      using False s n [of rest] n [of "[]"] starts [of _ rest] starts [of _ "[]"]
      by (simp add: is_request_def nth_append)
  qed
qed

definition accepted :: "string \<Rightarrow> bool" where
  "accepted s \<longleftrightarrow> 10 \<le> length s \<and> s ! 1 \<noteq> CHR '' '' \<and> request_method s"

text \<open>The request fits the buffer it is decoded into.\<close>

definition fits :: "string \<Rightarrow> bool" where
  "fits str \<longleftrightarrow> NUL \<in> set str \<and> length (decoded (c_str str)) \<le> 6128"

lemma fits_urldecode:
  "fits str \<Longrightarrow> urldecode (c_str str) (min 6128 (length (c_str str))) = Some (decoded (c_str str) @ [NUL])"
  using length_decoded [of "c_str str"] by (simp add: fits_def urldecode_spec)

lemma fits_seen:
  assumes "fits str"
  shows "min 6128 (length (seen str)) = length (seen str)"
proof -
  obtain rest where "decoded (c_str str) @ [NUL] = seen str @ NUL # rest" using seen_object by blast
  from arg_cong [OF this, of length] have "length (seen str) \<le> length (decoded (c_str str))" by simp
  then show ?thesis using assms by (simp add: fits_def)
qed

lemma is_request_accepted:
  assumes "s \<noteq> []" "NUL \<notin> set s"
  shows "is_request (s @ NUL # rest) = Some (accepted s)"
  using is_request_seen [OF assms(2,1)] is_request_string [OF assms(2,1)] by (simp add: accepted_def)

lemma is_request_empty: "after \<noteq> [] \<Longrightarrow> is_request (NUL # after) = Some False"
  by (cases after) (auto simp: is_request_def c_strnlen_def)

lemma filter_check_other:
  assumes "fits (data @ behind)" "\<not> accepted (seen (data @ behind))" "seen (data @ behind) \<noteq> [] \<or> after \<noteq> []"
  shows "filter_check lib (Inr addr) (behind, after) data g = Inr (False, g)"
proof -
  obtain rest where obj: "decoded (c_str (data @ behind)) @ [NUL] = seen (data @ behind) @ NUL # rest"
    using seen_object by blast
  have "is_request ((seen (data @ behind) @ NUL # rest) @ after) = Some False"
    using is_request_accepted [OF _ seen_no_NUL, of "data @ behind" "rest @ after"]
      is_request_empty [of "rest @ after"] assms(2,3)
    by (cases "seen (data @ behind) = []") auto
  moreover have "NUL \<in> set (data @ behind)" using assms(1) by (simp add: fits_def)
  ultimately show ?thesis
    unfolding filter_check_def Let_def fst_conv snd_conv fits_urldecode [OF assms(1)] obj by simp
qed

definition rules_ok :: "choice \<Rightarrow> string \<Rightarrow> bool" where
  "rules_ok param msg \<longleftrightarrow> lists_ok param \<and> prm_option_algorithm param \<in> {0, 1, 2, 3} \<and>
     (prm_option_algorithm param = 0 \<or>
      list_all (rule_ok (prm_option_algorithm param) msg) (lines_of (c_str (prm_match_rules param))))"

definition rule_found :: "choice \<Rightarrow> string \<Rightarrow> bool" where
  "rule_found param msg \<longleftrightarrow> prm_option_algorithm param \<noteq> 0 \<and>
     (\<exists>l \<in> set (lines_of (c_str (prm_match_rules param))). rule_hits msg l)"

definition sqli_found :: "choice \<Rightarrow> string \<Rightarrow> bool" where
  "sqli_found param msg \<longleftrightarrow> prm_libinjection_sqli param \<and> (\<exists>l \<in> set (lines_of msg). is_attack l)"

definition addr_found :: "string \<Rightarrow> choice \<Rightarrow> bool" where
  "addr_found addr param \<longleftrightarrow> (\<exists>l \<in> set (lines_of (c_str (prm_block_addr_list param))). names_addr addr l)"

lemma matchlist_found:
  assumes "rules_ok param msg" "p = param\<lparr>prm_block_addr_list := buf\<rparr>"
  shows "(if prm_option_algorithm p \<noteq> 0
     then matchlist lib p (msg @ NUL # rest) (length msg) (prm_option_algorithm p)
     else Inr False) = Inr (rule_found param msg)"
proof (cases "prm_option_algorithm param = 0")
  case False
  have "lists_ok (param\<lparr>prm_block_addr_list := buf @ [NUL]\<rparr>)"
    using assms by (simp add: rules_ok_def lists_ok_def)
  moreover have "matchlist lib (param\<lparr>prm_block_addr_list := b\<rparr>) = matchlist lib param" for b
    by (simp add: matchlist_def fun_eq_iff)
  ultimately show ?thesis
    using assms False matchlist_decides [of "param\<lparr>prm_block_addr_list := buf @ [NUL]\<rparr>" _ msg lib rest]
    by (auto simp: rules_ok_def rule_found_def list_all_iff)
qed (simp add: rule_found_def assms(2))

lemma split_found:
  assumes "NUL \<notin> set msg"
  shows "\<exists>buf. (if prm_libinjection_sqli param then split_and_check (msg @ NUL # rest) libinjection_test_sqli
     else Inr (False, msg @ NUL # rest)) = Inr (sqli_found param msg, buf)"
  using sqli_lines.each_line_decides [of "msg @ NUL # rest"] assms
  by (auto simp: split_and_check_def sqli_found_def c_str_id)

text \<open>The log file can be opened, if one is asked for. What a log entry changes.\<close>

definition can_log :: "globals \<Rightarrow> bool" where
  "can_log g \<longleftrightarrow> (case prm_logfile (glob_param g) of None \<Rightarrow> True | Some logfile \<Rightarrow> glob_can_open g (c_str logfile))"

lemma log_if_returns:
  assumes "can_log (g\<lparr>glob_param := p\<rparr>)" "NUL \<in> set data"
  obtains fs' where
    "log_if matched mode (Some addr) data len (g\<lparr>glob_param := p, glob_fs := fs\<rparr>) = Inr (g\<lparr>glob_param := p, glob_fs := fs'\<rparr>)"
    "fs' \<noteq> fs \<Longrightarrow> matched \<and> prm_logfile p \<noteq> None"
proof (cases "matched \<and> prm_logfile p \<noteq> None")
  case True
  then obtain f where f: "prm_logfile p = Some f" "matched" by auto
  then have "glob_can_open g (c_str f)" using assms(1) by (simp add: can_log_def)
  then show thesis using that f assms(2) by (simp add: log_if_def log_make_def write_log_def Let_def)
next
  case False
  then show thesis using that [of fs] by (auto simp: log_if_def)
qed

text \<open>The verdict, with PCRE off, in terms of the text the tests see.\<close>

definition found :: "string \<Rightarrow> choice \<Rightarrow> string \<Rightarrow> bool" where
  "found addr param msg \<longleftrightarrow> addr_found addr param \<or> rule_found param msg \<or> sqli_found param msg"

lemma filter_tests_decides:
  assumes "NUL \<in> set data" "NUL \<notin> set msg" "rules_ok (glob_param g) msg" "\<not> prm_pcre (glob_param g)" "can_log g"
  defines "param \<equiv> glob_param g"
  shows "\<exists>buf fs. filter_tests lib (Some addr) data len (msg @ NUL # rest) (length msg) g =
      Inr (found addr param msg, g\<lparr>glob_param := param\<lparr>prm_block_addr_list := buf\<rparr>, glob_fs := fs\<rparr>) \<and>
    NUL \<in> set buf \<and> lines_of (c_str buf) = take 1 (lines_of (c_str (prm_block_addr_list param))) \<and>
    (found addr param msg \<and> prm_logfile param \<noteq> None \<or> fs = glob_fs g)"
proof -
  have "NUL \<in> set (prm_block_addr_list param)" using assms(3) by (simp add: rules_ok_def lists_ok_def param_def)
  then obtain buf where b: "blocklist_ip (Some addr) param = Inr (addr_found addr param, param\<lparr>prm_block_addr_list := buf\<rparr>)"
    "NUL \<in> set buf" "lines_of (c_str buf) = take 1 (lines_of (c_str (prm_block_addr_list param)))"
    using blocklist_ip_lines by (auto simp: addr_found_def)
  define p where "p = param\<lparr>prm_block_addr_list := buf\<rparr>"
  have p: "prm_pcre p = False" "prm_libinjection_sqli p = prm_libinjection_sqli param" "prm_logfile p = prm_logfile param"
    using assms(4) by (simp_all add: p_def param_def)
  have log: "can_log (g\<lparr>glob_param := p\<rparr>)" using assms(5) by (auto simp: can_log_def p_def param_def split: option.splits)
  have space: "NUL \<in> set ('' '' @ [NUL])" by simp
  note log1 = log_if_returns [OF log space] and log2 = log_if_returns [OF log assms(1)]
  have g0: "g\<lparr>glob_param := p, glob_fs := glob_fs g\<rparr> = g\<lparr>glob_param := p\<rparr>" by simp
  have rules: "rules_ok param msg" using assms(3) by (simp add: param_def)
  obtain f1 where f1: "log_if (addr_found addr param) ''Block per address'' (Some addr) ('' '' @ [NUL]) 1 (g\<lparr>glob_param := p\<rparr>) =
      Inr (g\<lparr>glob_param := p, glob_fs := f1\<rparr>)" "f1 \<noteq> glob_fs g \<Longrightarrow> addr_found addr param \<and> prm_logfile p \<noteq> None"
    using log1 [of "addr_found addr param" "''Block per address''" addr 1 "glob_fs g"] unfolding g0 by blast
  obtain f2 where f2: "log_if (rule_found param msg) ''Algorithm match'' (Some addr) data len (g\<lparr>glob_param := p, glob_fs := f1\<rparr>) =
      Inr (g\<lparr>glob_param := p, glob_fs := f2\<rparr>)" "f2 \<noteq> f1 \<Longrightarrow> rule_found param msg \<and> prm_logfile p \<noteq> None"
    using log2 [of "rule_found param msg" "''Algorithm match''" addr len f1] by blast
  obtain f3 where f3: "log_if (sqli_found param msg) ''Libinejction SQLi match'' (Some addr) data len (g\<lparr>glob_param := p, glob_fs := f2\<rparr>) =
      Inr (g\<lparr>glob_param := p, glob_fs := f3\<rparr>)" "f3 \<noteq> f2 \<Longrightarrow> sqli_found param msg \<and> prm_logfile p \<noteq> None"
    using log2 [of "sqli_found param msg" "''Libinejction SQLi match''" addr len f2] by blast
  have f4: "log_if False mode (Some addr) data len h = Inr h" for mode h by (simp add: log_if_def)
  obtain t where t: "(if prm_libinjection_sqli p then split_and_check (msg @ NUL # rest) libinjection_test_sqli
      else Inr (False, msg @ NUL # rest)) = Inr (sqli_found param msg, t)"
    using split_found [OF assms(2), of param rest] p(2) by auto
  note m = matchlist_found [OF rules p_def, of lib rest]
  have "filter_tests lib (Some addr) data len (msg @ NUL # rest) (length msg) g =
      Inr (found addr param msg, g\<lparr>glob_param := p, glob_fs := f3\<rparr>)"
    using b(1) f1(1) m f2(1) t f3(1)
    by (simp add: filter_tests_def Let_def p(1) f4 found_def flip: param_def p_def)
  moreover have "found addr param msg \<and> prm_logfile param \<noteq> None \<or> f3 = glob_fs g"
    using f1(2) f2(2) f3(2) p(3) by (auto simp: found_def)
  ultimately show ?thesis using b(2,3) unfolding p_def by blast
qed

lemma filter_check_accepted:
  assumes "fits (data @ behind)" "accepted (seen (data @ behind))"
  obtains rest where "filter_check lib (Inr addr) (behind, after) data g =
    filter_tests lib addr (data @ behind) (length data) (seen (data @ behind) @ NUL # rest) (length (seen (data @ behind))) g"
proof -
  define msg where "msg = seen (data @ behind)"
  obtain rest where obj: "decoded (c_str (data @ behind)) @ [NUL] = msg @ NUL # rest"
    unfolding msg_def using seen_object by blast
  have msg: "msg \<noteq> []" "NUL \<notin> set msg" using assms(2) by (auto simp: msg_def accepted_def)
  have len: "min 6128 (length (c_str (msg @ NUL # rest))) = length msg"
    using fits_seen [OF assms(1)] by (simp add: c_str_id msg(2) flip: msg_def)
  have nul: "NUL \<in> set (data @ behind)" using assms(1) by (simp add: fits_def)
  have "filter_check lib (Inr addr) (behind, after) data g =
      filter_tests lib addr (data @ behind) (length data) (msg @ NUL # rest) (length msg) g"
    using is_request_accepted [OF msg, of "rest @ after"] assms(2) nul
    unfolding filter_check_def Let_def fst_conv snd_conv fits_urldecode [OF assms(1)] obj msg_def [symmetric]
    by (simp add: len)
  then show thesis by (rule that [folded msg_def])
qed

lemma filter_check_decides:
  assumes "fits (data @ behind)" "accepted (seen (data @ behind))" "rules_ok (glob_param g) (seen (data @ behind))"
    "\<not> prm_pcre (glob_param g)" "can_log g"
  defines "msg \<equiv> seen (data @ behind)" and "param \<equiv> glob_param g"
  shows "\<exists>buf fs. filter_check lib (Inr (Some addr)) (behind, after) data g =
      Inr (found addr param msg, g\<lparr>glob_param := param\<lparr>prm_block_addr_list := buf\<rparr>, glob_fs := fs\<rparr>) \<and>
    NUL \<in> set buf \<and> lines_of (c_str buf) = take 1 (lines_of (c_str (prm_block_addr_list param))) \<and>
    (found addr param msg \<and> prm_logfile param \<noteq> None \<or> fs = glob_fs g)"
proof -
  have nul: "NUL \<in> set (data @ behind)" using assms(1) by (simp add: fits_def)
  have msg: "NUL \<notin> set msg" by (simp add: msg_def)
  obtain rest where "filter_check lib (Inr (Some addr)) (behind, after) data g =
      filter_tests lib (Some addr) (data @ behind) (length data) (msg @ NUL # rest) (length msg) g"
    unfolding msg_def by (rule filter_check_accepted [OF assms(1,2)])
  then show ?thesis
    using filter_tests_decides [OF nul msg _ assms(4,5), of lib addr "length data" rest] assms(3)
    unfolding msg_def param_def by simp
qed

section \<open>Properties\<close>

lemma decoded_plain:
  "list_all (\<lambda>c. c \<noteq> CHR ''%'' \<and> c \<noteq> CHR ''+'') pre \<Longrightarrow> decoded (pre @ s) = pre @ decoded s"
  by (induction pre) auto

lemma decoded_zero: "decoded (''%00'' @ s) = NUL # decoded s"
proof -
  have zero: "to_char 0 = NUL" using to_char_schar [of NUL] by simp
  then have "from_hex (CHR ''0'') = NUL" by (simp add: from_hex_def isdigit_def schar_def)
  then show ?thesis using zero by simp
qed

lemma c_str_append_terminated: "NUL \<notin> set s \<Longrightarrow> c_str (s @ NUL # rest) = s"
  by (rule c_str_id)

text \<open>C2. The verdict of \<open>filter_check\<close>, with PCRE off and the rules in the domain of the chosen
  search: an accepted request that fits the decoding buffer is blocked exactly when its address
  is in a line of the block list, or a rule stands in the text, or libinjection takes a line of
  the text for an attack. The text is the decoded request up to the first terminator. Of the
  block list the call leaves the first line, and without an attack or a log file nothing is
  written to a file.\<close>

theorem filter_check_verdict:
  assumes "fits (data @ behind)" "accepted (seen (data @ behind))" "rules_ok (glob_param g) (seen (data @ behind))"
    "\<not> prm_pcre (glob_param g)" "can_log g"
  shows "\<exists>attack g'. filter_check lib (Inr (Some addr)) (behind, after) data g = Inr (attack, g') \<and>
    (attack \<longleftrightarrow>
       list_ex (\<lambda>l. sublist addr (take 128 l)) (lines_of (c_str (prm_block_addr_list (glob_param g)))) \<or>
       prm_option_algorithm (glob_param g) \<noteq> 0 \<and>
         list_ex (rule_hits (seen (data @ behind))) (lines_of (c_str (prm_match_rules (glob_param g)))) \<or>
       prm_libinjection_sqli (glob_param g) \<and>
         list_ex (\<lambda>l. libinjection_test_sqli l = Inr True) (lines_of (seen (data @ behind)))) \<and>
    lines_of (c_str (prm_block_addr_list (glob_param g'))) = take 1 (lines_of (c_str (prm_block_addr_list (glob_param g)))) \<and>
    (glob_fs g' \<noteq> glob_fs g \<longrightarrow> attack \<and> prm_logfile (glob_param g) \<noteq> None)"
  using filter_check_decides [OF assms, of lib addr after]
  by (auto simp: found_def list_ex_iff addr_found_def names_addr_def rule_found_def sqli_found_def is_attack_def)

lemma sample_request:
  assumes "NUL \<notin> set s" "length s \<le> 6128" "list_all (\<lambda>c. c \<noteq> CHR ''%'' \<and> c \<noteq> CHR ''+'') s"
  shows "fits (s @ NUL # rest)" "seen (s @ NUL # rest) = s"
  using decoded_plain [OF assms(3), of "[]"] assms
  by (simp_all add: fits_def seen_def c_str_id)

text \<open>The sample options, with no files.\<close>

definition sample_globals :: globals where
  "sample_globals = \<lparr>glob_param = sample_choice, glob_fs = Map.empty, glob_can_open = (\<lambda>_. True)\<rparr>"

lemma sample_globals_simps [simp]:
  "glob_param sample_globals = sample_choice" "glob_fs sample_globals = Map.empty" "can_log sample_globals"
  by (simp_all add: sample_globals_def can_log_def sample_choice_def)

theorem filter_check_verdict_witness:
  "\<exists>g'. filter_check no_pcre (Inr (Some ''10.0.0.2'')) zeros ''GET /index.html'' sample_globals = Inr (True, g')"
proof -
  have s: "fits (''GET /index.html'' @ [NUL])" "seen (''GET /index.html'' @ [NUL]) = ''GET /index.html''"
    by (rule sample_request; simp)+
  have "accepted ''GET /index.html''" by (simp add: accepted_def request_method_def)
  moreover have "rules_ok sample_choice ''GET /index.html''" "\<not> prm_pcre sample_choice"
    using sample_lines by (simp_all add: rules_ok_def rule_ok_def is_ascii_def)
  ultimately show ?thesis
    using filter_check_verdict [of "''GET /index.html''" "[NUL]" sample_globals no_pcre "''10.0.0.2''" "[NUL]"] s
    by (auto simp: sample_lines sublist_code)
qed



text \<open>C29. An encoded terminator blinds the filter: what stands behind \<open>%00\<close> in a request, an
  attack or a rule's text, has no influence on the verdict, which is the one of the request cut
  there. This is for a request whose part before \<open>%00\<close> has no \<open>%\<close> and no \<open>+\<close> and is an accepted
  request by itself, from a client whose address can be read, with a text of that part in the domain of the chosen search (\<open>rules_ok\<close>), and
  which without \<open>%00\<close> has no NUL byte and is shorter than 6128 bytes; with a terminator behind the copied block, the
  PCRE rules off, and a log that is off or can be opened.\<close>

theorem filter_check_blind_after_zero:
  assumes "list_all (\<lambda>c. c \<noteq> CHR ''%'' \<and> c \<noteq> CHR ''+'') pre" "NUL \<notin> set (pre @ tail)"
    "length (pre @ tail) < 6128" "accepted pre" "rules_ok (glob_param g) pre" "\<not> prm_pcre (glob_param g)" "can_log g"
  shows "\<exists>attack g1 g2. filter_check lib (Inr (Some addr)) zeros (pre @ ''%00'' @ tail) g = Inr (attack, g1) \<and>
    filter_check lib (Inr (Some addr)) zeros pre g = Inr (attack, g2)"
proof -
  let ?long = "(pre @ ''%00'' @ tail) @ [NUL]"
  have cs: "c_str ?long = pre @ ''%00'' @ tail"
    using assms(2) c_str_id [of "pre @ ''%00'' @ tail" "[]"] by simp
  have dec: "decoded (c_str ?long) = pre @ NUL # decoded tail"
    unfolding cs decoded_plain [OF assms(1)] decoded_zero by simp
  have long: "fits ?long" "seen ?long = pre"
    using length_decoded [of tail] assms(2,3) c_str_id [of pre "decoded tail @ [NUL]"]
    unfolding fits_def seen_def dec by simp_all
  have short: "fits (pre @ [NUL])" "seen (pre @ [NUL]) = pre"
    using sample_request [of pre "[]"] assms(1-3) by simp_all
  show ?thesis
    using filter_check_decides [OF long(1), of g lib addr "[NUL]"] filter_check_decides [OF short(1), of g lib addr "[NUL]"]
      assms(4-7) unfolding long(2) short(2) by auto
qed

theorem filter_check_blind_after_zero_witness:
  "\<exists>attack g1 g2. filter_check no_pcre (Inr (Some ''10.0.0.9'')) zeros (''GET /?q=12'' @ ''%00'' @ ''union select'') sample_globals = Inr (attack, g1) \<and>
     filter_check no_pcre (Inr (Some ''10.0.0.9'')) zeros ''GET /?q=12'' sample_globals = Inr (attack, g2)"
  using sample_lines
  by (intro filter_check_blind_after_zero)
    (simp_all add: accepted_def request_method_def rules_ok_def rule_ok_def is_ascii_def)

text \<open>C31. \<open>filter_check\<close> on no bytes, which is what it gets when a connection ends with no unread
  input, judges bytes that are not its own: the block of the copied request is empty, and the first
  byte that is read stands behind it. With no terminator behind it, the run is an access outside an
  object. If the first byte there is a terminator, the decoded text is empty and one byte behind its
  block is read: with nothing there the run is an access outside an object, with any byte there the
  verdict is no. And if what stands there is an accepted request, say of another connection, then
  the verdict is the one on this request, for a client whose address can be read and within the
  limits the other verdicts have (\<open>fits\<close>, \<open>rules_ok\<close>, the PCRE rules off, \<open>can_log\<close>).\<close>

theorem filter_check_reads_behind_empty:
  "(NUL \<notin> set behind \<longrightarrow> filter_check lib (Inr addr) (behind, after) [] g = Inl Fault) \<and>
   filter_check lib (Inr addr) (NUL # behind, []) [] g = Inl Fault \<and>
   filter_check lib (Inr addr) (NUL # behind, c # after) [] g = Inr (False, g) \<and>
   (fits behind \<and> accepted (seen behind) \<and> rules_ok (glob_param g) (seen behind) \<and> \<not> prm_pcre (glob_param g) \<and> can_log g \<longrightarrow>
     (\<exists>g'. filter_check lib (Inr (Some a)) (behind, after) [] g = Inr (found a (glob_param g) (seen behind), g')))"
proof (intro conjI impI)
  show "filter_check lib (Inr addr) (behind, after) [] g = Inl Fault" if "NUL \<notin> set behind"
    using that by (simp add: filter_check_def)
  have empty: "fits ([] @ NUL # behind)" "seen ([] @ NUL # behind) = []"
    by (simp_all add: fits_def seen_def c_str_def)
  then show "filter_check lib (Inr addr) (NUL # behind, c # after) [] g = Inr (False, g)"
    by (intro filter_check_other) (simp_all add: accepted_def)
  have "c_str ([] @ NUL # behind) = []" by (simp add: c_str_def)
  then show "filter_check lib (Inr addr) (NUL # behind, []) [] g = Inl Fault"
    using fits_urldecode [OF empty(1)] by (simp add: filter_check_def is_request_def)
  show "\<exists>g'. filter_check lib (Inr (Some a)) (behind, after) [] g = Inr (found a (glob_param g) (seen behind), g')"
    if "fits behind \<and> accepted (seen behind) \<and> rules_ok (glob_param g) (seen behind) \<and> \<not> prm_pcre (glob_param g) \<and> can_log g"
    using that filter_check_decides [of "[]" behind g lib a after] by auto
qed

theorem filter_check_reads_behind_empty_witness:
  "filter_check no_pcre (Inr None) ([], []) [] sample_globals = Inl Fault \<and>
   (\<exists>g'. filter_check no_pcre (Inr (Some ''10.0.0.2'')) (''GET /index.html'' @ [NUL], []) [] sample_globals = Inr (True, g'))"
proof -
  have s: "fits (''GET /index.html'' @ [NUL])" "seen (''GET /index.html'' @ [NUL]) = ''GET /index.html''"
    by (rule sample_request; simp)+
  have a: "accepted ''GET /index.html''" by (simp add: accepted_def request_method_def)
  have r: "rules_ok sample_choice ''GET /index.html''" "\<not> prm_pcre sample_choice" "found ''10.0.0.2'' sample_choice ''GET /index.html''"
    using sample_lines by (simp_all add: rules_ok_def rule_ok_def is_ascii_def found_def addr_found_def names_addr_def sublist_code)
  show ?thesis
    using filter_check_reads_behind_empty [of "[]" no_pcre None "[]" sample_globals]
      filter_check_reads_behind_empty [of "''GET /index.html'' @ [NUL]" no_pcre None "[]" sample_globals _ "''10.0.0.2''"] s a r
    by (simp del: append_Cons append_Nil)
qed

end
