(* ===== verification/Query_Blind.thy ===== *)
theory Query_Blind
  imports Request_Filter Sqli_Blind
begin



section \<open>Properties\<close>




end
