(* ===== verification/Peer_Address.thy ===== *)
theory Peer_Address
  imports Request_Filter
begin

text \<open>
  The address of the peer as text: \<open>addr_2_str\<close> and \<open>bufferevent_get_addr\<close> of \<open>proxy.c\<close>. A
  \<open>struct sockaddr\<close> is its bytes: two of the family, then, for IPv4, two of the port and four of
  the address, and for IPv6 two of the port, four of the flow and sixteen of the address
  (little-endian Linux). The text of an IPv4 address is the one POSIX gives for \<open>inet_ntop\<close>, the
  text of an IPv6 address is an argument. \<open>filter_check\<close> takes the result of
  \<open>bufferevent_get_addr\<close> as it is: a fault, \<open>NULL\<close>, or the text.
\<close>

section \<open>The text of an address\<close>

definition digit :: "nat \<Rightarrow> char" where
  "digit n = char_of (48 + n)"

fun decimal :: "nat \<Rightarrow> string" where
  "decimal n = (if n < 10 then [digit n] else decimal (n div 10) @ [digit (n mod 10)])"

declare decimal.simps [simp del]

fun dotted :: "string \<Rightarrow> string" where
  "dotted [] = []"
| "dotted [c] = decimal (of_char c)"
| "dotted (c # cs) = decimal (of_char c) @ CHR ''.'' # dotted cs"

definition AF_INET :: nat where "AF_INET = 2"
definition AF_INET6 :: nat where "AF_INET6 = 10"

definition sa_family :: "string \<Rightarrow> nat" where
  "sa_family obj = of_char (obj ! 0) + 256 * of_char (obj ! 1)"

text \<open>\<open>NULL\<close>, here \<open>None\<close>, for every other family.\<close>

definition addr_2_str :: "(string \<Rightarrow> string) \<Rightarrow> string \<Rightarrow> stop + string option" where
  "addr_2_str ntop6 res =
     (if length res < 2 then Inl Fault
      else if sa_family res = AF_INET then
        (if length res < 8 then Inl Fault else Inr (Some (dotted (take 4 (drop 4 res)))))
      else if sa_family res = AF_INET6 then
        (if length res < 24 then Inl Fault else Inr (Some (ntop6 (take 16 (drop 8 res)))))
      else Inr None)"

text \<open>
  \<open>getpeername\<close> writes what fits into the \<open>struct sockaddr\<close> of 16 bytes; if it fails
  (\<open>peer = None\<close>) the object keeps what was on the stack, \<open>junk\<close>: its result is not looked at.
\<close>

definition bufferevent_get_addr :: "(string \<Rightarrow> string) \<Rightarrow> string option \<Rightarrow> string \<Rightarrow> stop + string option" where
  "bufferevent_get_addr ntop6 peer junk =
     addr_2_str ntop6 (case peer of None \<Rightarrow> junk | Some a \<Rightarrow> take 16 a @ drop (length a) junk)"

section \<open>Decimal numbers\<close>

lemma of_char_digit: "n < 10 \<Longrightarrow> of_char (digit n) = 48 + n"
  by (simp add: digit_def)

lemma digit_inject: "m < 10 \<Longrightarrow> n < 10 \<Longrightarrow> digit m = digit n \<longleftrightarrow> m = n"
  by (metis add_left_cancel of_char_digit)

lemma digit_not_dot: "n < 10 \<Longrightarrow> digit n \<noteq> CHR ''.''"
  by (auto dest: arg_cong [of _ _ "of_char :: char \<Rightarrow> nat"] simp: of_char_digit)

lemma decimal_digits: "c \<in> set (decimal n) \<Longrightarrow> \<exists>d<10. c = digit d"
proof (induction n rule: decimal.induct)
  case (1 n)
  have "n mod 10 < 10" by simp
  moreover have "c = digit (n mod 10) \<or> \<not> n < 10 \<and> c \<in> set (decimal (n div 10))"
    using 1(2) by (auto simp: decimal.simps [of n] split: if_splits)
  ultimately show ?case using 1(1) by blast
qed

lemma decimal_not_dot [simp]: "CHR ''.'' \<notin> set (decimal n)"
  using decimal_digits digit_not_dot by fastforce

lemma decimal_not_empty [simp]: "decimal n \<noteq> []"
  by (simp add: decimal.simps [of n])

text \<open>The value of a text of digits: the text can be read back.\<close>

definition value_of :: "string \<Rightarrow> nat" where
  "value_of s = foldl (\<lambda>n c. 10 * n + (of_char c - 48)) 0 s"

lemma value_of_decimal: "value_of (decimal n) = n"
proof (induction n rule: decimal.induct)
  case (1 n)
  then show ?case
    by (cases "n < 10") (simp_all add: decimal.simps [of n] value_of_def of_char_digit)
qed

lemma decimal_inject [simp]: "decimal m = decimal n \<longleftrightarrow> m = n"
  by (metis value_of_decimal)

lemma decimal_prefix: "0 < n \<Longrightarrow> k < 10 \<Longrightarrow> decimal (10 * n + k) = decimal n @ [digit k]"
  by (simp add: decimal.simps [of "10 * n + k"])

lemma length_decimal: "n < 256 \<Longrightarrow> length (decimal n) \<le> 3"
  by (simp add: decimal.simps [of n] decimal.simps [of "n div 10"] decimal.simps [of "n div 100"] div_mult2_eq [symmetric])

section \<open>Addresses\<close>

lemma dotted_cons: "cs \<noteq> [] \<Longrightarrow> dotted (c # cs) = decimal (of_char c) @ CHR ''.'' # dotted cs"
  by (cases cs) auto

lemma split_dot:
  assumes "CHR ''.'' \<notin> set a" "CHR ''.'' \<notin> set b" "a @ CHR ''.'' # s = b @ CHR ''.'' # t"
  shows "a = b \<and> s = t"
  using assms by (induction a arbitrary: b) (auto simp: Cons_eq_append_conv)

lemma dotted_has_no_dot: "CHR ''.'' \<in> set (dotted cs) \<longleftrightarrow> 2 \<le> length cs"
  by (induction cs rule: dotted.induct) auto

lemma dotted_inject: "length s = length t \<Longrightarrow> dotted s = dotted t \<longleftrightarrow> s = t"
proof (induction s arbitrary: t rule: dotted.induct)
  case (2 c)
  then obtain d where "t = [d]" by (cases t) auto
  then show ?case by simp
next
  case (3 c c' cs)
  obtain d t' where t: "t = d # t'" "length t' = length (c' # cs)" using 3(2) by (cases t) auto
  then have "t' \<noteq> []" by auto
  then have "dotted (c # c' # cs) = dotted t \<longleftrightarrow> decimal (of_char c) = decimal (of_char d) \<and> dotted (c' # cs) = dotted t'"
    using split_dot [of "decimal (of_char c)" "decimal (of_char d)" "dotted (c' # cs)" "dotted t'"]
    by (auto simp: t(1) dotted_cons)
  also have "\<dots> \<longleftrightarrow> c = d \<and> c' # cs = t'" using 3(1) [of t'] t(2) by simp
  finally show ?case by (simp add: t(1))
qed simp

lemma length_dotted: "length (dotted cs) \<le> 4 * length cs - 1"
proof (induction cs rule: dotted.induct)
  case (3 c c' cs)
  then show ?case using length_decimal [of "of_char c"] nat_of_char_less_256 [of c] by simp
qed (use length_decimal nat_of_char_less_256 in \<open>auto intro: order_trans\<close>)

text \<open>A peer of IPv4, a \<open>struct sockaddr_in\<close> of 16 bytes, and one of IPv6, of 28.\<close>

definition ipv4_peer :: "string \<Rightarrow> string \<Rightarrow> string \<Rightarrow> string" where
  "ipv4_peer port quad zero = [char_of AF_INET, NUL] @ port @ quad @ zero"

definition ipv6_peer :: "string \<Rightarrow> string" where
  "ipv6_peer rest = [char_of AF_INET6, NUL] @ rest"

lemma sa_family_peer: "f < 256 \<Longrightarrow> sa_family (char_of f # NUL # rest) = f"
  by (simp add: sa_family_def)

lemma get_addr_ipv4:
  assumes "length port = 2" "length quad = 4" "length zero = 8" "length junk = 16"
  shows "bufferevent_get_addr ntop6 (Some (ipv4_peer port quad zero)) junk = Inr (Some (dotted quad))"
  using assms
  by (simp add: bufferevent_get_addr_def addr_2_str_def ipv4_peer_def sa_family_peer AF_INET_def numeral_nat)

section \<open>Properties\<close>

text \<open>The text the block list is searched for, for a peer of IPv4: it fits the buffer of 16 bytes that
  \<open>addr_2_str\<close> takes, and two peers have the same text only if their addresses are the same,
  whatever their ports and whatever was on the stack.\<close>

theorem peer_text_unique:
  assumes "length port = 2" "length quad = 4" "length zero = 8" "length junk = 16"
    "length port' = 2" "length quad' = 4" "length zero' = 8" "length junk' = 16"
  shows "\<exists>t t'. bufferevent_get_addr ntop6 (Some (ipv4_peer port quad zero)) junk = Inr (Some t) \<and>
    bufferevent_get_addr ntop6 (Some (ipv4_peer port' quad' zero')) junk' = Inr (Some t') \<and>
    length t < 16 \<and> (t = t' \<longleftrightarrow> quad = quad')"
  using get_addr_ipv4 [OF assms(1-4)] get_addr_ipv4 [OF assms(5-8)] length_dotted [of quad]
    dotted_inject [of quad quad'] assms(2,6) by (simp add: numeral_nat)

theorem peer_text_unique_witness:
  "\<exists>t t'. bufferevent_get_addr id (Some (ipv4_peer ''ab'' [CHR 0x0A, NUL, NUL, CHR 0x01] (replicate 8 NUL))) (replicate 16 NUL) = Inr (Some t) \<and>
    bufferevent_get_addr id (Some (ipv4_peer ''ab'' [CHR 0x0A, NUL, NUL, CHR 0x0C] (replicate 8 NUL))) (replicate 16 NUL) = Inr (Some t') \<and> t \<noteq> t'"
  using peer_text_unique [of "''ab''" "[CHR 0x0A, NUL, NUL, CHR 0x01]" "replicate 8 NUL" "replicate 16 NUL"
      "''ab''" "[CHR 0x0A, NUL, NUL, CHR 0x0C]" "replicate 8 NUL" "replicate 16 NUL" id]
  by (auto simp: numeral_nat)

text \<open>C34. Every connection over IPv6 makes the filter read outside an object, whatever it sends: the
  address is copied into 16 bytes and \<open>inet_ntop\<close> reads 24.\<close>

theorem ipv6_peer_reads_outside:
  assumes "length rest = 26" "length junk = 16"
  shows "filter_check lib (bufferevent_get_addr ntop6 (Some (ipv6_peer rest)) junk) behind data g = Inl Fault"
proof -
  have "bufferevent_get_addr ntop6 (Some (ipv6_peer rest)) junk = Inl Fault"
    using assms
    by (simp add: bufferevent_get_addr_def addr_2_str_def ipv6_peer_def sa_family_peer AF_INET_def AF_INET6_def numeral_nat)
  then show ?thesis by (simp add: filter_check_def)
qed

theorem ipv6_peer_reads_outside_witness:
  "filter_check no_pcre (bufferevent_get_addr id (Some (ipv6_peer (replicate 26 NUL))) (replicate 16 NUL))
     zeros ''GET /index.html'' sample_globals = Inl Fault"
  by (rule ipv6_peer_reads_outside) simp_all

text \<open>A peer that has gone before the filter runs (\<open>getpeername\<close> fails) has the address that the stack
  held. When this is neither of the families, the address is \<open>NULL\<close>, and an accepted request is
  compared with it as soon as the block list has a line.\<close>

theorem unknown_peer_reads_null:
  assumes "length junk = 16" "sa_family junk \<noteq> AF_INET" "sa_family junk \<noteq> AF_INET6"
    "fits (data @ behind)" "accepted (seen (data @ behind))"
    "NUL \<in> set (prm_block_addr_list (glob_param g))" "lines_of (c_str (prm_block_addr_list (glob_param g))) \<noteq> []"
  shows "filter_check lib (bufferevent_get_addr ntop6 None junk) (behind, after) data g = Inl Fault"
proof -
  have "bufferevent_get_addr ntop6 None junk = Inr None"
    using assms(1-3) by (simp add: bufferevent_get_addr_def addr_2_str_def)
  moreover obtain rest where "filter_check lib (Inr None) (behind, after) data g =
      filter_tests lib None (data @ behind) (length data) (seen (data @ behind) @ NUL # rest) (length (seen (data @ behind))) g"
    by (rule filter_check_accepted [OF assms(4,5)])
  ultimately show ?thesis using blocklist_ip_null [OF assms(6,7)] by (simp add: filter_tests_def)
qed

theorem unknown_peer_reads_null_witness:
  "filter_check no_pcre (bufferevent_get_addr id None (replicate 16 NUL)) zeros ''GET /index.html'' sample_globals = Inl Fault"
proof -
  have "fits (''GET /index.html'' @ [NUL])" "seen (''GET /index.html'' @ [NUL]) = ''GET /index.html''"
    by (rule sample_request; simp)+
  moreover have "accepted ''GET /index.html''" by (simp add: accepted_def request_method_def)
  ultimately show ?thesis
    by (intro unknown_peer_reads_null) (simp_all add: sa_family_def AF_INET_def AF_INET6_def sample_lines numeral_nat,
        simp add: sample_choice_def)
qed

lemma dotted_prefix:
  fixes d k :: nat
  assumes "length quad = 3" "0 < d" "k < 10" "10 * d + k < 256"
  shows "names_addr (dotted (quad @ [char_of d])) (dotted (quad @ [char_of (10 * d + k)]))"
proof -
  obtain a b c where quad: "quad = [a, b, c]" using assms(1) by (auto simp: numeral_3_eq_3 length_Suc_conv)
  have d: "of_char (char_of d) = d" "of_char (char_of (10 * d + k)) = 10 * d + k"
    using assms(4) by simp_all
  have "dotted (quad @ [char_of (10 * d + k)]) = dotted (quad @ [char_of d]) @ [digit k]"
    using decimal_prefix [OF assms(2,3)] d by (simp add: quad)
  moreover have "length (dotted (quad @ [char_of (10 * d + k)])) \<le> 128"
    using length_dotted [of "quad @ [char_of (10 * d + k)]"] assms(1) by simp
  ultimately show ?thesis by (simp add: names_addr_def)
qed

text \<open>C35. The block list blocks more than it names: a line that names the address \<open>a.b.c.e\<close> also blocks the
  client \<open>a.b.c.d\<close>, \<open>d\<close> not 0, where \<open>e\<close> is \<open>d\<close> followed by one more digit, since a line is searched for the text
  of the address at any place. Every accepted request of this client is an attack, if it fits the
  decoding buffer (\<open>fits\<close>), its text is in the domain of the chosen search (\<open>rules_ok\<close>), the PCRE
  rules are off, and the log is off or can be opened (\<open>can_log\<close>). The address \<open>a.b.c.d\<close> is the one that
  \<open>bufferevent_get_addr\<close> makes of the socket's peer.\<close>

theorem block_line_blocks_prefix:
  fixes d k :: nat
  assumes "length quad = 3" "0 < d" "k < 10" "10 * d + k < 256"
    "length port = 2" "length zero = 8" "length junk = 16"
    "dotted (quad @ [char_of (10 * d + k)]) \<in> set (lines_of (c_str (prm_block_addr_list (glob_param g))))"
    "fits (data @ behind)" "accepted (seen (data @ behind))" "rules_ok (glob_param g) (seen (data @ behind))"
    "\<not> prm_pcre (glob_param g)" "can_log g"
  shows "\<exists>g'. filter_check lib (bufferevent_get_addr ntop6 (Some (ipv4_peer port (quad @ [char_of d]) zero)) junk)
    (behind, after) data g = Inr (True, g')"
proof -
  have "bufferevent_get_addr ntop6 (Some (ipv4_peer port (quad @ [char_of d]) zero)) junk = Inr (Some (dotted (quad @ [char_of d])))"
    using assms(1,5-7) by (intro get_addr_ipv4) simp_all
  moreover have "addr_found (dotted (quad @ [char_of d])) (glob_param g)"
    unfolding addr_found_def using dotted_prefix [OF assms(1-4)] assms(8) by blast
  ultimately show ?thesis
    using filter_check_decides [OF assms(9-13), of lib "dotted (quad @ [char_of d])" after] by (auto simp: found_def)
qed

theorem block_line_blocks_prefix_witness:
  "\<exists>g'. filter_check no_pcre
     (bufferevent_get_addr id (Some (ipv4_peer ''ab'' ([CHR 0x0A, NUL, NUL] @ [char_of (1::nat)]) (replicate 8 NUL))) (replicate 16 NUL))
     zeros ''GET /index.html''
     (sample_globals\<lparr>glob_param := sample_choice\<lparr>prm_block_addr_list := ''10.0.0.12'' @ [NUL]\<rparr>\<rparr>) = Inr (True, g')"
proof -
  have s: "fits (''GET /index.html'' @ [NUL])" "seen (''GET /index.html'' @ [NUL]) = ''GET /index.html''"
    by (rule sample_request; simp)+
  have a: "accepted ''GET /index.html''" by (simp add: accepted_def request_method_def)
  have r: "rules_ok (sample_choice\<lparr>prm_block_addr_list := ''10.0.0.12'' @ [NUL]\<rparr>) ''GET /index.html''"
    using sample_lines by (simp add: rules_ok_def rule_ok_def is_ascii_def lists_ok_def)
  have "digit 0 = CHR ''0''" "digit 1 = CHR ''1''" "digit 2 = CHR ''2''" by code_simp+
  then have d: "decimal 10 = ''10''" "decimal 0 = ''0''" "decimal 12 = ''12''"
    by (simp_all add: decimal.simps [of 10] decimal.simps [of "Suc 0"] decimal.simps [of 0] decimal.simps [of 12])
  have l: "lines_of (c_str (''10.0.0.12'' @ [NUL])) = [''10.0.0.12'']" by (simp add: c_str_def)
  show ?thesis
    by (rule block_line_blocks_prefix [where k = 2]) (simp_all add: s a r l del: append_Cons append_Nil, simp_all add: d sample_choice_def can_log_def)
qed

end
