(* ===== verification/Proxy.thy ===== *)
theory Proxy
  imports Request_Filter
begin

text \<open>
  One proxied connection of \<open>proxy.c\<close>: the two \<open>bufferevent\<close>s that \<open>accept_cb\<close> makes, the
  callbacks \<open>readcb\<close>, \<open>drained_writecb\<close>, \<open>close_on_finished_writecb\<close> and \<open>eventcb\<close>, and
  \<open>block_msg\<close>. What libevent does between the callbacks are the events of \<open>handle\<close>: bytes arrive
  on a side that may read, bytes of an output buffer are sent, a side ends or fails. The write
  callback is called when the output has drained to the low watermark, the end of a stream is
  noticed only by reading; an error can come at any time.

  \<open>addr s\<close> is what \<open>bufferevent_get_addr\<close> gives for the peer on the side \<open>s\<close> (\<open>Peer_Address\<close>).
  A pointer to a \<open>bufferevent\<close> that has been freed is a \<open>Fault\<close>. \<open>blocked\<close> is a history
  variable: the sides that were shown the block message.
\<close>

section \<open>State\<close>

datatype side = Client | Server

fun other :: "side \<Rightarrow> side" where
  "other Client = Server"
| "other Server = Client"

text \<open>A statement on all sides is one on the two of them, for the prover and for evaluation.\<close>

instantiation side :: enum
begin

definition enum_side :: "side list" where
  "enum_side = [Client, Server]"

definition enum_all_side :: "(side \<Rightarrow> bool) \<Rightarrow> bool" where
  "enum_all_side P \<longleftrightarrow> P Client \<and> P Server"

definition enum_ex_side :: "(side \<Rightarrow> bool) \<Rightarrow> bool" where
  "enum_ex_side P \<longleftrightarrow> P Client \<or> P Server"

instance
proof
  have UNIV: "(UNIV :: side set) = {Client, Server}" by (auto intro: side.exhaust)
  then show "(UNIV :: side set) = set enum_class.enum" by (simp add: enum_side_def)
  show "distinct (enum_class.enum :: side list)" by (simp add: enum_side_def)
  show "enum_class.enum_all P \<longleftrightarrow> Ball UNIV P" "enum_class.enum_ex P \<longleftrightarrow> Bex UNIV P" for P :: "side \<Rightarrow> bool"
    by (simp_all add: enum_all_side_def enum_ex_side_def UNIV)
qed

end

lemma all_side_iff: "(\<forall>s. P s) \<longleftrightarrow> P Client \<and> P Server"
  using enum_class.enum_all_UNIV [of P] unfolding enum_all_side_def by blast

datatype writecb = No_writecb | Drained_writecb | Close_on_finished

text \<open>\<open>bev_ctx\<close>: the callbacks' \<open>ctx\<close> is the partner and not \<open>NULL\<close>.\<close>

record bufferevent =
  bev_in :: string
  bev_out :: string
  bev_read :: bool
  bev_low :: nat
  bev_high :: nat
  bev_readcb :: bool
  bev_writecb :: writecb
  bev_ctx :: bool

record conn =
  bevs :: "side \<Rightarrow> bufferevent option"
  conn_glob :: globals
  blocked :: "side \<Rightarrow> bool"

definition MAX_OUTPUT :: nat where
  "MAX_OUTPUT = 512 * 1024"

section \<open>Operations of libevent the callbacks use\<close>

definition modify :: "side \<Rightarrow> (bufferevent \<Rightarrow> bufferevent) \<Rightarrow> conn \<Rightarrow> stop + conn" where
  "modify s f c =
     (case bevs c s of
        None \<Rightarrow> Inl Fault
      | Some b \<Rightarrow> Inr (c\<lparr>bevs := (bevs c)(s := Some (f b))\<rparr>))"

definition bufferevent_free :: "side \<Rightarrow> conn \<Rightarrow> stop + conn" where
  "bufferevent_free s c =
     (case bevs c s of
        None \<Rightarrow> Inl Fault
      | Some b \<Rightarrow> Inr (c\<lparr>bevs := (bevs c)(s := None)\<rparr>))"

definition setcb :: "bool \<Rightarrow> writecb \<Rightarrow> bool \<Rightarrow> bufferevent \<Rightarrow> bufferevent" where
  "setcb rcb wcb ctx b = b\<lparr>bev_readcb := rcb, bev_writecb := wcb, bev_ctx := ctx\<rparr>"

definition setwatermark :: "nat \<Rightarrow> nat \<Rightarrow> bufferevent \<Rightarrow> bufferevent" where
  "setwatermark low high b = b\<lparr>bev_low := low, bev_high := high\<rparr>"

section \<open>The callbacks\<close>

definition block_text :: string where
  "block_text =
     ''HTTP/1.1 404 Not Found'' @ [CR, LF] @ ''Content-type: text/html'' @ [CR, LF] @ [CR, LF] @
     ''<html>'' @ [CR, LF] @ '' <body>'' @ [CR, LF] @ ''  <h1>Blocked</h1>'' @ [CR, LF] @
     ''  <p>The requested URL was not found on this server.</p>'' @ [CR, LF] @
     '' </body>'' @ [CR, LF] @ ''</html>'' @ [CR, LF]"

definition block_msg :: "side \<Rightarrow> conn \<Rightarrow> stop + conn" where
  "block_msg s c =
     bind_run (modify s (\<lambda>b. (setwatermark (MAX_OUTPUT div 2) MAX_OUTPUT
                  (b\<lparr>bev_out := bev_out b @ block_text\<rparr>))\<lparr>bev_read := False\<rparr>) c) (\<lambda>c.
     Inr (c\<lparr>blocked := (blocked c)(s := True)\<rparr>))"

text \<open>The last part of \<open>readcb\<close>: the partner's output is full, so this side stops reading.\<close>

definition choke :: "side \<Rightarrow> conn \<Rightarrow> stop + conn" where
  "choke s c =
     bind_run (modify (other s) (\<lambda>p. setwatermark (MAX_OUTPUT div 2) MAX_OUTPUT
                  (setcb True Drained_writecb True p)) c) (\<lambda>c.
     modify s (\<lambda>b. b\<lparr>bev_read := False\<rparr>) c)"

text \<open>\<open>evbuffer_add_buffer(dst, src)\<close> and the test of the partner's output.\<close>

definition forward :: "side \<Rightarrow> conn \<Rightarrow> stop + conn" where
  "forward s c =
     (case (bevs c s, bevs c (other s)) of
        (Some b, Some p) \<Rightarrow>
          (let c' = c\<lparr>bevs := (bevs c)(s := Some (b\<lparr>bev_in := []\<rparr>),
                                       other s := Some (p\<lparr>bev_out := bev_out p @ bev_in b\<rparr>))\<rparr> in
           if length (bev_out p @ bev_in b) \<ge> MAX_OUTPUT then choke s c' else Inr c')
      | _ \<Rightarrow> Inl Fault)"

definition readcb :: "'re pcre_lib \<Rightarrow> (side \<Rightarrow> peer_addr) \<Rightarrow> heap \<Rightarrow> side \<Rightarrow> bool \<Rightarrow> conn \<Rightarrow> stop + conn" where
  "readcb lib addr behind s partner c =
     (case bevs c s of
        None \<Rightarrow> Inl Fault
      | Some b \<Rightarrow>
          if \<not> partner then modify s (\<lambda>b. b\<lparr>bev_in := []\<rparr>) c
          else
            bind_run (filter_check lib (addr s) behind (bev_in b) (conn_glob c)) (\<lambda>(attack, g).
            if attack then block_msg s (c\<lparr>conn_glob := g\<rparr>)
            else forward s (c\<lparr>conn_glob := g\<rparr>)))"

definition drained_writecb :: "side \<Rightarrow> bool \<Rightarrow> conn \<Rightarrow> stop + conn" where
  "drained_writecb s partner c =
     bind_run (modify s (\<lambda>b. setwatermark 0 0 (setcb True No_writecb partner b)) c) (\<lambda>c.
     if partner then modify (other s) (\<lambda>p. p\<lparr>bev_read := True\<rparr>) c else Inr c)"

definition close_on_finished_writecb :: "side \<Rightarrow> conn \<Rightarrow> stop + conn" where
  "close_on_finished_writecb s c =
     (case bevs c s of
        None \<Rightarrow> Inl Fault
      | Some b \<Rightarrow> if bev_out b = [] then bufferevent_free s c else Inr c)"

definition eventcb :: "'re pcre_lib \<Rightarrow> (side \<Rightarrow> peer_addr) \<Rightarrow> heap \<Rightarrow> side \<Rightarrow> bool \<Rightarrow> bool \<Rightarrow> conn \<Rightarrow> stop + conn" where
  "eventcb lib addr behind s eof_or_error partner c =
     (if eof_or_error then
        bind_run
          (if partner then
             bind_run (readcb lib addr behind s partner c) (\<lambda>c.
             case bevs c (other s) of
               None \<Rightarrow> Inl Fault
             | Some p \<Rightarrow>
                 if bev_out p \<noteq> []
                 then modify (other s) (\<lambda>p. (setcb False Close_on_finished False p)\<lparr>bev_read := False\<rparr>) c
                 else bufferevent_free (other s) c)
           else Inr c) (\<lambda>c.
        bufferevent_free s c)
      else Inr c)"

text \<open>\<open>connected\<close>: \<open>bufferevent_socket_connect\<close> could start the connection to the server; if not,
  both \<open>bufferevent\<close>s are freed. \<open>ssl_ctx\<close> is a \<open>static\<close> of \<open>proxy.h\<close> and stays \<open>NULL\<close> in \<open>proxy.c\<close>.\<close>

definition fresh_bev :: bufferevent where
  "fresh_bev = \<lparr>bev_in = [], bev_out = [], bev_read = True, bev_low = 0, bev_high = 0,
     bev_readcb = True, bev_writecb = No_writecb, bev_ctx = True\<rparr>"

definition accept_cb :: "bool \<Rightarrow> globals \<Rightarrow> conn" where
  "accept_cb connected g = \<lparr>bevs = (\<lambda>_. if connected then Some fresh_bev else None),
     conn_glob = g, blocked = (\<lambda>_. False)\<rparr>"

section \<open>Events\<close>

text \<open>The last component of an event are the bytes behind the blocks of \<open>filter_check\<close>.\<close>

datatype event =
    Data side string heap
  | Sent side nat
  | Finished side heap
  | Failed side heap
  | Connected side

fun enabled :: "event \<Rightarrow> conn \<Rightarrow> bool" where
  "enabled (Data s new behind) c = (case bevs c s of None \<Rightarrow> False | Some b \<Rightarrow> bev_read b)"
| "enabled (Sent s n) c = (case bevs c s of None \<Rightarrow> False | Some b \<Rightarrow> 0 < n \<and> n \<le> length (bev_out b))"
| "enabled (Finished s behind) c = (case bevs c s of None \<Rightarrow> False | Some b \<Rightarrow> bev_read b)"
| "enabled (Failed s behind) c = (bevs c s \<noteq> None)"
| "enabled (Connected s) c = (bevs c s \<noteq> None)"

definition run_writecb :: "side \<Rightarrow> conn \<Rightarrow> stop + conn" where
  "run_writecb s c =
     (case bevs c s of
        None \<Rightarrow> Inl Fault
      | Some b \<Rightarrow>
          if length (bev_out b) \<le> bev_low b then
            (case bev_writecb b of
               No_writecb \<Rightarrow> Inr c
             | Drained_writecb \<Rightarrow> drained_writecb s (bev_ctx b) c
             | Close_on_finished \<Rightarrow> close_on_finished_writecb s c)
          else Inr c)"

definition ctx_of :: "conn \<Rightarrow> side \<Rightarrow> bool" where
  "ctx_of c s = (case bevs c s of None \<Rightarrow> False | Some b \<Rightarrow> bev_ctx b)"

definition run_readcb :: "'re pcre_lib \<Rightarrow> (side \<Rightarrow> peer_addr) \<Rightarrow> heap \<Rightarrow> side \<Rightarrow> conn \<Rightarrow> stop + conn" where
  "run_readcb lib addr behind s c =
     (case bevs c s of
        None \<Rightarrow> Inl Fault
      | Some b \<Rightarrow> if bev_readcb b then readcb lib addr behind s (bev_ctx b) c else Inr c)"

fun handle :: "'re pcre_lib \<Rightarrow> (side \<Rightarrow> peer_addr) \<Rightarrow> event \<Rightarrow> conn \<Rightarrow> stop + conn" where
  "handle lib addr (Data s new behind) c =
     bind_run (modify s (\<lambda>b. b\<lparr>bev_in := bev_in b @ new\<rparr>) c) (run_readcb lib addr behind s)"
| "handle lib addr (Sent s n) c =
     bind_run (modify s (\<lambda>b. b\<lparr>bev_out := drop n (bev_out b)\<rparr>) c) (run_writecb s)"
| "handle lib addr (Finished s behind) c = eventcb lib addr behind s True (ctx_of c s) c"
| "handle lib addr (Failed s behind) c = eventcb lib addr behind s True (ctx_of c s) c"
| "handle lib addr (Connected s) c = eventcb lib addr ([], []) s False (ctx_of c s) c"

inductive conn_step :: "'re pcre_lib \<Rightarrow> (side \<Rightarrow> peer_addr) \<Rightarrow> conn \<Rightarrow> event \<Rightarrow> conn \<Rightarrow> bool" for lib addr where
  step: "enabled e c \<Longrightarrow> handle lib addr e c = Inr c' \<Longrightarrow> conn_step lib addr c e c'"

inductive_cases conn_stepE: "conn_step lib addr c e c'"
inductive_simps conn_step_iff: "conn_step lib addr c e c'"

text \<open>\<open>conn_run c es c'\<close>: the events \<open>es\<close>, each possible when it comes, take \<open>c\<close> to \<open>c'\<close>.\<close>

inductive conn_run :: "'re pcre_lib \<Rightarrow> (side \<Rightarrow> peer_addr) \<Rightarrow> conn \<Rightarrow> event list \<Rightarrow> conn \<Rightarrow> bool" for lib addr c where
  nothing: "conn_run lib addr c [] c"
| one_more: "conn_run lib addr c es c' \<Longrightarrow> conn_step lib addr c' e c'' \<Longrightarrow> conn_run lib addr c (es @ [e]) c''"

definition reachable :: "'re pcre_lib \<Rightarrow> (side \<Rightarrow> peer_addr) \<Rightarrow> globals \<Rightarrow> conn \<Rightarrow> bool" where
  "reachable lib addr g c \<longleftrightarrow> (\<exists>connected es. conn_run lib addr (accept_cb connected g) es c)"

text \<open>What holds at first and is kept by every step holds always.\<close>

locale conn_invariant =
  fixes lib :: "'re pcre_lib" and addr :: "side \<Rightarrow> peer_addr" and start :: conn
    and inv :: "event list \<Rightarrow> conn \<Rightarrow> bool"
  assumes inv_start: "inv [] start"
    and inv_step: "inv es c \<Longrightarrow> conn_step lib addr c e c' \<Longrightarrow> inv (es @ [e]) c'"
begin

lemma inv_run: "conn_run lib addr start es c \<Longrightarrow> inv es c"
  by (induction rule: conn_run.induct) (auto intro: inv_start inv_step)

end

end
