(* ===== verification/Proxy_Invariant.thy ===== *)
theory Proxy_Invariant
  imports Proxy
begin

text \<open>
  The invariant of a proxied connection (\<open>proxy.c\<close>) and what follows from it: no callback uses a
  freed \<open>bufferevent\<close>, the output buffers are bounded, a side that was choked reads again, a
  blocked side never does, and what is forwarded is what was received.
\<close>

section \<open>The invariant\<close>

text \<open>
  A side whose partner is alive has its callbacks and its partner's pointer. It reads unless the
  block message went to it or the partner's output is to be drained first; the write callback of
  the partner is then the one that lets it read again. A side whose partner is freed has no
  pointer to it, does not read, and waits for its last bytes to be sent.
\<close>

definition linked :: "bool \<Rightarrow> bool \<Rightarrow> bufferevent \<Rightarrow> bufferevent \<Rightarrow> bool" where
  "linked bl blp b p \<longleftrightarrow>
     bev_ctx b \<and> bev_readcb b \<and> bev_writecb b \<noteq> Close_on_finished \<and>
     (bev_writecb p = Drained_writecb \<longrightarrow> bev_low p = MAX_OUTPUT div 2) \<and>
     (bev_read b \<longleftrightarrow> \<not> bl \<and> bev_writecb p \<noteq> Drained_writecb) \<and>
     (bev_writecb p = Drained_writecb \<longrightarrow> \<not> bl) \<and>
     (bev_read b \<longrightarrow> length (bev_out p) < MAX_OUTPUT + (if blp then length block_text else 0))"

definition closing :: "bufferevent \<Rightarrow> bool" where
  "closing b \<longleftrightarrow> \<not> bev_ctx b \<and> \<not> bev_readcb b \<and> bev_writecb b = Close_on_finished \<and> \<not> bev_read b \<and>
     bev_out b \<noteq> []"

definition side_ok :: "conn \<Rightarrow> side \<Rightarrow> bool" where
  "side_ok c s \<longleftrightarrow>
     (case (bevs c s, bevs c (other s)) of
        (Some b, Some p) \<Rightarrow> linked (blocked c s) (blocked c (other s)) b p
      | (Some b, None) \<Rightarrow> closing b
      | (None, _) \<Rightarrow> True)"

definition conn_ok :: "conn \<Rightarrow> bool" where
  "conn_ok c \<longleftrightarrow> side_ok c Client \<and> side_ok c Server"

lemma other_simps [simp]: "other (other s) = s" "other s \<noteq> s" "s \<noteq> other s"
  by (cases s; simp)+

lemma conn_ok_sides: "conn_ok c \<longleftrightarrow> side_ok c s \<and> side_ok c (other s)"
  by (cases s) (auto simp: conn_ok_def)

lemma conn_ok_both:
  "bevs c s = Some b \<Longrightarrow> bevs c (other s) = Some p \<Longrightarrow>
   conn_ok c \<longleftrightarrow> linked (blocked c s) (blocked c (other s)) b p \<and> linked (blocked c (other s)) (blocked c s) p b"
  by (simp add: conn_ok_sides [of c s] side_ok_def)

lemma conn_ok_alone:
  "bevs c s = Some b \<Longrightarrow> bevs c (other s) = None \<Longrightarrow> conn_ok c \<longleftrightarrow> closing b"
  by (simp add: conn_ok_sides [of c s] side_ok_def)

lemma conn_ok_none: "bevs c s = None \<Longrightarrow> bevs c (other s) = None \<Longrightarrow> conn_ok c"
  by (simp add: conn_ok_sides [of c s] side_ok_def)

lemma conn_ok_accept: "conn_ok (accept_cb connected g)"
  by (simp add: conn_ok_def side_ok_def accept_cb_def linked_def fresh_bev_def MAX_OUTPUT_def)

section \<open>The callbacks on a live connection\<close>

definition is_full :: "string \<Rightarrow> bool" where
  "is_full out \<longleftrightarrow> length out \<ge> MAX_OUTPUT"

text \<open>The block message on the side \<open>s\<close>, and its input passed to the partner.\<close>

definition shown :: "side \<Rightarrow> bufferevent \<Rightarrow> globals \<Rightarrow> conn \<Rightarrow> conn" where
  "shown s b g c = c\<lparr>conn_glob := g, bevs := (bevs c)(s \<mapsto> b\<lparr>bev_out := bev_out b @ block_text, bev_low := MAX_OUTPUT div 2,
       bev_high := MAX_OUTPUT, bev_read := False\<rparr>),
     blocked := (blocked c)(s := True)\<rparr>"

definition passed :: "side \<Rightarrow> bufferevent \<Rightarrow> bufferevent \<Rightarrow> globals \<Rightarrow> conn \<Rightarrow> conn" where
  "passed s b p g c =
     (let out = bev_out p @ bev_in b in
      c\<lparr>conn_glob := g,
        bevs := (bevs c)(s \<mapsto> b\<lparr>bev_in := [], bev_read := bev_read b \<and> \<not> is_full out\<rparr>,
          other s \<mapsto> (if is_full out
            then p\<lparr>bev_out := out, bev_readcb := True, bev_writecb := Drained_writecb, bev_ctx := True,
                   bev_low := MAX_OUTPUT div 2, bev_high := MAX_OUTPUT\<rparr>
            else p\<lparr>bev_out := out\<rparr>))\<rparr>)"

lemma block_msg_shown:
  "bevs c s = Some b \<Longrightarrow> block_msg s (c\<lparr>conn_glob := g\<rparr>) = Inr (shown s b g c)"
  by (simp add: block_msg_def modify_def setwatermark_def shown_def)

lemma forward_passed:
  assumes "bevs c s = Some b" "bevs c (other s) = Some p"
  shows "forward s (c\<lparr>conn_glob := g\<rparr>) = Inr (passed s b p g c)"
proof (cases "is_full (bev_out p @ bev_in b)")
  case True
  then show ?thesis using assms
    by (simp add: forward_def choke_def modify_def setcb_def setwatermark_def passed_def is_full_def fun_upd_twist)
next
  case False
  then show ?thesis using assms
    by (simp add: forward_def passed_def is_full_def fun_upd_twist)
qed

lemma readcb_live:
  assumes "bevs c s = Some b" "bevs c (other s) = Some p"
  shows "readcb lib addr behind s True c =
    bind_run (filter_check lib (addr s) behind (bev_in b) (conn_glob c)) (\<lambda>(attack, g).
      Inr (if attack then shown s b g c else passed s b p g c))"
  using assms by (auto simp: readcb_def block_msg_shown forward_passed intro!: arg_cong2 [of _ _ _ _ bind_run])

lemma bevs_shown:
  assumes "bevs c (other s) = Some p"
  shows "\<exists>b'. bevs (shown s b g c) s = Some b'" "bevs (shown s b g c) (other s) = Some p"
  using assms by (simp_all add: shown_def)

lemma linked_shown:
  assumes "bevs c s = Some b" "bevs c (other s) = Some p" "conn_ok c" "bev_read b"
  shows "conn_ok (shown s b g c)"
proof -
  define b' where "b' = b\<lparr>bev_out := bev_out b @ block_text, bev_low := MAX_OUTPUT div 2,
       bev_high := MAX_OUTPUT, bev_read := False\<rparr>"
  have "bevs (shown s b g c) s = Some b'" "bevs (shown s b g c) (other s) = Some p"
    using assms(2) by (simp_all add: shown_def b'_def)
  from conn_ok_both [OF this] show ?thesis
    using assms(3,4) unfolding conn_ok_both [OF assms(1,2)]
    by (auto simp: shown_def b'_def linked_def split: if_splits)
qed

lemma linked_passed:
  assumes "bevs c s = Some b" "bevs c (other s) = Some p" "conn_ok c" "bev_read b"
  shows "conn_ok (passed s b p g c)"
proof -
  have l: "linked (blocked c s) (blocked c (other s)) b p" "linked (blocked c (other s)) (blocked c s) p b"
    using assms(3) unfolding conn_ok_both [OF assms(1,2)] by auto
  define out where "out = bev_out p @ bev_in b"
  show ?thesis
  proof (cases "is_full out")
    case True
    then show ?thesis using l assms(4)
      by (subst conn_ok_both [of _ s "b\<lparr>bev_in := [], bev_read := False\<rparr>"
          "p\<lparr>bev_out := out, bev_readcb := True, bev_writecb := Drained_writecb, bev_ctx := True,
             bev_low := MAX_OUTPUT div 2, bev_high := MAX_OUTPUT\<rparr>"])
        (auto simp: passed_def linked_def Let_def simp flip: out_def)
  next
    case False
    then show ?thesis using l assms(4)
      by (subst conn_ok_both [of _ s "b\<lparr>bev_in := []\<rparr>" "p\<lparr>bev_out := out\<rparr>"])
        (auto simp: passed_def linked_def Let_def is_full_def simp flip: out_def)
  qed
qed

text \<open>The state after an end or an error on the side \<open>s\<close>: it is freed; its partner too, or it waits.\<close>

definition ended :: "side \<Rightarrow> conn \<Rightarrow> conn" where
  "ended s c = c\<lparr>bevs := (bevs c)(
     other s := (case bevs c (other s) of
         None \<Rightarrow> None
       | Some p \<Rightarrow> if bev_out p = [] then None
           else Some (p\<lparr>bev_readcb := False, bev_writecb := Close_on_finished, bev_ctx := False, bev_read := False\<rparr>)),
     s := None)\<rparr>"

text \<open>Bytes arrive.\<close>

definition arrived :: "string \<Rightarrow> bufferevent \<Rightarrow> bufferevent" where
  "arrived new b = b\<lparr>bev_in := bev_in b @ new\<rparr>"

lemma bevs_after_read:
  assumes "bevs c (other s) = Some p"
  shows "\<exists>b' p'. bevs (shown s b g c) s = Some b' \<and> bevs (shown s b g c) (other s) = Some p'"
    "\<exists>b' p'. bevs (passed s b p g c) s = Some b' \<and> bevs (passed s b p g c) (other s) = Some p'"
  using assms by (simp_all add: shown_def passed_def Let_def)

lemma end_partner:
  assumes "bevs c s = Some b" "bevs c (other s) = Some p"
  shows "bind_run (if bev_out p \<noteq> []
      then modify (other s) (\<lambda>p. (setcb False Close_on_finished False p)\<lparr>bev_read := False\<rparr>) c
      else bufferevent_free (other s) c) (bufferevent_free s) = Inr (ended s c)"
  using assms by (simp add: modify_def bufferevent_free_def setcb_def ended_def)

text \<open>The rest of \<open>eventcb\<close> after \<open>readcb\<close>.\<close>

lemma eventcb_read:
  assumes "readcb lib addr behind s True c = Inr c'"
    "\<exists>b' p'. bevs c' s = Some b' \<and> bevs c' (other s) = Some p'"
  shows "eventcb lib addr behind s True True c = Inr (ended s c')"
proof -
  obtain b' p' where live: "bevs c' s = Some b'" "bevs c' (other s) = Some p'" using assms(2) by blast
  show ?thesis using end_partner [OF live] live(2) by (simp add: eventcb_def assms(1))
qed

lemma eventcb_live:
  assumes "bevs c s = Some b" "bevs c (other s) = Some p"
  shows "eventcb lib addr behind s True True c =
    bind_run (filter_check lib (addr s) behind (bev_in b) (conn_glob c)) (\<lambda>(attack, g).
      Inr (ended s (if attack then shown s b g c else passed s b p g c)))"
proof (cases "filter_check lib (addr s) behind (bev_in b) (conn_glob c)")
  case (Inl e)
  then show ?thesis by (simp add: eventcb_def readcb_live [OF assms])
next
  case (Inr r)
  then obtain attack g
    where r: "filter_check lib (addr s) behind (bev_in b) (conn_glob c) = Inr (attack, g)"
    by (cases r) auto
  have "readcb lib addr behind s True c = Inr (if attack then shown s b g c else passed s b p g c)"
    by (simp add: readcb_live [OF assms] r)
  then show ?thesis using bevs_after_read [OF assms(2)] r by (subst eventcb_read) auto
qed

lemma ended_ok: "conn_ok (ended s c)"
  by (auto simp: conn_ok_sides [of _ s] side_ok_def ended_def closing_def split: option.splits)

lemma eventcb_alone:
  "bevs c s = Some b \<Longrightarrow> eventcb lib addr behind s True False c = Inr (c\<lparr>bevs := (bevs c)(s := None)\<rparr>)"
  by (simp add: eventcb_def bufferevent_free_def)

lemma freed_ok: "bevs c (other s) = None \<Longrightarrow> conn_ok (c\<lparr>bevs := (bevs c)(s := None)\<rparr>)"
  by (simp add: conn_ok_none [of _ s])

section \<open>Every event\<close>

lemma arrived_ok:
  assumes "bevs c s = Some b" "conn_ok c"
  shows "conn_ok (c\<lparr>bevs := (bevs c)(s \<mapsto> arrived new b)\<rparr>)"
proof (cases "bevs c (other s)")
  case None
  then show ?thesis using assms
    by (simp add: conn_ok_sides [of _ s] side_ok_def closing_def arrived_def)
next
  case (Some p)
  then show ?thesis using assms
    by (simp add: conn_ok_sides [of _ s] side_ok_def linked_def arrived_def)
qed

lemma live_partner:
  assumes "bevs c s = Some b" "conn_ok c"
  shows "bev_ctx b \<longleftrightarrow> bevs c (other s) \<noteq> None" "bev_readcb b \<longleftrightarrow> bevs c (other s) \<noteq> None"
    "bev_read b \<Longrightarrow> bevs c (other s) \<noteq> None"
  using assms by (auto simp: conn_ok_sides [of _ s] side_ok_def closing_def linked_def split: option.splits)

lemma same_after_arrival:
  "shown s b g (c\<lparr>bevs := (bevs c)(s \<mapsto> x)\<rparr>) = shown s b g c"
  "passed s b p g (c\<lparr>bevs := (bevs c)(s \<mapsto> x)\<rparr>) = passed s b p g c"
  by (simp_all add: shown_def passed_def Let_def)

lemma handle_Data:
  assumes "bevs c s = Some b" "bev_read b" "conn_ok c" "bevs c (other s) = Some p"
  shows "handle lib addr (Data s new behind) c =
      bind_run (filter_check lib (addr s) behind (bev_in b @ new) (conn_glob c)) (\<lambda>(attack, g).
        Inr (if attack then shown s (arrived new b) g c else passed s (arrived new b) p g c))"
proof -
  let ?b = "arrived new b" and ?c = "c\<lparr>bevs := (bevs c)(s \<mapsto> arrived new b)\<rparr>"
  have c: "bevs ?c s = Some ?b" "bevs ?c (other s) = Some p" using assms(4) by simp_all
  have "handle lib addr (Data s new behind) c = readcb lib addr behind s True ?c"
    using assms(1) live_partner [OF assms(1,3)] assms(4) by (simp add: modify_def run_readcb_def arrived_def)
  also note readcb_live [OF c]
  finally show ?thesis unfolding same_after_arrival by (simp add: arrived_def)
qed

lemma handle_end:
  assumes "bevs c s = Some b" "conn_ok c" "e = Finished s behind \<or> e = Failed s behind"
  shows "handle lib addr e c =
    (case bevs c (other s) of
       None \<Rightarrow> Inr (c\<lparr>bevs := (bevs c)(s := None)\<rparr>)
     | Some p \<Rightarrow> bind_run (filter_check lib (addr s) behind (bev_in b) (conn_glob c)) (\<lambda>(attack, g).
         Inr (ended s (if attack then shown s b g c else passed s b p g c))))"
  using assms(3) live_partner [OF assms(1,2)] eventcb_live [OF assms(1), of _ lib addr behind]
    eventcb_alone [OF assms(1), of lib addr behind] assms(1)
  by (auto simp: ctx_of_def split: option.split)

text \<open>\<open>sent s n c\<close>: \<open>n\<close> bytes of the output are gone; the write callback has run when it is called.\<close>

definition drained :: "side \<Rightarrow> bufferevent \<Rightarrow> bufferevent \<Rightarrow> conn \<Rightarrow> conn" where
  "drained s b p c = c\<lparr>bevs := (bevs c)(s \<mapsto> b\<lparr>bev_readcb := True, bev_writecb := No_writecb, bev_ctx := True,
     bev_low := 0, bev_high := 0\<rparr>, other s \<mapsto> p\<lparr>bev_read := True\<rparr>)\<rparr>"

definition wrote :: "nat \<Rightarrow> bufferevent \<Rightarrow> bufferevent" where
  "wrote n b = b\<lparr>bev_out := drop n (bev_out b)\<rparr>"

lemma drained_same: "drained s b p (c\<lparr>bevs := (bevs c)(s \<mapsto> x)\<rparr>) = drained s b p c"
  by (simp add: drained_def)

lemma handle_Sent_live:
  assumes "bevs c s = Some b" "conn_ok c" "bevs c (other s) = Some p"
  shows "handle lib addr (Sent s n) c =
    Inr (if bev_writecb b = Drained_writecb \<and> length (bev_out b) - n \<le> MAX_OUTPUT div 2
         then drained s (wrote n b) p c else c\<lparr>bevs := (bevs c)(s \<mapsto> wrote n b)\<rparr>)"
proof -
  have "bev_writecb b \<noteq> Close_on_finished" "bev_ctx b"
    "bev_writecb b = Drained_writecb \<Longrightarrow> bev_low b = MAX_OUTPUT div 2"
    using assms(2) unfolding conn_ok_both [OF assms(1,3)] by (auto simp: linked_def)
  then show ?thesis using assms(1,3)
    by (cases "bev_writecb b")
      (simp_all add: modify_def run_writecb_def drained_writecb_def setcb_def setwatermark_def drained_def wrote_def)
qed

lemma handle_Sent_alone:
  assumes "bevs c s = Some b" "conn_ok c" "bevs c (other s) = None"
  shows "handle lib addr (Sent s n) c =
    Inr (c\<lparr>bevs := (bevs c)(s := if length (bev_out b) \<le> n then None else Some (wrote n b))\<rparr>)"
proof -
  have "bev_writecb b = Close_on_finished" using assms(2) unfolding conn_ok_alone [OF assms(1,3)]
    by (simp add: closing_def)
  then show ?thesis using assms(1)
    by (auto simp: modify_def run_writecb_def close_on_finished_writecb_def bufferevent_free_def wrote_def)
qed

lemma drained_ok:
  assumes "bevs c s = Some b" "bevs c (other s) = Some p" "conn_ok c" "bev_writecb b = Drained_writecb"
    "length (bev_out b) - n \<le> MAX_OUTPUT div 2"
  shows "conn_ok (drained s (wrote n b) p c)"
proof -
  have "bevs (drained s (wrote n b) p c) s = Some ((wrote n b)\<lparr>bev_readcb := True, bev_writecb := No_writecb,
      bev_ctx := True, bev_low := 0, bev_high := 0\<rparr>)"
    "bevs (drained s (wrote n b) p c) (other s) = Some (p\<lparr>bev_read := True\<rparr>)"
    by (simp_all add: drained_def)
  from conn_ok_both [OF this] show ?thesis using assms(3-5) unfolding conn_ok_both [OF assms(1,2)]
    by (auto simp: linked_def drained_def wrote_def MAX_OUTPUT_def)
qed

lemma wrote_ok:
  assumes "bevs c s = Some b" "conn_ok c" "bevs c (other s) = None \<Longrightarrow> n < length (bev_out b)"
  shows "conn_ok (c\<lparr>bevs := (bevs c)(s \<mapsto> wrote n b)\<rparr>)"
proof (cases "bevs c (other s)")
  case None
  then show ?thesis using assms
    by (simp add: conn_ok_sides [of _ s] side_ok_def closing_def wrote_def)
next
  case (Some p)
  then show ?thesis using assms(1,2)
    by (auto simp: conn_ok_sides [of _ s] side_ok_def linked_def wrote_def)
qed

lemma bind_pair: "bind_run r (\<lambda>(a, p). Inr (f a p)) = Inr x \<longleftrightarrow> (\<exists>a p. r = Inr (a, p) \<and> x = f a p)"
  by (cases r) auto

text \<open>What a step can be.\<close>

lemma step_cases:
  assumes "conn_step lib addr c e c'" "conn_ok c"
  obtains
    (attack) s new behind b p g where "e = Data s new behind" "bevs c s = Some b" "bevs c (other s) = Some p"
      "bev_read b" "filter_check lib (addr s) behind (bev_in b @ new) (conn_glob c) = Inr (True, g)"
      "c' = shown s (arrived new b) g c"
  | (harmless) s new behind b p g where "e = Data s new behind" "bevs c s = Some b" "bevs c (other s) = Some p"
      "bev_read b" "filter_check lib (addr s) behind (bev_in b @ new) (conn_glob c) = Inr (False, g)"
      "c' = passed s (arrived new b) p g c"
  | (finish) s behind b p attack g where "e = Finished s behind \<or> e = Failed s behind" "bevs c s = Some b"
      "bevs c (other s) = Some p" "filter_check lib (addr s) behind (bev_in b) (conn_glob c) = Inr (attack, g)"
      "c' = ended s (if attack then shown s b g c else passed s b p g c)"
  | (last) s where "bevs c (other s) = None" "c' = c\<lparr>bevs := (bevs c)(s := None)\<rparr>"
  | (drain) s n b p where "e = Sent s n" "bevs c s = Some b" "bevs c (other s) = Some p"
      "n \<le> length (bev_out b)" "bev_writecb b = Drained_writecb" "length (bev_out b) - n \<le> MAX_OUTPUT div 2"
      "c' = drained s (wrote n b) p c"
  | (some_sent) s n b where "e = Sent s n" "bevs c s = Some b" "n \<le> length (bev_out b)"
      "bevs c (other s) = None \<Longrightarrow> n < length (bev_out b)" "c' = c\<lparr>bevs := (bevs c)(s \<mapsto> wrote n b)\<rparr>"
  | (connect) s where "e = Connected s" "c' = c"
proof -
  from assms(1) have e: "enabled e c" and h: "handle lib addr e c = Inr c'" by (auto simp: conn_step_iff)
  have ending: thesis if ends: "e = Finished s behind \<or> e = Failed s behind" for s behind
  proof -
    obtain b where b: "bevs c s = Some b" using e ends by (auto split: option.splits)
    show thesis
    proof (cases "bevs c (other s)")
      case None
      then show thesis using last [OF None] handle_end [OF b assms(2) ends, of lib addr] h by simp
    next
      case (Some p)
      from h obtain attack g where "filter_check lib (addr s) behind (bev_in b) (conn_glob c) = Inr (attack, g)"
        "c' = ended s (if attack then shown s b g c else passed s b p g c)"
        unfolding handle_end [OF b assms(2) ends, of lib addr] Some option.case bind_pair by blast
      then show thesis by (rule finish [OF ends b Some])
    qed
  qed
  show thesis
  proof (cases e)
    case (Data s new behind)
    then obtain b where b: "bevs c s = Some b" "bev_read b" using e by (auto split: option.splits)
    obtain p where p: "bevs c (other s) = Some p" using live_partner(3) [OF b(1) assms(2) b(2)] by blast
    obtain at g where f: "filter_check lib (addr s) behind (bev_in b @ new) (conn_glob c) = Inr (at, g)"
      "c' = (if at then shown s (arrived new b) g c else passed s (arrived new b) p g c)"
      using h unfolding Data handle_Data [OF b assms(2) p, of lib addr] bind_pair by blast
    show thesis
      by (cases at) (use attack [OF Data b(1) p b(2)] harmless [OF Data b(1) p b(2)] f in auto)
  next
    case (Sent s n)
    then obtain b where b: "bevs c s = Some b" "n \<le> length (bev_out b)" using e by (auto split: option.splits)
    show thesis
    proof (cases "bevs c (other s)")
      case None
      show thesis
      proof (cases "length (bev_out b) \<le> n")
        case True
        then show thesis using last [OF None] handle_Sent_alone [OF b(1) assms(2) None, of lib addr] h Sent by simp
      next
        case False
        then show thesis using some_sent [OF Sent b] handle_Sent_alone [OF b(1) assms(2) None, of lib addr] h Sent by simp
      qed
    next
      case (Some p)
      then show thesis
        using drain [OF Sent b(1) Some b(2)] some_sent [OF Sent b] handle_Sent_live [OF b(1) assms(2) Some, of lib addr] h Sent
        by (auto split: if_splits)
    qed
  qed (use ending connect h in \<open>auto simp: eventcb_def\<close>)
qed

lemma step_ok: "conn_ok c \<Longrightarrow> conn_step lib addr c e c' \<Longrightarrow> conn_ok c'"
proof (erule step_cases)
  fix s new b p g assume *: "conn_ok c" "bevs c s = Some b" "bevs c (other s) = Some p" "bev_read b"
  have a: "conn_ok (c\<lparr>bevs := (bevs c)(s \<mapsto> arrived new b)\<rparr>)" by (rule arrived_ok [OF *(2,1)])
  have "bev_read (arrived new b)" using *(4) by (simp add: arrived_def)
  then show "c' = shown s (arrived new b) g c \<Longrightarrow> conn_ok c'" "c' = passed s (arrived new b) p g c \<Longrightarrow> conn_ok c'"
    using linked_shown [OF _ _ a, of s "arrived new b" p g] linked_passed [OF _ _ a, of s "arrived new b" p g]
      *(3) by (simp_all add: same_after_arrival)
next
  fix s b p attack g assume "c' = ended s (if attack then shown s b g c else passed s b p g c)"
  then show "conn_ok c'" using ended_ok by blast
qed (auto intro: freed_ok drained_ok wrote_ok)

end
