(* ===== verification/Proxy_Properties.thy ===== *)
theory Proxy_Properties
  imports Proxy_Invariant
begin

text \<open>
  What the invariant of a connection (\<open>proxy.c\<close>) gives: the state of the options along a run, the
  bytes that have been forwarded, and the properties of the callbacks with runs they apply to.
\<close>

section \<open>Invariants of a run\<close>

interpretation wf: conn_invariant lib addr "accept_cb connected g" "\<lambda>es c. conn_ok c"
  for lib :: "'re pcre_lib" and addr connected g
  by unfold_locales (auto intro: conn_ok_accept step_ok)

lemma reachable_ok: "reachable lib addr g c \<Longrightarrow> conn_ok c"
  by (auto simp: reachable_def intro: wf.inv_run)

subsection \<open>The options\<close>

text \<open>Only the list of blocked addresses and the log change: the list is the one that was read, or its
  first line, and no other file is written.\<close>

definition only_log :: "globals \<Rightarrow> (string \<rightharpoonup> string) \<Rightarrow> bool" where
  "only_log g fs \<longleftrightarrow> (\<forall>name. prm_logfile (glob_param g) = None \<or> name \<noteq> c_str (the (prm_logfile (glob_param g))) \<longrightarrow>
     fs name = glob_fs g name)"

definition list_cut :: "globals \<Rightarrow> globals \<Rightarrow> bool" where
  "list_cut g g' \<longleftrightarrow>
     (\<exists>buf. glob_param g' = (glob_param g)\<lparr>prm_block_addr_list := buf\<rparr> \<and> NUL \<in> set buf \<and>
        (lines_of (c_str buf) = lines_of (c_str (prm_block_addr_list (glob_param g))) \<or>
         lines_of (c_str buf) = take 1 (lines_of (c_str (prm_block_addr_list (glob_param g)))))) \<and>
     only_log g (glob_fs g')"

definition has_list :: "globals \<Rightarrow> bool" where
  "has_list g \<longleftrightarrow> NUL \<in> set (prm_block_addr_list (glob_param g))"

lemma only_log_refl [simp]: "only_log g (glob_fs g)"
  by (simp add: only_log_def)

lemma list_cut_param:
  "has_list g \<Longrightarrow> glob_param g' = glob_param g \<Longrightarrow> only_log g (glob_fs g') \<Longrightarrow> list_cut g g'"
  unfolding list_cut_def has_list_def
  by (intro conjI exI [of _ "prm_block_addr_list (glob_param g)"]) simp_all

lemma list_cut_refl: "has_list g \<Longrightarrow> list_cut g g"
  by (simp add: list_cut_param)

lemma list_cut_trans: "list_cut a b \<Longrightarrow> list_cut b c \<Longrightarrow> list_cut a c"
  unfolding list_cut_def by (elim exE conjE, intro conjI) (auto simp: only_log_def)

lemma list_cut_list: "list_cut a b \<Longrightarrow> has_list b"
  by (auto simp: list_cut_def has_list_def)

lemma log_if_list:
  assumes "log_if m mode addr data len g = Inr g'" "has_list g"
  shows "list_cut g g'"
proof (rule list_cut_param [OF assms(2)])
  show "glob_param g' = glob_param g" "only_log g (glob_fs g')"
    using assms(1) by (auto simp: log_if_def log_make_def write_log_def only_log_def Let_def split: if_splits option.splits)
qed

lemma bind_run_Inr: "bind_run r f = Inr y \<longleftrightarrow> (\<exists>x. r = Inr x \<and> f x = Inr y)"
  by (cases r) auto

lemma filter_tests_list:
  assumes "filter_tests lib a data len tmpbuf n g = Inr (v, g')" "has_list g"
  shows "list_cut g g'"
proof -
  let ?param = "glob_param g"
  obtain found param' where r: "blocklist_ip a ?param = Inr (found, param')"
    using assms(1) unfolding filter_tests_def Let_def by (cases "blocklist_ip a ?param") auto
  obtain buf where b: "blocklist_ip a ?param = Inr (found, ?param\<lparr>prm_block_addr_list := buf\<rparr>)" "NUL \<in> set buf"
    "lines_of (c_str buf) = take 1 (lines_of (c_str (prm_block_addr_list ?param)))"
    using blocklist_ip_leaves [OF _ r] assms(2) r unfolding has_list_def by auto
  define g0 where "g0 = g\<lparr>glob_param := ?param\<lparr>prm_block_addr_list := buf\<rparr>\<rparr>"
  have "list_cut g g0"
    unfolding list_cut_def g0_def using b(2,3)
    by (intro conjI exI [of _ buf]) (simp_all add: only_log_def)
  moreover have "list_cut g g2" if "list_cut g g1" "log_if m mode a d l g1 = Inr g2" for g1 g2 m mode d l
    using log_if_list [OF that(2) list_cut_list [OF that(1)]] list_cut_trans [OF that(1)] by blast
  moreover obtain g1 g2 g3 m2 m3 m4 where
    "log_if found ''Block per address'' a ('' '' @ [NUL]) 1 g0 = Inr g1"
    "log_if m2 ''Algorithm match'' a data len g1 = Inr g2" "log_if m3 ''Libinejction SQLi match'' a data len g2 = Inr g3"
    "log_if m4 ''Lib PCRE match per regex'' a data len g3 = Inr g'"
    using assms(1) unfolding filter_tests_def Let_def b(1) bind_run_simps prod.case bind_run_Inr split_beta fst_conv snd_conv
      g0_def [symmetric] sum.inject prod.inject by blast
  ultimately show ?thesis by blast
qed

lemma filter_check_list:
  assumes "filter_check lib a behind data g = Inr (v, g')" "has_list g"
  shows "list_cut g g'"
proof -
  from assms(1) have "g' = g \<or> (\<exists>a d l tmpbuf n. filter_tests lib a d l tmpbuf n g = Inr (v, g'))"
    by (auto simp: filter_check_def Let_def bind_run_Inr split: if_splits)
  then show ?thesis using filter_tests_list [OF _ assms(2)] list_cut_refl [OF assms(2)] by blast
qed

lemma conn_glob_after [simp]:
  "conn_glob (shown s b g c) = g" "conn_glob (passed s b p g c) = g"
  "conn_glob (ended s c) = conn_glob c" "conn_glob (drained s b p c) = conn_glob c"
  by (auto simp: shown_def passed_def ended_def drained_def Let_def split: option.split)

lemma filtered_list:
  "list_cut g (conn_glob c) \<Longrightarrow> filter_check lib a behind data (conn_glob c) = Inr (v, g') \<Longrightarrow>
   list_cut g g'"
  using filter_check_list list_cut_list list_cut_trans by blast

lemma step_list:
  assumes "conn_step lib addr c e c'" "conn_ok c" "list_cut g (conn_glob c)"
  shows "list_cut g (conn_glob c')"
  using assms(1,2)
proof (cases rule: step_cases)
  case (finish s behind b p attack g')
  then have "conn_glob c' = g'" by simp
  then show ?thesis using filtered_list [OF assms(3) finish(4)] by simp
qed (use assms(3) in \<open>auto intro: filtered_list\<close>)

lemma conn_glob_accept [simp]: "conn_glob (accept_cb connected g) = g"
  by (simp add: accept_cb_def)

interpretation lists: conn_invariant lib addr "accept_cb connected g"
  "\<lambda>es c. conn_ok c \<and> (has_list g \<longrightarrow> list_cut g (conn_glob c))"
  for lib :: "'re pcre_lib" and addr connected g
  by unfold_locales (auto intro: conn_ok_accept step_ok step_list list_cut_refl)

subsection \<open>The bytes forwarded\<close>

fun received :: "side \<Rightarrow> event list \<Rightarrow> string" where
  "received s [] = []"
| "received s (e # es) = (case e of Data t new behind \<Rightarrow> if t = s then new else [] | _ \<Rightarrow> []) @ received s es"

fun sent_count :: "side \<Rightarrow> event list \<Rightarrow> nat" where
  "sent_count s [] = 0"
| "sent_count s (e # es) = (case e of Sent t n \<Rightarrow> if t = s then n else 0 | _ \<Rightarrow> 0) + sent_count s es"

lemma received_append [simp]: "received s (es @ es') = received s es @ received s es'"
  by (induction es) auto

lemma sent_count_append [simp]: "sent_count s (es @ es') = sent_count s es + sent_count s es'"
  by (induction es) auto

text \<open>No side was shown the block message: what was received is what was sent and what is in the output.\<close>

definition in_order :: "event list \<Rightarrow> conn \<Rightarrow> side \<Rightarrow> bufferevent \<Rightarrow> bufferevent \<Rightarrow> bool" where
  "in_order es c s b p \<longleftrightarrow> bev_in b = [] \<and> sent_count (other s) es \<le> length (received s es) \<and>
     bev_out p = drop (sent_count (other s) es) (received s es)"

definition side_stream :: "event list \<Rightarrow> conn \<Rightarrow> side \<Rightarrow> bool" where
  "side_stream es c s \<longleftrightarrow>
     (case (bevs c s, bevs c (other s)) of
        (Some b, Some p) \<Rightarrow> blocked c s \<or> blocked c (other s) \<or> in_order es c s b p
      | _ \<Rightarrow> True)"

definition stream_ok :: "event list \<Rightarrow> conn \<Rightarrow> bool" where
  "stream_ok es c \<longleftrightarrow> (\<forall>s. side_stream es c s)"

lemma stream_sides: "stream_ok es c \<longleftrightarrow> side_stream es c s \<and> side_stream es c (other s)"
  unfolding stream_ok_def by (cases s) (auto simp: all_side_iff)

lemma step_stream:
  assumes "conn_step lib addr c e c'" "conn_ok c" "stream_ok es c"
  shows "stream_ok (es @ [e]) c'"
  using assms(1,2)
proof (cases rule: step_cases)
  case (attack s new behind b p g)
  then show ?thesis by (simp add: stream_sides [of _ _ s] side_stream_def shown_def split: option.split)
next
  case (harmless s new behind b p g)
  have "side_stream es c s" "side_stream es c (other s)" using assms(3) stream_sides by blast+
  then show ?thesis using harmless
    by (auto simp: stream_sides [of _ _ s] side_stream_def in_order_def passed_def arrived_def Let_def)
next
  case (finish s behind b p attack g)
  then show ?thesis
    by (auto simp: stream_sides [of _ _ s] side_stream_def ended_def split: option.split)
next
  case (last s)
  then show ?thesis by (simp add: stream_sides [of _ _ s] side_stream_def)
next
  case (drain s n b p)
  have "side_stream es c s" "side_stream es c (other s)" using assms(3) stream_sides by blast+
  then show ?thesis using drain
    by (auto simp: stream_sides [of _ _ s] side_stream_def in_order_def drained_def wrote_def add.commute)
next
  case (some_sent s n b)
  have "side_stream es c s" "side_stream es c (other s)" using assms(3) stream_sides by blast+
  then show ?thesis using some_sent(1-3,5)
    by (auto simp: stream_sides [of _ _ s] side_stream_def in_order_def wrote_def add.commute split: option.splits)
next
  case (connect s)
  have "side_stream es c s" "side_stream es c (other s)" using assms(3) stream_sides by blast+
  then show ?thesis using connect
    by (auto simp: stream_sides [of _ _ s] side_stream_def in_order_def split: option.splits)
qed

lemma stream_accept: "stream_ok [] (accept_cb connected g)"
  by (simp add: stream_ok_def side_stream_def in_order_def accept_cb_def fresh_bev_def)

interpretation stream: conn_invariant lib addr "accept_cb connected g" "\<lambda>es c. conn_ok c \<and> stream_ok es c"
  for lib :: "'re pcre_lib" and addr connected g
  by unfold_locales (auto intro: conn_ok_accept step_ok step_stream stream_accept)

text \<open>The block message stays a fact of the connection.\<close>

lemma step_blocked: "conn_step lib addr c e c' \<Longrightarrow> conn_ok c \<Longrightarrow> blocked c s \<Longrightarrow> blocked c' s"
  by (erule step_cases)
    (auto simp: shown_def passed_def ended_def drained_def Let_def split: option.split)

interpretation silent: conn_invariant lib addr c "\<lambda>es c'. conn_ok c \<longrightarrow> blocked c s \<longrightarrow> conn_ok c' \<and> blocked c' s"
  for lib :: "'re pcre_lib" and addr c s
  by unfold_locales (auto intro: step_ok step_blocked)

lemma blocked_no_reading: "conn_ok c \<Longrightarrow> blocked c s \<Longrightarrow> bevs c s = Some b \<Longrightarrow> \<not> bev_read b"
  by (auto simp: conn_ok_sides [of _ s] side_ok_def linked_def closing_def split: option.splits)

section \<open>Runs to apply the properties to\<close>

lemma reachable_step: "reachable lib addr g c \<Longrightarrow> conn_step lib addr c e c' \<Longrightarrow> reachable lib addr g c'"
  by (auto simp: reachable_def intro: conn_run.intros)

lemma reachable_accept: "reachable lib addr g (accept_cb connected g)"
  by (auto simp: reachable_def intro: conn_run.intros)

lemma bevs_accept [simp]: "bevs (accept_cb True g) s = Some fresh_bev"
  by (simp add: accept_cb_def)

lemma fresh_bev_simps [simp]:
  "bev_in fresh_bev = []" "bev_out fresh_bev = []" "bev_read fresh_bev" "bev_writecb fresh_bev = No_writecb"
  by (simp_all add: fresh_bev_def)

text \<open>The first bytes of a connection.\<close>

lemma first_step:
  assumes "filter_check lib (addr s) behind new g = Inr (attack, g')"
  shows "conn_step lib addr (accept_cb True g) (Data s new behind)
    (if attack then shown s (arrived new fresh_bev) g' (accept_cb True g)
     else passed s (arrived new fresh_bev) fresh_bev g' (accept_cb True g))"
  using handle_Data [of "accept_cb True g" s fresh_bev fresh_bev lib addr new behind] assms
  by (simp add: conn_step_iff conn_ok_accept)

lemma one_event: "conn_step lib addr c e c' \<Longrightarrow> conn_run lib addr c [e] c'"
  using conn_run.one_more [OF conn_run.nothing] by fastforce

lemma sample_attack:
  "\<exists>g'. filter_check no_pcre (Inr (Some ''10.0.0.2'')) zeros ''GET /index.html'' sample_globals = Inr (True, g')"
proof -
  have s: "fits (''GET /index.html'' @ [NUL])" "seen (''GET /index.html'' @ [NUL]) = ''GET /index.html''"
    by (rule sample_request; simp)+
  have "accepted ''GET /index.html''" by (simp add: accepted_def request_method_def)
  moreover have "rules_ok sample_choice ''GET /index.html''" "\<not> prm_pcre sample_choice"
    using sample_lines by (simp_all add: rules_ok_def rule_ok_def is_ascii_def)
  moreover have "found ''10.0.0.2'' sample_choice ''GET /index.html''"
    by (simp add: found_def addr_found_def sample_lines names_addr_def sublist_code)
  ultimately show ?thesis
    using filter_check_decides [of "''GET /index.html''" "[NUL]" sample_globals no_pcre "''10.0.0.2''" "[NUL]"] s
    by auto
qed

text \<open>A message of another method, followed by whatever.\<close>

lemma sample_harmless:
  "filter_check no_pcre (Inr a) zeros (''PATCH /?q=1'' @ NUL # rest) sample_globals = Inr (False, sample_globals)"
proof -
  have s: "fits ((''PATCH /?q=1'' @ NUL # rest) @ [NUL])" "seen ((''PATCH /?q=1'' @ NUL # rest) @ [NUL]) = ''PATCH /?q=1''"
    using sample_request [of "''PATCH /?q=1''" "rest @ [NUL]"] by simp_all
  then show ?thesis by (intro filter_check_other) (simp_all add: accepted_def request_method_def)
qed

section \<open>Properties\<close>

lemma enabled_bev: "enabled e c \<Longrightarrow> (\<exists>s. bevs c s \<noteq> None)"
  by (cases e) (auto split: option.splits)

lemma bind_pair_Inl: "bind_run r (\<lambda>(a, p). Inr (f a p)) = Inl stop \<longleftrightarrow> r = Inl stop"
  by (cases r) auto

lemma callback_stops:
  assumes "conn_ok c" "enabled e c"
  shows "handle lib addr e c = Inl stop \<longleftrightarrow> (\<exists>s b behind. bevs c s = Some b \<and>
    ((\<exists>new. e = Data s new behind \<and>
        filter_check lib (addr s) behind (bev_in b @ new) (conn_glob c) = Inl stop) \<or>
     ((e = Finished s behind \<or> e = Failed s behind) \<and> bevs c (other s) \<noteq> None \<and>
        filter_check lib (addr s) behind (bev_in b) (conn_glob c) = Inl stop)))"
proof -
  note ok = assms(1)
  have ending: ?thesis if ends: "e = Finished s behind \<or> e = Failed s behind" for s behind
  proof -
    obtain b where b: "bevs c s = Some b" using assms(2) ends by (auto split: option.splits)
    show ?thesis
      unfolding handle_end [OF b ok ends, of lib addr]
      using b ends by (cases "bevs c (other s)") (auto simp: bind_pair_Inl simp del: split_paired_Ex)
  qed
  show ?thesis
  proof (cases e)
    case (Data s new behind)
    then obtain b where b: "bevs c s = Some b" "bev_read b" using assms(2) by (auto split: option.splits)
    obtain p where p: "bevs c (other s) = Some p" using live_partner(3) [OF b(1) ok b(2)] by blast
    show ?thesis
      unfolding Data handle_Data [OF b ok p, of lib addr] bind_pair_Inl using b by auto
  next
    case (Sent s n)
    then obtain b where b: "bevs c s = Some b" using assms(2) by (auto split: option.splits)
    have "handle lib addr (Sent s n) c \<noteq> Inl stop"
      using handle_Sent_live [OF b ok, of _ lib addr n] handle_Sent_alone [OF b ok, of lib addr n]
      by (cases "bevs c (other s)") auto
    then show ?thesis using Sent by simp
  qed (use ending in \<open>auto simp: eventcb_def\<close>)
qed

text \<open>No callback touches a freed \<open>bufferevent\<close>: in every state a connection can reach, an event
  that is possible there is handled, unless it brings bytes or ends a side whose partner is alive
  and \<open>filter_check\<close> stops on what has come from this very side.\<close>

theorem callbacks_use_live_buffers:
  assumes "reachable lib addr g c" "enabled e c"
  shows "handle lib addr e c = Inl stop \<longleftrightarrow> (\<exists>s b behind. bevs c s = Some b \<and>
    ((\<exists>new. e = Data s new behind \<and>
        filter_check lib (addr s) behind (bev_in b @ new) (conn_glob c) = Inl stop) \<or>
     ((e = Finished s behind \<or> e = Failed s behind) \<and> bevs c (other s) \<noteq> None \<and>
        filter_check lib (addr s) behind (bev_in b) (conn_glob c) = Inl stop)))"
  by (rule callback_stops [OF reachable_ok [OF assms(1)] assms(2)])

theorem callbacks_use_live_buffers_witness:
  "handle no_pcre (\<lambda>_. Inr (Some ''10.0.0.1'')) (Finished Client ([], [])) (accept_cb True sample_globals) = Inl Fault"
proof -
  have f: "filter_check no_pcre (Inr (Some ''10.0.0.1'')) ([], []) [] sample_globals = Inl Fault" by (simp add: filter_check_def)
  show ?thesis
    by (subst callbacks_use_live_buffers [OF reachable_accept]) (auto intro!: exI [of _ fresh_bev] simp: f)
qed

text \<open>C8. Back-pressure: a side of a live connection reads exactly when it was not shown the block
  message and its partner's output is not waiting to be drained; while it reads, less than
  \<open>MAX_OUTPUT\<close> bytes and one block message are queued for the partner. So one more message is all
  that can exceed the bound.\<close>

theorem reading_is_bounded:
  assumes "reachable lib addr g c" "bevs c s = Some b" "bevs c (other s) = Some p"
  shows "(bev_read b \<longleftrightarrow> \<not> blocked c s \<and> bev_writecb p \<noteq> Drained_writecb) \<and>
    (bev_writecb p = Drained_writecb \<longrightarrow> bev_low p = MAX_OUTPUT div 2 \<and> \<not> blocked c s) \<and>
    (bev_read b \<longrightarrow> length (bev_out p) < MAX_OUTPUT + length block_text)"
  using reachable_ok [OF assms(1)] unfolding conn_ok_both [OF assms(2,3)]
  by (auto simp: linked_def split: if_splits)

theorem reading_is_bounded_witness:
  "(bev_read fresh_bev \<longleftrightarrow> \<not> blocked (accept_cb True sample_globals) Client \<and> bev_writecb fresh_bev \<noteq> Drained_writecb) \<and>
   length (bev_out fresh_bev) < MAX_OUTPUT + length block_text"
  using reading_is_bounded [OF reachable_accept [of no_pcre "\<lambda>_. Inr None" sample_globals True], of Client fresh_bev fresh_bev]
  by simp

text \<open>C18. No lost wake-up: when a side was choked because its partner's output was full, then as
  soon as this output has drained to half of \<open>MAX_OUTPUT\<close> the side reads again.\<close>

theorem choked_side_resumes:
  assumes "reachable lib addr g c" "bevs c s = Some b" "bevs c (other s) = Some p"
    "\<not> bev_read b" "\<not> blocked c s" "0 < n" "n \<le> length (bev_out p)" "length (bev_out p) - n \<le> MAX_OUTPUT div 2"
  shows "\<exists>c' b'. conn_step lib addr c (Sent (other s) n) c' \<and> bevs c' s = Some b' \<and> bev_read b' \<and>
    bev_in b' = bev_in b \<and> bev_out b' = bev_out b"
proof -
  note ok = reachable_ok [OF assms(1)]
  have "bev_writecb p = Drained_writecb"
    using ok assms(4,5) unfolding conn_ok_both [OF assms(2,3)] by (auto simp: linked_def)
  then have "handle lib addr (Sent (other s) n) c = Inr (drained (other s) (wrote n p) b c)"
    using handle_Sent_live [OF assms(3) ok, of b lib addr n] assms(2,8) by simp
  then show ?thesis using assms(3,6,7) by (simp add: conn_step_iff drained_def)
qed

text \<open>A message that fills the output.\<close>

definition big_message :: string where
  "big_message = ''PATCH /?q=1'' @ NUL # replicate MAX_OUTPUT CHR ''a''"

lemma choked_sample:
  "\<exists>c b p. reachable no_pcre (\<lambda>_. Inr None) sample_globals c \<and> bevs c Client = Some b \<and> bevs c Server = Some p \<and>
    \<not> bev_read b \<and> \<not> blocked c Client \<and> length (bev_out p) = MAX_OUTPUT + 12"
proof -
  define c where "c = passed Client (arrived big_message fresh_bev) fresh_bev sample_globals (accept_cb True sample_globals)"
  have "filter_check no_pcre (Inr None) zeros big_message sample_globals = Inr (False, sample_globals)"
    unfolding big_message_def by (rule sample_harmless)
  then have s: "conn_step no_pcre (\<lambda>_. Inr None) (accept_cb True sample_globals) (Data Client big_message zeros) c"
    using first_step [of no_pcre "\<lambda>_. Inr None" Client zeros big_message sample_globals False] by (simp add: c_def)
  have len: "length big_message = MAX_OUTPUT + 12" by (simp add: big_message_def)
  have "bevs c Client = Some (fresh_bev\<lparr>bev_in := [], bev_read := False\<rparr>)"
    "\<exists>p. bevs c Server = Some p \<and> bev_out p = big_message" "\<not> blocked c Client"
    using len by (simp_all add: c_def passed_def arrived_def Let_def accept_cb_def is_full_def)
  then show ?thesis using reachable_step [OF reachable_accept s] len by fastforce
qed

theorem choked_side_resumes_witness:
  "\<exists>c c' b'. reachable no_pcre (\<lambda>_. Inr None) sample_globals c \<and> \<not> enabled (Data Client [] zeros) c \<and>
     conn_step no_pcre (\<lambda>_. Inr None) c (Sent Server (MAX_OUTPUT + 12)) c' \<and> bevs c' Client = Some b' \<and> bev_read b'"
proof -
  obtain c b p where c: "reachable no_pcre (\<lambda>_. Inr None) sample_globals c" "bevs c Client = Some b" "bevs c Server = Some p"
    "\<not> bev_read b" "\<not> blocked c Client" and len: "length (bev_out p) = MAX_OUTPUT + 12"
    using choked_sample by blast
  have "\<not> enabled (Data Client [] zeros) c" using c(2,4) by simp
  moreover have "\<exists>c' b'. conn_step no_pcre (\<lambda>_. Inr None) c (Sent (other Client) (MAX_OUTPUT + 12)) c' \<and>
      bevs c' Client = Some b' \<and> bev_read b' \<and> bev_in b' = bev_in b \<and> bev_out b' = bev_out b"
    by (rule choked_side_resumes [OF c(1,2), of p]) (use c len in simp_all)
  ultimately show ?thesis using c(1) by auto
qed

text \<open>C20. A side that was shown the block message never reads again: whatever comes after, neither
  bytes nor the end of its stream reach \<open>readcb\<close>.\<close>

theorem blocked_side_stays_silent:
  assumes "conn_run lib addr (accept_cb connected g) es c" "blocked c s" "conn_run lib addr c es' c'"
  shows "\<not> enabled (Data s new behind) c' \<and> \<not> enabled (Finished s behind) c'"
proof -
  have "conn_ok c" using assms(1) by (rule wf.inv_run)
  then have "conn_ok c'" "blocked c' s" using silent.inv_run [OF assms(3), of s] assms(2) by blast+
  then show ?thesis using blocked_no_reading by (auto split: option.split)
qed

theorem blocked_side_stays_silent_witness:
  "\<exists>c. conn_run no_pcre (\<lambda>_. Inr (Some ''10.0.0.2'')) (accept_cb True sample_globals) [Data Client ''GET /index.html'' zeros] c \<and>
     \<not> enabled (Data Client ''GET /'' zeros) c"
proof -
  obtain g' where f: "filter_check no_pcre (Inr (Some ''10.0.0.2'')) zeros ''GET /index.html'' sample_globals = Inr (True, g')"
    using sample_attack by blast
  note run = one_event [OF first_step [of no_pcre "\<lambda>_. Inr (Some ''10.0.0.2'')", OF f, of Client]]
  have "blocked (shown Client (arrived ''GET /index.html'' fresh_bev) g' (accept_cb True sample_globals)) Client"
    by (simp add: shown_def)
  then show ?thesis
    using run blocked_side_stays_silent [OF run, of Client "[]"] by (auto intro: conn_run.nothing)
qed

text \<open>C9. What arrives is forwarded unless \<open>filter_check\<close> objects: on an attack the partner's output
  is untouched, the block message is queued for the sender and the sender is not read from any
  more; otherwise the bytes are appended to the partner's output, the sender's own output is
  untouched, and the sender goes on reading if the partner's output is below \<open>MAX_OUTPUT\<close>.\<close>

theorem forwarded_unless_attack:
  assumes "reachable lib addr g c" "conn_step lib addr c (Data s new behind) c'" "bevs c s = Some b"
  shows "\<exists>p b' p' attack g'. bevs c (other s) = Some p \<and> bevs c' s = Some b' \<and> bevs c' (other s) = Some p' \<and>
    filter_check lib (addr s) behind (bev_in b @ new) (conn_glob c) = Inr (attack, g') \<and>
    conn_glob c' = g' \<and>
    (if attack then p' = p \<and> bev_out b' = bev_out b @ block_text \<and> \<not> bev_read b' \<and> blocked c' s
     else bev_out p' = bev_out p @ bev_in b @ new \<and> bev_in b' = [] \<and> bev_out b' = bev_out b \<and>
          bev_read b' = (length (bev_out p') < MAX_OUTPUT) \<and> blocked c' s = blocked c s)"
  using assms(2) reachable_ok [OF assms(1)]
proof (cases rule: step_cases)
  case (attack s' new' behind' b0 p g')
  then show ?thesis using assms(3) by (auto simp: shown_def arrived_def)
next
  case (harmless s' new' behind' b0 p g')
  then show ?thesis using assms(3) by (auto simp: passed_def arrived_def Let_def is_full_def)
next
  case (last s')
  have "bev_read b" using assms(2,3) by (simp add: conn_step_iff)
  then have "bevs c (other s) \<noteq> None" using live_partner(3) [OF assms(3) reachable_ok [OF assms(1)]] by blast
  then show ?thesis using assms(2,3) last by (cases s; cases s') (auto simp: conn_step_iff)
qed auto

lemma sample_forwarded:
  "\<exists>c'. conn_step no_pcre (\<lambda>_. Inr None) (accept_cb True sample_globals) (Data Client (''PATCH /?q=1'' @ [NUL]) zeros) c'"
  using first_step [of no_pcre "\<lambda>_. Inr None" Client zeros "''PATCH /?q=1'' @ [NUL]" sample_globals]
    sample_harmless [of None "[]"] by fastforce

theorem forwarded_unless_attack_witness:
  "\<exists>c' p'. conn_step no_pcre (\<lambda>_. Inr None) (accept_cb True sample_globals) (Data Client (''PATCH /?q=1'' @ [NUL]) zeros) c' \<and>
     bevs c' Server = Some p' \<and> bev_out p' = ''PATCH /?q=1'' @ [NUL]"
proof -
  obtain c' where s: "conn_step no_pcre (\<lambda>_. Inr None) (accept_cb True sample_globals) (Data Client (''PATCH /?q=1'' @ [NUL]) zeros) c'"
    using sample_forwarded by blast
  show ?thesis
    using s forwarded_unless_attack [OF reachable_accept s, of fresh_bev] sample_harmless [of None "[]"]
    by (auto simp: accept_cb_def)
qed

text \<open>Between sides that were not blocked the proxy is a pipe: in every run, what one side has
  sent is what the other has received from the network, in order and without loss, up to the
  bytes that still wait in the other's output.\<close>

theorem stream_in_order:
  assumes "conn_run lib addr (accept_cb connected g) es c" "bevs c s = Some b" "bevs c (other s) = Some p"
    "\<not> blocked c s" "\<not> blocked c (other s)"
  shows "sent_count (other s) es \<le> length (received s es) \<and>
    received s es = take (sent_count (other s) es) (received s es) @ bev_out p \<and> bev_in b = []"
proof -
  have "side_stream es c s" using stream.inv_run [OF assms(1)] by (simp add: stream_ok_def)
  then show ?thesis using assms(2-5) by (simp add: side_stream_def in_order_def)
qed

theorem stream_in_order_witness:
  "\<exists>c p. conn_run no_pcre (\<lambda>_. Inr None) (accept_cb True sample_globals) [Data Client (''PATCH /?q=1'' @ [NUL]) zeros] c \<and>
     bevs c Server = Some p \<and> bev_out p = ''PATCH /?q=1'' @ [NUL]"
proof -
  define c where "c = passed Client (arrived (''PATCH /?q=1'' @ [NUL]) fresh_bev) fresh_bev sample_globals (accept_cb True sample_globals)"
  have run: "conn_run no_pcre (\<lambda>_. Inr None) (accept_cb True sample_globals) [Data Client (''PATCH /?q=1'' @ [NUL]) zeros] c"
    using one_event [OF first_step [of no_pcre "\<lambda>_. Inr None", OF sample_harmless [of _ "[]"], of Client]]
    by (simp add: c_def)
  obtain b p where c: "bevs c Client = Some b" "bevs c Server = Some p" "\<not> blocked c Client" "\<not> blocked c Server"
    by (simp add: c_def passed_def accept_cb_def Let_def)
  show ?thesis using stream_in_order [OF run c(1)] c run by auto
qed

lemma end_step:
  assumes "reachable lib addr g c" "conn_step lib addr c e c'" "e = Finished s behind \<or> e = Failed s behind"
  shows "bevs c' s = None" "bevs c (other s) = Some p \<Longrightarrow> bev_out p \<noteq> [] \<Longrightarrow>
    \<exists>p'. bevs c' (other s) = Some p' \<and> prefix (bev_out p) (bev_out p')"
proof -
  note ok = reachable_ok [OF assms(1)]
  obtain b where b: "bevs c s = Some b" using assms(2,3) by (auto simp: conn_step_iff split: option.splits)
  have h: "handle lib addr e c = Inr c'" using assms(2) by (simp add: conn_step_iff)
  have live: "\<exists>attack g. c' = ended s (if attack then shown s b g c else passed s b p g c)"
    if "bevs c (other s) = Some p" for p
    using h unfolding handle_end [OF b ok assms(3), of lib addr] that option.case bind_pair by blast
  then show "\<exists>p'. bevs c' (other s) = Some p' \<and> prefix (bev_out p) (bev_out p')"
    if "bevs c (other s) = Some p" "bev_out p \<noteq> []" using that
    by (fastforce simp: ended_def shown_def passed_def Let_def)
  show "bevs c' s = None"
  proof (cases "bevs c (other s)")
    case None
    then show ?thesis using h unfolding handle_end [OF b ok assms(3), of lib addr] by auto
  next
    case (Some p)
    then show ?thesis using live by (auto simp: ended_def)
  qed
qed

text \<open>C19. A connection that ends is cleaned up and its last bytes are not lost: when a side ends or
  fails, it is freed; if the partner has bytes to send, it is kept with them, and a partner that
  is kept has bytes to send, does not read, and is freed when the last of them is sent.\<close>

theorem ending_frees_both:
  assumes "reachable lib addr g c" "conn_step lib addr c e c'" "e = Finished s behind \<or> e = Failed s behind"
  shows "bevs c' s = None \<and>
    (\<forall>p. bevs c (other s) = Some p \<longrightarrow> bev_out p \<noteq> [] \<longrightarrow>
       (\<exists>p'. bevs c' (other s) = Some p' \<and> prefix (bev_out p) (bev_out p'))) \<and>
    (\<forall>p. bevs c' (other s) = Some p \<longrightarrow> bev_out p \<noteq> [] \<and> \<not> bev_read p \<and>
       (\<exists>c''. conn_step lib addr c' (Sent (other s) (length (bev_out p))) c'' \<and> bevs c'' = (\<lambda>_. None)))"
proof -
  have ok: "conn_ok c'" using step_ok reachable_ok assms(1,2) by blast
  note gone = end_step(1) [OF assms]
  have kept: "bev_out p \<noteq> [] \<and> \<not> bev_read p \<and>
      (\<exists>c''. conn_step lib addr c' (Sent (other s) (length (bev_out p))) c'' \<and> bevs c'' = (\<lambda>_. None))"
    if p: "bevs c' (other s) = Some p" for p
  proof -
    have alone: "bevs c' (other (other s)) = None" using gone by simp
    have *: "bev_out p \<noteq> []" "\<not> bev_read p" using ok unfolding conn_ok_alone [OF p alone] by (auto simp: closing_def)
    have "(bevs c')(other s := None) = (\<lambda>_. None)" using gone by (cases s) (auto simp: fun_eq_iff all_side_iff)
    then show ?thesis
      using handle_Sent_alone [OF p ok alone, of lib addr "length (bev_out p)"] p * by (auto simp: conn_step_iff)
  qed
  show ?thesis using gone end_step(2) [OF assms] kept by blast
qed

lemma sample_pending:
  "\<exists>c p. reachable no_pcre (\<lambda>_. Inr None) sample_globals c \<and> bevs c Client = Some fresh_bev \<and> bevs c Server = Some p \<and>
     bev_out p \<noteq> [] \<and> conn_glob c = sample_globals"
proof -
  define c where "c = passed Client (arrived (''PATCH /?q=1'' @ [NUL]) fresh_bev) fresh_bev sample_globals (accept_cb True sample_globals)"
  have "reachable no_pcre (\<lambda>_. Inr None) sample_globals c"
    using reachable_step [OF reachable_accept first_step [of no_pcre "\<lambda>_. Inr None", OF sample_harmless [of _ "[]"], of Client]]
    by (simp add: c_def)
  moreover have "length block_text \<noteq> 0 \<and> bevs c Client = Some fresh_bev \<and>
      (\<exists>p. bevs c Server = Some p \<and> bev_out p = ''PATCH /?q=1'' @ [NUL])"
    by (simp add: c_def passed_def arrived_def accept_cb_def Let_def is_full_def MAX_OUTPUT_def fresh_bev_def block_text_def)
  ultimately show ?thesis by (fastforce simp: c_def)
qed

theorem ending_frees_both_witness:
  "\<exists>c c' c'' p. conn_step no_pcre (\<lambda>_. Inr None) c (Failed Client zeros) c' \<and> bevs c' Server = Some p \<and>
     conn_step no_pcre (\<lambda>_. Inr None) c' (Sent Server (length (bev_out p))) c'' \<and> bevs c'' = (\<lambda>_. None)"
proof -
  obtain c p where c: "reachable no_pcre (\<lambda>_. Inr None) sample_globals c" "bevs c Client = Some fresh_bev"
    "bevs c Server = Some p" "bev_out p \<noteq> []" "conn_glob c = sample_globals"
    using sample_pending by blast
  have "filter_check no_pcre (Inr None) zeros [] sample_globals = Inr (False, sample_globals)"
    by (rule filter_check_other) (simp_all add: fits_def seen_def c_str_def accepted_def)
  then obtain c' where s: "conn_step no_pcre (\<lambda>_. Inr None) c (Failed Client zeros) c'"
    using handle_end [OF c(2) reachable_ok [OF c(1)], of "Failed Client zeros" zeros no_pcre "\<lambda>_. Inr None"] c
    by (force simp: conn_step_iff)
  show ?thesis using s ending_frees_both [OF c(1) s] c(3,4) by fastforce
qed

text \<open>The global state along a connection: of the options nothing changes but the list of
  blocked addresses, and of this the lines are those that were read or only the first of them;
  of the files only the log is written, and none if there is no log.\<close>

theorem block_list_shrinks:
  assumes "reachable lib addr g c" "NUL \<in> set (prm_block_addr_list (glob_param g))"
  shows "\<exists>buf. glob_param (conn_glob c) = (glob_param g)\<lparr>prm_block_addr_list := buf\<rparr> \<and>
    (lines_of (c_str buf) = lines_of (c_str (prm_block_addr_list (glob_param g))) \<or>
     lines_of (c_str buf) = take 1 (lines_of (c_str (prm_block_addr_list (glob_param g))))) \<and>
    (\<forall>name. prm_logfile (glob_param g) = None \<or> name \<noteq> c_str (the (prm_logfile (glob_param g))) \<longrightarrow>
       glob_fs (conn_glob c) name = glob_fs g name)"
proof -
  obtain connected es where "conn_run lib addr (accept_cb connected g) es c" using assms(1) by (auto simp: reachable_def)
  then have "list_cut g (conn_glob c)" using lists.inv_run [of lib addr connected g es c] assms(2)
    by (simp add: has_list_def)
  then show ?thesis by (auto simp: list_cut_def only_log_def)
qed

theorem block_list_shrinks_witness:
  "\<exists>buf. glob_param (conn_glob (accept_cb True sample_globals)) = sample_choice\<lparr>prm_block_addr_list := buf\<rparr> \<and>
    (lines_of (c_str buf) = [''10.0.0.1'', ''10.0.0.2''] \<or> lines_of (c_str buf) = [''10.0.0.1''])"
  using block_list_shrinks [OF reachable_accept [of no_pcre "\<lambda>_. Inr None" sample_globals True]] sample_lines(3)
  by (auto simp: sample_lines lists_ok_def)

text \<open>C11. A blocked request can reach the server: a request that is refused only because its
  address stands in a later line of the block list cuts this list, and stays in the input. When
  the connection then fails, \<open>eventcb\<close> flushes the input through \<open>readcb\<close> once more, the cut list
  does not know the address, and the whole request is queued for the server.\<close>

theorem blocked_request_forwarded_on_error:
  fixes g :: globals
  defines "param \<equiv> glob_param g"
  assumes "fits (req @ [NUL])" "accepted (seen (req @ [NUL]))" "rules_ok param (seen (req @ [NUL]))" "\<not> prm_pcre param"
    "\<not> rule_found param (seen (req @ [NUL]))" "\<not> sqli_found param (seen (req @ [NUL]))"
    "addr Client = Inr (Some a)" "list_ex (names_addr a) (lines_of (c_str (prm_block_addr_list param)))"
    "\<not> list_ex (names_addr a) (take 1 (lines_of (c_str (prm_block_addr_list param))))" "req \<noteq> []"
    "can_log g"
  shows "\<exists>c1 c2 p. conn_run lib addr (accept_cb True g) [Data Client req zeros] c1 \<and> blocked c1 Client \<and>
    conn_run lib addr (accept_cb True g) [Data Client req zeros, Failed Client zeros] c2 \<and>
    bevs c2 Server = Some p \<and> bev_out p = req \<and> bev_writecb p = Close_on_finished"
proof -
  let ?msg = "seen (req @ [NUL])"
  have "found a param ?msg" using assms(9) by (simp add: found_def addr_found_def list_ex_iff)
  then obtain buf fs where f1: "filter_check lib (addr Client) zeros req g =
      Inr (True, g\<lparr>glob_param := param\<lparr>prm_block_addr_list := buf\<rparr>, glob_fs := fs\<rparr>)"
    and buf: "NUL \<in> set buf" "lines_of (c_str buf) = take 1 (lines_of (c_str (prm_block_addr_list param)))"
    using filter_check_decides [of req "[NUL]" g lib a "[NUL]"] assms(2-5,8,12) unfolding param_def by auto
  define g1 where "g1 = g\<lparr>glob_param := param\<lparr>prm_block_addr_list := buf\<rparr>, glob_fs := fs\<rparr>"
  have g1: "rules_ok (glob_param g1) ?msg" "\<not> prm_pcre (glob_param g1)" "can_log g1" "\<not> found a (glob_param g1) ?msg"
    using assms(4-7,10,12) buf
    by (auto simp: g1_def param_def rules_ok_def lists_ok_def can_log_def found_def addr_found_def rule_found_def
        sqli_found_def list_ex_iff split: option.splits)
  then obtain g2 where f2: "filter_check lib (addr Client) zeros req g1 = Inr (False, g2)"
    using filter_check_decides [OF assms(2,3) g1(1-3), of lib a "[NUL]"] assms(8) by auto
  define b where "b = arrived req fresh_bev"
  define c1 where "c1 = shown Client b g1 (accept_cb True g)"
  have s1: "conn_step lib addr (accept_cb True g) (Data Client req zeros) c1"
    using first_step [of lib addr Client, OF f1] by (simp add: c1_def b_def g1_def)
  obtain b1 where c1: "bevs c1 Client = Some b1" "bev_in b1 = req" "bevs c1 Server = Some fresh_bev" "blocked c1 Client"
    "conn_glob c1 = g1"
    by (simp add: c1_def b_def shown_def arrived_def accept_cb_def)
  define c2 where "c2 = ended Client (passed Client b1 fresh_bev g2 c1)"
  have "handle lib addr (Failed Client zeros) c1 = Inr c2"
    using handle_end [OF c1(1) step_ok [OF conn_ok_accept s1], of "Failed Client zeros" zeros lib addr] c1 f2
    by (simp add: c2_def)
  then have s2: "conn_step lib addr c1 (Failed Client zeros) c2" using c1(1) by (simp add: conn_step_iff)
  have "conn_run lib addr (accept_cb True g) [Data Client req zeros, Failed Client zeros] c2"
    using conn_run.one_more [OF one_event [OF s1] s2] by simp
  moreover have "\<exists>p. bevs c2 Server = Some p \<and> bev_out p = req \<and> bev_writecb p = Close_on_finished"
    using c1(2) assms(11) by (simp add: c2_def ended_def passed_def Let_def)
  ultimately show ?thesis using one_event [OF s1] c1(4) by blast
qed

theorem blocked_request_forwarded_on_error_witness:
  "\<exists>c1 c2 p. conn_run no_pcre (\<lambda>_. Inr (Some ''10.0.0.2'')) (accept_cb True sample_globals) [Data Client ''GET /index.html'' zeros] c1 \<and>
    blocked c1 Client \<and>
    conn_run no_pcre (\<lambda>_. Inr (Some ''10.0.0.2'')) (accept_cb True sample_globals) [Data Client ''GET /index.html'' zeros, Failed Client zeros] c2 \<and>
    bevs c2 Server = Some p \<and> bev_out p = ''GET /index.html'' \<and> bev_writecb p = Close_on_finished"
proof -
  have s: "fits (''GET /index.html'' @ [NUL])" "seen (''GET /index.html'' @ [NUL]) = ''GET /index.html''"
    by (rule sample_request; simp)+
  have "accepted ''GET /index.html''" by (simp add: accepted_def request_method_def)
  moreover have "rules_ok sample_choice ''GET /index.html''"
    using sample_lines by (simp add: rules_ok_def rule_ok_def is_ascii_def)
  moreover have "\<not> rule_found sample_choice ''GET /index.html''"
    by (simp add: rule_found_def sample_lines rule_hits_def rule_pattern_def numeral_nat sublist_code)
  moreover have "\<not> sqli_found sample_choice ''GET /index.html''" by (simp add: sqli_found_def sample_choice_def)
  ultimately show ?thesis
    by (intro blocked_request_forwarded_on_error [where a = "''10.0.0.2''"])
      (simp_all add: s sample_lines names_addr_def sublist_code del: append_Cons append_Nil)
qed

end
