(* ===== verification/Proxy_Server.thy ===== *)
theory Proxy_Server
  imports Proxy_Properties
begin

text \<open>
  All connections of the server (\<open>accept_cb\<close> and the callbacks of \<open>proxy.c\<close> under one event loop).
  The options and the log are global in the sources, so the connections share them: an event of
  one connection is handled with the options as the last event of any connection left them. The
  events of all connections interleave in any order.
\<close>

section \<open>State and steps\<close>

record waf =
  waf_glob :: globals
  waf_conns :: "conn list"

datatype waf_event = Accept bool | On nat event

definition waf_init :: "globals \<Rightarrow> waf" where
  "waf_init g = \<lparr>waf_glob = g, waf_conns = []\<rparr>"

text \<open>A connection as its callbacks see it.\<close>

definition conn_view :: "waf \<Rightarrow> nat \<Rightarrow> conn" where
  "conn_view w i = (waf_conns w ! i)\<lparr>conn_glob := waf_glob w\<rparr>"

fun waf_enabled :: "waf_event \<Rightarrow> waf \<Rightarrow> bool" where
  "waf_enabled (Accept connected) w \<longleftrightarrow> True"
| "waf_enabled (On i e) w \<longleftrightarrow> i < length (waf_conns w) \<and> enabled e (conn_view w i)"

text \<open>\<open>addr i s\<close> is what \<open>bufferevent_get_addr\<close> gives on the side \<open>s\<close> of connection \<open>i\<close>.\<close>

fun waf_handle :: "'re pcre_lib \<Rightarrow> (nat \<Rightarrow> side \<Rightarrow> peer_addr) \<Rightarrow> waf_event \<Rightarrow> waf \<Rightarrow> stop + waf" where
  "waf_handle lib addr (Accept connected) w =
     Inr (w\<lparr>waf_conns := waf_conns w @ [accept_cb connected (waf_glob w)]\<rparr>)"
| "waf_handle lib addr (On i e) w =
     bind_run (handle lib (addr i) e (conn_view w i)) (\<lambda>c.
     Inr (w\<lparr>waf_glob := conn_glob c, waf_conns := (waf_conns w)[i := c]\<rparr>))"

inductive waf_run :: "'re pcre_lib \<Rightarrow> (nat \<Rightarrow> side \<Rightarrow> peer_addr) \<Rightarrow> waf \<Rightarrow> waf_event list \<Rightarrow> waf \<Rightarrow> bool" for lib addr w where
  nothing: "waf_run lib addr w [] w"
| one_more: "waf_run lib addr w es w' \<Longrightarrow> waf_enabled e w' \<Longrightarrow> waf_handle lib addr e w' = Inr w'' \<Longrightarrow>
    waf_run lib addr w (es @ [e]) w''"

text \<open>The events of one connection.\<close>

fun events_of :: "nat \<Rightarrow> waf_event list \<Rightarrow> event list" where
  "events_of i [] = []"
| "events_of i (Accept connected # es) = events_of i es"
| "events_of i (On j e # es) = (if i = j then e # events_of i es else events_of i es)"

lemma events_of_append [simp]: "events_of i (es @ es') = events_of i es @ events_of i es'"
  by (induction i es rule: events_of.induct) auto

section \<open>Invariants of one connection hold for all of them\<close>

text \<open>What is true of a fresh connection, is kept by its steps, and does not speak of the options.\<close>

locale shared_invariant =
  fixes lib :: "'re pcre_lib" and addr :: "nat \<Rightarrow> side \<Rightarrow> peer_addr" and inv :: "event list \<Rightarrow> conn \<Rightarrow> bool"
  assumes inv_accept: "inv [] (accept_cb connected g)"
    and inv_step: "inv es c \<Longrightarrow> conn_step lib (addr i) c e c' \<Longrightarrow> inv (es @ [e]) c'"
    and inv_glob: "inv es (c\<lparr>conn_glob := g\<rparr>) = inv es c"
begin

lemma all_conns:
  "waf_run lib addr (waf_init g) es w \<Longrightarrow>
   (\<forall>i < length (waf_conns w). inv (events_of i es) (waf_conns w ! i)) \<and>
   (\<forall>i \<ge> length (waf_conns w). events_of i es = [])"
proof (induction rule: waf_run.induct)
  case nothing
  then show ?case by (simp add: waf_init_def)
next
  case (one_more es w e w')
  show ?case
  proof (cases e)
    case (Accept connected)
    then have w': "waf_conns w' = waf_conns w @ [accept_cb connected (waf_glob w)]" using one_more.hyps by auto
    then show ?thesis using one_more.IH inv_accept Accept by (auto simp: nth_append less_Suc_eq)
  next
    case (On i e')
    then have i: "i < length (waf_conns w)" and en: "enabled e' (conn_view w i)" using one_more.hyps by auto
    obtain c where c: "handle lib (addr i) e' (conn_view w i) = Inr c" and w': "waf_conns w' = (waf_conns w)[i := c]"
      using one_more.hyps On by (auto simp: bind_run_Inr)
    have "inv (events_of i es) (conn_view w i)" using one_more.IH i by (simp add: conn_view_def inv_glob)
    then have "inv (events_of i es @ [e']) c" by (rule inv_step [of _ _ i]) (simp add: conn_step_iff en c)
    then show ?thesis using one_more.IH i On by (auto simp: w' nth_list_update)
  qed
qed

lemma each_conn: "waf_run lib addr (waf_init g) es w \<Longrightarrow> i < length (waf_conns w) \<Longrightarrow> inv (events_of i es) (waf_conns w ! i)"
  using all_conns by blast

end

lemma conn_ok_glob [simp]: "conn_ok (c\<lparr>conn_glob := g\<rparr>) = conn_ok c"
  by (simp add: conn_ok_def side_ok_def split: option.split)

lemma stream_ok_glob: "stream_ok es (c\<lparr>conn_glob := g\<rparr>) = stream_ok es c"
  by (simp add: stream_ok_def side_stream_def in_order_def split: option.split)

interpretation all_wf: shared_invariant lib addr "\<lambda>es c. conn_ok c" for lib :: "'re pcre_lib" and addr
  by unfold_locales (auto intro: conn_ok_accept step_ok)

interpretation all_streams: shared_invariant lib addr "\<lambda>es c. conn_ok c \<and> stream_ok es c"
  for lib :: "'re pcre_lib" and addr
  by unfold_locales (auto simp: stream_ok_glob intro: conn_ok_accept step_ok step_stream stream_accept)

section \<open>The options under all connections\<close>

lemma waf_list:
  assumes "waf_run lib addr (waf_init g) es w" "has_list g"
  shows "list_cut g (waf_glob w)"
  using assms(1)
proof (induction rule: waf_run.induct)
  case nothing
  then show ?case using list_cut_refl [OF assms(2)] by (simp add: waf_init_def)
next
  case (one_more es w e w')
  show ?case
  proof (cases e)
    case (Accept connected)
    then show ?thesis using one_more by auto
  next
    case (On i e')
    then obtain c where c: "handle lib (addr i) e' (conn_view w i) = Inr c" "waf_glob w' = conn_glob c"
      "i < length (waf_conns w)" "enabled e' (conn_view w i)"
      using one_more.hyps by (auto simp: bind_run_Inr)
    have "conn_ok (conn_view w i)" using all_wf.each_conn [OF one_more.hyps(1) c(3)] by (simp add: conn_view_def)
    then have "list_cut g (conn_glob c)"
      by (rule step_list [rotated]) (use c one_more.IH in \<open>simp_all add: conn_step_iff conn_view_def\<close>)
    then show ?thesis by (simp add: c)
  qed
qed

section \<open>Runs\<close>

lemma waf_step1:
  assumes "waf_run lib addr w es w'" "i < length (waf_conns w')" "conn_step lib (addr i) (conn_view w' i) e c"
  shows "waf_run lib addr w (es @ [On i e]) (w'\<lparr>waf_glob := conn_glob c, waf_conns := (waf_conns w')[i := c]\<rparr>)"
  by (rule waf_run.one_more [OF assms(1)]) (use assms(2,3) in \<open>simp_all add: conn_step_iff\<close>)

lemma waf_accept:
  "waf_run lib addr w es w' \<Longrightarrow>
   waf_run lib addr w (es @ [Accept connected]) (w'\<lparr>waf_conns := waf_conns w' @ [accept_cb connected (waf_glob w')]\<rparr>)"
  by (erule waf_run.one_more) simp_all

section \<open>Properties\<close>

text \<open>C7. The server as a whole stays in defined behaviour outside the filter: however the events of any
  number of connections have interleaved, an event that is possible next is handled, with one
  exception that is given exactly. The event stops the server if and only if it brings bytes to a live
  side of a connection, or ends one side of a connection whose two sides are alive, and \<open>filter_check\<close>
  stops on the bytes that are unread on this side (with the new ones), the address of this side and
  the options as they are. So no callback uses a freed \<open>bufferevent\<close>: an accept, a drained output or
  an established connection never stops, and nothing before or after \<open>filter_check\<close> does.\<close>

theorem server_uses_live_buffers:
  assumes "waf_run lib addr (waf_init g) es w" "waf_enabled e w"
  shows "waf_handle lib addr e w = Inl stop \<longleftrightarrow> (\<exists>i s b behind. i < length (waf_conns w) \<and>
    bevs (waf_conns w ! i) s = Some b \<and>
    ((\<exists>new. e = On i (Data s new behind) \<and>
        filter_check lib (addr i s) behind (bev_in b @ new) (waf_glob w) = Inl stop) \<or>
     ((e = On i (Finished s behind) \<or> e = On i (Failed s behind)) \<and> bevs (waf_conns w ! i) (other s) \<noteq> None \<and>
        filter_check lib (addr i s) behind (bev_in b) (waf_glob w) = Inl stop)))"
proof (cases e)
  case (On i e')
  then have i: "i < length (waf_conns w)" "enabled e' (conn_view w i)" using assms(2) by auto
  have ok: "conn_ok (conn_view w i)" using all_wf.each_conn [OF assms(1) i(1)] by (simp add: conn_view_def)
  have "waf_handle lib addr e w = Inl stop \<longleftrightarrow> handle lib (addr i) e' (conn_view w i) = Inl stop"
    unfolding On by (cases "handle lib (addr i) e' (conn_view w i)") auto
  then show ?thesis
    unfolding callback_stops [OF ok i(2)] using i(1) On by (auto simp: conn_view_def)
qed simp

theorem server_uses_live_buffers_witness:
  "waf_handle no_pcre (\<lambda>_ _. Inr (Some ''10.0.0.1'')) (On 0 (Finished Client ([], [])))
     (waf_init sample_globals\<lparr>waf_conns := [accept_cb True sample_globals]\<rparr>) = Inl Fault \<and>
   waf_handle no_pcre (\<lambda>_ _. Inr (Some ''10.0.0.1'')) (On 0 (Connected Server))
     (waf_init sample_globals\<lparr>waf_conns := [accept_cb True sample_globals]\<rparr>) \<noteq> Inl Fault"
proof -
  let ?w = "waf_init sample_globals\<lparr>waf_conns := [accept_cb True sample_globals]\<rparr>"
  have run: "waf_run no_pcre (\<lambda>_ _. Inr (Some ''10.0.0.1'')) (waf_init sample_globals) [Accept True] ?w"
    using waf_accept [OF waf_run.nothing, of no_pcre "\<lambda>_ _. Inr (Some ''10.0.0.1'')" "waf_init sample_globals" True]
    by (simp add: waf_init_def)
  have view: "conn_view ?w 0 = accept_cb True sample_globals"
    by (simp add: conn_view_def waf_init_def accept_cb_def)
  have f: "filter_check no_pcre (Inr (Some ''10.0.0.1'')) ([], []) [] sample_globals = Inl Fault" by (simp add: filter_check_def)
  have en: "waf_enabled (On 0 (Finished Client ([], []))) ?w" "waf_enabled (On 0 (Connected Server)) ?w"
    by (simp_all add: view)
  show ?thesis
    unfolding server_uses_live_buffers [OF run en(1)] server_uses_live_buffers [OF run en(2)]
    using f by (auto simp: waf_init_def accept_cb_def)
qed

text \<open>C10. No connection mixes with another: however the events interleave, on every connection whose sides
  were not blocked, what one side has sent is what the other has received on this connection, in
  order and without loss, up to the bytes that still wait in the other's output.\<close>

theorem server_streams_in_order:
  assumes "waf_run lib addr (waf_init g) es w" "i < length (waf_conns w)"
    "bevs (waf_conns w ! i) s = Some b" "bevs (waf_conns w ! i) (other s) = Some p"
    "\<not> blocked (waf_conns w ! i) s" "\<not> blocked (waf_conns w ! i) (other s)"
  shows "take (sent_count (other s) (events_of i es)) (received s (events_of i es)) @ bev_out p =
    received s (events_of i es) \<and> bev_in b = []"
  using all_streams.each_conn [OF assms(1,2)] assms(3-6)
  by (auto simp: stream_sides [of _ _ s] side_stream_def in_order_def)

text \<open>Two connections are open and nothing has come yet.\<close>

definition two_conns :: "globals \<Rightarrow> waf" where
  "two_conns g = \<lparr>waf_glob = g, waf_conns = [accept_cb True g, accept_cb True g]\<rparr>"

lemma two_conns_run: "waf_run lib addr (waf_init g) [Accept True, Accept True] (two_conns g)"
  using waf_accept [OF waf_accept [OF waf_run.nothing, of lib addr "waf_init g" True], of True]
  by (simp add: waf_init_def two_conns_def)

lemma two_conns_simps [simp]: "waf_glob (two_conns g) = g" "waf_conns (two_conns g) = [accept_cb True g, accept_cb True g]"
  by (simp_all add: two_conns_def)

lemma accept_glob [simp]: "accept_cb connected g\<lparr>conn_glob := g'\<rparr> = accept_cb connected g'"
  by (simp add: accept_cb_def)

theorem server_streams_in_order_witness:
  "\<exists>w p. waf_run no_pcre (\<lambda>_ _. Inr None) (waf_init sample_globals)
       [Accept True, Accept True, On 1 (Data Client (''PATCH /?q=1'' @ [NUL]) zeros)] w \<and>
     bevs (waf_conns w ! 1) Server = Some p \<and> bev_out p = ''PATCH /?q=1'' @ [NUL]"
proof -
  obtain c where s: "conn_step no_pcre (\<lambda>_. Inr None) (accept_cb True sample_globals) (Data Client (''PATCH /?q=1'' @ [NUL]) zeros) c"
    and c: "c = passed Client (arrived (''PATCH /?q=1'' @ [NUL]) fresh_bev) fresh_bev sample_globals (accept_cb True sample_globals)"
    using first_step [of no_pcre "\<lambda>_. Inr None" Client zeros "''PATCH /?q=1'' @ [NUL]" sample_globals]
      sample_harmless [of None "[]"] by fastforce
  define w where "w = two_conns sample_globals\<lparr>waf_glob := conn_glob c, waf_conns := (waf_conns (two_conns sample_globals))[1 := c]\<rparr>"
  have run: "waf_run no_pcre (\<lambda>_ _. Inr None) (waf_init sample_globals)
      ([Accept True, Accept True] @ [On 1 (Data Client (''PATCH /?q=1'' @ [NUL]) zeros)]) w"
    unfolding w_def by (rule waf_step1 [OF two_conns_run]) (use s in \<open>simp_all add: conn_view_def\<close>)
  have "\<exists>b p. bevs (waf_conns w ! 1) Client = Some b \<and> bevs (waf_conns w ! 1) Server = Some p"
    "\<not> blocked (waf_conns w ! 1) s" for s
    by (auto simp: w_def c passed_def accept_cb_def Let_def)
  then show ?thesis
    using run server_streams_in_order [OF run, of 1 Client] by (fastforce simp: w_def)
qed

text \<open>The first bytes on a connection of the server.\<close>

lemma first_bytes:
  assumes "waf_run lib addr w0 es w" "i < length (waf_conns w)" "waf_conns w ! i = accept_cb True g0"
    "filter_check lib (addr i Client) zeros new (waf_glob w) = Inr (attack, g)"
  obtains w' where "waf_run lib addr w0 (es @ [On i (Data Client new zeros)]) w'" "waf_glob w' = g"
    "\<And>j. j \<noteq> i \<Longrightarrow> waf_conns w' ! j = waf_conns w ! j" "length (waf_conns w') = length (waf_conns w)"
    "blocked (waf_conns w' ! i) Client = attack"
    "\<exists>p. bevs (waf_conns w' ! i) Server = Some p \<and> bev_out p = (if attack then [] else new)"
proof -
  define c where "c = (if attack then shown Client (arrived new fresh_bev) g (accept_cb True (waf_glob w))
     else passed Client (arrived new fresh_bev) fresh_bev g (accept_cb True (waf_glob w)))"
  have "conn_step lib (addr i) (conn_view w i) (Data Client new zeros) c"
    unfolding conn_view_def assms(3) accept_glob c_def by (rule first_step [of lib "addr i" Client, OF assms(4)])
  note run = waf_step1 [OF assms(1,2) this]
  have "conn_glob c = g" "blocked c Client = attack"
    "\<exists>p. bevs c Server = Some p \<and> bev_out p = (if attack then [] else new)"
    by (auto simp: c_def shown_def passed_def arrived_def accept_cb_def Let_def fresh_bev_def)
  then show thesis using that [OF run] assms(2) by simp
qed

text \<open>C12. One client opens the gate for another. Take a client whose address stands in a later line of
  the block list but not in the first, and its request, which carries no rule of the list and no
  injection. If this request is the first that any client sends, it is blocked; if one other client
  has sent one accepted request before, be that one blocked or not, the same request is forwarded
  whole: the other request has cut the list for all. This is stated for two fresh connections, with
  the PCRE rules off, for two clients whose addresses can be read, and for accepted requests that each come in
  one piece with a terminator behind the copied block, are short enough for the decoding buffer (\<open>fits\<close>), have a text in the domain of the chosen search (\<open>rules_ok\<close>), and for a log that is off or
  can be opened (\<open>can_log\<close>).\<close>

theorem one_client_unblocks_another:
  fixes g :: globals
  defines "param \<equiv> glob_param g"
  assumes "fits (req @ [NUL])" "accepted (seen (req @ [NUL]))" "rules_ok param (seen (req @ [NUL]))" "\<not> prm_pcre param"
    "\<not> rule_found param (seen (req @ [NUL]))" "\<not> sqli_found param (seen (req @ [NUL]))"
    "addr 1 Client = Inr (Some a)" "list_ex (names_addr a) (lines_of (c_str (prm_block_addr_list param)))"
    "\<not> list_ex (names_addr a) (take 1 (lines_of (c_str (prm_block_addr_list param))))" "can_log g"
    "fits (first @ [NUL])" "accepted (seen (first @ [NUL]))" "rules_ok param (seen (first @ [NUL]))"
    "addr 0 Client = Inr (Some b)"
  shows "(\<exists>w p. waf_run lib addr (waf_init g) [Accept True, Accept True, On 1 (Data Client req zeros)] w \<and>
      blocked (waf_conns w ! 1) Client \<and> bevs (waf_conns w ! 1) Server = Some p \<and> bev_out p = []) \<and>
    (\<exists>w p. waf_run lib addr (waf_init g)
        [Accept True, Accept True, On 0 (Data Client first zeros), On 1 (Data Client req zeros)] w \<and>
      \<not> blocked (waf_conns w ! 1) Client \<and> bevs (waf_conns w ! 1) Server = Some p \<and> bev_out p = req)"
proof
  let ?msg = "seen (req @ [NUL])"
  have "found a param ?msg" using assms(9) by (simp add: found_def addr_found_def list_ex_iff)
  then obtain g1 where f1: "filter_check lib (addr 1 Client) zeros req (waf_glob (two_conns g)) = Inr (True, g1)"
    using filter_check_decides [of req "[NUL]" g lib a "[NUL]"] assms(2-5,8,11) unfolding param_def by auto
  show "\<exists>w p. waf_run lib addr (waf_init g) [Accept True, Accept True, On 1 (Data Client req zeros)] w \<and>
      blocked (waf_conns w ! 1) Client \<and> bevs (waf_conns w ! 1) Server = Some p \<and> bev_out p = []"
    by (rule first_bytes [of lib addr, OF two_conns_run [of lib addr g], of 1, where new = req and g = g1 and attack = True]) (use f1 in auto)
  obtain attack buf fs where f2: "filter_check lib (addr 0 Client) zeros first g =
      Inr (attack, g\<lparr>glob_param := param\<lparr>prm_block_addr_list := buf\<rparr>, glob_fs := fs\<rparr>)"
    and buf: "NUL \<in> set buf" "lines_of (c_str buf) = take 1 (lines_of (c_str (prm_block_addr_list param)))"
    using filter_check_decides [OF assms(12,13), of g lib b "[NUL]"] assms(5,11,14,15) unfolding param_def by auto
  define g2 where "g2 = g\<lparr>glob_param := param\<lparr>prm_block_addr_list := buf\<rparr>, glob_fs := fs\<rparr>"
  have g2: "rules_ok (glob_param g2) ?msg" "\<not> prm_pcre (glob_param g2)" "can_log g2" "\<not> found a (glob_param g2) ?msg"
    using assms(4-7,10,11) buf
    by (auto simp: g2_def param_def rules_ok_def lists_ok_def can_log_def found_def addr_found_def rule_found_def
        sqli_found_def list_ex_iff split: option.splits)
  obtain g3 where f3: "filter_check lib (addr 1 Client) zeros req g2 = Inr (False, g3)"
    using filter_check_decides [OF assms(2,3) g2(1-3), of lib a "[NUL]"] g2(4) assms(8) by auto
  have f0: "filter_check lib (addr 0 Client) zeros first (waf_glob (two_conns g)) = Inr (attack, g2)"
    using f2 by (simp add: g2_def)
  obtain w where w: "waf_run lib addr (waf_init g) ([Accept True, Accept True] @ [On 0 (Data Client first zeros)]) w"
    "waf_glob w = g2" "waf_conns w ! 1 = accept_cb True g" "length (waf_conns w) = 2"
    by (rule first_bytes [of lib addr, OF two_conns_run [of lib addr g], of 0, where new = first and g = g2 and attack = attack]) (use f0 in auto)
  have f4: "filter_check lib (addr 1 Client) zeros req (waf_glob w) = Inr (False, g3)" using f3 w(2) by simp
  show "\<exists>w p. waf_run lib addr (waf_init g)
        [Accept True, Accept True, On 0 (Data Client first zeros), On 1 (Data Client req zeros)] w \<and>
      \<not> blocked (waf_conns w ! 1) Client \<and> bevs (waf_conns w ! 1) Server = Some p \<and> bev_out p = req"
    by (rule first_bytes [of lib addr, OF w(1), of 1, where new = req and g = g3 and attack = False]) (use w(3,4) f4 in auto)
qed

theorem one_client_unblocks_another_witness:
  "\<exists>w p. waf_run no_pcre (\<lambda>i _. Inr (Some (if i = 0 then ''10.0.0.7'' else ''10.0.0.2''))) (waf_init sample_globals)
       [Accept True, Accept True, On 0 (Data Client ''GET /index.html'' zeros), On 1 (Data Client ''GET /index.html'' zeros)] w \<and>
     \<not> blocked (waf_conns w ! 1) Client \<and> bevs (waf_conns w ! 1) Server = Some p \<and> bev_out p = ''GET /index.html''"
proof -
  have s: "fits (''GET /index.html'' @ [NUL])" "seen (''GET /index.html'' @ [NUL]) = ''GET /index.html''"
    by (rule sample_request; simp)+
  have a: "accepted ''GET /index.html''" by (simp add: accepted_def request_method_def)
  have r: "rules_ok sample_choice ''GET /index.html''"
    using sample_lines by (simp add: rules_ok_def rule_ok_def is_ascii_def)
  have n: "\<not> rule_found sample_choice ''GET /index.html''"
    by (simp add: rule_found_def sample_lines rule_hits_def rule_pattern_def numeral_nat sublist_code)
  have q: "\<not> sqli_found sample_choice ''GET /index.html''" by (simp add: sqli_found_def sample_choice_def)
  show ?thesis
    by (rule one_client_unblocks_another [where req = "''GET /index.html''" and first = "''GET /index.html''" and
          g = sample_globals and a = "''10.0.0.2''" and b = "''10.0.0.7''", THEN conjunct2])
      (use a r n q in \<open>simp_all add: s sample_lines names_addr_def sublist_code del: append_Cons append_Nil\<close>)
qed

text \<open>The global state of the server under all interleavings: of the options nothing changes but the
  list of blocked addresses, and of this the lines are those that were read or only the first of
  them; of the files only the log is written, and none if there is no log.\<close>

theorem server_block_list:
  assumes "waf_run lib addr (waf_init g) es w" "NUL \<in> set (prm_block_addr_list (glob_param g))"
  shows "\<exists>buf. glob_param (waf_glob w) = (glob_param g)\<lparr>prm_block_addr_list := buf\<rparr> \<and>
    (lines_of (c_str buf) = lines_of (c_str (prm_block_addr_list (glob_param g))) \<or>
     lines_of (c_str buf) = take 1 (lines_of (c_str (prm_block_addr_list (glob_param g))))) \<and>
    (\<forall>name. prm_logfile (glob_param g) = None \<or> name \<noteq> c_str (the (prm_logfile (glob_param g))) \<longrightarrow>
       glob_fs (waf_glob w) name = glob_fs g name)"
proof -
  have "list_cut g (waf_glob w)" by (rule waf_list [OF assms(1)]) (simp add: has_list_def assms(2))
  then show ?thesis by (auto simp: list_cut_def only_log_def)
qed

theorem server_block_list_witness:
  "\<exists>buf. glob_param (waf_glob (two_conns sample_globals)) = sample_choice\<lparr>prm_block_addr_list := buf\<rparr> \<and>
    (lines_of (c_str buf) = [''10.0.0.1'', ''10.0.0.2''] \<or> lines_of (c_str buf) = [''10.0.0.1''])"
  using server_block_list [OF two_conns_run [of no_pcre "\<lambda>_ _. Inr None" sample_globals]] sample_lines(3)
  by (auto simp: sample_lines lists_ok_def)

end
