(* ===== verification/Options.thy ===== *)
theory Options
  imports Rule_Lists Mem_Ops
begin

text \<open>
  The start of the program up to the server: \<open>parser_opts\<close> (\<open>opt_extract.c\<close>), \<open>isnull_argv\<close>
  (\<open>validate.c\<close>) and the order of \<open>main\<close> (\<open>OctopusWAF.c\<close>). \<open>getopt_long\<close> permutes and cuts the
  arguments; what it returns one after the other is the input of the model. The banners and the
  messages are output only.
\<close>

section \<open>\<open>parser_opts\<close>\<close>

text \<open>A result of \<open>getopt_long\<close>: an option with \<open>optarg\<close>, or \<open>'?'\<close> with \<open>optopt\<close>.\<close>

datatype getopt_result = Opt char string | Unknown char

text \<open>\<open>struct choice param\<close> is a global object, so it starts as zeros.\<close>

definition zero_choice :: choice where
  "zero_choice = \<lparr>prm_hostarg = None, prm_redirectarg = None, prm_logfile = None,
     prm_block_addr_list = [], prm_regex_rules = [], prm_match_rules = [], prm_debug = False,
     prm_libinjection_sqli = False, prm_libinjection_xss = False, prm_pcre = False,
     prm_option_algorithm = 0\<rparr>"

text \<open>\<open>-m\<close>; the array \<open>algorithm\<close> of 12 bytes is written before it is read.\<close>

definition match_argument :: "string \<Rightarrow> int \<Rightarrow> stop + int" where
  "match_argument optarg options_match =
     bind_run (of_option (burn_mem (replicate 12 NUL) 0 11)) (\<lambda>algorithm.
     bind_run (of_option (strlcpy algorithm (optarg @ [NUL]) 11)) (\<lambda>(algorithm, len).
     let algorithm = c_str algorithm;
         options_match = (if strnstr algorithm ''dfa'' 3 \<noteq> None then 1 else options_match);
         options_match = (if strnstr algorithm ''horspool'' 8 \<noteq> None then 2 else options_match);
         options_match = (if strnstr algorithm ''karp-rabin'' 10 \<noteq> None then 3 else options_match)
     in if options_match = 0 then Inl Die else Inr options_match))"

definition option_length :: "string \<Rightarrow> nat \<Rightarrow> stop + nat" where
  "option_length optarg n = of_option (c_strnlen (optarg @ [NUL]) n)"

fun parse_option :: "getopt_result \<Rightarrow> choice \<times> int \<Rightarrow> stop + (choice \<times> int)" where
  "parse_option (Opt c optarg) (param, options_match) =
     (if c = CHR ''h'' then
        bind_run (option_length optarg 256) (\<lambda>n.
        if n > 6 then Inr (param\<lparr>prm_hostarg := Some (xstrndup (optarg @ [NUL]) 256)\<rparr>, options_match)
        else Inl Die)
      else if c = CHR ''r'' then
        bind_run (option_length optarg 256) (\<lambda>n.
        if n > 6 then Inr (param\<lparr>prm_redirectarg := Some (xstrndup (optarg @ [NUL]) 256)\<rparr>, options_match)
        else Inl Die)
      else if c = CHR ''l'' then
        bind_run (option_length optarg 127) (\<lambda>n.
        if n > 1 then Inr (param\<lparr>prm_logfile := Some (xstrndup (optarg @ [NUL]) 256)\<rparr>, options_match)
        else Inl Die)
      else if c = CHR ''d'' then Inr (param\<lparr>prm_debug := True\<rparr>, options_match)
      else if c = CHR ''m'' then
        bind_run (option_length optarg 12) (\<lambda>n.
        if n \<le> 11 then
          bind_run (match_argument optarg options_match) (\<lambda>options_match.
          Inr (param\<lparr>prm_option_algorithm := options_match\<rparr>, options_match))
        else Inl Die)
      else if c = CHR ''s'' then Inr (param\<lparr>prm_libinjection_sqli := True\<rparr>, options_match)
      else if c = CHR ''p'' then Inr (param\<lparr>prm_pcre := True\<rparr>, options_match)
      else Inr (param, options_match))"
| "parse_option (Unknown c) (param, options_match) =
     (if c \<in> {CHR ''h'', CHR ''r'', CHR ''m''} then Inl Die else Inr (param, options_match))"

fun parse_options :: "getopt_result list \<Rightarrow> choice \<times> int \<Rightarrow> stop + (choice \<times> int)" where
  "parse_options [] st = Inr st"
| "parse_options (r # rs) st = bind_run (parse_option r st) (parse_options rs)"

definition parser_opts :: "nat \<Rightarrow> getopt_result list \<Rightarrow> stop + choice" where
  "parser_opts argc opts =
     (if argc < 6 then Inl Die
      else bind_run (parse_options opts (zero_choice, 0)) (\<lambda>(param, options_match). Inr param))"

text \<open>The check of the options that \<open>validate.c\<close> offers; nothing calls it.\<close>

definition isnull_argv :: "choice \<Rightarrow> stop + unit" where
  "isnull_argv param =
     (case prm_hostarg param of
        None \<Rightarrow> Inl Fault
      | Some host \<Rightarrow>
          bind_run (of_option (c_strnlen host 256)) (\<lambda>n.
          if n = 0 then Inl Die
          else
            case prm_redirectarg param of
              None \<Rightarrow> Inl Fault
            | Some redirect \<Rightarrow>
                bind_run (of_option (c_strnlen redirect 256)) (\<lambda>n.
                if n = 0 then Inl Die
                else if prm_option_algorithm param < 1 \<or> prm_option_algorithm param > 4 then Inl Die
                else Inr ())))"

section \<open>\<open>main\<close>\<close>

text \<open>The options the server is started with.\<close>

definition octopus_main :: "(string \<Rightarrow> string option) \<Rightarrow> nat \<Rightarrow> getopt_result list \<Rightarrow> stop + choice" where
  "octopus_main fs argc opts = bind_run (parser_opts argc opts) (load_all_rules fs)"

section \<open>What the options can be\<close>

fun argument :: "getopt_result \<Rightarrow> string" where
  "argument (Opt c optarg) = optarg"
| "argument (Unknown c) = []"

lemma option_length_arg: "NUL \<notin> set optarg \<Longrightarrow> option_length optarg n = Inr (min n (length optarg))"
  using c_strnlen_terminated [of optarg "[]" n] by (simp add: option_length_def)

lemma match_argument_spec:
  assumes "NUL \<notin> set optarg"
  shows "match_argument optarg k =
    (let m = (if take 10 optarg = ''karp-rabin'' then 3
              else if take 8 optarg = ''horspool'' then 2
              else if take 3 optarg = ''dfa'' then 1 else k)
     in if m = 0 then Inl Die else Inr m)"
proof -
  define alg where "alg = take 10 optarg"
  have burn: "burn_mem (replicate 12 NUL) 0 11 = Some (replicate 12 NUL)"
    using to_char_schar [of NUL] by (simp add: numeral_nat)
  have cs: "c_str (optarg @ [NUL]) = optarg" using assms by (simp add: c_str_id)
  have alg: "take (min (11 - 1) (length optarg)) optarg = alg" "NUL \<notin> set alg"
    using assms by (auto simp: alg_def min_def dest: in_set_takeD)
  obtain dst len where copy: "strlcpy (replicate 12 NUL) (optarg @ [NUL]) 11 = Some (dst, len)" "c_str dst = alg"
    using strlcpy_spec [of "optarg @ [NUL]" 11 "replicate 12 NUL"] unfolding cs alg(1) by (simp add: c_str_id alg(2))
  have found: "strnstr alg w n \<noteq> None \<longleftrightarrow> take n alg = w" if "length w = n" for w n
  proof -
    have "w = take n alg" if "sublist w (take n alg)"
    proof -
      obtain ps ss where split: "take n alg = ps @ w @ ss" using \<open>sublist w (take n alg)\<close> by (auto simp: sublist_def)
      from arg_cong [OF split, of length] have "min (length alg) n = length ps + (n + length ss)"
        using \<open>length w = n\<close> by simp
      then have "length ps + length ss = 0" by linarith
      then have "ps = []" "ss = []" by auto
      then show ?thesis using split by simp
    qed
    then show ?thesis unfolding strnstr_found by auto
  qed
  have short: "take 3 alg = take 3 optarg" "take 8 alg = take 8 optarg" "take 10 alg = take 10 optarg"
    by (simp_all add: alg_def)
  show ?thesis
    using found [of "''dfa''" 3] found [of "''horspool''" 8] found [of "''karp-rabin''" 10]
    by (auto simp: match_argument_def burn copy short Let_def)
qed

text \<open>What holds of the options at every point of the loop.\<close>

definition long_enough :: "nat \<Rightarrow> string option \<Rightarrow> bool" where
  "long_enough n arg \<longleftrightarrow> (case arg of None \<Rightarrow> True | Some obj \<Rightarrow> length obj = 257 \<and> n < length (c_str obj))"

definition options_ok :: "choice \<times> int \<Rightarrow> bool" where
  "options_ok st \<longleftrightarrow> (case st of (param, k) \<Rightarrow>
     k \<in> {0, 1, 2, 3} \<and> prm_option_algorithm param = k \<and>
     long_enough 6 (prm_hostarg param) \<and> long_enough 6 (prm_redirectarg param) \<and> long_enough 1 (prm_logfile param))"

lemma long_enough_new:
  "NUL \<notin> set arg \<Longrightarrow> n < m \<Longrightarrow> m \<le> 256 \<Longrightarrow> n < min m (length arg) \<Longrightarrow> long_enough n (Some (xstrndup (arg @ [NUL]) 256))"
  by (simp add: long_enough_def xstrndup_spec c_str_id)

lemma option_cases:
  assumes "NUL \<notin> set (argument r)" "options_ok st"
  shows "parse_option r st = Inl Die \<or> (\<exists>st'. parse_option r st = Inr st' \<and> options_ok st')"
proof (cases r)
  case (Opt c arg)
  obtain param k where st: "st = (param, k)" by (cases st)
  have arg: "NUL \<notin> set arg" using assms(1) Opt by simp
  have m: "match_argument arg k = Inl Die \<or> (\<exists>m. match_argument arg k = Inr m \<and> m \<in> {0, 1, 2, 3})"
    using assms(2) by (auto simp: match_argument_spec [OF arg] Let_def options_ok_def st)
  have ok: "k \<in> {0, 1, 2, 3}" "prm_option_algorithm param = k" "long_enough 6 (prm_hostarg param)"
    "long_enough 6 (prm_redirectarg param)" "long_enough 1 (prm_logfile param)"
    using assms(2) by (simp_all add: options_ok_def st)
  consider "c = CHR ''h''" | "c = CHR ''r''" | "c = CHR ''l''" | "c = CHR ''m''"
    | "c \<notin> {CHR ''h'', CHR ''r'', CHR ''l'', CHR ''m''}" by blast
  then show ?thesis
  proof cases
    case 4
    then show ?thesis using m ok by (elim disjE exE conjE) (simp_all add: Opt st option_length_arg [OF arg] options_ok_def)
  qed (use ok long_enough_new [OF arg, of 6 256] long_enough_new [OF arg, of 1 127] in
      \<open>simp_all add: Opt st option_length_arg [OF arg] options_ok_def\<close>)
next
  case (Unknown c)
  then show ?thesis using assms(2) by (cases st) simp
qed

lemma options_cases:
  "list_all (\<lambda>r. NUL \<notin> set (argument r)) rs \<Longrightarrow> options_ok st \<Longrightarrow>
   parse_options rs st = Inl Die \<or> (\<exists>st'. parse_options rs st = Inr st' \<and> options_ok st')"
proof (induction rs arbitrary: st)
  case (Cons r rs)
  then have r: "parse_option r st = Inl Die \<or> (\<exists>st'. parse_option r st = Inr st' \<and> options_ok st')"
    by (intro option_cases) simp_all
  then show ?case using Cons by (elim disjE exE conjE) simp_all
qed simp

lemma zero_ok: "options_ok (zero_choice, 0)"
  by (simp add: options_ok_def zero_choice_def long_enough_def)

lemma parser_opts_cases:
  assumes "list_all (\<lambda>r. NUL \<notin> set (argument r)) opts"
  shows "parser_opts argc opts = Inl Die \<or>
    (\<exists>param. parser_opts argc opts = Inr param \<and> options_ok (param, prm_option_algorithm param))"
  using options_cases [OF assms zero_ok] by (auto simp: parser_opts_def options_ok_def)

section \<open>Properties\<close>

text \<open>The start never leaves an object: on any arguments and any files the program ends with
  a message or goes on to the server with options that are well formed: the three lists are
  strings, the algorithm is none or one of the three searches, and the host and the address to
  redirect to have more than six characters where they are given.\<close>

theorem octopus_main_ok:
  assumes "list_all (\<lambda>r. NUL \<notin> set (argument r)) opts"
  shows "octopus_main fs argc opts = Inl Die \<or>
    (\<exists>param. octopus_main fs argc opts = Inr param \<and> lists_ok param \<and>
       prm_option_algorithm param \<in> {0, 1, 2, 3} \<and>
       long_enough 6 (prm_hostarg param) \<and> long_enough 6 (prm_redirectarg param))"
proof -
  have files: "load_all_rules fs param = Inl Die \<or>
      (\<exists>a b c. load_all_rules fs param = Inr (param\<lparr>prm_regex_rules := a, prm_match_rules := b, prm_block_addr_list := c\<rparr>))"
    for param
    by (auto simp: load_all_rules_def read_lines_def bind_run_def split: option.splits)
  consider "parser_opts argc opts = Inl Die"
    | param where "parser_opts argc opts = Inr param" "options_ok (param, prm_option_algorithm param)"
    using parser_opts_cases [OF assms] by blast
  then show ?thesis
  proof cases
    case (2 param)
    then show ?thesis using files [of param] load_all_rules_ok [of fs param]
      by (auto simp: octopus_main_def options_ok_def)
  qed (simp add: octopus_main_def)
qed

theorem octopus_main_ok_witness:
  "octopus_main (\<lambda>_. Some ''a'') 6 [Opt CHR ''h'' ''127.0.0.1:80''] = Inl Die \<or>
   (\<exists>param. octopus_main (\<lambda>_. Some ''a'') 6 [Opt CHR ''h'' ''127.0.0.1:80''] = Inr param \<and> lists_ok param \<and>
      prm_option_algorithm param \<in> {0, 1, 2, 3} \<and>
      long_enough 6 (prm_hostarg param) \<and> long_enough 6 (prm_redirectarg param))"
  by (rule octopus_main_ok) simp

text \<open>\<open>-m\<close> in full: an argument of twelve or more characters ends the program, one that
  starts with the name of an algorithm selects it, and any other leaves the choice of an
  earlier \<open>-m\<close> as it is and ends the program only if there was none.\<close>

theorem match_option:
  assumes "NUL \<notin> set optarg"
  shows "parse_option (Opt CHR ''m'' optarg) (param, k) =
    (if length optarg \<ge> 12 then Inl Die
     else
       let m = (if take 10 optarg = ''karp-rabin'' then 3
                else if take 8 optarg = ''horspool'' then 2
                else if take 3 optarg = ''dfa'' then 1 else k)
       in if m = 0 then Inl Die else Inr (param\<lparr>prm_option_algorithm := m\<rparr>, m))"
  by (simp add: option_length_arg [OF assms] match_argument_spec [OF assms] Let_def)

theorem match_option_witness:
  "parse_option (Opt CHR ''m'' ''dfax'') (zero_choice, 0) = Inr (zero_choice\<lparr>prm_option_algorithm := 1\<rparr>, 1)"
  using match_option [of "''dfax''" zero_choice 0] by simp

text \<open>The host and the address to redirect to are not required: six arguments with no \<open>-h\<close>
  pass, the server would be started with null pointers, and the check that was written for
  this case would itself read through one.\<close>

theorem host_not_required:
  assumes "6 \<le> argc" "fs ''config/regex_rules.txt'' = Some regex" "fs ''config/match_list_request.txt'' = Some rules"
    "fs ''config/blocklist_ip.txt'' = Some block" "regex \<noteq> []" "rules \<noteq> []" "block \<noteq> []"
  shows "\<exists>param. octopus_main fs argc [Opt CHR ''m'' ''dfa''] = Inr param \<and> prm_hostarg param = None \<and>
    prm_redirectarg param = None \<and> isnull_argv param = Inl Fault"
  using assms match_argument_spec [of "''dfa''" 0]
  by (simp add: octopus_main_def parser_opts_def load_all_rules_def read_lines_def option_length_arg
      isnull_argv_def zero_choice_def)

theorem host_not_required_witness:
  "\<exists>param. octopus_main (\<lambda>_. Some ''a'') 6 [Opt CHR ''m'' ''dfa''] = Inr param \<and> prm_hostarg param = None \<and>
    prm_redirectarg param = None \<and> isnull_argv param = Inl Fault"
  by (rule host_not_required) auto

end
