(* ===== verification/Process.thy ===== *)
theory Process
  imports Line_Loop
begin

text \<open>
  What \<open>main\<close> sets up first, from \<open>utils.c\<close>: \<open>no_write_coredump\<close>, \<open>load_signal_alarm\<close> with its
  handler \<open>No_Pause_Waf\<close>, and \<open>die\<close>. The answers of the system calls are an argument, \<open>os\<close>; what
  they set is the state of the process.
\<close>

section \<open>State\<close>

datatype signal = SIGINT | SIGTSTP | SIGQUIT | SIGPIPE

datatype disposition = Default | Ignored | Handler_No_Pause_Waf

record os =
  os_setrlimit :: bool
  os_sigemptyset :: bool
  os_sigaction :: "signal \<Rightarrow> bool"
  os_signal :: "signal \<Rightarrow> bool"

record process =
  core_limit :: "nat \<times> nat"
  handlers :: "signal \<Rightarrow> disposition"
  stdin_bytes :: string

section \<open>Operations\<close>

text \<open>\<open>puts\<close> and \<open>exit(0)\<close>; the code of the exit is not looked at.\<close>

definition die :: "string \<Rightarrow> stop + 'a" where
  "die msg = Inl Die"

text \<open>The handler takes one byte of the standard input, if there is one, and returns.\<close>

definition No_Pause_Waf :: "process \<Rightarrow> process" where
  "No_Pause_Waf p = p\<lparr>stdin_bytes := tl (stdin_bytes p)\<rparr>"

text \<open>The result of \<open>setrlimit\<close> is not looked at.\<close>

definition no_write_coredump :: "os \<Rightarrow> process \<Rightarrow> process" where
  "no_write_coredump os p = (if os_setrlimit os then p\<lparr>core_limit := (0, 0)\<rparr> else p)"

definition set_handler :: "os \<Rightarrow> signal \<Rightarrow> process \<Rightarrow> stop + process" where
  "set_handler os s p =
     (if os_sigaction os s then Inr (p\<lparr>handlers := (handlers p)(s := Handler_No_Pause_Waf)\<rparr>)
      else Inl Die)"

definition load_signal_alarm :: "os \<Rightarrow> process \<Rightarrow> stop + process" where
  "load_signal_alarm os p =
     (if \<not> os_sigemptyset os then Inl Die
      else
        bind_run (set_handler os SIGINT p) (\<lambda>p.
        bind_run (set_handler os SIGTSTP p) (\<lambda>p.
        set_handler os SIGQUIT p)))"

text \<open>\<open>signal(SIGPIPE, SIG_IGN)\<close>, which \<open>main\<close> and \<open>start_octopus_server\<close> both call.\<close>

definition ignore_sigpipe :: "os \<Rightarrow> process \<Rightarrow> stop + process" where
  "ignore_sigpipe os p =
     (if os_signal os SIGPIPE then Inr (p\<lparr>handlers := (handlers p)(SIGPIPE := Ignored)\<rparr>)
      else Inl Die)"

text \<open>The first part of \<open>main\<close>.\<close>

definition start_process :: "os \<Rightarrow> process \<Rightarrow> stop + process" where
  "start_process os p =
     bind_run (load_signal_alarm os (no_write_coredump os p)) (ignore_sigpipe os)"

text \<open>What a signal does: by default each of the four ends or stops the process (\<open>None\<close>).\<close>

definition deliver :: "signal \<Rightarrow> process \<Rightarrow> process option" where
  "deliver s p =
     (case handlers p s of
        Default \<Rightarrow> None
      | Ignored \<Rightarrow> Some p
      | Handler_No_Pause_Waf \<Rightarrow> Some (No_Pause_Waf p))"

fun deliver_all :: "signal list \<Rightarrow> process \<Rightarrow> process option" where
  "deliver_all [] p = Some p"
| "deliver_all (s # ss) p = (case deliver s p of None \<Rightarrow> None | Some p \<Rightarrow> deliver_all ss p)"

section \<open>Properties\<close>

lemma start_process_handlers:
  "start_process os p = Inr p' \<Longrightarrow>
   handlers p' = (\<lambda>s. if s = SIGPIPE then Ignored else Handler_No_Pause_Waf) \<and> stdin_bytes p' = stdin_bytes p \<and>
   core_limit p' = (if os_setrlimit os then (0, 0) else core_limit p)"
  by (auto simp: start_process_def load_signal_alarm_def set_handler_def ignore_sigpipe_def no_write_coredump_def
      fun_eq_iff bind_run_def split: if_splits intro: signal.exhaust)

lemma deliver_started:
  "handlers p = (\<lambda>s. if s = SIGPIPE then Ignored else Handler_No_Pause_Waf) \<Longrightarrow>
   deliver_all ss p = Some (p\<lparr>stdin_bytes := drop (length [s \<leftarrow> ss. s \<noteq> SIGPIPE]) (stdin_bytes p)\<rparr>)"
proof (induction ss arbitrary: p)
  case (Cons s ss)
  have "deliver s p = Some (if s = SIGPIPE then p else No_Pause_Waf p)"
    by (simp add: deliver_def Cons.prems)
  then show ?case using Cons by (auto simp: No_Pause_Waf_def drop_Suc tl_drop)
qed simp

text \<open>Once it has started, the server cannot be ended from the terminal nor by a peer that closes:
  any sequence of the four signals only takes a byte of the standard input for each that is not
  \<open>SIGPIPE\<close>. If \<open>setrlimit\<close> worked, no core file is written.\<close>

theorem started_survives_signals:
  assumes "start_process os p = Inr p'"
  shows "deliver_all ss p' = Some (p'\<lparr>stdin_bytes := drop (length [s \<leftarrow> ss. s \<noteq> SIGPIPE]) (stdin_bytes p)\<rparr>) \<and>
    (os_setrlimit os \<longrightarrow> core_limit p' = (0, 0))"
  using deliver_started [of p'] start_process_handlers [OF assms] by simp

definition sample_os :: os where
  "sample_os = \<lparr>os_setrlimit = True, os_sigemptyset = True, os_sigaction = (\<lambda>_. True), os_signal = (\<lambda>_. True)\<rparr>"

definition sample_process :: process where
  "sample_process = \<lparr>core_limit = (1, 1), handlers = (\<lambda>_. Default), stdin_bytes = ''ab''\<rparr>"

lemma sample_start: "\<exists>p. start_process sample_os sample_process = Inr p"
  by (simp add: start_process_def load_signal_alarm_def set_handler_def ignore_sigpipe_def no_write_coredump_def sample_os_def)

theorem started_survives_signals_witness:
  "\<exists>p. start_process sample_os sample_process = Inr p \<and> deliver_all [SIGINT, SIGPIPE] p = Some (p\<lparr>stdin_bytes := ''b''\<rparr>)"
proof -
  obtain p where p: "start_process sample_os sample_process = Inr p" using sample_start by blast
  show ?thesis using p started_survives_signals [OF p, of "[SIGINT, SIGPIPE]"] by (auto simp: sample_process_def)
qed

end
