(* ===== verification/Server.thy ===== *)
theory Server
  imports Options Process
begin

text \<open>
  \<open>server.c\<close>: \<open>start_octopus_server\<close> up to the event loop, \<open>LoadCertificates\<close>, and the whole of
  \<open>main\<close> (\<open>OctopusWAF.c\<close>). libevent and OpenSSL are an argument, \<open>net\<close>: what
  \<open>evutil_parse_sockaddr_port\<close> makes of a text, and which of the other calls work. A
  \<open>struct sockaddr_storage\<close> is its 128 bytes: two of the family (little-endian), two of the port,
  four of the IPv4 address (both in network order).
\<close>

section \<open>State\<close>

record net_lib =
  net_parse :: "string \<Rightarrow> string \<Rightarrow> nat \<Rightarrow> bool \<times> string \<times> nat"
  net_base_new :: bool
  net_rand_poll :: bool
  net_ctx_new :: bool
  net_bind :: "string \<Rightarrow> nat \<Rightarrow> bool"

text \<open>The globals of \<open>proxy.c\<close> that \<open>server.c\<close> sets, and its own copy of the \<open>static ssl_ctx\<close>.\<close>

record server =
  listen_on_addr :: string
  listen_socklen :: nat
  connect_to_addr :: string
  connect_to_addrlen :: nat
  server_ssl_ctx :: bool

definition sizeof_storage :: nat where "sizeof_storage = 128"
definition sizeof_sockaddr_in :: nat where "sizeof_sockaddr_in = 16"

section \<open>\<open>atoi\<close>\<close>

definition isspace :: "char \<Rightarrow> bool" where
  "isspace c \<longleftrightarrow> c = CHR '' '' \<or> (9 \<le> (of_char c :: nat) \<and> (of_char c :: nat) \<le> 13)"

definition is_digit :: "char \<Rightarrow> bool" where
  "is_digit c \<longleftrightarrow> 48 \<le> (of_char c :: nat) \<and> (of_char c :: nat) \<le> 57"

text \<open>A number that is not an \<open>int\<close> is undefined.\<close>

definition atoi :: "string \<Rightarrow> int option" where
  "atoi s =
     (let s = dropWhile isspace s;
          minus = (s \<noteq> [] \<and> hd s = CHR ''-'');
          s = (if s \<noteq> [] \<and> (hd s = CHR ''-'' \<or> hd s = CHR ''+'') then tl s else s);
          n = foldl (\<lambda>n c. 10 * n + (of_char c - 48)) 0 (takeWhile is_digit s);
          n = (if minus then - n else n)
      in if - (2 ^ 31) \<le> n \<and> n < 2 ^ 31 then Some n else None)"

section \<open>\<open>start_octopus_server\<close>\<close>

definition family_of :: "string \<Rightarrow> nat" where
  "family_of obj = of_char (obj ! 0) + 256 * of_char (obj ! 1)"

text \<open>\<open>ntohs\<close> of the two bytes of a port swaps them; \<open>htonl(0x7f000001)\<close> is 127.0.0.1.\<close>

definition set_port :: "char \<Rightarrow> char \<Rightarrow> string \<Rightarrow> string" where
  "set_port lo hi obj = obj[2 := hi, 3 := lo]"

definition set_localhost :: "string \<Rightarrow> string" where
  "set_localhost obj = obj[4 := CHR 0x7F, 5 := NUL, 6 := NUL, 7 := CHR 0x01]"

text \<open>
  The branch for an address that could not be parsed. In the branch of IPv6 \<open>sin6\<close> is the address
  of the pointer \<open>sin\<close> itself, whose third and fourth byte (\<open>sin_lo\<close>, \<open>sin_hi\<close>) are read as a port.
\<close>

definition fallback_addr :: "char \<Rightarrow> char \<Rightarrow> string \<Rightarrow> string \<Rightarrow> stop + (string \<times> nat)" where
  "fallback_addr sin_lo sin_hi hostarg obj =
     bind_run (of_option (atoi hostarg)) (\<lambda>n.
     let p = n mod 2 ^ 16 in
     if p < 1 then die ''Port is not ok''
     else if family_of obj = 2 then
       Inr (set_localhost (set_port (obj ! 2) (obj ! 3) obj), sizeof_sockaddr_in)
     else if family_of obj = 10 then
       Inr (set_localhost (set_port sin_lo sin_hi obj), sizeof_sockaddr_in)
     else Inr (obj, sizeof_sockaddr_in))"

text \<open>The address to listen on and the one to connect to. A null argument is read through.\<close>

definition listen_address :: "net_lib \<Rightarrow> char \<Rightarrow> char \<Rightarrow> string option \<Rightarrow> string \<Rightarrow> stop + (string \<times> nat)" where
  "listen_address net sin_lo sin_hi hostarg obj =
     bind_run (of_option (burn_mem obj 0 sizeof_storage)) (\<lambda>obj.
     case hostarg of
       None \<Rightarrow> Inl Fault
     | Some host \<Rightarrow>
         (case net_parse net (c_str host) obj sizeof_storage of
            (ok, obj, socklen) \<Rightarrow>
              if ok then Inr (obj, socklen) else fallback_addr sin_lo sin_hi (c_str host) obj))"

definition connect_address :: "net_lib \<Rightarrow> string option \<Rightarrow> string \<Rightarrow> stop + (string \<times> nat)" where
  "connect_address net redirectarg obj =
     bind_run (of_option (burn_mem obj 0 sizeof_storage)) (\<lambda>obj.
     case redirectarg of
       None \<Rightarrow> Inl Fault
     | Some redirect \<Rightarrow>
         (case net_parse net (c_str redirect) obj sizeof_storage of
            (ok, obj, addrlen) \<Rightarrow> if ok then Inr (obj, addrlen) else die ''Port is not ok in argv''))"

text \<open>Up to the event loop: the state with which \<open>event_base_dispatch\<close> is called.\<close>

definition open_server :: "os \<Rightarrow> net_lib \<Rightarrow> char \<Rightarrow> char \<Rightarrow> choice \<Rightarrow> process \<times> server \<Rightarrow> stop + (process \<times> server)" where
  "open_server os net sin_lo sin_hi param st =
     (case st of (p, srv) \<Rightarrow>
     bind_run (ignore_sigpipe os p) (\<lambda>p.
     bind_run (listen_address net sin_lo sin_hi (prm_hostarg param) (listen_on_addr srv)) (\<lambda>(addr, socklen).
     bind_run (connect_address net (prm_redirectarg param) (connect_to_addr srv)) (\<lambda>(conn, connlen).
     if \<not> net_base_new net then die ''Try again...''
     else if \<not> net_rand_poll net then die ''Try again...''
     else if \<not> net_bind net addr socklen then die ''Try again...''
     else Inr (p, \<lparr>listen_on_addr = addr, listen_socklen = socklen, connect_to_addr = conn,
                   connect_to_addrlen = connlen, server_ssl_ctx = net_ctx_new net\<rparr>)))))"

text \<open>When the event loop (\<open>dispatch\<close>) returns, the program ends.\<close>

definition start_octopus_server ::
    "os \<Rightarrow> net_lib \<Rightarrow> char \<Rightarrow> char \<Rightarrow> choice \<Rightarrow> (process \<times> server \<Rightarrow> stop + 'a) \<Rightarrow> process \<times> server \<Rightarrow> stop + 'b" where
  "start_octopus_server os net sin_lo sin_hi param dispatch st =
     bind_run (open_server os net sin_lo sin_hi param st) (\<lambda>st.
     bind_run (dispatch st) (\<lambda>_. die ''OctopusWAF close''))"

text \<open>Nothing calls \<open>LoadCertificates\<close>. Its arguments here are what the three calls of OpenSSL return.\<close>

definition LoadCertificates :: "int \<Rightarrow> int \<Rightarrow> int \<Rightarrow> stop + unit" where
  "LoadCertificates certificate private_key check =
     (if certificate \<le> 0 then die ''error in load cert''
      else if private_key \<le> 0 then die ''error in load private key''
      else if check = 0 then die ''error in cert check''
      else Inr ())"

text \<open>The global objects are zeros at first.\<close>

definition zero_server :: server where
  "zero_server = \<lparr>listen_on_addr = replicate sizeof_storage NUL, listen_socklen = 0,
     connect_to_addr = replicate sizeof_storage NUL, connect_to_addrlen = 0, server_ssl_ctx = False\<rparr>"

text \<open>\<open>main\<close> up to the event loop.\<close>

definition octopus_start :: "os \<Rightarrow> net_lib \<Rightarrow> char \<Rightarrow> char \<Rightarrow> (string \<Rightarrow> string option) \<Rightarrow> nat \<Rightarrow> getopt_result list \<Rightarrow>
    process \<Rightarrow> stop + (choice \<times> process \<times> server)" where
  "octopus_start os net sin_lo sin_hi fs argc opts p =
     bind_run (start_process os p) (\<lambda>p.
     bind_run (octopus_main fs argc opts) (\<lambda>param.
     bind_run (open_server os net sin_lo sin_hi param (p, zero_server)) (\<lambda>st.
     Inr (param, st))))"

section \<open>What can go wrong\<close>

text \<open>What libevent promises: the object keeps its size, and the length of an address that is
  understood is at most the size that was given.\<close>

definition net_ok :: "net_lib \<Rightarrow> bool" where
  "net_ok net \<longleftrightarrow> (\<forall>s obj n. case net_parse net s obj n of (ok, obj', n') \<Rightarrow>
     length obj' = length obj \<and> (ok \<longrightarrow> n' \<le> n))"

text \<open>What libevent's code does, while its documentation speaks of success only: a text that is not
  understood leaves the object alone.\<close>

definition net_keeps :: "net_lib \<Rightarrow> bool" where
  "net_keeps net \<longleftrightarrow> (\<forall>s obj n. \<not> fst (net_parse net s obj n) \<longrightarrow> fst (snd (net_parse net s obj n)) = obj)"

lemma net_okD:
  assumes "net_ok net" "net_parse net s obj n = (ok, obj', n')"
  shows "length obj' = length obj" "ok \<Longrightarrow> n' \<le> n"
proof -
  have "case net_parse net s obj n of (ok, obj', n') \<Rightarrow> length obj' = length obj \<and> (ok \<longrightarrow> n' \<le> n)"
    using assms(1) by (simp only: net_ok_def)
  then show "length obj' = length obj" "ok \<Longrightarrow> n' \<le> n" unfolding assms(2) by simp_all
qed


abbreviation zero_storage :: string where
  "zero_storage \<equiv> replicate sizeof_storage NUL"

lemma to_char_0 [simp]: "to_char 0 = NUL"
  using to_char_schar [of NUL] by simp

lemma burn_storage: "length obj = sizeof_storage \<Longrightarrow> burn_mem obj 0 sizeof_storage = Some zero_storage"
  using burn_mem_spec [of sizeof_storage obj 0] by simp

lemma family_zero [simp]: "family_of zero_storage = 0"
  by (simp add: family_of_def sizeof_storage_def)


lemma fallback_addr_ok: "fallback_addr lo hi host obj = Inr (addr, len) \<Longrightarrow> length addr = length obj \<and> len = sizeof_sockaddr_in"
  by (auto simp: fallback_addr_def set_port_def set_localhost_def die_def Let_def bind_run_def split: sum.splits if_splits)

lemma fallback_addr_stops: "atoi host \<noteq> None \<Longrightarrow> fallback_addr lo hi host obj \<noteq> Inl Fault"
  by (auto simp: fallback_addr_def of_option_def die_def Let_def split: if_splits)

text \<open>What the address to listen on can be.\<close>

lemma listen_address_cases:
  assumes "length obj = sizeof_storage"
  shows "listen_address net lo hi (Some host) obj =
    (case net_parse net (c_str host) zero_storage sizeof_storage of
       (ok, obj, socklen) \<Rightarrow> if ok then Inr (obj, socklen) else fallback_addr lo hi (c_str host) obj)"
  unfolding listen_address_def burn_storage [OF assms] by (simp add: of_option_def split: prod.split)

lemma connect_address_cases:
  assumes "length obj = sizeof_storage"
  shows "connect_address net (Some redirect) obj =
    (case net_parse net (c_str redirect) zero_storage sizeof_storage of
       (ok, obj, addrlen) \<Rightarrow> if ok then Inr (obj, addrlen) else Inl Die)"
  by (simp add: connect_address_def burn_storage [OF assms] of_option_def die_def split: prod.split)

lemma zero_server_lengths [simp]:
  "length (listen_on_addr zero_server) = sizeof_storage" "length (connect_to_addr zero_server) = sizeof_storage"
  by (simp_all add: zero_server_def)

section \<open>Properties\<close>

lemma open_server_cases:
  assumes "length (listen_on_addr srv) = sizeof_storage" "length (connect_to_addr srv) = sizeof_storage"
    "prm_hostarg param = Some host" "prm_redirectarg param = Some redirect"
    "open_server os net lo hi param (p, srv) = Inr (p', srv')"
  obtains ok obj n where
    "net_parse net (c_str host) zero_storage sizeof_storage = (ok, obj, n)"
    "net_parse net (c_str redirect) zero_storage sizeof_storage = (True, connect_to_addr srv', connect_to_addrlen srv')"
    "ignore_sigpipe os p = Inr p'" "net_bind net (listen_on_addr srv') (listen_socklen srv')"
    "ok \<Longrightarrow> listen_on_addr srv' = obj \<and> listen_socklen srv' = n"
    "\<not> ok \<Longrightarrow> fallback_addr lo hi (c_str host) obj = Inr (listen_on_addr srv', listen_socklen srv')"
proof -
  obtain ok obj n where a: "net_parse net (c_str host) zero_storage sizeof_storage = (ok, obj, n)"
    by (cases "net_parse net (c_str host) zero_storage sizeof_storage")
  obtain ok' obj' n' where b: "net_parse net (c_str redirect) zero_storage sizeof_storage = (ok', obj', n')"
    by (cases "net_parse net (c_str redirect) zero_storage sizeof_storage")
  obtain addr len where *: "ignore_sigpipe os p = Inr p'"
    "listen_address net lo hi (prm_hostarg param) (listen_on_addr srv) = Inr (addr, len)"
    "connect_address net (prm_redirectarg param) (connect_to_addr srv) = Inr (connect_to_addr srv', connect_to_addrlen srv')"
    "net_bind net addr len" "listen_on_addr srv' = addr" "listen_socklen srv' = len"
    using assms(5) unfolding open_server_def
    by (auto simp: die_def bind_run_def split: if_splits sum.splits)
  have "ok'" "connect_to_addr srv' = obj'" "connect_to_addrlen srv' = n'"
    using *(3) unfolding assms(4) connect_address_cases [OF assms(2)] b by (simp_all split: if_splits)
  moreover have "if ok then addr = obj \<and> len = n else fallback_addr lo hi (c_str host) obj = Inr (addr, len)"
    using *(2) unfolding assms(3) listen_address_cases [OF assms(1)] a by (simp split: if_splits)
  ultimately show thesis using that [of ok obj n] a b * by simp
qed

lemma open_server_sizes:
  assumes "net_ok net" "length (listen_on_addr srv) = sizeof_storage" "length (connect_to_addr srv) = sizeof_storage"
    "prm_hostarg param = Some host" "prm_redirectarg param = Some redirect"
    "open_server os net lo hi param (p, srv) = Inr (p', srv')"
  shows "length (listen_on_addr srv') = sizeof_storage" "length (connect_to_addr srv') = sizeof_storage"
    "listen_socklen srv' \<le> sizeof_storage" "connect_to_addrlen srv' \<le> sizeof_storage"
proof -
  obtain ok obj n where
    a: "net_parse net (c_str host) zero_storage sizeof_storage = (ok, obj, n)"
    and b: "net_parse net (c_str redirect) zero_storage sizeof_storage = (True, connect_to_addr srv', connect_to_addrlen srv')"
    and c: "ok \<Longrightarrow> listen_on_addr srv' = obj \<and> listen_socklen srv' = n"
      "\<not> ok \<Longrightarrow> fallback_addr lo hi (c_str host) obj = Inr (listen_on_addr srv', listen_socklen srv')"
    by (rule open_server_cases [OF assms(2-6)]) blast
  note a' = net_okD [OF assms(1) a] and b' = net_okD [OF assms(1) b]
  show "length (connect_to_addr srv') = sizeof_storage" "connect_to_addrlen srv' \<le> sizeof_storage"
    using b' by simp_all
  show "length (listen_on_addr srv') = sizeof_storage" "listen_socklen srv' \<le> sizeof_storage"
    using a' c fallback_addr_ok [of lo hi "c_str host" obj "listen_on_addr srv'" "listen_socklen srv'"]
    by (cases ok; simp add: sizeof_storage_def sizeof_sockaddr_in_def)+
qed


text \<open>A library for examples: the text \<open>0.0.0.0\<close> is the address of zeros with the family 2.\<close>

definition sample_net :: net_lib where
  "sample_net = \<lparr>net_parse = (\<lambda>s obj n. if s = ''0.0.0.0'' then (True, obj[0 := CHR 0x02], n) else (False, obj, n)),
     net_base_new = True, net_rand_poll = True, net_ctx_new = True, net_bind = (\<lambda>_ _. True)\<rparr>"

lemma sample_net_ok: "net_ok sample_net" "net_keeps sample_net"
  by (simp_all add: net_ok_def net_keeps_def sample_net_def)

lemma sample_net_parse:
  "net_parse sample_net ''0.0.0.0'' obj n = (True, obj[0 := CHR 0x02], n)"
  "net_parse sample_net ''8080'' obj n = (False, obj, n)"
  by (simp_all add: sample_net_def)


lemma sample_answers:
  "ignore_sigpipe sample_os p = Inr (p\<lparr>handlers := (handlers p)(SIGPIPE := Ignored)\<rparr>)"
  "net_base_new sample_net" "net_rand_poll sample_net" "net_bind sample_net addr n"
  by (simp_all add: ignore_sigpipe_def sample_os_def sample_net_def)



lemma open_server_stops:
  assumes "length (listen_on_addr srv) = sizeof_storage" "length (connect_to_addr srv) = sizeof_storage"
    "prm_hostarg param = Some host" "prm_redirectarg param = Some redirect" "atoi (c_str host) \<noteq> None"
  shows "open_server os net lo hi param (p, srv) \<noteq> Inl Fault"
proof -
  have "listen_address net lo hi (prm_hostarg param) (listen_on_addr srv) \<noteq> Inl Fault"
    unfolding assms(3) listen_address_cases [OF assms(1)]
    using fallback_addr_stops [OF assms(5)] by (auto split: prod.split)
  moreover have "connect_address net (prm_redirectarg param) (connect_to_addr srv) \<noteq> Inl Fault"
    unfolding assms(4) connect_address_cases [OF assms(2)] by (auto split: prod.split)
  ultimately show ?thesis
    by (auto simp: open_server_def ignore_sigpipe_def die_def bind_run_def split: sum.splits if_splits)
qed

lemma start_process_stops: "start_process os p = Inl stop \<Longrightarrow> stop = Die"
  by (auto simp: start_process_def load_signal_alarm_def set_handler_def ignore_sigpipe_def bind_run_def
      split: if_splits sum.splits)

lemma open_server_args:
  assumes "open_server os net lo hi param (p, srv) = Inr st"
  shows "\<exists>host redirect. prm_hostarg param = Some host \<and> prm_redirectarg param = Some redirect"
proof -
  have "listen_address net lo hi None obj \<noteq> Inr x" "connect_address net None obj \<noteq> Inr x" for obj x
    by (auto simp: listen_address_def connect_address_def bind_run_def split: sum.splits)
  then show ?thesis using assms
    by (cases "prm_hostarg param"; cases "prm_redirectarg param") (auto simp: open_server_def bind_run_def split: sum.splits)
qed

text \<open>C32. The start of the program, from \<open>main\<close> to the event loop, on any arguments, any files and
  any answers of the system: it ends with a message; or it runs into undefined behaviour, and then
  \<open>-h\<close> or \<open>-r\<close> was not given or the host is a number too large for an \<open>int\<close>; or it serves, and
  then the lists are strings, the algorithm is none or one of the three searches, the terminal
  cannot end it, the address to redirect to was understood, the socket is bound, and the lengths
  handed to libevent lie within the two address objects. Of libevent this takes only that it keeps the
  size of the object it fills and gives a length within it (\<open>net_ok\<close>).\<close>

theorem octopus_start_ok:
  assumes "net_ok net" "list_all (\<lambda>r. NUL \<notin> set (argument r)) opts"
  shows "octopus_start os net lo hi fs argc opts p = Inl Die \<or>
    octopus_start os net lo hi fs argc opts p = Inl Fault \<and>
      (\<exists>param. octopus_main fs argc opts = Inr param \<and>
         (prm_hostarg param = None \<or> prm_redirectarg param = None \<or>
          (\<exists>host. prm_hostarg param = Some host \<and> atoi (c_str host) = None))) \<or>
    (\<exists>param p' srv redirect. octopus_start os net lo hi fs argc opts p = Inr (param, p', srv) \<and>
       lists_ok param \<and> prm_option_algorithm param \<in> {0, 1, 2, 3} \<and>
       handlers p' = (\<lambda>s. if s = SIGPIPE then Ignored else Handler_No_Pause_Waf) \<and>
       prm_redirectarg param = Some redirect \<and>
       net_parse net (c_str redirect) (replicate sizeof_storage NUL) sizeof_storage = (True, connect_to_addr srv, connect_to_addrlen srv) \<and>
       net_bind net (listen_on_addr srv) (listen_socklen srv) \<and>
       listen_socklen srv \<le> length (listen_on_addr srv) \<and> connect_to_addrlen srv \<le> length (connect_to_addr srv))"
proof (cases "start_process os p")
  case (Inl e)
  then show ?thesis using start_process_stops by (auto simp: octopus_start_def)
next
  case (Inr p0)
  note handlers = start_process_handlers [OF Inr]
  consider "octopus_main fs argc opts = Inl Die"
    | param where "octopus_main fs argc opts = Inr param" "lists_ok param" "prm_option_algorithm param \<in> {0, 1, 2, 3}"
    using octopus_main_ok [OF assms(2)] by blast
  then show ?thesis
  proof cases
    case (2 param)
    have start: "octopus_start os net lo hi fs argc opts p =
        bind_run (open_server os net lo hi param (p0, zero_server)) (\<lambda>st. Inr (param, st))"
      by (simp add: octopus_start_def Inr 2)
    show ?thesis
    proof (cases "open_server os net lo hi param (p0, zero_server)")
      case (Inl e)
      then show ?thesis
        using open_server_stops [OF zero_server_lengths, of param _ _ os net lo hi p0] start 2(1)
        by (cases e) (auto, metis not_Some_eq)
    next
      case opened: (Inr st)
      obtain p' srv where st: "st = (p', srv)" by (cases st)
      obtain host redirect where args: "prm_hostarg param = Some host" "prm_redirectarg param = Some redirect"
        using open_server_args [OF opened] by blast
      have "ignore_sigpipe os p0 = Inr p'" "net_bind net (listen_on_addr srv) (listen_socklen srv)"
        "net_parse net (c_str redirect) zero_storage sizeof_storage = (True, connect_to_addr srv, connect_to_addrlen srv)"
        by (rule open_server_cases [OF zero_server_lengths args opened [unfolded st]], simp)+
      moreover from this(1) have "handlers p' = (\<lambda>s. if s = SIGPIPE then Ignored else Handler_No_Pause_Waf)"
        using handlers by (auto simp: ignore_sigpipe_def fun_eq_iff split: if_splits)
      moreover note open_server_sizes [OF assms(1) zero_server_lengths args opened [unfolded st]]
      ultimately show ?thesis using 2 opened args start st by auto
    qed
  qed (simp add: octopus_start_def Inr)
qed

lemma sample_octopus_main:
  "\<exists>param. octopus_main (\<lambda>_. Some ''a'') 6 [Opt CHR ''h'' ''0.0.0.0'', Opt CHR ''r'' ''0.0.0.0''] = Inr param \<and>
     prm_hostarg param = Some (xstrndup (''0.0.0.0'' @ [NUL]) 256) \<and>
     prm_redirectarg param = Some (xstrndup (''0.0.0.0'' @ [NUL]) 256)"
  by (simp add: octopus_main_def parser_opts_def option_length_arg load_all_rules_def read_lines_def)

lemma sample_address: "c_str (xstrndup (''0.0.0.0'' @ [NUL]) 256) = ''0.0.0.0''"
proof -
  have "c_str (''0.0.0.0'' @ [NUL]) = ''0.0.0.0''" by (simp add: c_str_def)
  then show ?thesis unfolding xstrndup_spec by simp
qed

lemma sample_octopus_start:
  "\<exists>st. octopus_start sample_os sample_net NUL NUL (\<lambda>_. Some ''a'') 6
       [Opt CHR ''h'' ''0.0.0.0'', Opt CHR ''r'' ''0.0.0.0''] sample_process = Inr st"
proof -
  let ?opts = "[Opt CHR ''h'' ''0.0.0.0'', Opt CHR ''r'' ''0.0.0.0'']"
  let ?start = "octopus_start sample_os sample_net NUL NUL (\<lambda>_. Some ''a'') 6 ?opts sample_process"
  obtain param where main: "octopus_main (\<lambda>_. Some ''a'') 6 ?opts = Inr param"
    and args: "prm_hostarg param = Some (xstrndup (''0.0.0.0'' @ [NUL]) 256)"
      "prm_redirectarg param = Some (xstrndup (''0.0.0.0'' @ [NUL]) 256)"
    using sample_octopus_main by blast
  obtain p where p: "start_process sample_os sample_process = Inr p" using sample_start by blast
  have "\<exists>addr n. listen_address sample_net NUL NUL (prm_hostarg param) (listen_on_addr zero_server) = Inr (addr, n)"
    "\<exists>addr n. connect_address sample_net (prm_redirectarg param) (connect_to_addr zero_server) = Inr (addr, n)"
    unfolding args listen_address_cases [OF zero_server_lengths(1)]
      connect_address_cases [OF zero_server_lengths(2)] sample_address sample_net_parse by simp_all
  then show "\<exists>st. ?start = Inr st"
    by (auto simp: octopus_start_def p main open_server_def sample_answers)
qed

theorem octopus_start_ok_witness:
  "\<exists>param p srv. octopus_start sample_os sample_net NUL NUL (\<lambda>_. Some ''a'') 6
       [Opt CHR ''h'' ''0.0.0.0'', Opt CHR ''r'' ''0.0.0.0''] sample_process = Inr (param, p, srv) \<and>
     lists_ok param \<and> handlers p SIGINT = Handler_No_Pause_Waf"
proof -
  let ?opts = "[Opt CHR ''h'' ''0.0.0.0'', Opt CHR ''r'' ''0.0.0.0'']"
  have "list_all (\<lambda>r. NUL \<notin> set (argument r)) ?opts" by simp
  then show ?thesis
    using octopus_start_ok [OF sample_net_ok(1), of ?opts sample_os NUL NUL "\<lambda>_. Some ''a''" 6 sample_process]
      sample_octopus_start by auto
qed

end
