(* ===== verification/Octopus_Run.thy ===== *)
theory Octopus_Run
  imports Server Proxy_Server
begin

text \<open>
  The whole program: the options that \<open>main\<close> has read when it starts the event loop
  (\<open>octopus_start\<close>, \<open>Server\<close>) are the globals with which the callbacks begin (\<open>waf_run\<close>,
  \<open>Proxy_Server\<close>).
\<close>

definition start_waf :: "choice \<Rightarrow> (string \<rightharpoonup> string) \<Rightarrow> (string \<Rightarrow> bool) \<Rightarrow> waf" where
  "start_waf param fs can_open = waf_init \<lparr>glob_param = param, glob_fs = fs, glob_can_open = can_open\<rparr>"

text \<open>What the start has read.\<close>

lemma octopus_start_files:
  assumes "octopus_start os net lo hi fs argc opts p = Inr (param, p', srv)"
  obtains block rules regex where
    "fs ''config/blocklist_ip.txt'' = Some block" "fs ''config/match_list_request.txt'' = Some rules"
    "fs ''config/regex_rules.txt'' = Some regex" "block \<noteq> []" "rules \<noteq> []" "regex \<noteq> []"
    "prm_block_addr_list param = block @ [NUL]" "prm_match_rules param = rules @ [NUL]" "prm_regex_rules param = regex @ [NUL]"
proof -
  obtain param0 where "load_all_rules fs param0 = Inr param"
    using assms by (auto simp: octopus_start_def octopus_main_def bind_run_def split: sum.splits)
  then show thesis
    using that by (auto simp: load_all_rules_def read_lines_def bind_run_def split: option.splits if_splits)
qed

section \<open>Properties\<close>

text \<open>C21. What the rules of the running program are: from the start on, whatever clients connect and send, the
  rules and the expressions are the texts of their files as they were read; the lines of the block
  list are those of its file or only the first of them; no other option changes; and of the
  files only the log is written, and none if there is no log.\<close>

theorem program_rules:
  assumes "octopus_start os net lo hi fs argc opts p = Inr (param, p', srv)"
    "waf_run lib addr (start_waf param fs can_open) es w"
  shows "\<exists>block rules regex buf.
    fs ''config/blocklist_ip.txt'' = Some block \<and> fs ''config/match_list_request.txt'' = Some rules \<and>
    fs ''config/regex_rules.txt'' = Some regex \<and>
    glob_param (waf_glob w) = param\<lparr>prm_block_addr_list := buf\<rparr> \<and>
    prm_match_rules param = rules @ [NUL] \<and> prm_regex_rules param = regex @ [NUL] \<and>
    (lines_of (c_str buf) = lines_of (c_str (block @ [NUL])) \<or>
     lines_of (c_str buf) = take 1 (lines_of (c_str (block @ [NUL])))) \<and>
    (\<forall>name. prm_logfile param = None \<or> name \<noteq> c_str (the (prm_logfile param)) \<longrightarrow>
       glob_fs (waf_glob w) name = fs name)"
proof -
  let ?g = "\<lparr>glob_param = param, glob_fs = fs, glob_can_open = can_open\<rparr>"
  obtain block rules regex where f: "fs ''config/blocklist_ip.txt'' = Some block"
    "fs ''config/match_list_request.txt'' = Some rules" "fs ''config/regex_rules.txt'' = Some regex"
    "prm_block_addr_list param = block @ [NUL]" "prm_match_rules param = rules @ [NUL]" "prm_regex_rules param = regex @ [NUL]"
    by (rule octopus_start_files [OF assms(1)])
  have "list_cut ?g (waf_glob w)"
    using assms(2) unfolding start_waf_def by (rule waf_list) (simp add: has_list_def f(4))
  then show ?thesis using f by (auto simp: list_cut_def only_log_def)
qed

theorem program_rules_witness:
  "\<exists>param p srv w. octopus_start sample_os sample_net NUL NUL (\<lambda>_. Some ''a'') 6
       [Opt CHR ''h'' ''0.0.0.0'', Opt CHR ''r'' ''0.0.0.0''] sample_process = Inr (param, p, srv) \<and>
     waf_run no_pcre (\<lambda>_ _. Inr None) (start_waf param (\<lambda>_. Some ''a'') (\<lambda>_. True)) [Accept True] w \<and>
     prm_match_rules (glob_param (waf_glob w)) = ''a'' @ [NUL]"
proof -
  obtain param p srv where s: "octopus_start sample_os sample_net NUL NUL (\<lambda>_. Some ''a'') 6
       [Opt CHR ''h'' ''0.0.0.0'', Opt CHR ''r'' ''0.0.0.0''] sample_process = Inr (param, p, srv)"
    using sample_octopus_start by auto
  obtain w where w: "waf_run no_pcre (\<lambda>_ _. Inr None) (start_waf param (\<lambda>_. Some ''a'') (\<lambda>_. True)) [Accept True] w"
    using waf_accept [OF waf_run.nothing, of no_pcre "\<lambda>_ _. Inr None" _ True] by (metis append_Nil)
  show ?thesis using program_rules [OF s w] s w by fastforce
qed

end
